(* ===== verification/Go_Base.thy ===== *)
theory Go_Base
  imports Main "HOL-Library.Sublist"
begin

text \<open>
  The prelude: the Go notions every component uses.
  \<^item> \<open>'a go\<close> is the outcome of a Go call: it returns, or it panics at run time.
  \<^item> \<open>gerr\<close> are the values of Go's \<open>error\<close> interface, with \<open>errors.Is\<close>,
    \<open>errors.Join\<close> and the text of an error; a nil error is \<open>None\<close>.
  \<^item> \<open>'a fallible\<close> is a Go function with results \<open>(T, error)\<close>.
  \<^item> \<open>('s, 'a) prog\<close> is Go code that acts on a state and may panic.
  \<^item> the functions of the package \<open>strings\<close> the source calls.
\<close>

named_theorems go_simps \<open>evaluation rules of the Go outcome and program combinators\<close>

section \<open>Outcomes of a call\<close>

datatype 'a go = Ret 'a | Panic string

definition panics :: "'a go \<Rightarrow> bool" where
  "panics r = (case r of Ret _ \<Rightarrow> False | Panic _ \<Rightarrow> True)"

lemma panics_simps [simp]: "\<not> panics (Ret x)" "panics (Panic p)"
  by (simp_all add: panics_def)

lemma not_panics_iff: "\<not> panics r \<longleftrightarrow> (\<exists>x. r = Ret x)"
  by (cases r) auto

section \<open>Errors\<close>

text \<open>
  The error variables declared at package level under \<open>src/\<close>. Two error values are
  the same for \<open>errors.Is\<close> when they are the same variable.
\<close>

datatype sentinel =
    ErrManagedResources
  | ErrSecretCleanup
  | ErrConfigMapCleanup
  | ErrOrphanCleanup
  | ErrSANameOrNamespaceEmpty
  | ErrRestConfigNil
  | ErrExpirationInvalid

fun sentinel_text :: "sentinel \<Rightarrow> string" where
  "sentinel_text ErrManagedResources = ''resources contain reconcile errors''"
| "sentinel_text ErrSecretCleanup = ''secret cleanup failed''"
| "sentinel_text ErrConfigMapCleanup = ''configmap cleanup failed''"
| "sentinel_text ErrOrphanCleanup = ''orphan cleanup failed''"
| "sentinel_text ErrSANameOrNamespaceEmpty =
     ''name or namespace in service account reference must not be empty''"
| "sentinel_text ErrRestConfigNil = ''rest config must not be nil''"
| "sentinel_text ErrExpirationInvalid = ''must not specify a duration less than 10 minutes''"

text \<open>
  \<open>ESentinel\<close> is one of the variables above; \<open>EMsg\<close> an error made in place by
  \<open>errors.New\<close> or by \<open>fmt.Errorf\<close> without \<open>%w\<close>; \<open>EWrap pre e post\<close> the error
  of \<open>fmt.Errorf("pre%wpost", e)\<close>; \<open>EJoin\<close> that of \<open>errors.Join\<close>; \<open>EJson\<close> an
  error of \<open>encoding/json\<close>; \<open>EOpaque i t\<close> an error that code outside the repository
  made, with its identity and its text.
\<close>

datatype gerr =
    ESentinel sentinel
  | EMsg string
  | EWrap string gerr string
  | EJoin "gerr list"
  | EJson string
  | EOpaque nat string

fun join_strings :: "string list \<Rightarrow> string \<Rightarrow> string" where
  "join_strings [] sep = []"
| "join_strings [x] sep = x"
| "join_strings (x # y # ys) sep = x @ sep @ join_strings (y # ys) sep"

fun err_text :: "gerr \<Rightarrow> string" where
  "err_text (ESentinel s) = sentinel_text s"
| "err_text (EMsg m) = m"
| "err_text (EWrap pre e post) = pre @ err_text e @ post"
| "err_text (EJoin es) = join_strings (map err_text es) [CHR 10]"
| "err_text (EJson m) = m"
| "err_text (EOpaque i m) = m"

text \<open>\<open>errors.Is(err, target)\<close>: the error itself or one it wraps is the target.\<close>

fun errors_is :: "gerr \<Rightarrow> gerr \<Rightarrow> bool" where
  "errors_is (ESentinel s) t = (t = ESentinel s)"
| "errors_is (EMsg m) t = False"
| "errors_is (EWrap pre e post) t = errors_is e t"
| "errors_is (EJoin es) t = list_ex (\<lambda>e. errors_is e t) es"
| "errors_is (EJson m) t = False"
| "errors_is (EOpaque i m) t = (t = EOpaque i m)"

text \<open>\<open>errors.Join\<close> drops nil errors, and is nil when none is left.\<close>

definition errors_join :: "gerr option list \<Rightarrow> gerr option" where
  "errors_join es =
     (let es' = map the (filter (\<lambda>e. e \<noteq> None) es) in if es' = [] then None else Some (EJoin es'))"

lemma errors_join_map_Some [simp]:
  "errors_join (map Some es) = (if es = [] then None else Some (EJoin es))"
  by (simp add: errors_join_def filter_map comp_def)

lemma errors_join_None_iff: "errors_join es = None \<longleftrightarrow> (\<forall>e \<in> set es. e = None)"
  by (auto simp: errors_join_def Let_def filter_empty_conv)

section \<open>Functions that return a value or an error\<close>

type_synonym 'a fallible = "(gerr + 'a) go"

abbreviation ok :: "'a \<Rightarrow> 'a fallible" where "ok x \<equiv> Ret (Inr x)"
abbreviation fail :: "gerr \<Rightarrow> 'a fallible" where "fail e \<equiv> Ret (Inl e)"

text \<open>
  \<open>x, err := m; if err != nil { return wrap(err) }; k(x)\<close>. The wrapper \<open>id\<close> is a plain
  \<open>return err\<close>.
\<close>

definition try_go :: "(gerr \<Rightarrow> gerr) \<Rightarrow> 'a fallible \<Rightarrow> ('a \<Rightarrow> 'b fallible) \<Rightarrow> 'b fallible" where
  "try_go wrap m k =
     (case m of
        Panic p \<Rightarrow> Panic p
      | Ret r \<Rightarrow> (case r of Inl e \<Rightarrow> fail (wrap e) | Inr x \<Rightarrow> k x))"

lemma try_go_simps [simp, go_simps]:
  "try_go wrap (Panic p) k = Panic p"
  "try_go wrap (fail e) k = fail (wrap e)"
  "try_go wrap (ok x) k = k x"
  by (simp_all add: try_go_def)

lemma try_go_ok_iff: "try_go wrap m k = ok y \<longleftrightarrow> (\<exists>x. m = ok x \<and> k x = ok y)"
  by (auto simp: try_go_def split: go.splits sum.splits)

lemma try_go_not_panics:
  "\<not> panics m \<Longrightarrow> (\<And>x. m = ok x \<Longrightarrow> \<not> panics (k x)) \<Longrightarrow> \<not> panics (try_go wrap m k)"
  by (auto simp: try_go_def split: go.splits sum.splits)

text \<open>A loop that builds a list and stops at the first error.\<close>

fun mapE :: "('a \<Rightarrow> 'e + 'b) \<Rightarrow> 'a list \<Rightarrow> 'e + 'b list" where
  "mapE f [] = Inr []"
| "mapE f (x # xs) =
     (case f x of
        Inl e \<Rightarrow> Inl e
      | Inr y \<Rightarrow> (case mapE f xs of Inl e \<Rightarrow> Inl e | Inr ys \<Rightarrow> Inr (y # ys)))"

lemma mapE_Inr: "(\<And>x. x \<in> set xs \<Longrightarrow> f x = Inr (g x)) \<Longrightarrow> mapE f xs = Inr (map g xs)"
  by (induction xs) simp_all

lemma mapE_Inr_all: "mapE f xs = Inr ys \<Longrightarrow> list_all2 (\<lambda>x y. f x = Inr y) xs ys"
  by (induction xs arbitrary: ys) (auto split: sum.splits)

lemma mapE_snoc:
  "mapE f (xs @ [x]) =
     (case mapE f xs of
        Inl e \<Rightarrow> Inl e
      | Inr ys \<Rightarrow> (case f x of Inl e \<Rightarrow> Inl e | Inr y \<Rightarrow> Inr (ys @ [y])))"
  by (induction xs) (auto split: sum.splits)

section \<open>Programs on a state\<close>

type_synonym ('s, 'a) prog = "'s \<Rightarrow> 'a go \<times> 's"

definition ret :: "'a \<Rightarrow> ('s, 'a) prog" where
  "ret x = (\<lambda>s. (Ret x, s))"

definition bind_prog :: "('s, 'a) prog \<Rightarrow> ('a \<Rightarrow> ('s, 'b) prog) \<Rightarrow> ('s, 'b) prog" where
  "bind_prog m f = (\<lambda>s. case m s of (Ret x, s') \<Rightarrow> f x s' | (Panic p, s') \<Rightarrow> (Panic p, s'))"

text \<open>\<open>for _, x := range xs { out = append(out, f(x)) }\<close>\<close>

fun map_prog :: "('a \<Rightarrow> ('s, 'b) prog) \<Rightarrow> 'a list \<Rightarrow> ('s, 'b list) prog" where
  "map_prog f [] = ret []"
| "map_prog f (x # xs) = bind_prog (f x) (\<lambda>y. bind_prog (map_prog f xs) (\<lambda>ys. ret (y # ys)))"

lemma ret_apply [go_simps]: "ret x s = (Ret x, s)"
  by (simp add: ret_def)

lemma bind_prog_Ret [go_simps]: "m s = (Ret x, s') \<Longrightarrow> bind_prog m f s = f x s'"
  by (simp add: bind_prog_def)

lemma bind_prog_Panic [go_simps]: "m s = (Panic p, s') \<Longrightarrow> bind_prog m f s = (Panic p, s')"
  by (simp add: bind_prog_def)

lemma bind_prog_Ret_iff:
  "bind_prog m f s = (Ret y, s'') \<longleftrightarrow> (\<exists>x s'. m s = (Ret x, s') \<and> f x s' = (Ret y, s''))"
  by (auto simp: bind_prog_def split: prod.splits go.splits)

lemma bind_prog_ret [simp]: "bind_prog (ret x) f = f x"
  by (simp add: bind_prog_def ret_def)

lemma bind_ret_prog [simp]: "bind_prog m ret = m"
  by (auto simp: bind_prog_def ret_def fun_eq_iff split: prod.splits go.splits)

lemma bind_prog_assoc:
  "bind_prog (bind_prog m f) g = bind_prog m (\<lambda>x. bind_prog (f x) g)"
  by (auto simp: bind_prog_def fun_eq_iff split: prod.splits go.splits)

text \<open>A loop over a concatenation is the two loops one after the other.\<close>

lemma map_prog_append:
  "map_prog f (xs @ ys) =
     bind_prog (map_prog f xs) (\<lambda>us. bind_prog (map_prog f ys) (\<lambda>vs. ret (us @ vs)))"
  by (induction xs) (simp_all add: bind_prog_assoc)

lemma map_prog_length: "map_prog f xs s = (Ret ys, s') \<Longrightarrow> length ys = length xs"
  by (induction xs arbitrary: s ys) (auto simp: bind_prog_Ret_iff ret_apply)

text \<open>What every iteration keeps, the loop keeps.\<close>

lemma map_prog_invariant:
  assumes step: "\<And>x s r s'. x \<in> set xs \<Longrightarrow> I s \<Longrightarrow> f x s = (r, s') \<Longrightarrow> I s'"
    and "I s" and "map_prog f xs s = (r, s')"
  shows "I s'"
  using assms
proof (induction xs arbitrary: s r s')
  case Nil
  then show ?case by (simp add: ret_apply)
next
  case (Cons x xs)
  obtain r1 s1 where f: "f x s = (r1, s1)" by fastforce
  have I1: "I s1" using Cons.prems(1) [OF _ Cons.prems(2) f] by simp
  obtain r2 s2 where rest: "map_prog f xs s1 = (r2, s2)" by fastforce
  have step': "\<And>y t r t'. y \<in> set xs \<Longrightarrow> I t \<Longrightarrow> f y t = (r, t') \<Longrightarrow> I t'"
    using Cons.prems(1) by (meson list.set_intros(2))
  have "I s2" using Cons.IH step' I1 rest by blast
  then show ?case
    using Cons.prems(3) f rest I1 by (cases r1; cases r2) (auto simp: bind_prog_def ret_apply)
qed

text \<open>What holds of every single result holds of all results of a loop.\<close>

lemma map_prog_results:
  assumes step: "\<And>x s r s'. x \<in> set xs \<Longrightarrow> f x s = (Ret r, s') \<Longrightarrow> P x r"
    and run: "map_prog f xs s = (Ret ys, s')"
  shows "list_all2 P xs ys"
  using assms
proof (induction xs arbitrary: s ys)
  case Nil
  then show ?case by (simp add: ret_apply)
next
  case (Cons x xs)
  from Cons.prems(2) obtain y s1 ys' where
      f: "f x s = (Ret y, s1)" and rest: "map_prog f xs s1 = (Ret ys', s')" and ys: "ys = y # ys'"
    by (auto simp: bind_prog_Ret_iff ret_apply)
  have "P x y" using Cons.prems(1) f by simp
  moreover have "list_all2 P xs ys'"
    using Cons.IH rest Cons.prems(1) by (metis list.set_intros(2))
  ultimately show ?case using ys by simp
qed

lemma map_prog_no_panic:
  assumes "\<And>x s. x \<in> set xs \<Longrightarrow> \<not> panics (fst (f x s))"
  shows "\<not> panics (fst (map_prog f xs s))"
  using assms
proof (induction xs arbitrary: s)
  case Nil
  then show ?case by (simp add: ret_apply)
next
  case (Cons x xs)
  obtain y s1 where f: "f x s = (Ret y, s1)"
    using Cons.prems [of x s] by (cases "f x s") (auto simp: not_panics_iff)
  obtain ys s2 where "map_prog f xs s1 = (Ret ys, s2)"
    using Cons.IH [of s1] Cons.prems by (cases "map_prog f xs s1") (auto simp: not_panics_iff)
  with f show ?case by (simp add: bind_prog_def ret_apply)
qed

text \<open>
  A run of a loop whose iterations follow a preorder: the whole run follows it, and every
  result comes from an iteration that started after the beginning and ended before the end.
\<close>

lemma map_prog_stages:
  assumes refl: "\<And>s. R s s" and trans: "\<And>s t u. R s t \<Longrightarrow> R t u \<Longrightarrow> R s u"
    and step: "\<And>x s. x \<in> set xs \<Longrightarrow> R s (snd (f x s))"
    and run: "map_prog f xs s = (Ret ys, s')"
  shows "R s s' \<and> list_all2 (\<lambda>x y. \<exists>t t'. R s t \<and> f x t = (Ret y, t') \<and> R t' s') xs ys"
  using step run
proof (induction xs arbitrary: s ys)
  case Nil
  then show ?case by (simp add: ret_apply refl)
next
  case (Cons x xs)
  from Cons.prems(2) obtain y s1 ys' where
      f: "f x s = (Ret y, s1)" and rest: "map_prog f xs s1 = (Ret ys', s')" and ys: "ys = y # ys'"
    by (auto simp: bind_prog_Ret_iff ret_apply)
  have s1: "R s s1" using Cons.prems(1) [of x s] f by simp
  have step': "R t (snd (f z t))" if "z \<in> set xs" for z t
    using Cons.prems(1) that by simp
  have IH: "R s1 s' \<and> list_all2 (\<lambda>x y. \<exists>t t'. R s1 t \<and> f x t = (Ret y, t') \<and> R t' s') xs ys'"
    by (rule Cons.IH [OF step' rest])
  have mono: "\<exists>t t'. R s t \<and> f x t = (Ret y, t') \<and> R t' s'"
    if "\<exists>t t'. R s1 t \<and> f x t = (Ret y, t') \<and> R t' s'" for x y
    using that trans [OF s1] by blast
  have "list_all2 (\<lambda>x y. \<exists>t t'. R s t \<and> f x t = (Ret y, t') \<and> R t' s') xs ys'"
    by (rule list_all2_mono [OF conjunct2 [OF IH] mono])
  moreover have "\<exists>t t'. R s t \<and> f x t = (Ret y, t') \<and> R t' s'"
    using refl [of s] f conjunct1 [OF IH] by (intro exI [of _ s] exI [of _ s1]) simp
  moreover have "R s s'" by (rule trans [OF s1 conjunct1 [OF IH]])
  ultimately show ?case using ys by simp
qed

section \<open>Strings\<close>

text \<open>\<open>strings.Contains\<close>\<close>

fun str_contains :: "string \<Rightarrow> string \<Rightarrow> bool" where
  "str_contains [] sub = (sub = [])"
| "str_contains (c # cs) sub = (prefix sub (c # cs) \<or> str_contains cs sub)"

lemma str_contains_sublist: "str_contains s sub \<longleftrightarrow> sublist sub s"
  by (induction s) (auto simp: sublist_Cons_right)

text \<open>\<open>strings.TrimPrefix\<close> and \<open>strings.TrimSuffix\<close>\<close>

definition trim_prefix :: "string \<Rightarrow> string \<Rightarrow> string" where
  "trim_prefix s p = (if prefix p s then drop (length p) s else s)"

definition trim_suffix :: "string \<Rightarrow> string \<Rightarrow> string" where
  "trim_suffix s p = (if suffix p s then take (length s - length p) s else s)"

lemma trim_prefix_append [simp]: "trim_prefix (p @ s) p = s"
  by (simp add: trim_prefix_def)

lemma trim_prefix_no [simp]: "\<not> prefix p s \<Longrightarrow> trim_prefix s p = s"
  by (simp add: trim_prefix_def)

lemma trim_suffix_append [simp]: "trim_suffix (s @ p) p = s"
  by (simp add: trim_suffix_def suffix_def)

text \<open>
  \<open>strings.Cut(s, sep)\<close> for a separator of one byte: the text before and after its
  first occurrence, and whether there is one.
\<close>

definition cut_byte :: "string \<Rightarrow> char \<Rightarrow> string \<times> string \<times> bool" where
  "cut_byte s c =
     (if c \<in> set s
      then (takeWhile (\<lambda>x. x \<noteq> c) s, tl (dropWhile (\<lambda>x. x \<noteq> c) s), True)
      else (s, [], False))"

lemma cut_byte_found: "c \<notin> set a \<Longrightarrow> cut_byte (a @ c # b) c = (a, b, True)"
proof -
  assume "c \<notin> set a"
  then have all: "\<forall>x \<in> set a. x \<noteq> c" by auto
  have "takeWhile (\<lambda>x. x \<noteq> c) (a @ c # b) = a" "dropWhile (\<lambda>x. x \<noteq> c) (a @ c # b) = c # b"
    using all by (simp_all add: takeWhile_append2 dropWhile_append2)
  then show ?thesis by (simp add: cut_byte_def)
qed

lemma cut_byte_absent: "c \<notin> set s \<Longrightarrow> cut_byte s c = (s, [], False)"
  by (simp add: cut_byte_def)

lemma cut_byte_append: "cut_byte s c = (a, b, True) \<Longrightarrow> s = a @ c # b \<and> c \<notin> set a"
  by (auto simp: cut_byte_def split: if_splits dest: set_takeWhileD)
     (metis (mono_tags, lifting) dropWhile_eq_Nil_conv hd_dropWhile list.collapse
       takeWhile_dropWhile_id)

end
