(* ===== verification/Json.thy ===== *)
theory Json
  imports Go_Base "HOL-Library.Finite_Map" "HOL-Library.List_Lexorder" "HOL-Library.Char_ord"
begin

text \<open>
  What the source uses of \<open>encoding/json\<close>, at the level of JSON values. A byte slice
  that should hold JSON is empty, holds no JSON text, or holds a value; two texts of the
  same value (white space, escapes) are not told apart. Numbers are kept as their text.
  An object keeps its members in the order of the text, duplicates included.
\<close>

section \<open>Values and raw messages\<close>

datatype json =
    JNull
  | JBool bool
  | JNum string
  | JStr string
  | JArr "json list"
  | JObj "(string \<times> json) list"

text \<open>\<open>apiextensionsv1.JSON\<close> is a struct with one field, \<open>Raw []byte\<close>.\<close>

datatype raw = RawEmpty | RawInvalid | RawJson json

text \<open>
  A Go map from strings to raw messages: \<open>None\<close> is the nil map. A raw message that is
  an entry of a map came out of the decoder, so it holds a value.
\<close>

type_synonym raw_map = "(string, json) fmap option"

definition map_index :: "raw_map \<Rightarrow> string \<Rightarrow> json option" where
  "map_index m k = (case m of None \<Rightarrow> None | Some f \<Rightarrow> fmlookup f k)"

text \<open>\<open>m[k] = v\<close>: an assignment to an entry of the nil map is a run-time panic.\<close>

definition nil_map_panic :: string where
  "nil_map_panic = ''assignment to entry in nil map''"

definition map_assign :: "raw_map \<Rightarrow> string \<Rightarrow> json \<Rightarrow> raw_map go" where
  "map_assign m k v =
     (case m of None \<Rightarrow> Panic nil_map_panic | Some f \<Rightarrow> Ret (Some (fmupd k v f)))"

text \<open>
  \<open>m[k], err = r; if err != nil { return wrap(err) }; k(m)\<close>: the assignment takes place
  before the error is looked at.
\<close>

definition assign_or_fail ::
    "(gerr \<Rightarrow> gerr) \<Rightarrow> raw_map \<Rightarrow> string \<Rightarrow> json fallible \<Rightarrow> (raw_map \<Rightarrow> 'b fallible) \<Rightarrow> 'b fallible" where
  "assign_or_fail wrap m k r cont =
     (case r of
        Panic p \<Rightarrow> Panic p
      | Ret res \<Rightarrow>
          (case m of
             None \<Rightarrow> Panic nil_map_panic
           | Some f \<Rightarrow>
               (case res of
                  Inl e \<Rightarrow> fail (wrap e)
                | Inr v \<Rightarrow> cont (Some (fmupd k v f)))))"

lemma assign_or_fail_simps [simp]:
  "assign_or_fail wrap m k (Panic p) cont = Panic p"
  "assign_or_fail wrap None k (Ret r) cont = Panic nil_map_panic"
  "assign_or_fail wrap (Some f) k (fail e) cont = fail (wrap e)"
  "assign_or_fail wrap (Some f) k (ok v) cont = cont (Some (fmupd k v f))"
  by (simp_all add: assign_or_fail_def)

lemma assign_or_fail_ok_iff:
  "assign_or_fail wrap m k r cont = ok y \<longleftrightarrow>
     (\<exists>f v. m = Some f \<and> r = ok v \<and> cont (Some (fmupd k v f)) = ok y)"
  by (auto simp: assign_or_fail_def split: go.splits option.splits sum.splits)

lemma map_index_simps [simp]:
  "map_index None k = None"
  "map_index (Some f) k = fmlookup f k"
  by (simp_all add: map_index_def)

section \<open>Decoding and encoding\<close>

definition json_type_error :: gerr where
  "json_type_error = EJson ''json: cannot unmarshal value into Go value of another type''"

definition json_syntax_error :: gerr where
  "json_syntax_error = EJson ''json: invalid JSON text''"

text \<open>
  \<open>json.Unmarshal(raw, &m)\<close> for an empty map \<open>m\<close>: null makes it the nil map; of
  several members with one name the last counts.
\<close>

definition unmarshal_map_value :: "json \<Rightarrow> gerr + raw_map" where
  "unmarshal_map_value j =
     (case j of
        JNull \<Rightarrow> Inr None
      | JObj ms \<Rightarrow> Inr (Some (fmap_of_list (rev ms)))
      | _ \<Rightarrow> Inl json_type_error)"

definition unmarshal_map :: "raw \<Rightarrow> gerr + raw_map" where
  "unmarshal_map r =
     (case r of
        RawEmpty \<Rightarrow> Inl json_syntax_error
      | RawInvalid \<Rightarrow> Inl json_syntax_error
      | RawJson j \<Rightarrow> unmarshal_map_value j)"

text \<open>
  \<open>json.Marshal\<close> of such a map: its entries ordered by name. It cannot fail, as every
  entry holds a value.
\<close>

definition marshal_map :: "raw_map \<Rightarrow> json" where
  "marshal_map m = (case m of None \<Rightarrow> JNull | Some f \<Rightarrow> JObj (sorted_list_of_fmap f))"

lemma map_of_rev_distinct: "distinct (map fst xs) \<Longrightarrow> map_of (rev xs) k = map_of xs k"
proof -
  assume d: "distinct (map fst xs)"
  then have "distinct (map fst (rev xs))" by (simp add: rev_map [symmetric])
  with d have "map_of (rev xs) k = Some v \<longleftrightarrow> map_of xs k = Some v" for v by simp
  then show ?thesis by (metis option.exhaust)
qed

lemma fmap_of_list_rev_sorted_list: "fmap_of_list (rev (sorted_list_of_fmap f)) = f"
proof (rule fmap_ext)
  fix k
  have "distinct (map fst (sorted_list_of_fmap f))"
    by (simp add: sorted_list_of_fmap_def comp_def sorted_list_of_fset.rep_eq)
  then show "fmlookup (fmap_of_list (rev (sorted_list_of_fmap f))) k = fmlookup f k"
    by (simp add: fmlookup_of_list map_of_rev_distinct)
qed

lemma unmarshal_marshal_map [simp]: "unmarshal_map_value (marshal_map m) = Inr m"
  by (cases m) (simp_all add: unmarshal_map_value_def marshal_map_def fmap_of_list_rev_sorted_list)

lemma unmarshal_map_raw_marshal [simp]: "unmarshal_map (RawJson (marshal_map m)) = Inr m"
  by (simp add: unmarshal_map_def)

text \<open>
  The Kubernetes API types are declared outside the repository: how one of them is
  encoded and decoded is a parameter of the model.
\<close>

record 'a codec =
  enc :: "'a \<Rightarrow> gerr + json"
  dec :: "json \<Rightarrow> gerr + 'a"

text \<open>\<open>json.Unmarshal\<close> into, and \<open>json.Marshal\<close> of, a slice of such values.\<close>

definition unmarshal_slice :: "'a codec \<Rightarrow> json \<Rightarrow> gerr + 'a list" where
  "unmarshal_slice c j =
     (case j of
        JNull \<Rightarrow> Inr []
      | JArr js \<Rightarrow> mapE (dec c) js
      | _ \<Rightarrow> Inl json_type_error)"

definition marshal_slice :: "'a codec \<Rightarrow> 'a list \<Rightarrow> gerr + json" where
  "marshal_slice c xs = (case mapE (enc c) xs of Inl e \<Rightarrow> Inl e | Inr js \<Rightarrow> Inr (JArr js))"

text \<open>The law of a codec: a value is encoded without an error and decodes to itself.\<close>

locale faithful_codec =
  fixes c :: "'a codec"
  assumes round_trip: "\<exists>j. enc c x = Inr j \<and> dec c j = Inr x"
begin

lemma slice_round_trip: "\<exists>j. marshal_slice c xs = Inr j \<and> unmarshal_slice c j = Inr xs"
proof -
  from round_trip obtain f where f: "enc c x = Inr (f x)" "dec c (f x) = Inr x" for x
    by metis
  have "mapE (enc c) xs = Inr (map f xs)" by (simp add: mapE_Inr f)
  moreover have "mapE (dec c) (map f xs) = Inr xs" by (induction xs) (simp_all add: f)
  ultimately show ?thesis by (simp add: marshal_slice_def unmarshal_slice_def)
qed

lemma slice_decodes: "marshal_slice c xs = Inr j \<Longrightarrow> unmarshal_slice c j = Inr xs"
  using slice_round_trip [of xs] by auto

end

end
