(* ===== verification/Kube_Client.thy ===== *)
theory Kube_Client
  imports Json
begin

text \<open>
  The Kubernetes objects the operator handles and the client interface through which it
  reaches the clusters, with the two helper packages that work on any object:
  \<open>pkg/metricsoperator/meta\<close> (the managed-by label) and
  \<open>pkg/metricsoperator/objectutils\<close> (the text that identifies an object).
  The clients and the API helpers are code outside the repository, so they are arguments
  of the definitions; \<open>'w\<close> is the type of whatever they act on (the world).
\<close>

section \<open>Objects\<close>

text \<open>\<open>None\<close> is the nil map of Go.\<close>

type_synonym gomap = "(string \<rightharpoonup> string) option"

text \<open>
  Of the specs that \<open>flux.go\<close> writes, the fields it sets; a composite literal leaves
  every other field at its zero value. Durations are in nanoseconds.
\<close>

record oci_repository_spec =
  oci_Interval :: int
  oci_URL :: string
  oci_Insecure :: bool
  oci_Tag :: string
  oci_LayerMediaType :: string
  oci_LayerOperation :: string
  oci_SecretRef :: "string option"

record helm_release_spec =
  hr_Interval :: int
  hr_ChartRefKind :: string
  hr_ChartRefName :: string
  hr_ChartRefNamespace :: string
  hr_KubeConfigSecretName :: string
  hr_KubeConfigSecretKey :: string
  hr_InstallRetries :: int
  hr_CreateNamespace :: bool
  hr_DriftDetection :: string
  hr_Values :: "raw option"
  hr_TargetNamespace :: string
  hr_StorageNamespace :: string

record subject =
  sub_Kind :: string
  sub_Name :: string
  sub_Namespace :: string

record role_ref =
  rr_APIGroup :: string
  rr_Kind :: string
  rr_Name :: string

text \<open>A status condition: its type and its status.\<close>

type_synonym condition = "string \<times> string"

datatype body =
    Secret gomap string
  | ConfigMap gomap
  | OCIRepository "oci_repository_spec option" "condition list"
  | HelmRelease "helm_release_spec option" "condition list"
  | Namespace
  | ServiceAccount
  | ClusterRoleBinding "subject list" "role_ref option"
  | OtherObject string

text \<open>
  The metadata fields the code reads or writes. A nil or zero deletion time is
  \<open>None\<close>; an empty \<open>UID\<close> means that no API server has stored the object.
\<close>

record object =
  o_Name :: string
  o_Namespace :: string
  o_Labels :: gomap
  o_Annotations :: gomap
  o_UID :: string
  o_DeletionTimestamp :: "int option"
  o_Body :: body

definition new_object :: "string \<Rightarrow> string \<Rightarrow> body \<Rightarrow> object" where
  "new_object name ns b =
     \<lparr>o_Name = name, o_Namespace = ns, o_Labels = None, o_Annotations = None, o_UID = [],
      o_DeletionTimestamp = None, o_Body = b\<rparr>"

lemma new_object_simps [simp]:
  "o_Name (new_object n ns b) = n" "o_Namespace (new_object n ns b) = ns"
  "o_Labels (new_object n ns b) = None" "o_Annotations (new_object n ns b) = None"
  "o_UID (new_object n ns b) = []" "o_DeletionTimestamp (new_object n ns b) = None"
  "o_Body (new_object n ns b) = b"
  by (simp_all add: new_object_def)

text \<open>\<open>reflect.TypeOf(obj).Elem().Name()\<close>\<close>

fun type_name :: "body \<Rightarrow> string" where
  "type_name (Secret d t) = ''Secret''"
| "type_name (ConfigMap d) = ''ConfigMap''"
| "type_name (OCIRepository sp cs) = ''OCIRepository''"
| "type_name (HelmRelease sp cs) = ''HelmRelease''"
| "type_name Namespace = ''Namespace''"
| "type_name ServiceAccount = ''ServiceAccount''"
| "type_name (ClusterRoleBinding ss rr) = ''ClusterRoleBinding''"
| "type_name (OtherObject t) = t"

text \<open>
  What a server tells objects apart by, beside the key: the kind. Objects of the Go types
  the operator knows have the name of the type; no other object has such a kind, and so
  the kind of an object determines its Go type.
\<close>

definition body_kind :: "body \<Rightarrow> string" where
  "body_kind b = (case b of OtherObject t \<Rightarrow> ''other/'' @ t | _ \<Rightarrow> type_name b)"

lemma body_kind_simps [simp]:
  "body_kind (Secret d t) = ''Secret''" "body_kind (ConfigMap d) = ''ConfigMap''"
  "body_kind (OCIRepository sp cs) = ''OCIRepository''" "body_kind (HelmRelease hp cs) = ''HelmRelease''"
  "body_kind Namespace = ''Namespace''" "body_kind ServiceAccount = ''ServiceAccount''"
  "body_kind (ClusterRoleBinding ss rr) = ''ClusterRoleBinding''"
  "body_kind (OtherObject n) = ''other/'' @ n"
  by (simp_all add: body_kind_def)

lemma body_kind_known:
  "body_kind b = ''Secret'' \<Longrightarrow> \<exists>d t. b = Secret d t"
  "body_kind b = ''ConfigMap'' \<Longrightarrow> \<exists>d. b = ConfigMap d"
  "body_kind b = ''OCIRepository'' \<Longrightarrow> \<exists>sp cs. b = OCIRepository sp cs"
  "body_kind b = ''HelmRelease'' \<Longrightarrow> \<exists>hp cs. b = HelmRelease hp cs"
  "body_kind b = ''ClusterRoleBinding'' \<Longrightarrow> \<exists>ss rr. b = ClusterRoleBinding ss rr"
  by (cases b; simp)+

abbreviation kind_of :: "object \<Rightarrow> string" where
  "kind_of o' \<equiv> body_kind (o_Body o')"

text \<open>The verb \<open>%T\<close> of \<open>fmt\<close>: the dynamic type with its package.\<close>

fun go_type :: "body \<Rightarrow> string" where
  "go_type (HelmRelease sp cs) = ''*v2.HelmRelease''"
| "go_type b = ''*v1.'' @ type_name b"

text \<open>\<open>client.ObjectKeyFromObject\<close>: name space and name.\<close>

type_synonym object_key = "string \<times> string"

definition object_key :: "object \<Rightarrow> object_key" where
  "object_key o' = (o_Namespace o', o_Name o')"

section \<open>Package objectutils\<close>

definition ObjectID :: "object \<Rightarrow> string" where
  "ObjectID o' =
     ''Kind='' @ type_name (o_Body o') @ '', Name='' @ o_Name o' @ '', Namespace='' @ o_Namespace o'"

section \<open>Package meta\<close>

definition LabelManagedBy :: string where
  "LabelManagedBy = ''app.kubernetes.io/managed-by''"

definition LabelManagedByValue :: string where
  "LabelManagedByValue = ''service-provider-metrics-operator''"

text \<open>
  \<open>SetManagedBy\<close> writes to the object's own label map, or to a new one when it has none.
\<close>

definition SetManagedBy :: "object \<Rightarrow> object" where
  "SetManagedBy o' =
     (let labels = (case o_Labels o' of None \<Rightarrow> Map.empty | Some l \<Rightarrow> l)
      in o'\<lparr>o_Labels := Some (labels(LabelManagedBy \<mapsto> LabelManagedByValue))\<rparr>)"

text \<open>\<open>ManagedBy\<close>: the label selector, as the pairs a label map must hold.\<close>

definition ManagedBy :: "(string \<times> string) list" where
  "ManagedBy = [(LabelManagedBy, LabelManagedByValue)]"

text \<open>What \<open>client.MatchingLabels\<close> asks of an object.\<close>

definition matches_labels :: "(string \<times> string) list \<Rightarrow> object \<Rightarrow> bool" where
  "matches_labels sel o' =
     list_all (\<lambda>(k, v). (case o_Labels o' of None \<Rightarrow> False | Some l \<Rightarrow> l k = Some v)) sel"

definition is_managed :: "object \<Rightarrow> bool" where
  "is_managed o' = matches_labels ManagedBy o'"

lemma is_managed_iff:
  "is_managed o' \<longleftrightarrow>
     (\<exists>l. o_Labels o' = Some l \<and> l LabelManagedBy = Some LabelManagedByValue)"
  by (cases "o_Labels o'") (simp_all add: is_managed_def matches_labels_def ManagedBy_def)

lemma SetManagedBy_managed [simp]: "is_managed (SetManagedBy o')"
  by (simp add: is_managed_iff SetManagedBy_def Let_def)

lemma SetManagedBy_other_label:
  "k \<noteq> LabelManagedBy \<Longrightarrow>
     the (o_Labels (SetManagedBy o')) k = (case o_Labels o' of None \<Rightarrow> None | Some l \<Rightarrow> l k)"
  by (simp add: SetManagedBy_def Let_def split: option.splits)

lemma SetManagedBy_fields [simp]:
  "o_Name (SetManagedBy o') = o_Name o'" "o_Namespace (SetManagedBy o') = o_Namespace o'"
  "o_Annotations (SetManagedBy o') = o_Annotations o'" "o_UID (SetManagedBy o') = o_UID o'"
  "o_DeletionTimestamp (SetManagedBy o') = o_DeletionTimestamp o'"
  "o_Body (SetManagedBy o') = o_Body o'" "object_key (SetManagedBy o') = object_key o'"
  by (simp_all add: SetManagedBy_def Let_def object_key_def)

section \<open>The client interface\<close>

text \<open>A group, version and kind, as \<open>schema.GroupVersionKind\<close>.\<close>

record gvk =
  gvk_Group :: string
  gvk_Version :: string
  gvk_Kind :: string

text \<open>
  A \<open>client.Client\<close>. \<open>cl_get\<close> takes the key and the target object and gives the
  error and the target as it leaves it; \<open>cl_list\<close> takes the kind, the name space and
  the label selector; \<open>cl_create\<close> and \<open>cl_update\<close> give the error and the object as the
  answer leaves it; \<open>cl_count\<close> lists unstructured objects of a kind in the whole
  cluster (only the number of items is used); \<open>cl_create_token\<close> is
  \<open>SubResource("token").Create\<close> with the requested lifetime in seconds and gives the
  token and its expiration time.
\<close>

record 'w client =
  cl_get :: "object_key \<Rightarrow> object \<Rightarrow> 'w \<Rightarrow> (gerr option \<times> object) \<times> 'w"
  cl_list :: "string \<Rightarrow> string \<Rightarrow> (string \<times> string) list \<Rightarrow> 'w \<Rightarrow> (gerr + object list) \<times> 'w"
  cl_count :: "gvk \<Rightarrow> 'w \<Rightarrow> (gerr + nat) \<times> 'w"
  cl_create :: "object \<Rightarrow> 'w \<Rightarrow> (gerr option \<times> object) \<times> 'w"
  cl_update :: "object \<Rightarrow> 'w \<Rightarrow> (gerr option \<times> object) \<times> 'w"
  cl_delete :: "object \<Rightarrow> 'w \<Rightarrow> gerr option \<times> 'w"
  cl_create_token :: "object \<Rightarrow> int \<Rightarrow> 'w \<Rightarrow> (gerr + string \<times> int) \<times> 'w"

text \<open>A function that mutates an object and may act on the world, return an error or panic.\<close>

type_synonym 'w mutate = "object \<Rightarrow> 'w \<Rightarrow> (gerr option) go \<times> object \<times> 'w"

text \<open>\<open>controllerutil.OperationResult\<close> is a string type.\<close>

type_synonym operation_result = string

text \<open>
  The helpers of \<open>apimachinery\<close>, \<open>controller-runtime\<close>, \<open>fluxcd/pkg\<close> and
  \<open>controller-utils\<close> that the source calls.
\<close>

record 'w kube_api =
  IsNotFound :: "gerr option \<Rightarrow> bool"
  IgnoreNotFound :: "gerr option \<Rightarrow> gerr option"
  IsNoMatchError :: "gerr option \<Rightarrow> bool"
  OperationResultNone :: operation_result
  CreateOrUpdate :: "'w client \<Rightarrow> object \<Rightarrow> 'w mutate \<Rightarrow> 'w \<Rightarrow>
    (operation_result \<times> gerr option) go \<times> object \<times> 'w"
  ConditionsIsTrue :: "condition list \<Rightarrow> string \<Rightarrow> bool"
  SecretMutate :: "string \<Rightarrow> string \<Rightarrow> gomap \<Rightarrow> string \<Rightarrow> object \<Rightarrow> gerr option \<times> object"
  ConfigMapMutate :: "string \<Rightarrow> string \<Rightarrow> gomap \<Rightarrow> object \<Rightarrow> gerr option \<times> object"

text \<open>
  What the code relies on of the error helpers: nil is no error of any class, and
  \<open>IgnoreNotFound\<close> drops exactly the not-found errors.
\<close>

locale error_helpers =
  fixes api :: "'w kube_api"
  assumes not_found_nil: "\<not> IsNotFound api None"
    and no_match_nil: "\<not> IsNoMatchError api None"
    and ignore_not_found: "IgnoreNotFound api e = (if IsNotFound api e then None else e)"
begin

lemma ignore_not_found_iff: "IgnoreNotFound api e \<noteq> None \<longleftrightarrow> e \<noteq> None \<and> \<not> IsNotFound api e"
  by (simp add: ignore_not_found)

lemma not_found_is_error: "IsNotFound api e \<Longrightarrow> \<exists>x. e = Some x"
  using not_found_nil by (cases e) auto

end

text \<open>
  What the code relies on of the mutators: they give the object the data (and type) they
  were made with, keep the label the manager has set, and an object of the key they were
  made for keeps it. As functions on a typed object they keep its type, also in an error.
\<close>

locale mutators =
  fixes api :: "'w kube_api"
  assumes secret_body: "SecretMutate api n ns d t o' = (None, o'') \<Longrightarrow>
          kind_of o' = ''Secret'' \<Longrightarrow> o_Body o'' = Secret d t"
    and secret_label: "SecretMutate api n ns d t o' = (None, o'') \<Longrightarrow> is_managed o' \<Longrightarrow> is_managed o''"
    and secret_key: "SecretMutate api n ns d t o' = (None, o'') \<Longrightarrow> object_key o' = (ns, n) \<Longrightarrow>
          object_key o'' = (ns, n)"
    and secret_kind: "SecretMutate api n ns d t o' = (e, o'') \<Longrightarrow> kind_of o' = ''Secret'' \<Longrightarrow>
          kind_of o'' = ''Secret''"
    and config_map_kind: "ConfigMapMutate api n ns d o' = (e, o'') \<Longrightarrow> kind_of o' = ''ConfigMap'' \<Longrightarrow>
          kind_of o'' = ''ConfigMap''"
    and config_map_body: "ConfigMapMutate api n ns d o' = (None, o'') \<Longrightarrow>
          kind_of o' = ''ConfigMap'' \<Longrightarrow> o_Body o'' = ConfigMap d"
    and config_map_label: "ConfigMapMutate api n ns d o' = (None, o'') \<Longrightarrow> is_managed o' \<Longrightarrow> is_managed o''"
    and config_map_key: "ConfigMapMutate api n ns d o' = (None, o'') \<Longrightarrow> object_key o' = (ns, n) \<Longrightarrow>
          object_key o'' = (ns, n)"

end
