(* ===== verification/Api_Types.thy ===== *)
theory Api_Types
  imports Kube_Client
begin

text \<open>
  The API group \<open>metrics.services.open-control-plane.io/v1alpha1\<close>
  (\<open>api/v1alpha1\<close>): the \<open>MetricsOperator\<close> a tenant creates on the onboarding
  cluster, the \<open>ProviderConfig\<close> on the platform cluster, and their methods.
\<close>

section \<open>Phases and locations\<close>

datatype instance_phase = Pending | Progressing | Ready | Failed | Terminating | Unknown

text \<open>
  \<open>InstancePhase\<close> is a string type; \<open>ResourceLocation\<close> and the \<open>ClusterType\<close> of
  package resources are string types too, and the code converts one to the other.
\<close>

fun phase_text :: "instance_phase \<Rightarrow> string" where
  "phase_text Pending = ''Pending''"
| "phase_text Progressing = ''Progressing''"
| "phase_text Ready = ''Ready''"
| "phase_text Failed = ''Failed''"
| "phase_text Terminating = ''Terminating''"
| "phase_text Unknown = ''Unknown''"

type_synonym resource_location = string

definition LocationControlPlane :: resource_location where
  "LocationControlPlane = ''ControlPlane''"

definition LocationPlatformCluster :: resource_location where
  "LocationPlatformCluster = ''PlatformCluster''"

definition LocationWorkloadCluster :: resource_location where
  "LocationWorkloadCluster = ''WorkloadCluster''"

section \<open>MetricsOperator\<close>

record managed_resource =
  mr_Kind :: string
  mr_Name :: string
  mr_Namespace :: "string option"
  mr_Phase :: instance_phase
  mr_Message :: string
  mr_Location :: resource_location

record status_condition =
  sc_Type :: string
  sc_Status :: string
  sc_Reason :: string
  sc_Message :: string

record metrics_operator_status =
  mos_ObservedGeneration :: int
  mos_Phase :: string
  mos_Conditions :: "status_condition list"
  mos_Resources :: "managed_resource list"

record metrics_operator =
  mo_Name :: string
  mo_Namespace :: string
  mo_Labels :: gomap
  mo_Version :: string
  mo_Status :: metrics_operator_status

definition GroupName :: string where
  "GroupName = ''metrics.services.open-control-plane.io''"

definition Finalizer :: "metrics_operator \<Rightarrow> string" where
  "Finalizer mo = GroupName @ ''/finalizer''"

definition GetStatus :: "metrics_operator \<Rightarrow> metrics_operator_status" where
  "GetStatus mo = mo_Status mo"

text \<open>
  \<open>GetConditions\<close> returns a pointer to the list of conditions; a caller that writes
  through it is a function on the list.
\<close>

definition update_Conditions ::
    "(status_condition list \<Rightarrow> status_condition list) \<Rightarrow> metrics_operator \<Rightarrow> metrics_operator" where
  "update_Conditions f mo =
     mo\<lparr>mo_Status := (mo_Status mo)\<lparr>mos_Conditions := f (mos_Conditions (mo_Status mo))\<rparr>\<rparr>"

definition SetPhase :: "string \<Rightarrow> metrics_operator \<Rightarrow> metrics_operator" where
  "SetPhase phase mo = mo\<lparr>mo_Status := (mo_Status mo)\<lparr>mos_Phase := phase\<rparr>\<rparr>"

definition SetObservedGeneration :: "int \<Rightarrow> metrics_operator \<Rightarrow> metrics_operator" where
  "SetObservedGeneration gen mo =
     mo\<lparr>mo_Status := (mo_Status mo)\<lparr>mos_ObservedGeneration := gen\<rparr>\<rparr>"

section \<open>ProviderConfig\<close>

record metrics_operator_version =
  mov_Version :: string
  mov_ChartVersion :: string
  mov_ChartURL :: "string option"
  mov_ChartPullSecret :: string
  mov_HelmValues :: "raw option"

text \<open>\<open>corev1.LocalObjectReference\<close> is a struct with one field, the name.\<close>

type_synonym local_object_reference = string

text \<open>\<open>corev1.ConfigMapKeySelector\<close>: a local object reference and a key.\<close>

record config_map_key_selector =
  cms_Name :: local_object_reference
  cms_Key :: string

record provider_config =
  pc_Versions :: "metrics_operator_version list"
  pc_PollInterval :: "int option"
  pc_CABundleRef :: "config_map_key_selector option"

definition Second :: int where "Second = 1000000000"
definition Minute :: int where "Minute = 60 * Second"
definition Hour :: int where "Hour = 60 * Minute"

definition PollInterval :: "provider_config \<Rightarrow> int" where
  "PollInterval pc = (case pc_PollInterval pc of None \<Rightarrow> Minute | Some d \<Rightarrow> d)"

lemma PollInterval_simps [simp]:
  "pc_PollInterval pc = None \<Longrightarrow> PollInterval pc = Minute"
  "pc_PollInterval pc = Some d \<Longrightarrow> PollInterval pc = d"
  by (simp_all add: PollInterval_def)

lemma status_setters_frame:
  "mo_Labels (SetPhase p mo) = mo_Labels mo"
  "mo_Version (SetPhase p mo) = mo_Version mo"
  "mos_Resources (GetStatus (SetPhase p mo)) = mos_Resources (GetStatus mo)"
  "mos_Resources (GetStatus (SetObservedGeneration g mo)) = mos_Resources (GetStatus mo)"
  "mos_Phase (GetStatus (SetPhase p mo)) = p"
  "mos_Phase (GetStatus (SetObservedGeneration g mo)) = mos_Phase (GetStatus mo)"
  "mos_ObservedGeneration (GetStatus (SetPhase p mo)) = mos_ObservedGeneration (GetStatus mo)"
  by (simp_all add: SetPhase_def SetObservedGeneration_def GetStatus_def)

end
