(* ===== verification/Managed_Objects.thy ===== *)
theory Managed_Objects
  imports Api_Types
begin

text \<open>
  Package resources, \<open>managedobject.go\<close> and \<open>managedcluster.go\<close>: a managed object is
  an object with the function that reconciles it, its dependencies, its deletion policy
  and its status function; a managed cluster is a client, a connection and the list of
  objects managed there.

  Go code handles both through pointers. A managed object is known by its reference
  \<open>m_ref\<close>, and the object it points to is the entry of a heap at that reference: the
  client fills that entry, and the status is computed from it. No two managed objects of
  the program share an object, so one reference serves for both pointers.
\<close>

section \<open>Status\<close>

record status =
  s_Phase :: instance_phase
  s_Message :: string
  s_Location :: resource_location

definition SimpleStatus :: "object \<Rightarrow> resource_location \<Rightarrow> status go" where
  "SimpleStatus o' rl =
     Ret (if o_DeletionTimestamp o' \<noteq> None
          then \<lparr>s_Phase = Terminating, s_Message = ''Resource is terminating.'', s_Location = rl\<rparr>
          else if o_UID o' = []
          then \<lparr>s_Phase = Pending, s_Message = ''Resource has not been created yet.'', s_Location = rl\<rparr>
          else \<lparr>s_Phase = Ready, s_Message = ''Resource exists.'', s_Location = rl\<rparr>)"

text \<open>
  What a status function promises: on the objects it is meant for it returns, it reports
  the given location, an object that is being deleted is terminating whatever else holds
  of it, and no other phase than terminating, pending and ready is reported.
\<close>

locale status_function =
  fixes status_of :: "object \<Rightarrow> resource_location \<Rightarrow> status go"
    and applies :: "object \<Rightarrow> bool"
    and is_ready :: "object \<Rightarrow> bool"
  assumes returns: "applies o' \<Longrightarrow> \<exists>s. status_of o' rl = Ret s \<and> s_Location s = rl"
    and terminating_phase: "applies o' \<Longrightarrow> status_of o' rl = Ret s \<Longrightarrow>
          s_Phase s = (if o_DeletionTimestamp o' \<noteq> None then Terminating
                       else if is_ready o' then Ready else Pending)"
begin

lemma no_status_panic: "applies o' \<Longrightarrow> \<not> panics (status_of o' rl)"
  using returns [of o' rl] by auto

lemma ready_iff:
  assumes "applies o'"
  shows "(\<exists>s. status_of o' rl = Ret s \<and> s_Phase s = Ready) \<longleftrightarrow>
     o_DeletionTimestamp o' = None \<and> is_ready o'"
proof -
  obtain s where s: "status_of o' rl = Ret s" using returns [OF assms] by blast
  show ?thesis using terminating_phase [OF assms s] s by simp
qed

lemma terminating_iff:
  assumes "applies o'"
  shows "(\<exists>s. status_of o' rl = Ret s \<and> s_Phase s = Terminating) \<longleftrightarrow>
     o_DeletionTimestamp o' \<noteq> None"
proof -
  obtain s where s: "status_of o' rl = Ret s" using returns [OF assms] by blast
  show ?thesis using terminating_phase [OF assms s] s by simp
qed

lemma reported_location: "applies o' \<Longrightarrow> status_of o' rl = Ret s \<Longrightarrow> s_Location s = rl"
  using returns [of o' rl] by auto

end

interpretation simple: status_function SimpleStatus "\<lambda>_. True" "\<lambda>o'. o_UID o' \<noteq> []"
  by unfold_locales (auto simp: SimpleStatus_def)

section \<open>Managed objects\<close>

text \<open>\<open>DeletionPolicy\<close> is a string type; its zero value is replaced by \<open>Delete\<close>.\<close>

datatype deletion_policy = PolicyUnset | Orphan | Delete

type_synonym 'w reconcile_func = "'w mutate"

definition NoOp :: "'w reconcile_func" where
  "NoOp = (\<lambda>o' w. (Ret None, o', w))"

record 'w managed_object_context =
  moc_ReconcileFunc :: "'w reconcile_func option"
  moc_DependsOn :: "nat list"
  moc_DeletionPolicy :: deletion_policy
  moc_StatusFunc :: "(object \<Rightarrow> resource_location \<Rightarrow> status go) option"

record 'w managed_object =
  m_ref :: nat
  m_reconcileFunc :: "'w reconcile_func option"
  m_dependencies :: "nat list"
  m_deletionPolicy :: deletion_policy
  m_statusFunc :: "(object \<Rightarrow> resource_location \<Rightarrow> status go) option"

text \<open>The state of a reconciliation: the world and the heap of the managed objects.\<close>

record 'w run =
  r_world :: 'w
  r_heap :: "nat \<Rightarrow> object"
  r_next :: nat

text \<open>\<open>NewManagedObject\<close>: a new reference, with the object at it.\<close>

definition NewManagedObject ::
    "object \<Rightarrow> 'w managed_object_context \<Rightarrow> 'w run \<Rightarrow> 'w managed_object \<times> 'w run" where
  "NewManagedObject o' moc r =
     (let policy = (if moc_DeletionPolicy moc = PolicyUnset then Delete else moc_DeletionPolicy moc)
      in (\<lparr>m_ref = r_next r, m_reconcileFunc = moc_ReconcileFunc moc,
           m_dependencies = moc_DependsOn moc, m_deletionPolicy = policy,
           m_statusFunc = moc_StatusFunc moc\<rparr>,
          r\<lparr>r_heap := (r_heap r)(r_next r := o'), r_next := Suc (r_next r)\<rparr>))"

definition GetObject :: "'w run \<Rightarrow> 'w managed_object \<Rightarrow> object" where
  "GetObject r m = r_heap r (m_ref m)"

definition GetStatusOf :: "'w run \<Rightarrow> 'w managed_object \<Rightarrow> resource_location \<Rightarrow> status go" where
  "GetStatusOf r m rl =
     (case m_statusFunc m of
        Some f \<Rightarrow> f (GetObject r m) rl
      | None \<Rightarrow>
          Ret \<lparr>s_Phase = Unknown, s_Message = ''No status function defined.'', s_Location = rl\<rparr>)"

definition GetDeletionPolicy :: "'w managed_object \<Rightarrow> deletion_policy" where
  "GetDeletionPolicy m = m_deletionPolicy m"

definition GetDependencies :: "'w managed_object \<Rightarrow> nat list" where
  "GetDependencies m = m_dependencies m"

definition Reconcile :: "'w managed_object \<Rightarrow> 'w mutate" where
  "Reconcile m o' w =
     (case m_reconcileFunc m of Some f \<Rightarrow> f o' w | None \<Rightarrow> (Ret None, o', w))"

lemma NewManagedObject_policy:
  "NewManagedObject o' moc r = (m, r') \<Longrightarrow> GetDeletionPolicy m \<noteq> PolicyUnset"
  by (auto simp: NewManagedObject_def GetDeletionPolicy_def Let_def split: if_splits)

lemma NewManagedObject_object:
  assumes "NewManagedObject o' moc r = (m, r')"
  shows "GetObject r' m = o'" "m_ref m = r_next r" "r_next r' = Suc (r_next r)"
    "r_world r' = r_world r" "\<And>i. i \<noteq> r_next r \<Longrightarrow> r_heap r' i = r_heap r i"
  using assms by (auto simp: NewManagedObject_def GetObject_def Let_def)

section \<open>Managed clusters\<close>

definition ControlPlane :: string where "ControlPlane = ''ControlPlane''"
definition PlatformCluster :: string where "PlatformCluster = ''PlatformCluster''"
definition WorkloadCluster :: string where "WorkloadCluster = ''WorkloadCluster''"

text \<open>The fields of \<open>rest.Config\<close> the code reads.\<close>

record rest_config =
  rc_Host :: string
  rc_CAData :: string
  rc_CAFile :: string

record 'w managed_cluster =
  c_client :: "'w client"
  c_cfg :: "rest_config option"
  c_objects :: "'w managed_object list"
  c_defaultNamespace :: string
  c_clusterType :: string

definition NewManagedCluster ::
    "'w client \<Rightarrow> rest_config option \<Rightarrow> string \<Rightarrow> string \<Rightarrow> 'w managed_cluster" where
  "NewManagedCluster cl cfg ns ct =
     \<lparr>c_client = cl, c_cfg = cfg, c_objects = [], c_defaultNamespace = ns, c_clusterType = ct\<rparr>"

definition AddObject :: "'w managed_object \<Rightarrow> 'w managed_cluster \<Rightarrow> 'w managed_cluster" where
  "AddObject m c = c\<lparr>c_objects := c_objects c @ [m]\<rparr>"

text \<open>
  \<open>GetHostAndPort\<close> reads \<open>m.cfg.Host\<close>, which panics when the configuration is nil.
\<close>

definition nil_deref_panic :: string where
  "nil_deref_panic = ''invalid memory address or nil pointer dereference''"

definition host_and_port :: "string \<Rightarrow> string \<times> string" where
  "host_and_port h =
     (let input = trim_prefix h ''https://'';
          (host, port, found) = cut_byte input (CHR '':'')
      in (host, if found then port else ''443''))"

definition GetHostAndPort :: "'w managed_cluster \<Rightarrow> (string \<times> string) go" where
  "GetHostAndPort c =
     (case c_cfg c of None \<Rightarrow> Panic nil_deref_panic | Some cfg \<Rightarrow> Ret (host_and_port (rc_Host cfg)))"

lemma AddObject_fields [simp]:
  "c_client (AddObject m c) = c_client c" "c_cfg (AddObject m c) = c_cfg c"
  "c_objects (AddObject m c) = c_objects c @ [m]"
  "c_defaultNamespace (AddObject m c) = c_defaultNamespace c"
  "c_clusterType (AddObject m c) = c_clusterType c"
  by (simp_all add: AddObject_def)

lemma host_and_port_url: "CHR '':'' \<notin> set h \<Longrightarrow> host_and_port (''https://'' @ h @ '':'' @ p) = (h, p)"
  unfolding host_and_port_def Let_def trim_prefix_append by (simp add: cut_byte_found)

lemma host_and_port_default: "CHR '':'' \<notin> set h \<Longrightarrow> host_and_port (''https://'' @ h) = (h, ''443'')"
  unfolding host_and_port_def Let_def trim_prefix_append by (simp add: cut_byte_absent)

end
