(* ===== verification/Manager.thy ===== *)
theory Manager
  imports Managed_Objects
begin

text \<open>
  Package resources, \<open>manager.go\<close>: the manager reconciles the objects of its clusters
  one after the other, in the order in which clusters and objects were added, and then
  runs the orphan cleaners. On deletion an object is left alone as long as one of its
  dependents (the managed objects that name it as a dependency) still exists.
\<close>

section \<open>Operation results\<close>

definition OperationResultDeletionFailed :: operation_result where
  "OperationResultDeletionFailed = ''deletionFailed''"

definition OperationResultDeletionRequested :: operation_result where
  "OperationResultDeletionRequested = ''deletionRequested''"

definition OperationResultDeleted :: operation_result where
  "OperationResultDeleted = ''deleted''"

definition OperationResultOrphaned :: operation_result where
  "OperationResultOrphaned = OperationResultDeleted"

lemmas operation_result_defs =
  OperationResultDeletionFailed_def OperationResultDeletionRequested_def
  OperationResultDeleted_def OperationResultOrphaned_def

lemma operation_results_differ [simp]:
  "OperationResultDeletionFailed \<noteq> OperationResultDeleted"
  "OperationResultDeletionRequested \<noteq> OperationResultDeleted"
  "OperationResultDeleted \<noteq> OperationResultDeletionFailed"
  "OperationResultDeleted \<noteq> OperationResultDeletionRequested"
  by (simp_all add: operation_result_defs)

record 'w result =
  res_Object :: "'w managed_object"
  res_Cluster :: "'w managed_cluster"
  res_OperationResult :: operation_result
  res_Error :: "gerr option"

definition AllDeleted :: "'w result list \<Rightarrow> bool" where
  "AllDeleted results = list_all (\<lambda>x. res_OperationResult x = OperationResultDeleted) results"

section \<open>Dependents\<close>

record 'w dependency =
  d_Object :: "'w managed_object"
  d_Cluster :: "'w managed_cluster"

text \<open>
  \<open>dependents\<close> is a Go map keyed by the managed object, that is by its pointer; a key
  that is missing yields the nil slice.
\<close>

type_synonym 'w dependents = "nat \<Rightarrow> 'w dependency list"

definition getDependents :: "'w managed_cluster list \<Rightarrow> 'w dependents" where
  "getDependents clusters =
     foldl (\<lambda>deps mc.
       foldl (\<lambda>deps m.
         foldl (\<lambda>deps dep. deps(dep := deps dep @ [\<lparr>d_Object = m, d_Cluster = mc\<rparr>]))
           deps (GetDependencies m))
         deps (c_objects mc))
       (\<lambda>_. []) clusters"

lemma dependents_inner:
  "x \<in> set (foldl (\<lambda>deps dep. deps(dep := deps dep @ [y])) deps ds i) \<longleftrightarrow>
     x \<in> set (deps i) \<or> (x = y \<and> i \<in> set ds)"
  by (induction ds arbitrary: deps) auto

lemma dependents_middle:
  "x \<in> set (foldl (\<lambda>deps m. foldl (\<lambda>deps dep. deps(dep := deps dep @ [\<lparr>d_Object = m, d_Cluster = mc\<rparr>]))
             deps (GetDependencies m)) deps ms i) \<longleftrightarrow>
     x \<in> set (deps i) \<or> (\<exists>m \<in> set ms. x = \<lparr>d_Object = m, d_Cluster = mc\<rparr> \<and> i \<in> set (GetDependencies m))"
  by (induction ms arbitrary: deps) (auto simp: dependents_inner)

lemma dependents_outer:
  "x \<in> set (foldl (\<lambda>deps mc. foldl (\<lambda>deps m.
             foldl (\<lambda>deps dep. deps(dep := deps dep @ [\<lparr>d_Object = m, d_Cluster = mc\<rparr>]))
               deps (GetDependencies m)) deps (c_objects mc)) deps clusters i) \<longleftrightarrow>
     x \<in> set (deps i) \<or>
     (\<exists>mc \<in> set clusters. \<exists>m \<in> set (c_objects mc).
        x = \<lparr>d_Object = m, d_Cluster = mc\<rparr> \<and> i \<in> set (GetDependencies m))"
  by (induction clusters arbitrary: deps) (auto simp: dependents_middle)

lemma getDependents_iff:
  "x \<in> set (getDependents clusters i) \<longleftrightarrow>
     d_Cluster x \<in> set clusters \<and> d_Object x \<in> set (c_objects (d_Cluster x)) \<and>
     i \<in> set (GetDependencies (d_Object x))"
  unfolding getDependents_def dependents_outer by (cases x) auto

text \<open>\<open>Get\<close> fills the dependent's own object, so its later status is the fetched one.\<close>

definition refresh :: "'w managed_object \<Rightarrow> 'w managed_cluster \<Rightarrow> 'w run \<Rightarrow> gerr option \<times> 'w run" where
  "refresh m mc r =
     (let o' = GetObject r m;
          ((err, o''), w) = cl_get (c_client mc) (object_key o') o' (r_world r)
      in (err, r\<lparr>r_world := w, r_heap := (r_heap r)(m_ref m := o'')\<rparr>))"

definition dependent_exists :: "object \<Rightarrow> gerr" where
  "dependent_exists o' = EMsg (''dependent object still exists: '' @ ObjectID o')"

fun dependent_errors :: "'w kube_api \<Rightarrow> 'w dependency list \<Rightarrow> gerr list \<Rightarrow> 'w run \<Rightarrow> gerr list \<times> 'w run" where
  "dependent_errors api [] errs r = (errs, r)"
| "dependent_errors api (dep # deps) errs r =
     (let (err, r') = refresh (d_Object dep) (d_Cluster dep) r
      in if IsNotFound api err then dependent_errors api deps errs r'
         else case err of
           Some e \<Rightarrow> dependent_errors api deps (errs @ [e]) r'
         | None \<Rightarrow>
             dependent_errors api deps (errs @ [dependent_exists (GetObject r' (d_Object dep))]) r')"

definition checkForDependents ::
    "'w kube_api \<Rightarrow> 'w dependency list \<Rightarrow> 'w run \<Rightarrow> gerr option \<times> 'w run" where
  "checkForDependents api deps r =
     (let (errs, r') = dependent_errors api deps [] r in (errors_join (map Some errs), r'))"

section \<open>One object\<close>

text \<open>The function given to \<open>CreateOrUpdate\<close>: set the label, then reconcile.\<close>

definition mutate_managed :: "'w managed_object \<Rightarrow> 'w mutate" where
  "mutate_managed m = (\<lambda>o' w. Reconcile m (SetManagedBy o') w)"

definition set_object :: "'w managed_object \<Rightarrow> object \<Rightarrow> 'w \<Rightarrow> 'w run \<Rightarrow> 'w run" where
  "set_object m o' w r = r\<lparr>r_world := w, r_heap := (r_heap r)(m_ref m := o')\<rparr>"

definition delete_object ::
    "'w kube_api \<Rightarrow> 'w dependents \<Rightarrow> 'w managed_cluster \<Rightarrow> 'w managed_object \<Rightarrow> 'w run \<Rightarrow> 'w result \<times> 'w run" where
  "delete_object api deps mc m r =
     (let result = (\<lambda>op e. \<lparr>res_Object = m, res_Cluster = mc, res_OperationResult = op, res_Error = e\<rparr>);
          (err, r1) = checkForDependents api (deps (m_ref m)) r
      in if err \<noteq> None then (result (OperationResultNone api) err, r1)
         else if GetDeletionPolicy m = Orphan then (result OperationResultOrphaned None, r1)
         else
           let (derr, w) = cl_delete (c_client mc) (GetObject r1 m) (r_world r1);
               r2 = r1\<lparr>r_world := w\<rparr>
           in if IsNotFound api derr then (result OperationResultDeleted None, r2)
              else (result OperationResultDeletionRequested derr, r2))"

definition apply_object ::
    "'w kube_api \<Rightarrow> 'w managed_cluster \<Rightarrow> 'w managed_object \<Rightarrow> ('w run, 'w result) prog" where
  "apply_object api mc m r =
     (case CreateOrUpdate api (c_client mc) (GetObject r m) (mutate_managed m) (r_world r) of
        (Panic p, o', w) \<Rightarrow> (Panic p, set_object m o' w r)
      | (Ret (op, err), o', w) \<Rightarrow>
          (Ret \<lparr>res_Object = m, res_Cluster = mc, res_OperationResult = op, res_Error = err\<rparr>,
           set_object m o' w r))"

definition reconcileObject ::
    "'w kube_api \<Rightarrow> 'w dependents \<Rightarrow> bool \<Rightarrow> 'w managed_cluster \<Rightarrow> 'w managed_object \<Rightarrow> ('w run, 'w result) prog" where
  "reconcileObject api deps isDeletion mc m r =
     (if isDeletion then (let (res, r') = delete_object api deps mc m r in (Ret res, r'))
      else apply_object api mc m r)"

section \<open>The manager\<close>

text \<open>
  \<open>OrphanCleaner.Cleanup\<close> returns results or an error; the manager does not look at the
  results that come with an error.
\<close>

type_synonym 'w cleaner = "'w run \<Rightarrow> (gerr + 'w result list) \<times> 'w run"

record 'w manager =
  mgr_clusters :: "'w managed_cluster list"
  mgr_cleaners :: "'w cleaner list"

definition NewManager :: "'w manager" where
  "NewManager = \<lparr>mgr_clusters = [], mgr_cleaners = []\<rparr>"

definition AddCluster :: "'w managed_cluster \<Rightarrow> 'w manager \<Rightarrow> 'w manager" where
  "AddCluster mc mgr = mgr\<lparr>mgr_clusters := mgr_clusters mgr @ [mc]\<rparr>"

definition AddCleaner :: "'w cleaner \<Rightarrow> 'w manager \<Rightarrow> 'w manager" where
  "AddCleaner c mgr = mgr\<lparr>mgr_cleaners := mgr_cleaners mgr @ [c]\<rparr>"

fun run_cleaners ::
    "'w cleaner list \<Rightarrow> 'w result list \<Rightarrow> 'w run \<Rightarrow> ('w result list \<times> gerr option) \<times> 'w run" where
  "run_cleaners [] results r = ((results, None), r)"
| "run_cleaners (c # cs) results r =
     (case c r of
        (Inl err, r') \<Rightarrow> ((results, Some err), r')
      | (Inr rs, r') \<Rightarrow> run_cleaners cs (results @ rs) r')"

definition reconcileObjects ::
    "'w kube_api \<Rightarrow> 'w manager \<Rightarrow> bool \<Rightarrow> ('w run, 'w result list \<times> gerr option) prog" where
  "reconcileObjects api mgr isDeletion =
     (let deps = getDependents (mgr_clusters mgr)
      in bind_prog
           (map_prog (\<lambda>mc. map_prog (reconcileObject api deps isDeletion mc) (c_objects mc))
              (mgr_clusters mgr))
           (\<lambda>results r. let (x, r') = run_cleaners (mgr_cleaners mgr) (concat results) r in (Ret x, r')))"

definition Apply :: "'w kube_api \<Rightarrow> 'w manager \<Rightarrow> ('w run, 'w result list \<times> gerr option) prog" where
  "Apply api mgr = reconcileObjects api mgr False"

definition Delete_all :: "'w kube_api \<Rightarrow> 'w manager \<Rightarrow> ('w run, 'w result list \<times> gerr option) prog" where
  "Delete_all api mgr = reconcileObjects api mgr True"

section \<open>The order of the work\<close>

text \<open>The managed objects of a manager with their clusters, in the order of the loops.\<close>

definition managed_pairs :: "'w managed_cluster list \<Rightarrow> ('w managed_cluster \<times> 'w managed_object) list" where
  "managed_pairs clusters = concat (map (\<lambda>mc. map (Pair mc) (c_objects mc)) clusters)"

lemma managed_pairs_Cons:
  "managed_pairs (mc # mcs) = map (Pair mc) (c_objects mc) @ managed_pairs mcs"
  by (simp add: managed_pairs_def)

lemma in_managed_pairs:
  "(mc, m) \<in> set (managed_pairs clusters) \<longleftrightarrow> mc \<in> set clusters \<and> m \<in> set (c_objects mc)"
  by (auto simp: managed_pairs_def)

lemma map_prog_map: "map_prog f (map g xs) = map_prog (f \<circ> g) xs"
  by (induction xs) simp_all

lemma nested_loop_flat:
  "bind_prog (map_prog (\<lambda>mc. map_prog (f mc) (c_objects mc)) clusters) (\<lambda>rss. k (concat rss)) =
   bind_prog (map_prog (\<lambda>(mc, m). f mc m) (managed_pairs clusters)) k"
proof (induction clusters arbitrary: k)
  case Nil
  then show ?case by (simp add: managed_pairs_def)
next
  case (Cons mc mcs)
  have inner: "map_prog (\<lambda>(mc, m). f mc m) (map (Pair mc) xs) = map_prog (f mc) xs" for xs
    by (simp add: map_prog_map comp_def)
  show ?case
    using Cons.IH [of "\<lambda>vs. k (us @ vs)" for us]
    by (simp add: managed_pairs_Cons map_prog_append bind_prog_assoc inner)
qed

lemma reconcileObjects_flat:
  "reconcileObjects api mgr isDeletion =
     bind_prog
       (map_prog (\<lambda>(mc, m). reconcileObject api (getDependents (mgr_clusters mgr)) isDeletion mc m)
          (managed_pairs (mgr_clusters mgr)))
       (\<lambda>results r. let (x, r') = run_cleaners (mgr_cleaners mgr) results r in (Ret x, r'))"
  unfolding reconcileObjects_def Let_def by (rule nested_loop_flat)

end
