(* ===== verification/Api_Server.thy ===== *)
theory Api_Server
  imports Manager
begin

text \<open>
  What the operator relies on of the API servers behind its clients, as a locale, and a
  small reference server that keeps these laws. The operator's own code is proved against
  the locale; the reference server shows that the laws can hold together and is what the
  witnesses run on.
\<close>

section \<open>The contract\<close>

text \<open>
  \<open>cl i\<close> is the client of cluster \<open>i\<close> and \<open>view i w kind key\<close> what that cluster
  stores under a kind and a key. Any call may fail with an error that says nothing; a
  successful or not-found answer tells the truth about the store. \<open>Get\<close> changes no
  store, \<open>Delete\<close> adds nothing to one. \<open>CreateOrUpdate\<close> hands the mutate function an
  object of the same kind and key, panics only if it does, and on success has stored
  what it left, which is also what the caller's object then holds.
\<close>

locale api_server = error_helpers api for api :: "'w kube_api" +
  fixes cl :: "'c \<Rightarrow> 'w client"
    and view :: "'c \<Rightarrow> 'w \<Rightarrow> string \<Rightarrow> object_key \<Rightarrow> object option"
  assumes get_reads: "cl_get (cl i) k o' w = ((e, o''), w') \<Longrightarrow> view j w' = view j w"
    and get_identity: "cl_get (cl i) (object_key o') o' w = ((e, o''), w') \<Longrightarrow>
          object_key o'' = object_key o' \<and> kind_of o'' = kind_of o'"
    and get_found: "cl_get (cl i) k o' w = ((None, o''), w') \<Longrightarrow>
          view i w (kind_of o') k = Some o''"
    and get_not_found: "cl_get (cl i) k o' w = ((e, o''), w') \<Longrightarrow> IsNotFound api e \<Longrightarrow>
          view i w (kind_of o') k = None \<and> o'' = o'"
    and delete_not_found: "cl_delete (cl i) o' w = (e, w') \<Longrightarrow> IsNotFound api e \<Longrightarrow>
          view i w (kind_of o') (object_key o') = None"
    and delete_adds_nothing: "cl_delete (cl i) o' w = (e, w') \<Longrightarrow>
          view j w' kind k = Some x \<Longrightarrow> \<exists>y. view j w kind k = Some y"
    and upsert_ok: "CreateOrUpdate api (cl i) o' f w = (Ret (op, None), o'', w') \<Longrightarrow>
          \<exists>o0 w0 o1 w1. f o0 w0 = (Ret None, o1, w1) \<and>
            object_key o0 = object_key o' \<and> kind_of o0 = kind_of o' \<and>
            object_key o'' = object_key o1 \<and> o_Labels o'' = o_Labels o1 \<and>
            o_Annotations o'' = o_Annotations o1 \<and> o_Body o'' = o_Body o1"
    and upsert_stored: "CreateOrUpdate api (cl i) o' f w = (Ret (op, None), o'', w') \<Longrightarrow>
          view i w' (kind_of o'') (object_key o'') = Some o''"
    and upsert_panic: "CreateOrUpdate api (cl i) o' f w = (Panic p, o'', w') \<Longrightarrow>
          \<exists>o0 w0. panics (fst (f o0 w0)) \<and> kind_of o0 = kind_of o'"
    and upsert_kind: "CreateOrUpdate api (cl i) o' f w = (out, o'', w') \<Longrightarrow>
          (\<And>o0 w0. kind_of o0 = kind_of o' \<Longrightarrow> kind_of (fst (snd (f o0 w0))) = kind_of o') \<Longrightarrow>
          kind_of o'' = kind_of o'"

text \<open>
  A server whose lists are exact: a list names objects as they are stored, all of the
  asked kind, name space and labels, and a list that succeeds names all of them. A
  deletion touches no other object.
\<close>

locale listing_server = api_server api cl view
  for api :: "'w kube_api" and cl :: "'c \<Rightarrow> 'w client"
    and view :: "'c \<Rightarrow> 'w \<Rightarrow> string \<Rightarrow> object_key \<Rightarrow> object option" +
  assumes list_reads: "cl_list (cl i) kind ns sel w = (x, w') \<Longrightarrow> view j w' = view j w"
    and list_sound: "cl_list (cl i) kind ns sel w = (Inr os, w') \<Longrightarrow> o' \<in> set os \<Longrightarrow> ns \<noteq> [] \<Longrightarrow>
          view i w kind (object_key o') = Some o' \<and> kind_of o' = kind \<and> o_Namespace o' = ns \<and>
          matches_labels sel o'"
    and list_complete: "cl_list (cl i) kind ns sel w = (Inr os, w') \<Longrightarrow>
          view i w kind (ns, n) = Some o' \<Longrightarrow> matches_labels sel o' \<Longrightarrow> o' \<in> set os"
    and view_identity: "view i w kind k = Some o' \<Longrightarrow> kind_of o' = kind \<and> object_key o' = k"
    and delete_frame: "cl_delete (cl i) o' w = (e, w') \<Longrightarrow> j \<noteq> i \<or> kind \<noteq> kind_of o' \<or> k \<noteq> object_key o' \<Longrightarrow>
          view j w' kind k = view j w kind k"

section \<open>A reference server\<close>

text \<open>
  Cluster \<open>i\<close> stores the list \<open>rw_store w i\<close>; \<open>rw_custom w i\<close> gives, for the kinds of
  unstructured objects it knows, how many there are; a cluster in \<open>rw_down\<close> answers
  every call with an error; an object listed in \<open>rw_held\<close> has a finalizer, so deleting
  it only marks it; \<open>rw_now\<close> is the server's clock.
\<close>

record ref_world =
  rw_store :: "nat \<Rightarrow> object list"
  rw_custom :: "nat \<Rightarrow> string \<Rightarrow> nat option"
  rw_down :: "nat list"
  rw_held :: "(nat \<times> string \<times> object_key) list"
  rw_now :: int

definition ref_not_found :: gerr where "ref_not_found = EOpaque 404 ''not found''"
definition ref_no_match :: gerr where "ref_no_match = EOpaque 405 ''no matches for kind''"
definition ref_unreachable :: gerr where "ref_unreachable = EOpaque 503 ''cluster unreachable''"
definition ref_name_changed :: gerr where
  "ref_name_changed = EMsg ''MutateFn cannot mutate object name and/or object namespace''"

definition same_object :: "string \<Rightarrow> object_key \<Rightarrow> object \<Rightarrow> bool" where
  "same_object kind k o' = (kind_of o' = kind \<and> object_key o' = k)"

definition ref_view :: "nat \<Rightarrow> ref_world \<Rightarrow> string \<Rightarrow> object_key \<Rightarrow> object option" where
  "ref_view i w kind k = find (same_object kind k) (rw_store w i)"

definition ref_get ::
    "nat \<Rightarrow> object_key \<Rightarrow> object \<Rightarrow> ref_world \<Rightarrow> (gerr option \<times> object) \<times> ref_world" where
  "ref_get i k o' w =
     (if i \<in> set (rw_down w) then ((Some ref_unreachable, o'), w)
      else case ref_view i w (kind_of o') k of
        None \<Rightarrow> ((Some ref_not_found, o'), w)
      | Some s \<Rightarrow> ((None, s), w))"

definition ref_list ::
    "nat \<Rightarrow> string \<Rightarrow> string \<Rightarrow> (string \<times> string) list \<Rightarrow> ref_world \<Rightarrow> (gerr + object list) \<times> ref_world" where
  "ref_list i kind ns sel w =
     (if i \<in> set (rw_down w) then (Inl ref_unreachable, w)
      else (Inr (filter (\<lambda>o'. ref_view i w kind (object_key o') = Some o' \<and> o_Namespace o' = ns \<and> matches_labels sel o')
              (rw_store w i)), w))"

definition ref_count :: "nat \<Rightarrow> gvk \<Rightarrow> ref_world \<Rightarrow> (gerr + nat) \<times> ref_world" where
  "ref_count i g w =
     (if i \<in> set (rw_down w) then (Inl ref_unreachable, w)
      else case rw_custom w i (gvk_Kind g) of
        None \<Rightarrow> (Inl ref_no_match, w)
      | Some n \<Rightarrow> (Inr n, w))"

definition ref_set_store :: "nat \<Rightarrow> object list \<Rightarrow> ref_world \<Rightarrow> ref_world" where
  "ref_set_store i os w = w\<lparr>rw_store := (rw_store w)(i := os)\<rparr>"

definition ref_delete :: "nat \<Rightarrow> object \<Rightarrow> ref_world \<Rightarrow> gerr option \<times> ref_world" where
  "ref_delete i o' w =
     (let kind = kind_of o'; k = object_key o' in
      if i \<in> set (rw_down w) then (Some ref_unreachable, w)
      else case ref_view i w kind k of
        None \<Rightarrow> (Some ref_not_found, w)
      | Some s \<Rightarrow>
          (None, ref_set_store i
             (if (i, kind, k) \<in> set (rw_held w)
              then map (\<lambda>x. if same_object kind k x
                            then x\<lparr>o_DeletionTimestamp := Some (rw_now w)\<rparr> else x) (rw_store w i)
              else filter (\<lambda>x. \<not> same_object kind k x) (rw_store w i)) w))"

definition ref_token :: "nat \<Rightarrow> object \<Rightarrow> int \<Rightarrow> ref_world \<Rightarrow> (gerr + string \<times> int) \<times> ref_world" where
  "ref_token i o' secs w =
     (if i \<in> set (rw_down w) then (Inl ref_unreachable, w)
      else (Inr (''token'', rw_now w + secs * Second), w))"

definition ref_put :: "nat \<Rightarrow> object \<Rightarrow> ref_world \<Rightarrow> ref_world" where
  "ref_put i o' w =
     ref_set_store i (o' # filter (\<lambda>x. \<not> same_object (kind_of o') (object_key o') x) (rw_store w i)) w"

definition ref_create :: "nat \<Rightarrow> object \<Rightarrow> ref_world \<Rightarrow> (gerr option \<times> object) \<times> ref_world" where
  "ref_create i o' w =
     (if i \<in> set (rw_down w) then ((Some ref_unreachable, o'), w)
      else let s = o'\<lparr>o_UID := ''uid''\<rparr> in ((None, s), ref_put i s w))"

definition ref_update :: "nat \<Rightarrow> object \<Rightarrow> ref_world \<Rightarrow> (gerr option \<times> object) \<times> ref_world" where
  "ref_update i o' w =
     (if i \<in> set (rw_down w) then ((Some ref_unreachable, o'), w)
      else case ref_view i w (kind_of o') (object_key o') of
        None \<Rightarrow> ((Some ref_not_found, o'), w)
      | Some s \<Rightarrow> ((None, o'), ref_put i o' w))"

definition ref_client :: "nat \<Rightarrow> ref_world client" where
  "ref_client i =
     \<lparr>cl_get = ref_get i, cl_list = ref_list i, cl_count = ref_count i, cl_create = ref_create i,
      cl_update = ref_update i, cl_delete = ref_delete i, cl_create_token = ref_token i\<rparr>"

lemma ref_client_simps [simp]:
  "cl_get (ref_client i) = ref_get i" "cl_list (ref_client i) = ref_list i"
  "cl_count (ref_client i) = ref_count i" "cl_create (ref_client i) = ref_create i"
  "cl_update (ref_client i) = ref_update i" "cl_delete (ref_client i) = ref_delete i"
  "cl_create_token (ref_client i) = ref_token i"
  by (simp_all add: ref_client_def)

section \<open>The reference helpers\<close>

definition ref_is_not_found :: "gerr option \<Rightarrow> bool" where
  "ref_is_not_found e = (e = Some ref_not_found)"

text \<open>
  \<open>CreateOrUpdate\<close>: look the object up, mutate it, and create or update it. The object
  that was found is always written back, also when the mutation changed nothing.
\<close>

definition ref_upsert ::
    "'w client \<Rightarrow> object \<Rightarrow> 'w mutate \<Rightarrow> 'w \<Rightarrow> (operation_result \<times> gerr option) go \<times> object \<times> 'w" where
  "ref_upsert c o' f w =
     (let ((e, o0), w0) = cl_get c (object_key o') o' w in
      if e \<noteq> None \<and> \<not> ref_is_not_found e then (Ret (''unchanged'', e), o0, w0)
      else case f o0 w0 of
        (Panic p, o1, w1) \<Rightarrow> (Panic p, o1, w1)
      | (Ret (Some me), o1, w1) \<Rightarrow> (Ret (''unchanged'', Some me), o1, w1)
      | (Ret None, o1, w1) \<Rightarrow>
          if object_key o1 \<noteq> object_key o0 then (Ret (''unchanged'', Some ref_name_changed), o1, w1)
          else
            let ((we, o2), w2) = (if e = None then cl_update c o1 w1 else cl_create c o1 w1)
            in (Ret (if we \<noteq> None then ''unchanged'' else if e = None then ''updated'' else ''created'', we),
                o2, w2))"

definition ref_api :: "ref_world kube_api" where
  "ref_api =
     \<lparr>IsNotFound = ref_is_not_found,
      IgnoreNotFound = (\<lambda>e. if ref_is_not_found e then None else e),
      IsNoMatchError = (\<lambda>e. e = Some ref_no_match),
      OperationResultNone = ''unchanged'',
      CreateOrUpdate = ref_upsert,
      ConditionsIsTrue = (\<lambda>cs t. (t, ''True'') \<in> set cs),
      SecretMutate = (\<lambda>name ns d t o'. (None, o'\<lparr>o_Body := Secret d t\<rparr>)),
      ConfigMapMutate = (\<lambda>name ns d o'. (None, o'\<lparr>o_Body := ConfigMap d\<rparr>))\<rparr>"

lemma ref_api_simps [simp]:
  "IsNotFound ref_api = ref_is_not_found"
  "IgnoreNotFound ref_api e = (if ref_is_not_found e then None else e)"
  "IsNoMatchError ref_api e = (e = Some ref_no_match)"
  "OperationResultNone ref_api = ''unchanged''"
  "CreateOrUpdate ref_api = ref_upsert"
  "ConditionsIsTrue ref_api cs t = ((t, ''True'') \<in> set cs)"
  "SecretMutate ref_api name ns d t o' = (None, o'\<lparr>o_Body := Secret d t\<rparr>)"
  "ConfigMapMutate ref_api name ns d o' = (None, o'\<lparr>o_Body := ConfigMap d\<rparr>)"
  by (simp_all add: ref_api_def)

lemmas ref_error_defs = ref_not_found_def ref_no_match_def ref_unreachable_def ref_name_changed_def

lemma ref_is_not_found_simps [simp]:
  "\<not> ref_is_not_found None" "ref_is_not_found (Some ref_not_found)"
  "\<not> ref_is_not_found (Some ref_unreachable)" "\<not> ref_is_not_found (Some ref_no_match)"
  by (simp_all add: ref_is_not_found_def ref_error_defs)

section \<open>The reference server keeps the contract\<close>

lemma find_Some_prop: "find P xs = Some x \<Longrightarrow> P x"
  by (auto simp: find_Some_iff)

lemma find_filter_None: "find P (filter (\<lambda>x. \<not> P x) xs) = None"
  by (auto simp: find_None_iff)

lemma find_filter_other:
  "(\<And>x. P x \<Longrightarrow> \<not> Q x) \<Longrightarrow> find P (filter (\<lambda>x. \<not> Q x) xs) = find P xs"
  by (induction xs) auto

lemma find_map_exists:
  "(\<And>x. P (f x) = P x) \<Longrightarrow> find P (map f xs) = map_option f (find P xs)"
  by (induction xs) auto

lemma same_object_deleted [simp]:
  "same_object kind k (x\<lparr>o_DeletionTimestamp := d\<rparr>) = same_object kind k x"
  "same_object kind k (x\<lparr>o_UID := u\<rparr>) = same_object kind k x"
  by (simp_all add: same_object_def object_key_def)

lemma same_object_cong: "same_object kind k x \<Longrightarrow> same_object kind' k' x \<Longrightarrow> kind = kind' \<and> k = k'"
  by (simp add: same_object_def)

lemma ref_view_set_store [simp]:
  "ref_view j (ref_set_store i os w) kind k =
     (if j = i then find (same_object kind k) os else ref_view j w kind k)"
  by (simp add: ref_view_def ref_set_store_def)

lemma ref_view_put: "ref_view i (ref_put i o' w) (kind_of o') (object_key o') = Some o'"
  by (simp add: ref_put_def same_object_def)

lemma ref_view_found: "ref_view i w kind k = Some s \<Longrightarrow> kind_of s = kind \<and> object_key s = k"
  by (drule find_Some_prop [of "same_object kind k" "rw_store w i" s, folded ref_view_def])
     (simp add: same_object_def)

lemma ref_delete_store:
  assumes "ref_delete i o' w = (None, w')"
  shows "w' = ref_set_store i
     (if (i, kind_of o', object_key o') \<in> set (rw_held w)
      then map (\<lambda>x. if same_object (kind_of o') (object_key o') x
                    then x\<lparr>o_DeletionTimestamp := Some (rw_now w)\<rparr> else x) (rw_store w i)
      else filter (\<lambda>x. \<not> same_object (kind_of o') (object_key o') x) (rw_store w i)) w"
  using assms unfolding ref_delete_def Let_def by (simp split: if_splits option.splits)

lemma find_marked:
  "find (same_object kind k) (map (\<lambda>x. if same_object kind' k' x
        then x\<lparr>o_DeletionTimestamp := d\<rparr> else x) xs) =
   map_option (\<lambda>x. if same_object kind' k' x then x\<lparr>o_DeletionTimestamp := d\<rparr> else x)
     (find (same_object kind k) xs)"
  by (rule find_map_exists) simp

lemma find_removed:
  "find (same_object kind k) (filter (\<lambda>x. \<not> same_object kind' k' x) xs) =
     (if kind = kind' \<and> k = k' then None else find (same_object kind k) xs)"
proof (cases "kind = kind' \<and> k = k'")
  case True
  then show ?thesis by (simp add: find_filter_None)
next
  case False
  then have "find (same_object kind k) (filter (\<lambda>x. \<not> same_object kind' k' x) xs) =
      find (same_object kind k) xs"
    by (intro find_filter_other) (blast dest: same_object_cong)
  with False show ?thesis by auto
qed

lemma ref_delete_view:
  assumes "ref_delete i o' w = (None, w')"
  shows "ref_view j w' kind k = None \<longleftrightarrow>
     ref_view j w kind k = None \<or>
     (j = i \<and> kind = kind_of o' \<and> k = object_key o' \<and> (i, kind, k) \<notin> set (rw_held w))"
proof (cases "j = i")
  case False
  then show ?thesis by (simp add: ref_delete_store [OF assms])
next
  case True
  then have "ref_view j w' kind k = find (same_object kind k)
     (if (i, kind_of o', object_key o') \<in> set (rw_held w)
      then map (\<lambda>x. if same_object (kind_of o') (object_key o') x
                    then x\<lparr>o_DeletionTimestamp := Some (rw_now w)\<rparr> else x) (rw_store w i)
      else filter (\<lambda>x. \<not> same_object (kind_of o') (object_key o') x) (rw_store w i))"
    by (simp only: ref_delete_store [OF assms] ref_view_set_store if_True simp_thms)
  with True show ?thesis by (auto simp: find_marked find_removed ref_view_def)
qed

lemma ref_get_result:
  assumes "ref_get i k o' w = ((e, o''), w')"
  shows "w' = w" "e = None \<Longrightarrow> ref_view i w (kind_of o') k = Some o''"
    "ref_is_not_found e \<Longrightarrow> ref_view i w (kind_of o') k = None" "e \<noteq> None \<Longrightarrow> o'' = o'"
  using assms
  by (auto simp: ref_get_def ref_is_not_found_def ref_error_defs split: if_splits option.splits)

lemma ref_get_identity:
  assumes "ref_get i (object_key o') o' w = ((e, o''), w')"
  shows "object_key o'' = object_key o' \<and> kind_of o'' = kind_of o'"
  using assms by (auto simp: ref_get_def split: if_splits option.splits dest: ref_view_found)

lemma ref_create_result:
  assumes "ref_create i o' w = ((None, o''), w')"
  shows "o'' = o'\<lparr>o_UID := ''uid''\<rparr>" "w' = ref_put i o'' w"
  using assms by (auto simp: ref_create_def Let_def split: if_splits)

lemma ref_update_result:
  assumes "ref_update i o' w = ((None, o''), w')"
  shows "o'' = o'" "w' = ref_put i o'' w"
  using assms by (auto simp: ref_update_def Let_def split: if_splits option.splits)

lemma ref_upsert_ok:
  assumes "ref_upsert (ref_client i) o' f w = (Ret (op, None), o'', w')"
  obtains o0 w0 o1 w1 where "f o0 w0 = (Ret None, o1, w1)"
    "object_key o0 = object_key o'" "kind_of o0 = kind_of o'"
    "o'' = o1 \<or> o'' = o1\<lparr>o_UID := ''uid''\<rparr>" "w' = ref_put i o'' w1"
proof -
  obtain e o0 w0 where get: "ref_get i (object_key o') o' w = ((e, o0), w0)"
    by (metis prod.exhaust)
  note id = ref_get_identity [OF get]
  from assms get obtain o1 w1 where f: "f o0 w0 = (Ret None, o1, w1)"
    by (cases "f o0 w0") (auto simp: ref_upsert_def split: if_splits go.splits option.splits)
  have "o'' = o1 \<or> o'' = o1\<lparr>o_UID := ''uid''\<rparr>" "w' = ref_put i o'' w1"
    using assms get f
    by (auto simp: ref_upsert_def Let_def split: if_splits prod.splits
        dest: ref_create_result ref_update_result)
  with f id that show ?thesis by blast
qed

lemma ref_upsert_panic:
  assumes "ref_upsert (ref_client i) o' f w = (Panic p, o'', w')"
  shows "\<exists>o0 w0. panics (fst (f o0 w0)) \<and> kind_of o0 = kind_of o'"
proof -
  obtain e o0 w0 where get: "ref_get i (object_key o') o' w = ((e, o0), w0)"
    by (metis prod.exhaust)
  have "panics (fst (f o0 w0))"
    using assms get
    by (auto simp: ref_upsert_def Let_def split: if_splits prod.splits go.splits option.splits)
  with ref_get_identity [OF get] show ?thesis by blast
qed

lemma ref_store_kind:
  "ref_create i o' w = ((e, o''), w') \<Longrightarrow> kind_of o'' = kind_of o'"
  "ref_update i o' w = ((e, o''), w') \<Longrightarrow> kind_of o'' = kind_of o'"
  by (auto simp: ref_create_def ref_update_def Let_def split: if_splits option.splits)

lemma ref_upsert_kind:
  assumes "ref_upsert (ref_client i) o' f w = (x, o'', w')"
    and f: "\<And>o0 w0. kind_of o0 = kind_of o' \<Longrightarrow> kind_of (fst (snd (f o0 w0))) = kind_of o'"
  shows "kind_of o'' = kind_of o'"
proof -
  obtain e o0 w0 where get: "ref_get i (object_key o') o' w = ((e, o0), w0)"
    by (metis prod.exhaust)
  have o0: "kind_of o0 = kind_of o'" using ref_get_identity [OF get] by simp
  obtain y o1 w1 where fy: "f o0 w0 = (y, o1, w1)" by (metis prod.exhaust)
  have o1: "kind_of o1 = kind_of o'" using f [OF o0, of w0] fy by simp
  obtain ue uo uw where u: "ref_update i o1 w1 = ((ue, uo), uw)" by (metis prod.exhaust)
  obtain ce co cw where c: "ref_create i o1 w1 = ((ce, co), cw)" by (metis prod.exhaust)
  have "kind_of uo = kind_of o'" "kind_of co = kind_of o'"
    using ref_store_kind(2) [OF u] ref_store_kind(1) [OF c] o1 by simp_all
  with assms(1) get fy u c o0 o1 show ?thesis
    by (auto simp: ref_upsert_def split: if_splits go.splits option.splits)
qed

lemma ref_delete_adds_nothing:
  assumes "ref_delete i o' w = (e, w')" "ref_view j w' kind k = Some x"
  shows "\<exists>y. ref_view j w kind k = Some y"
proof (cases e)
  case None
  with assms show ?thesis using ref_delete_view [of i o' w w' j kind k] by auto
next
  case (Some a)
  with assms show ?thesis by (auto simp: ref_delete_def Let_def split: if_splits option.splits)
qed

interpretation refsrv: api_server ref_api ref_client ref_view
proof
  fix e :: "gerr option"
  show "\<not> IsNotFound ref_api None" and "\<not> IsNoMatchError ref_api None"
    and "IgnoreNotFound ref_api e = (if IsNotFound ref_api e then None else e)" by simp_all
next
  fix i j k o' w e o'' w'
  assume "cl_get (ref_client i) k o' w = ((e, o''), w')"
  then have "w' = w" using ref_get_result(1) by (metis ref_client_simps(1))
  then show "ref_view j w' = ref_view j w" by simp
next
  fix i o' w e o'' w'
  assume "cl_get (ref_client i) (object_key o') o' w = ((e, o''), w')"
  then show "object_key o'' = object_key o' \<and> kind_of o'' = kind_of o'"
    by (simp add: ref_get_identity)
next
  fix i k o' w o'' w'
  assume "cl_get (ref_client i) k o' w = ((None, o''), w')"
  then show "ref_view i w (kind_of o') k = Some o''" by (simp add: ref_get_result)
next
  fix i k o' w e o'' w'
  assume "cl_get (ref_client i) k o' w = ((e, o''), w')" "IsNotFound ref_api e"
  then show "ref_view i w (kind_of o') k = None \<and> o'' = o'"
    by (auto simp: ref_get_result ref_is_not_found_def dest: ref_get_result(4))
next
  fix i o' w e w'
  assume "cl_delete (ref_client i) o' w = (e, w')" "IsNotFound ref_api e"
  then show "ref_view i w (kind_of o') (object_key o') = None"
    by (auto simp: ref_delete_def Let_def split: if_splits option.splits)
next
  fix i o' w e w' j kind k x
  assume "cl_delete (ref_client i) o' w = (e, w')" "ref_view j w' kind k = Some x"
  then show "\<exists>y. ref_view j w kind k = Some y" using ref_delete_adds_nothing by simp
next
  fix i o' f w op o'' w'
  assume "CreateOrUpdate ref_api (ref_client i) o' f w = (Ret (op, None), o'', w')"
  then have up: "ref_upsert (ref_client i) o' f w = (Ret (op, None), o'', w')" by simp
  show "\<exists>o0 w0 o1 w1. f o0 w0 = (Ret None, o1, w1) \<and>
        object_key o0 = object_key o' \<and> kind_of o0 = kind_of o' \<and>
        object_key o'' = object_key o1 \<and> o_Labels o'' = o_Labels o1 \<and>
        o_Annotations o'' = o_Annotations o1 \<and> o_Body o'' = o_Body o1"
    using up by (elim ref_upsert_ok) (force simp: object_key_def)
  show "ref_view i w' (kind_of o'') (object_key o'') = Some o''"
    using up by (elim ref_upsert_ok) (simp add: ref_view_put)
next
  fix i o' f w p o'' w'
  assume "CreateOrUpdate ref_api (ref_client i) o' f w = (Panic p, o'', w')"
  then show "\<exists>o0 w0. panics (fst (f o0 w0)) \<and> kind_of o0 = kind_of o'"
    using ref_upsert_panic by simp
next
  fix i o' f w x o'' w'
  assume "CreateOrUpdate ref_api (ref_client i) o' f w = (x, o'', w')"
    and "\<And>o0 w0. kind_of o0 = kind_of o' \<Longrightarrow> kind_of (fst (snd (f o0 w0))) = kind_of o'"
  then show "kind_of o'' = kind_of o'" using ref_upsert_kind by simp
qed

lemma ref_list_result:
  assumes "ref_list i kind ns sel w = (x, w')"
  shows "w' = w" "x = Inr os \<Longrightarrow> os = filter (\<lambda>o'. ref_view i w kind (object_key o') = Some o' \<and>
      o_Namespace o' = ns \<and> matches_labels sel o') (rw_store w i)"
  using assms by (auto simp: ref_list_def split: if_splits)

lemma ref_delete_frame:
  assumes "ref_delete i o' w = (e, w')" and other: "j \<noteq> i \<or> kind \<noteq> kind_of o' \<or> k \<noteq> object_key o'"
  shows "ref_view j w' kind k = ref_view j w kind k"
proof (cases e)
  case None
  then have del: "ref_delete i o' w = (None, w')" using assms(1) by simp
  show ?thesis
  proof (cases "j = i")
    case False
    then show ?thesis by (simp add: ref_delete_store [OF del])
  next
    case True
    with other have neq: "kind \<noteq> kind_of o' \<or> k \<noteq> object_key o'" by blast
    have "find (same_object kind k) (map (\<lambda>x. if same_object (kind_of o') (object_key o') x
          then x\<lparr>o_DeletionTimestamp := Some (rw_now w)\<rparr> else x) (rw_store w i)) =
        find (same_object kind k) (rw_store w i)"
      unfolding find_marked
      by (cases "find (same_object kind k) (rw_store w i)")
         (use neq in \<open>auto dest: find_Some_prop same_object_cong\<close>)
    with True neq show ?thesis
      by (auto simp: ref_delete_store [OF del] find_removed) (simp_all add: ref_view_def)
  qed
next
  case (Some a)
  then show ?thesis using assms(1) by (auto simp: ref_delete_def Let_def split: if_splits option.splits)
qed

interpretation reflist: listing_server ref_api ref_client ref_view
proof
  fix i kind ns sel w x w' j
  assume "cl_list (ref_client i) kind ns sel w = (x, w')"
  then show "ref_view j w' = ref_view j w" using ref_list_result(1) by (metis ref_client_simps(2))
next
  fix i kind ns sel w os w' o'
  assume l: "cl_list (ref_client i) kind ns sel w = (Inr os, w')" and o': "o' \<in> set os"
  have "os = filter (\<lambda>o'. ref_view i w kind (object_key o') = Some o' \<and>
      o_Namespace o' = ns \<and> matches_labels sel o') (rw_store w i)"
    using l ref_list_result(2) [of i kind ns sel w "Inr os" w' os] by simp
  with o' have "ref_view i w kind (object_key o') = Some o' \<and> o_Namespace o' = ns \<and> matches_labels sel o'"
    by simp
  then show "ref_view i w kind (object_key o') = Some o' \<and> kind_of o' = kind \<and> o_Namespace o' = ns \<and>
      matches_labels sel o'"
    using ref_view_found by blast
next
  fix i kind ns sel w os w' n o'
  assume l: "cl_list (ref_client i) kind ns sel w = (Inr os, w')"
    and v: "ref_view i w kind (ns, n) = Some o'" and m: "matches_labels sel o'"
  have "o' \<in> set (rw_store w i)" using v by (auto simp: ref_view_def find_Some_iff)
  moreover have "object_key o' = (ns, n)" using ref_view_found [OF v] by simp
  moreover have "o_Namespace o' = ns" using \<open>object_key o' = (ns, n)\<close> by (simp add: object_key_def)
  moreover have "os = filter (\<lambda>o'. ref_view i w kind (object_key o') = Some o' \<and>
      o_Namespace o' = ns \<and> matches_labels sel o') (rw_store w i)"
    using l ref_list_result(2) [of i kind ns sel w "Inr os" w' os] by simp
  ultimately show "o' \<in> set os" using v m by simp
next
  fix i w kind k o'
  assume "ref_view i w kind k = Some o'"
  then show "kind_of o' = kind \<and> object_key o' = k" by (rule ref_view_found)
next
  fix i o' w e w' j kind k
  assume "cl_delete (ref_client i) o' w = (e, w')" "j \<noteq> i \<or> kind \<noteq> kind_of o' \<or> k \<noteq> object_key o'"
  then show "ref_view j w' kind k = ref_view j w kind k" using ref_delete_frame by simp
qed

interpretation refmut: mutators ref_api
  by unfold_locales (auto simp: is_managed_iff object_key_def)

end
