(* ===== verification/Manager_Correct.thy ===== *)
theory Manager_Correct
  imports Api_Server
begin

text \<open>
  What the manager guarantees: the order and number of its results, that deletion waits
  for dependents and that its report of a finished deletion is true, that a successful
  \<open>Apply\<close> leaves every object labelled, and that no pass panics unless a reconcile
  function does. The cleaners enter through their interface only.
\<close>

section \<open>The interface of the cleaners\<close>

text \<open>
  A cleaner leaves the objects that are already managed alone, reports its results on new
  managed objects, and never reports an object as deleted.
\<close>

locale orphan_cleaner =
  fixes cleanup :: "'w cleaner"
  assumes heap_kept: "cleanup r = (x, r') \<Longrightarrow> j < r_next r \<Longrightarrow> r_heap r' j = r_heap r j"
    and next_grows: "cleanup r = (x, r') \<Longrightarrow> r_next r \<le> r_next r'"
    and reports_fresh: "cleanup r = (Inr rs, r') \<Longrightarrow> y \<in> set rs \<Longrightarrow>
          r_next r \<le> m_ref (res_Object y) \<and> m_ref (res_Object y) < r_next r'"
    and reports_remaining: "cleanup r = (Inr rs, r') \<Longrightarrow> y \<in> set rs \<Longrightarrow>
          res_OperationResult y \<noteq> OperationResultDeleted"

lemma run_cleaners_results:
  assumes "\<forall>c \<in> set cs. orphan_cleaner c" and "run_cleaners cs results r = ((out, e), r')"
  shows "\<exists>extra. out = results @ extra \<and>
     (\<forall>y \<in> set extra. res_OperationResult y \<noteq> OperationResultDeleted \<and>
        r_next r \<le> m_ref (res_Object y)) \<and>
     r_next r \<le> r_next r' \<and> (\<forall>j < r_next r. r_heap r' j = r_heap r j)"
  using assms
proof (induction cs arbitrary: results r)
  case Nil
  then show ?case by simp
next
  case (Cons c cs)
  have oc: "orphan_cleaner c" using Cons.prems(1) by simp
  obtain x r1 where c: "c r = (x, r1)" by fastforce
  note grow = orphan_cleaner.next_grows [OF oc c] and keep = orphan_cleaner.heap_kept [OF oc c]
  show ?case
  proof (cases x)
    case (Inl err)
    with Cons.prems(2) c grow keep show ?thesis by auto
  next
    case (Inr rs)
    with Cons.prems(2) c have "run_cleaners cs (results @ rs) r1 = ((out, e), r')" by simp
    then obtain extra where "out = (results @ rs) @ extra"
      "\<forall>y \<in> set extra. res_OperationResult y \<noteq> OperationResultDeleted \<and>
         r_next r1 \<le> m_ref (res_Object y)"
      "r_next r1 \<le> r_next r'" "\<forall>j < r_next r1. r_heap r' j = r_heap r1 j"
      using Cons.IH Cons.prems(1) by (metis list.set_intros(2))
    moreover have "\<forall>y \<in> set rs. res_OperationResult y \<noteq> OperationResultDeleted \<and>
        r_next r \<le> m_ref (res_Object y)"
      using orphan_cleaner.reports_fresh [OF oc] orphan_cleaner.reports_remaining [OF oc] c Inr by blast
    ultimately show ?thesis
      using grow keep by (intro exI [of _ "rs @ extra"]) (auto intro: le_trans)
  qed
qed

section \<open>Deletion on servers that keep their contract\<close>

definition known_clusters :: "('c \<Rightarrow> 'w client) \<Rightarrow> 'w managed_cluster list \<Rightarrow> bool" where
  "known_clusters cl clusters = list_all (\<lambda>mc. \<exists>i. c_client mc = cl i) clusters"

definition refs_below :: "nat \<Rightarrow> 'w managed_cluster list \<Rightarrow> bool" where
  "refs_below n clusters = list_all (\<lambda>(mc, m). m_ref m < n) (managed_pairs clusters)"

text \<open>The server has no object of the kind and key of the managed object.\<close>

definition gone ::
    "('c \<Rightarrow> 'w \<Rightarrow> string \<Rightarrow> object_key \<Rightarrow> object option) \<Rightarrow> 'c \<Rightarrow> 'w run \<Rightarrow> 'w managed_object \<Rightarrow> bool" where
  "gone view i r m =
     (view i (r_world r) (kind_of (GetObject r m)) (object_key (GetObject r m)) = None)"

text \<open>
  The order deletion follows: objects keep their kind and key, and nothing comes into
  being on any server.
\<close>

definition deleting ::
    "('c \<Rightarrow> 'w \<Rightarrow> string \<Rightarrow> object_key \<Rightarrow> object option) \<Rightarrow> 'w run \<Rightarrow> 'w run \<Rightarrow> bool" where
  "deleting view r r' =
     (r_next r' = r_next r \<and>
      (\<forall>j. kind_of (r_heap r' j) = kind_of (r_heap r j) \<and>
           object_key (r_heap r' j) = object_key (r_heap r j)) \<and>
      (\<forall>i kind k. view i (r_world r) kind k = None \<longrightarrow> view i (r_world r') kind k = None))"

lemma deleting_refl [simp]: "deleting view r r"
  by (simp add: deleting_def)

lemma deleting_trans: "deleting view r s \<Longrightarrow> deleting view s t \<Longrightarrow> deleting view r t"
  by (simp add: deleting_def)

lemma deleting_gone: "deleting view r r' \<Longrightarrow> gone view i r m \<Longrightarrow> gone view i r' m"
  by (simp add: deleting_def gone_def GetObject_def del: split_paired_All)

lemma deleting_gone_back:
  "deleting view r r' \<Longrightarrow> (\<And>j kind k. view j (r_world r') kind k = view j (r_world r) kind k) \<Longrightarrow>
     gone view i r' m = gone view i r m"
  by (simp add: deleting_def gone_def GetObject_def)

text \<open>
  What the result of one object says, read at a later state \<open>r'\<close>: without an error all
  dependents of the object are gone there, and a result "deleted" of an object that is not
  orphaned means that the object is gone.
\<close>

definition deletion_report ::
    "'w kube_api \<Rightarrow> ('c \<Rightarrow> 'w client) \<Rightarrow> ('c \<Rightarrow> 'w \<Rightarrow> string \<Rightarrow> object_key \<Rightarrow> object option) \<Rightarrow>
     'w managed_cluster list \<Rightarrow> 'w run \<Rightarrow> 'w managed_cluster \<times> 'w managed_object \<Rightarrow> 'w result \<Rightarrow> bool"
where
  "deletion_report api cl view clusters r' p res \<longleftrightarrow>
     res_Cluster res = fst p \<and> res_Object res = snd p \<and>
     (res_Error res = None \<longrightarrow>
        (\<forall>mc m k. (mc, m) \<in> set (managed_pairs clusters) \<longrightarrow> m_ref (snd p) \<in> set (GetDependencies m) \<longrightarrow>
           c_client mc = cl k \<longrightarrow> gone view k r' m)) \<and>
     (res_OperationResult res = OperationResultDeleted \<longrightarrow> GetDeletionPolicy (snd p) \<noteq> Orphan \<longrightarrow>
        OperationResultNone api \<noteq> OperationResultDeleted \<longrightarrow>
        (\<forall>i. c_client (fst p) = cl i \<longrightarrow> gone view i r' (snd p)))"

lemma deletion_report_later:
  assumes rep: "deletion_report api cl view clusters r p res" and mem: "p \<in> set (managed_pairs clusters)"
    and later: "\<And>k mc m. (mc, m) \<in> set (managed_pairs clusters) \<Longrightarrow> gone view k r m \<Longrightarrow> gone view k r' m"
  shows "deletion_report api cl view clusters r' p res"
proof -
  have "gone view k r' (snd p)" if "gone view k r (snd p)" for k
    using later [of "fst p" "snd p"] mem that by simp
  then show ?thesis using rep later unfolding deletion_report_def by blast
qed

context api_server
begin

lemma refresh_step:
  assumes "c_client mc = cl i" and "refresh m mc r = (e, r')"
  shows "deleting view r r'" "view j (r_world r') = view j (r_world r)"
    "IsNotFound api e \<Longrightarrow> gone view i r m" "e = None \<Longrightarrow> \<not> gone view i r m"
proof -
  obtain o'' w' where g:
    "cl_get (cl i) (object_key (GetObject r m)) (GetObject r m) (r_world r) = ((e, o''), w')"
    and r': "r' = r\<lparr>r_world := w', r_heap := (r_heap r)(m_ref m := o'')\<rparr>"
    using assms by (auto simp: refresh_def Let_def split: prod.splits)
  note same = get_reads [OF g] and id = get_identity [OF g]
  show "view j (r_world r') = view j (r_world r)" using same r' by simp
  show "deleting view r r'" using id same r' by (simp add: deleting_def GetObject_def)
  show "IsNotFound api e \<Longrightarrow> gone view i r m" using get_not_found [OF g] by (simp add: gone_def)
  show "e = None \<Longrightarrow> \<not> gone view i r m"
    using g get_found [of i "object_key (GetObject r m)"] by (auto simp: gone_def)
qed

lemma dependent_errors_step:
  assumes "known_clusters cl (map d_Cluster deps)" and "dependent_errors api deps errs r = (errs', r')"
  shows "deleting view r r' \<and> (\<forall>j. view j (r_world r') = view j (r_world r)) \<and>
    (\<exists>more. errs' = errs @ more \<and>
       (more = [] \<longrightarrow> (\<forall>d \<in> set deps. \<forall>i. c_client (d_Cluster d) = cl i \<longrightarrow> gone view i r (d_Object d))))"
  using assms
proof (induction deps arbitrary: errs r)
  case Nil
  then show ?case by simp
next
  case (Cons d deps)
  obtain e r1 where ref: "refresh (d_Object d) (d_Cluster d) r = (e, r1)" by fastforce
  obtain i where i: "c_client (d_Cluster d) = cl i"
    using Cons.prems(1) by (auto simp: known_clusters_def)
  note step = refresh_step [OF i ref]
  have known: "known_clusters cl (map d_Cluster deps)"
    using Cons.prems(1) by (simp add: known_clusters_def)
  obtain errs1 where rest: "dependent_errors api deps (errs @ errs1) r1 = (errs', r')"
      and errs1: "errs1 = [] \<longrightarrow> IsNotFound api e"
    using Cons.prems(2) ref by (cases e) (auto split: if_splits intro: that [of "[]"])
  from Cons.IH [OF known rest] obtain more where
      IH: "deleting view r1 r'" "\<forall>j. view j (r_world r') = view j (r_world r1)"
        "errs' = (errs @ errs1) @ more"
        and gone1: "more = [] \<longrightarrow>
        (\<forall>d \<in> set deps. \<forall>i. c_client (d_Cluster d) = cl i \<longrightarrow> gone view i r1 (d_Object d))"
    by blast
  have unread: "gone view k r1 m = gone view k r m" for k m
    by (rule deleting_gone_back [OF step(1)]) (simp add: step(2))
  have here: "gone view k r (d_Object d)" if "errs1 = []" "c_client (d_Cluster d) = cl k" for k
    using refresh_step(3) [OF that(2) ref] errs1 that(1) by simp
  show ?case
    using IH step(1,2) deleting_trans gone1 here
    by (intro conjI exI [of _ "errs1 @ more"]) (auto simp: unread)
qed

lemma checkForDependents_step:
  assumes "known_clusters cl (map d_Cluster deps)" and "checkForDependents api deps r = (e, r')"
  shows "deleting view r r'" "view j (r_world r') = view j (r_world r)"
    "e = None \<Longrightarrow> d \<in> set deps \<Longrightarrow> c_client (d_Cluster d) = cl i \<Longrightarrow> gone view i r (d_Object d)"
proof -
  obtain errs where "dependent_errors api deps [] r = (errs, r')" and e: "e = errors_join (map Some errs)"
    using assms(2) by (auto simp: checkForDependents_def split: prod.splits)
  from dependent_errors_step [OF assms(1) this(1)] e
  show "deleting view r r'" "view j (r_world r') = view j (r_world r)"
    "e = None \<Longrightarrow> d \<in> set deps \<Longrightarrow> c_client (d_Cluster d) = cl i \<Longrightarrow> gone view i r (d_Object d)"
    by (auto split: if_splits)
qed

lemma delete_object_cases:
  assumes "delete_object api deps mc m r = (res, r')"
    and "checkForDependents api (deps (m_ref m)) r = (err, r1)"
  obtains (blocked) "err \<noteq> None" "r' = r1"
      "res = \<lparr>res_Object = m, res_Cluster = mc, res_OperationResult = OperationResultNone api,
              res_Error = err\<rparr>"
    | (orphaned) "err = None" "GetDeletionPolicy m = Orphan" "r' = r1"
      "res = \<lparr>res_Object = m, res_Cluster = mc, res_OperationResult = OperationResultOrphaned,
              res_Error = None\<rparr>"
    | (already_gone) derr w where "err = None" "GetDeletionPolicy m \<noteq> Orphan" "IsNotFound api derr"
      "cl_delete (c_client mc) (GetObject r1 m) (r_world r1) = (derr, w)" "r' = r1\<lparr>r_world := w\<rparr>"
      "res = \<lparr>res_Object = m, res_Cluster = mc, res_OperationResult = OperationResultDeleted,
              res_Error = None\<rparr>"
    | (requested) derr w where "err = None" "GetDeletionPolicy m \<noteq> Orphan" "\<not> IsNotFound api derr"
      "cl_delete (c_client mc) (GetObject r1 m) (r_world r1) = (derr, w)" "r' = r1\<lparr>r_world := w\<rparr>"
      "res = \<lparr>res_Object = m, res_Cluster = mc,
              res_OperationResult = OperationResultDeletionRequested, res_Error = derr\<rparr>"
proof -
  obtain derr w where cd: "cl_delete (c_client mc) (GetObject r1 m) (r_world r1) = (derr, w)"
    by fastforce
  note run = assms(1) [unfolded delete_object_def Let_def assms(2) prod.case cd]
  show thesis
  proof (cases "err = None")
    case False
    then show thesis using run by (intro blocked) simp_all
  next
    case none: True
    show thesis
    proof (cases "GetDeletionPolicy m = Orphan")
      case True
      then show thesis using run none by (intro orphaned) simp_all
    next
      case False
      then show thesis using run none
        by (cases "IsNotFound api derr") (auto intro: already_gone [OF none False _ cd] requested [OF none False _ cd])
    qed
  qed
qed

lemma delete_object_step:
  assumes mc: "c_client mc = cl i" and deps: "known_clusters cl (map d_Cluster (deps (m_ref m)))"
    and del: "delete_object api deps mc m r = (res, r')"
  shows "deleting view r r'"
    "res_Object res = m" "res_Cluster res = mc"
    "res_Error res = None \<Longrightarrow> d \<in> set (deps (m_ref m)) \<Longrightarrow> c_client (d_Cluster d) = cl k \<Longrightarrow>
       gone view k r (d_Object d)"
    "d \<in> set (deps (m_ref m)) \<Longrightarrow> c_client (d_Cluster d) = cl k \<Longrightarrow> \<not> gone view k r (d_Object d) \<Longrightarrow>
       view j (r_world r') = view j (r_world r) \<and> res_OperationResult res = OperationResultNone api"
    "res_OperationResult res = OperationResultDeleted \<Longrightarrow> GetDeletionPolicy m \<noteq> Orphan \<Longrightarrow>
       OperationResultNone api \<noteq> OperationResultDeleted \<Longrightarrow> gone view i r' m"
proof -
  obtain err r1 where chk: "checkForDependents api (deps (m_ref m)) r = (err, r1)" by fastforce
  note check = checkForDependents_step [OF deps chk]
  obtain derr w where cd: "cl_delete (cl i) (GetObject r1 m) (r_world r1) = (derr, w)" by fastforce
  have "deleting view r1 (r1\<lparr>r_world := w\<rparr>)"
    using delete_adds_nothing [OF cd] by (fastforce simp: deleting_def)
  then have r2: "deleting view r (r1\<lparr>r_world := w\<rparr>)" using check(1) deleting_trans by blast
  have absent: "gone view i (r1\<lparr>r_world := w\<rparr>) m" if "IsNotFound api derr"
    by (rule deleting_gone [OF \<open>deleting view r1 (r1\<lparr>r_world := w\<rparr>)\<close>])
       (simp add: gone_def delete_not_found [OF cd that])
  note cases = delete_object_cases [OF del chk]
  show "deleting view r r'" by (rule cases) (use cd mc r2 check(1) in auto)
  show "res_Object res = m" "res_Cluster res = mc" by (rule cases; simp)+
  have "err = None" if "res_Error res = None" by (rule cases) (use that in auto)
  then show "res_Error res = None \<Longrightarrow> d \<in> set (deps (m_ref m)) \<Longrightarrow> c_client (d_Cluster d) = cl k \<Longrightarrow>
       gone view k r (d_Object d)"
    using check(3) by blast
  show "view j (r_world r') = view j (r_world r) \<and> res_OperationResult res = OperationResultNone api"
    if "d \<in> set (deps (m_ref m))" "c_client (d_Cluster d) = cl k" "\<not> gone view k r (d_Object d)"
  proof -
    have "err \<noteq> None" using that check(3) by blast
    then show ?thesis by (rule_tac cases) (use check(2) in auto)
  qed
  show "gone view i r' m"
    if "res_OperationResult res = OperationResultDeleted" "GetDeletionPolicy m \<noteq> Orphan"
      "OperationResultNone api \<noteq> OperationResultDeleted"
    by (rule cases) (use that cd mc absent in auto)
qed

lemma known_dependents:
  "known_clusters cl clusters \<Longrightarrow> known_clusters cl (map d_Cluster (getDependents clusters i))"
  by (auto simp: known_clusters_def list_all_iff getDependents_iff)

text \<open>
  One pass over all objects. Each result comes from a step of the pass, so what was gone
  at that step is gone when the pass is over.
\<close>

lemma delete_object_report:
  assumes known: "known_clusters cl clusters" and mem: "(mc, m) \<in> set (managed_pairs clusters)"
    and run: "reconcileObject api (getDependents clusters) True mc m r = (Ret res, r')"
  shows "deletion_report api cl view clusters r' (mc, m) res"
proof -
  from run have del: "delete_object api (getDependents clusters) mc m r = (res, r')"
    by (auto simp: reconcileObject_def split: prod.splits)
  have "\<exists>i. c_client mc = cl i"
    using known mem by (auto simp: known_clusters_def list_all_iff in_managed_pairs)
  then obtain i where i: "c_client mc = cl i" by blast
  note step = delete_object_step [OF _ known_dependents [OF known] del]
  have "gone view k r' m'" if "res_Error res = None" "(mc', m') \<in> set (managed_pairs clusters)"
    "m_ref m \<in> set (GetDependencies m')" "c_client mc' = cl k" for mc' m' k
  proof -
    have "\<lparr>d_Object = m', d_Cluster = mc'\<rparr> \<in> set (getDependents clusters (m_ref m))"
      using that(2,3) by (simp add: getDependents_iff in_managed_pairs)
    then have "gone view k r m'" using step(4) [OF i that(1)] that(4) by fastforce
    then show ?thesis by (rule deleting_gone [OF step(1) [OF i]])
  qed
  then show ?thesis
    using step(2,3) [OF i] step(6) unfolding deletion_report_def by simp
qed

lemma delete_loop:
  assumes known: "known_clusters cl clusters"
    and run: "map_prog (\<lambda>(mc, m). reconcileObject api (getDependents clusters) True mc m)
        (managed_pairs clusters) r = (Ret results, r')"
  shows "deleting view r r'"
    "list_all2 (deletion_report api cl view clusters r') (managed_pairs clusters) results"
proof -
  let ?f = "\<lambda>(mc, m). reconcileObject api (getDependents clusters) True mc m"
  let ?ps = "managed_pairs clusters"
  have step: "deleting view s (snd (?f x s))" if "x \<in> set ?ps" for x s
  proof -
    obtain mc m where x: "x = (mc, m)" by fastforce
    with that known obtain i where "c_client mc = cl i"
      by (auto simp: known_clusters_def list_all_iff in_managed_pairs)
    moreover obtain res s' where "delete_object api (getDependents clusters) mc m s = (res, s')"
      by fastforce
    ultimately show ?thesis
      using delete_object_step(1) [OF _ known_dependents [OF known]] x
      by (simp add: reconcileObject_def)
  qed
  have stages: "deleting view r r' \<and>
      list_all2 (\<lambda>x y. \<exists>t t'. deleting view r t \<and> ?f x t = (Ret y, t') \<and> deleting view t' r') ?ps results"
    by (rule map_prog_stages [where R = "deleting view", OF _ _ step run]) (auto intro: deleting_trans)
  then show "deleting view r r'" by blast
  have len: "length ?ps = length results"
    using stages list_all2_lengthD by blast
  show "list_all2 (deletion_report api cl view clusters r') ?ps results"
    unfolding list_all2_conv_all_nth
  proof (intro conjI allI impI len)
    fix n assume n: "n < length ?ps"
    then have mem: "?ps ! n \<in> set ?ps" by simp
    obtain t t' where here: "?f (?ps ! n) t = (Ret (results ! n), t')" and t': "deleting view t' r'"
      using list_all2_nthD [OF conjunct2 [OF stages] n] by blast
    have "deletion_report api cl view clusters t' (?ps ! n) (results ! n)"
      using delete_object_report [OF known] mem here by (cases "?ps ! n") simp
    then show "deletion_report api cl view clusters r' (?ps ! n) (results ! n)"
      by (rule deletion_report_later [OF _ mem]) (rule deleting_gone [OF t'])
  qed
qed

end

section \<open>Cleaners on servers that keep their contract\<close>

locale orphan_cleaner_on_server =
  api_server api cl view + orphan_cleaner cleanup
  for api :: "'w kube_api" and cl :: "'c \<Rightarrow> 'w client"
    and view :: "'c \<Rightarrow> 'w \<Rightarrow> string \<Rightarrow> object_key \<Rightarrow> object option"
    and cleanup :: "'w cleaner" +
  assumes cleanup_adds_nothing: "cleanup r = (x, r') \<Longrightarrow>
      view i (r_world r) kind k = None \<Longrightarrow> view i (r_world r') kind k = None"

lemma run_cleaners_adds_nothing:
  assumes "\<forall>c \<in> set cs. orphan_cleaner_on_server api cl view c"
    and "run_cleaners cs results r = (out, r')" and "view i (r_world r) kind k = None"
  shows "view i (r_world r') kind k = None"
  using assms
proof (induction cs arbitrary: results r)
  case Nil
  then show ?case by simp
next
  case (Cons c cs)
  have oc: "orphan_cleaner_on_server api cl view c" using Cons.prems(1) by simp
  obtain x r1 where c: "c r = (x, r1)" by fastforce
  have none: "view i (r_world r1) kind k = None"
    by (rule orphan_cleaner_on_server.cleanup_adds_nothing [OF oc c Cons.prems(3)])
  show ?case
  proof (cases x)
    case (Inl err)
    with Cons.prems(2) c none show ?thesis by auto
  next
    case (Inr rs)
    with Cons.prems(2) c have "run_cleaners cs (results @ rs) r1 = (out, r')" by simp
    with Cons.IH Cons.prems(1) none show ?thesis by simp
  qed
qed

section \<open>A whole deletion pass\<close>

lemma reconcileObjects_parts:
  assumes "reconcileObjects api mgr isDeletion r = (Ret (results, err), r')"
  obtains rs r1 where
    "map_prog (\<lambda>(mc, m). reconcileObject api (getDependents (mgr_clusters mgr)) isDeletion mc m)
       (managed_pairs (mgr_clusters mgr)) r = (Ret rs, r1)"
    "run_cleaners (mgr_cleaners mgr) rs r1 = ((results, err), r')"
proof -
  from assms obtain rs r1 where loop:
      "map_prog (\<lambda>(mc, m). reconcileObject api (getDependents (mgr_clusters mgr)) isDeletion mc m)
       (managed_pairs (mgr_clusters mgr)) r = (Ret rs, r1)"
    and rest: "(let (x, r') = run_cleaners (mgr_cleaners mgr) rs r1 in (Ret x, r')) =
      (Ret (results, err), r')"
    unfolding reconcileObjects_flat bind_prog_Ret_iff by blast
  obtain x r2 where "run_cleaners (mgr_cleaners mgr) rs r1 = (x, r2)" by fastforce
  with rest have "run_cleaners (mgr_cleaners mgr) rs r1 = ((results, err), r')" by simp
  with loop show thesis by (rule that)
qed

lemma refs_below_pair: "refs_below n clusters \<Longrightarrow> (mc, m) \<in> set (managed_pairs clusters) \<Longrightarrow> m_ref m < n"
  by (auto simp: refs_below_def list_all_iff)

lemma delete_pass:
  assumes server: "api_server api cl view" and known: "known_clusters cl (mgr_clusters mgr)"
    and refs: "refs_below (r_next r) (mgr_clusters mgr)"
    and cleaners: "\<forall>c \<in> set (mgr_cleaners mgr). orphan_cleaner_on_server api cl view c"
    and run: "Delete_all api mgr r = (Ret (results, err), r')"
  obtains rs extra where "results = rs @ extra"
    "\<forall>y \<in> set extra. res_OperationResult y \<noteq> OperationResultDeleted"
    "list_all2 (deletion_report api cl view (mgr_clusters mgr) r')
      (managed_pairs (mgr_clusters mgr)) rs"
    "\<And>mc m. (mc, m) \<in> set (managed_pairs (mgr_clusters mgr)) \<Longrightarrow>
       kind_of (GetObject r' m) = kind_of (GetObject r m) \<and>
       object_key (GetObject r' m) = object_key (GetObject r m)"
proof -
  let ?cs = "mgr_clusters mgr"
  from run obtain rs r1 where loop:
      "map_prog (\<lambda>(mc, m). reconcileObject api (getDependents ?cs) True mc m) (managed_pairs ?cs) r =
        (Ret rs, r1)"
    and clean: "run_cleaners (mgr_cleaners mgr) rs r1 = ((results, err), r')"
    unfolding Delete_all_def by (rule reconcileObjects_parts)
  note deleting = api_server.delete_loop(1) [OF server known loop]
    and reports = api_server.delete_loop(2) [OF server known loop]
  have "\<forall>c \<in> set (mgr_cleaners mgr). orphan_cleaner c"
    using cleaners by (simp add: orphan_cleaner_on_server_def)
  from run_cleaners_results [OF this clean] obtain extra where
      out: "results = rs @ extra"
        "\<forall>y \<in> set extra. res_OperationResult y \<noteq> OperationResultDeleted"
      and heap: "\<forall>j < r_next r1. r_heap r' j = r_heap r1 j"
    by blast
  have later: "gone view k r' m" if "(mc, m) \<in> set (managed_pairs ?cs)" "gone view k r1 m" for k mc m
  proof -
    have "m_ref m < r_next r1"
      using refs_below_pair [OF refs that(1)] deleting by (simp add: deleting_def)
    with heap have "GetObject r' m = GetObject r1 m" by (simp add: GetObject_def)
    with that(2) show ?thesis
      using run_cleaners_adds_nothing [OF cleaners clean] by (simp add: gone_def)
  qed
  have "list_all2 (deletion_report api cl view ?cs r') (managed_pairs ?cs) rs"
  proof (rule list.rel_mono_strong [OF reports])
    fix p res
    assume "p \<in> set (managed_pairs ?cs)" "deletion_report api cl view ?cs r1 p res"
    then show "deletion_report api cl view ?cs r' p res"
      using deletion_report_later later by blast
  qed
  moreover have "kind_of (GetObject r' m) = kind_of (GetObject r m) \<and>
       object_key (GetObject r' m) = object_key (GetObject r m)"
    if "(mc, m) \<in> set (managed_pairs ?cs)" for mc m
    using heap refs_below_pair [OF refs that] deleting by (simp add: deleting_def GetObject_def)
  ultimately show ?thesis using out that by blast
qed

section \<open>Applying on servers that keep their contract\<close>

text \<open>
  A reconcile function that, on objects of the kind and key of the managed object, leaves
  the managed-by label, the kind and the key alone.
\<close>

definition keeps_label :: "object \<Rightarrow> 'w managed_object \<Rightarrow> bool" where
  "keeps_label ob m \<longleftrightarrow> (\<forall>o0 w0 o1 w1. Reconcile m o0 w0 = (Ret None, o1, w1) \<longrightarrow> is_managed o0 \<longrightarrow>
     kind_of o0 = kind_of ob \<longrightarrow> object_key o0 = object_key ob \<longrightarrow>
     is_managed o1 \<and> kind_of o1 = kind_of o0 \<and> object_key o1 = object_key o0)"

lemma is_managed_labels: "o_Labels o1 = o_Labels o2 \<Longrightarrow> is_managed o1 = is_managed o2"
  by (simp add: is_managed_iff)

lemma keeps_labelD:
  assumes "keeps_label ob m" and "mutate_managed m o0 w0 = (Ret None, o1, w1)"
    and "kind_of o0 = kind_of ob" "object_key o0 = object_key ob"
  shows "is_managed o1" "kind_of o1 = kind_of o0" "object_key o1 = object_key o0"
proof -
  have "Reconcile m (SetManagedBy o0) w0 = (Ret None, o1, w1)"
    using assms(2) by (simp add: mutate_managed_def)
  with assms have "is_managed o1 \<and> kind_of o1 = kind_of (SetManagedBy o0) \<and>
      object_key o1 = object_key (SetManagedBy o0)"
    unfolding keeps_label_def by (metis SetManagedBy_managed SetManagedBy_fields(6,7))
  then show "is_managed o1" "kind_of o1 = kind_of o0" "object_key o1 = object_key o0" by simp_all
qed

lemma apply_object_result:
  assumes "apply_object api mc m r = (Ret res, r')"
  shows "res_Object res = m" "res_Cluster res = mc" "r_next r' = r_next r"
    "j \<noteq> m_ref m \<Longrightarrow> r_heap r' j = r_heap r j"
    "CreateOrUpdate api (c_client mc) (GetObject r m) (mutate_managed m) (r_world r) =
       (Ret (res_OperationResult res, res_Error res), GetObject r' m, r_world r')"
  using assms by (auto simp: apply_object_def set_object_def GetObject_def split: prod.splits go.splits)

lemma apply_object_frame:
  "r_next (snd (apply_object api mc m r)) = r_next r"
  "j \<noteq> m_ref m \<Longrightarrow> r_heap (snd (apply_object api mc m r)) j = r_heap r j"
  by (simp_all add: apply_object_def set_object_def split: prod.splits go.splits)

context api_server
begin

lemma apply_object_ok:
  assumes mc: "c_client mc = cl i" and keep: "keeps_label (GetObject r m) m"
    and run: "apply_object api mc m r = (Ret res, r')" and ok: "res_Error res = None"
  shows "is_managed (GetObject r' m)"
    "kind_of (GetObject r' m) = kind_of (GetObject r m)"
    "object_key (GetObject r' m) = object_key (GetObject r m)"
    "view i (r_world r') (kind_of (GetObject r' m)) (object_key (GetObject r' m)) = Some (GetObject r' m)"
proof -
  have up: "CreateOrUpdate api (cl i) (GetObject r m) (mutate_managed m) (r_world r) =
      (Ret (res_OperationResult res, None), GetObject r' m, r_world r')"
    using apply_object_result(5) [OF run] mc ok by simp
  from upsert_ok [OF up] obtain o0 w0 o1 w1 where f: "mutate_managed m o0 w0 = (Ret None, o1, w1)"
    and o0: "object_key o0 = object_key (GetObject r m)" "kind_of o0 = kind_of (GetObject r m)"
    and o1: "object_key (GetObject r' m) = object_key o1" "o_Labels (GetObject r' m) = o_Labels o1"
      "o_Body (GetObject r' m) = o_Body o1"
    by blast
  note kept = keeps_labelD [OF keep f o0(2,1)]
  show "is_managed (GetObject r' m)" using kept(1) is_managed_labels [OF o1(2)] by simp
  show "kind_of (GetObject r' m) = kind_of (GetObject r m)" using kept o0 o1 by simp
  show "object_key (GetObject r' m) = object_key (GetObject r m)" using kept o0 o1 by simp
  show "view i (r_world r') (kind_of (GetObject r' m)) (object_key (GetObject r' m)) =
      Some (GetObject r' m)"
    by (rule upsert_stored [OF up])
qed

lemma apply_object_no_panic:
  assumes mc: "c_client mc = cl i"
    and safe: "\<And>o' w. kind_of o' = kind_of (GetObject r m) \<Longrightarrow> \<not> panics (fst (Reconcile m o' w))"
  shows "\<not> panics (fst (apply_object api mc m r))"
proof (rule notI)
  assume "panics (fst (apply_object api mc m r))"
  then obtain p o'' w' where
    "CreateOrUpdate api (cl i) (GetObject r m) (mutate_managed m) (r_world r) = (Panic p, o'', w')"
    using mc by (auto simp: apply_object_def split: prod.splits go.splits)
  from upsert_panic [OF this] obtain o0 w0 where
    "panics (fst (Reconcile m (SetManagedBy o0) w0))" "kind_of o0 = kind_of (GetObject r m)"
    by (auto simp: mutate_managed_def)
  with safe [of "SetManagedBy o0" w0] show False by simp
qed

end

text \<open>The first step of a loop over objects with distinct references leaves the other objects alone.\<close>

lemma fresh_objects:
  assumes "distinct (map (m_ref \<circ> snd) (p # ps))" "\<And>j. j \<noteq> m_ref (snd p) \<Longrightarrow> r_heap r1 j = r_heap r j"
  shows "distinct (map (m_ref \<circ> snd) ps)" "\<forall>q \<in> set ps. GetObject r1 (snd q) = GetObject r (snd q)"
  using assms(1) by (simp, auto simp: GetObject_def image_iff intro!: assms(2))

lemma same_objects_all:
  assumes "\<forall>q \<in> set ps. GetObject r1 (snd q) = GetObject r (snd q)" "\<forall>(mc, m) \<in> set ps. P mc m (GetObject r m)"
  shows "\<forall>(mc, m) \<in> set ps. P mc m (GetObject r1 m)"
  using assms by fastforce

lemma apply_loop_Cons:
  assumes "distinct (map (m_ref \<circ> snd) (p # ps))" "map_prog (\<lambda>(mc, m). apply_object api mc m) (p # ps) r = (Ret rs, r')"
  obtains res r1 rs' where "apply_object api (fst p) (snd p) r = (Ret res, r1)"
    "map_prog (\<lambda>(mc, m). apply_object api mc m) ps r1 = (Ret rs', r')" "rs = res # rs'"
    "distinct (map (m_ref \<circ> snd) ps)" "\<forall>q \<in> set ps. GetObject r1 (snd q) = GetObject r (snd q)"
proof -
  from assms(2) obtain res r1 rs' where one: "apply_object api (fst p) (snd p) r = (Ret res, r1)"
    and rest: "map_prog (\<lambda>(mc, m). apply_object api mc m) ps r1 = (Ret rs', r')" "rs = res # rs'"
    by (auto simp: bind_prog_Ret_iff ret_apply case_prod_unfold)
  from one rest fresh_objects [OF assms(1) apply_object_result(4) [OF one]] show thesis by (rule that)
qed

text \<open>A loop over objects with distinct references leaves each object as its own step left it.\<close>

lemma apply_loop:
  assumes "distinct (map (m_ref \<circ> snd) ps)"
    and "map_prog (\<lambda>(mc, m). apply_object api mc m) ps r = (Ret rs, r')"
  shows "r_next r' = r_next r \<and> (\<forall>j. j \<notin> set (map (m_ref \<circ> snd) ps) \<longrightarrow> r_heap r' j = r_heap r j) \<and>
    list_all2 (\<lambda>(mc, m) res. \<exists>t t'. GetObject t m = GetObject r m \<and>
        apply_object api mc m t = (Ret res, t') \<and> GetObject r' m = GetObject t' m) ps rs"
  using assms
proof (induction ps arbitrary: r rs)
  case Nil
  then show ?case by (simp add: ret_apply)
next
  case (Cons p ps)
  show ?case
  proof (rule apply_loop_Cons [OF Cons.prems])
    fix res r1 rs'
    assume one: "apply_object api (fst p) (snd p) r = (Ret res, r1)"
      and rest: "map_prog (\<lambda>(mc, m). apply_object api mc m) ps r1 = (Ret rs', r')" and rs: "rs = res # rs'"
      and d: "distinct (map (m_ref \<circ> snd) ps)" and same: "\<forall>q \<in> set ps. GetObject r1 (snd q) = GetObject r (snd q)"
    note IH = Cons.IH [OF d rest] and frame = apply_object_result(3,4) [OF one]
    have "list_all2 (\<lambda>(mc, m) res. \<exists>t t'. GetObject t m = GetObject r m \<and>
          apply_object api mc m t = (Ret res, t') \<and> GetObject r' m = GetObject t' m) ps rs'"
      by (rule list.rel_mono_strong [OF conjunct2 [OF conjunct2 [OF IH]]]) (use same in \<open>auto, metis snd_conv\<close>)
    moreover have "GetObject r' (snd p) = GetObject r1 (snd p)"
      using IH Cons.prems(1) by (simp add: GetObject_def)
    ultimately show ?case using IH frame one rs by (auto simp: case_prod_unfold)
  qed
qed

text \<open>
  A reconcile function that, on objects of the type of the managed object, returns and
  leaves the type alone; a status function that returns on them.
\<close>

definition reconciles :: "object \<Rightarrow> 'w managed_object \<Rightarrow> bool" where
  "reconciles ob m \<longleftrightarrow> (\<forall>o0 w0. kind_of o0 = kind_of ob \<longrightarrow>
     kind_of (fst (snd (Reconcile m o0 w0))) = kind_of ob \<and> \<not> panics (fst (Reconcile m o0 w0)))"

definition shows_status :: "object \<Rightarrow> 'w managed_object \<Rightarrow> bool" where
  "shows_status ob m \<longleftrightarrow> (\<forall>f o0 rl. m_statusFunc m = Some f \<longrightarrow> kind_of o0 = kind_of ob \<longrightarrow>
     \<not> panics (f o0 rl))"

lemma shows_statusD:
  "shows_status ob m \<Longrightarrow> kind_of (GetObject r m) = kind_of ob \<Longrightarrow> \<not> panics (GetStatusOf r m rl)"
  by (auto simp: shows_status_def GetStatusOf_def split: option.splits)

context api_server
begin

lemma apply_object_kind:
  assumes mc: "c_client mc = cl i" and m: "reconciles (GetObject r m) m"
    and run: "apply_object api mc m r = (x, r')"
  shows "kind_of (GetObject r' m) = kind_of (GetObject r m)"
proof -
  obtain y o'' w' where up: "CreateOrUpdate api (cl i) (GetObject r m) (mutate_managed m) (r_world r) = (y, o'', w')"
    by (metis prod.exhaust)
  have "kind_of o'' = kind_of (GetObject r m)"
    by (rule upsert_kind [OF up]) (use m in \<open>simp add: reconciles_def mutate_managed_def\<close>)
  moreover have "GetObject r' m = o''"
    using run up mc by (auto simp: apply_object_def set_object_def GetObject_def split: go.splits)
  ultimately show ?thesis by simp
qed

lemma apply_loop_returns:
  assumes "distinct (map (m_ref \<circ> snd) ps)"
    and "\<forall>(mc, m) \<in> set ps. (\<exists>i. c_client mc = cl i) \<and> reconciles (GetObject r m) m"
  shows "\<exists>rs r'. map_prog (\<lambda>(mc, m). apply_object api mc m) ps r = (Ret rs, r') \<and>
    (\<forall>(mc, m) \<in> set ps. kind_of (GetObject r' m) = kind_of (GetObject r m)) \<and>
    (\<forall>j. j \<notin> set (map (m_ref \<circ> snd) ps) \<longrightarrow> r_heap r' j = r_heap r j)"
  using assms
proof (induction ps arbitrary: r)
  case Nil
  then show ?case by (simp add: ret_apply)
next
  case (Cons p ps)
  obtain mc m where p: "p = (mc, m)" by fastforce
  obtain i where i: "c_client mc = cl i" and m: "reconciles (GetObject r m) m"
    using Cons.prems(2) p by auto
  have "\<not> panics (fst (apply_object api mc m r))"
    by (rule apply_object_no_panic [OF i]) (use m in \<open>simp add: reconciles_def\<close>)
  then obtain res r1 where one: "apply_object api mc m r = (Ret res, r1)"
    by (cases "apply_object api mc m r") (auto simp: not_panics_iff)
  note kind = apply_object_kind [OF i m one] and frame = apply_object_result(4) [OF one]
  have "m_ref (snd p) = m_ref m" by (simp add: p)
  note fresh = fresh_objects [OF Cons.prems(1) frame [folded this]]
  have "\<forall>(mc, m) \<in> set ps. (\<exists>i. c_client mc = cl i) \<and> reconciles (GetObject r1 m) m"
    using Cons.prems(2) fresh(2) by (auto simp: case_prod_unfold)
  with fresh(1) obtain rs r' where
    rest: "map_prog (\<lambda>(mc, m). apply_object api mc m) ps r1 = (Ret rs, r')"
    and kinds: "\<forall>(mc, m) \<in> set ps. kind_of (GetObject r' m) = kind_of (GetObject r1 m)"
    and heap: "\<forall>j. j \<notin> set (map (m_ref \<circ> snd) ps) \<longrightarrow> r_heap r' j = r_heap r1 j"
    using Cons.IH by blast
  have run: "map_prog (\<lambda>(mc, m). apply_object api mc m) (p # ps) r = (Ret (res # rs), r')"
    using one rest p by (simp add: bind_prog_def ret_apply)
  have "GetObject r' m = GetObject r1 m" using heap Cons.prems(1) p by (simp add: GetObject_def)
  then have "\<forall>(mc, m) \<in> set (p # ps). kind_of (GetObject r' m) = kind_of (GetObject r m)"
    using kinds fresh(2) kind p by (auto simp: case_prod_unfold)
  moreover have "\<forall>j. j \<notin> set (map (m_ref \<circ> snd) (p # ps)) \<longrightarrow> r_heap r' j = r_heap r j"
    using heap frame p by simp
  ultimately show ?case using run by blast
qed

end

section \<open>Passes that do not panic\<close>

lemma reconcileObjects_no_panic:
  assumes "\<And>mc m s. (mc, m) \<in> set (managed_pairs (mgr_clusters mgr)) \<Longrightarrow>
      \<not> panics (fst (reconcileObject api (getDependents (mgr_clusters mgr)) isDeletion mc m s))"
  shows "\<not> panics (fst (reconcileObjects api mgr isDeletion r))"
proof -
  have "\<not> panics (fst (map_prog (\<lambda>(mc, m). reconcileObject api (getDependents (mgr_clusters mgr))
      isDeletion mc m) (managed_pairs (mgr_clusters mgr)) r))"
    by (rule map_prog_no_panic) (auto simp: assms)
  then show ?thesis
    unfolding reconcileObjects_flat bind_prog_def
    by (auto simp: not_panics_iff split: prod.splits)
qed

lemma delete_never_panics: "\<not> panics (fst (reconcileObject api deps True mc m s))"
  by (simp add: reconcileObject_def split: prod.splits)

end
