(* ===== verification/Manager_Liveness.thy ===== *)
theory Manager_Liveness
  imports Manager_Correct
begin

text \<open>
  Deletion comes to an end. Every reconciliation builds its manager again and runs one
  deletion pass; on servers that answer and that delete at once, objects vanish in the
  order of their dependencies, one level per pass at the latest, and then every object is
  reported as deleted.
\<close>

section \<open>Servers that answer and delete at once\<close>

locale prompt_server = api_server api cl view
  for api :: "'w kube_api" and cl :: "'c \<Rightarrow> 'w client"
    and view :: "'c \<Rightarrow> 'w \<Rightarrow> string \<Rightarrow> object_key \<Rightarrow> object option" +
  fixes healthy :: "'w \<Rightarrow> bool"
  assumes get_healthy: "cl_get (cl i) k o' w = ((e, o''), w') \<Longrightarrow> healthy w \<Longrightarrow> healthy w'"
    and get_answers: "cl_get (cl i) k o' w = ((e, o''), w') \<Longrightarrow> healthy w \<Longrightarrow>
          view i w (kind_of o') k = None \<Longrightarrow> IsNotFound api e"
    and delete_healthy: "cl_delete (cl i) o' w = (e, w') \<Longrightarrow> healthy w \<Longrightarrow> healthy w'"
    and delete_prompt: "cl_delete (cl i) o' w = (e, w') \<Longrightarrow> healthy w \<Longrightarrow>
          view i w' (kind_of o') (object_key o') = None"
    and delete_answers: "cl_delete (cl i) o' w = (e, w') \<Longrightarrow> healthy w \<Longrightarrow>
          view i w (kind_of o') (object_key o') = None \<Longrightarrow> IsNotFound api e"
begin

lemma refresh_healthy:
  assumes mc: "c_client mc = cl i" and ref: "refresh m mc r = (e, r')" and h: "healthy (r_world r)"
  shows "healthy (r_world r')" "gone view i r m \<Longrightarrow> IsNotFound api e"
proof -
  obtain o'' w' where g:
    "cl_get (cl i) (object_key (GetObject r m)) (GetObject r m) (r_world r) = ((e, o''), w')"
    and r': "r_world r' = w'"
    using mc ref by (auto simp: refresh_def Let_def split: prod.splits)
  show "healthy (r_world r')" using get_healthy [OF g h] r' by simp
  show "gone view i r m \<Longrightarrow> IsNotFound api e" using get_answers [OF g h] by (simp add: gone_def)
qed

lemma dependent_errors_healthy:
  assumes "known_clusters cl (map d_Cluster deps)" and "dependent_errors api deps errs r = (errs', r')"
    and "healthy (r_world r)"
  shows "healthy (r_world r') \<and>
    ((\<forall>d \<in> set deps. \<forall>i. c_client (d_Cluster d) = cl i \<longrightarrow> gone view i r (d_Object d)) \<longrightarrow> errs' = errs)"
  using assms
proof (induction deps arbitrary: errs r)
  case Nil
  then show ?case by simp
next
  case (Cons d deps)
  obtain e r1 where ref: "refresh (d_Object d) (d_Cluster d) r = (e, r1)" by fastforce
  obtain i where i: "c_client (d_Cluster d) = cl i"
    using Cons.prems(1) by (auto simp: known_clusters_def)
  note h1 = refresh_healthy [OF i ref Cons.prems(3)] and step = refresh_step [OF i ref]
  have known: "known_clusters cl (map d_Cluster deps)"
    using Cons.prems(1) by (simp add: known_clusters_def)
  obtain errs1 where rest: "dependent_errors api deps (errs @ errs1) r1 = (errs', r')"
      and errs1: "IsNotFound api e \<longrightarrow> errs1 = []"
    using Cons.prems(2) ref by (cases e) (auto split: if_splits intro: that [of "[]"])
  note IH = Cons.IH [OF known rest h1(1)]
  have unread: "gone view k r1 m = gone view k r m" for k m
    by (rule deleting_gone_back [OF step(1)]) (simp add: step(2))
  have "errs' = errs"
    if all: "\<forall>d \<in> set (d # deps). \<forall>i. c_client (d_Cluster d) = cl i \<longrightarrow> gone view i r (d_Object d)"
  proof -
    have "IsNotFound api e" using h1(2) all i by simp
    moreover have "\<forall>d \<in> set deps. \<forall>i. c_client (d_Cluster d) = cl i \<longrightarrow> gone view i r1 (d_Object d)"
      using all by (simp add: unread)
    ultimately show ?thesis using IH errs1 by simp
  qed
  with IH show ?case by blast
qed

lemma delete_object_healthy:
  assumes mc: "c_client mc = cl i" and known: "known_clusters cl (map d_Cluster (deps (m_ref m)))"
    and del: "delete_object api deps mc m r = (res, r')" and h: "healthy (r_world r)"
  shows "healthy (r_world r')"
    "(\<forall>d \<in> set (deps (m_ref m)). \<forall>k. c_client (d_Cluster d) = cl k \<longrightarrow> gone view k r (d_Object d)) \<Longrightarrow>
       (GetDeletionPolicy m \<noteq> Orphan \<longrightarrow> gone view i r' m) \<and>
       (GetDeletionPolicy m = Orphan \<or> gone view i r m \<longrightarrow>
          res_OperationResult res = OperationResultDeleted \<and> res_Error res = None)"
proof -
  obtain errs r1 where de: "dependent_errors api (deps (m_ref m)) [] r = (errs, r1)" by fastforce
  then have chk: "checkForDependents api (deps (m_ref m)) r = (errors_join (map Some errs), r1)"
    by (simp add: checkForDependents_def)
  note dep = dependent_errors_healthy [OF known de h] and check = checkForDependents_step [OF known chk]
  note cases = delete_object_cases [OF del chk]
  have h1: "healthy (r_world r1)" using dep by blast
  show "healthy (r_world r')"
    by (rule cases) (use delete_healthy mc h1 in auto)
  assume "\<forall>d \<in> set (deps (m_ref m)). \<forall>k. c_client (d_Cluster d) = cl k \<longrightarrow> gone view k r (d_Object d)"
  with dep have errs: "errs = []" by blast
  have prompt: "gone view i (r1\<lparr>r_world := w\<rparr>) m"
    if "cl_delete (c_client mc) (GetObject r1 m) (r_world r1) = (derr, w)" for derr w
    using delete_prompt [of i] that mc h1 by (simp add: gone_def GetObject_def)
  have answer: "IsNotFound api derr"
    if "cl_delete (c_client mc) (GetObject r1 m) (r_world r1) = (derr, w)" "gone view i r m" for derr w
    using delete_answers [of i] deleting_gone [OF check(1) that(2)] that(1) mc h1
    by (simp add: gone_def)
  show "(GetDeletionPolicy m \<noteq> Orphan \<longrightarrow> gone view i r' m) \<and>
       (GetDeletionPolicy m = Orphan \<or> gone view i r m \<longrightarrow>
          res_OperationResult res = OperationResultDeleted \<and> res_Error res = None)"
  proof (rule cases)
    assume "errors_join (map Some errs) \<noteq> None"
    with errs show ?thesis by (simp add: errors_join_def)
  qed (use prompt answer in \<open>auto simp: OperationResultOrphaned_def\<close>)
qed

end

interpretation refprompt: prompt_server ref_api ref_client ref_view
  "\<lambda>w. rw_down w = [] \<and> rw_held w = [] \<and> rw_custom w = (\<lambda>_ _. None)"
proof (unfold_locales, goal_cases)
  case (1 i k o' w e o'' w')
  then show ?case using ref_get_result(1) by (metis ref_client_simps(1))
next
  case (2 i k o' w e o'' w')
  then show ?case by (auto simp: ref_get_def split: if_splits option.splits)
next
  case (3 i o' w e w')
  then show ?case
    by (auto simp: ref_delete_def Let_def ref_set_store_def split: if_splits option.splits)
next
  case (4 i o' w e w')
  then show ?case
    using ref_delete_view [of i o' w w' i "kind_of o'" "object_key o'"]
    by (cases e) (auto simp: ref_delete_def Let_def split: if_splits option.splits)
next
  case (5 i o' w e w')
  then show ?case by (auto simp: ref_delete_def Let_def split: if_splits option.splits)
qed

section \<open>Passes\<close>

text \<open>
  \<open>n\<close> deletion passes. Each starts from the objects as the controller builds them
  (the run \<open>r0\<close>) and from the world the pass before has left.
\<close>

fun delete_passes :: "'w kube_api \<Rightarrow> 'w manager \<Rightarrow> 'w run \<Rightarrow> nat \<Rightarrow> 'w \<Rightarrow> 'w" where
  "delete_passes api mgr r0 0 w = w"
| "delete_passes api mgr r0 (Suc n) w =
     r_world (snd (Delete_all api mgr (r0\<lparr>r_world := delete_passes api mgr r0 n w\<rparr>)))"

text \<open>
  The level of an object is above the levels of its dependents, and an object that is kept
  on deletion is nobody's dependent.
\<close>

definition levelled :: "(nat \<Rightarrow> nat) \<Rightarrow> 'w managed_cluster list \<Rightarrow> bool" where
  "levelled level clusters \<longleftrightarrow>
     (\<forall>(mc, m) \<in> set (managed_pairs clusters).
        (\<forall>i \<in> set (GetDependencies m). level (m_ref m) < level i) \<and>
        (GetDeletionPolicy m = Orphan \<longrightarrow> GetDependencies m = []))"

text \<open>All objects below a level that are to be deleted are gone.\<close>

definition gone_below ::
    "('c \<Rightarrow> 'w client) \<Rightarrow> ('c \<Rightarrow> 'w \<Rightarrow> string \<Rightarrow> object_key \<Rightarrow> object option) \<Rightarrow> (nat \<Rightarrow> nat) \<Rightarrow>
     'w managed_cluster list \<Rightarrow> nat \<Rightarrow> 'w run \<Rightarrow> bool" where
  "gone_below cl view level clusters n r \<longleftrightarrow>
     (\<forall>(mc, m) \<in> set (managed_pairs clusters). \<forall>i.
        GetDeletionPolicy m \<noteq> Orphan \<longrightarrow> level (m_ref m) < n \<longrightarrow> c_client mc = cl i \<longrightarrow> gone view i r m)"

lemma gone_belowD:
  "gone_below cl view level clusters n r \<Longrightarrow> (mc, m) \<in> set (managed_pairs clusters) \<Longrightarrow>
     GetDeletionPolicy m \<noteq> Orphan \<Longrightarrow> level (m_ref m) < n \<Longrightarrow> c_client mc = cl i \<Longrightarrow> gone view i r m"
  by (auto simp: gone_below_def)

lemma gone_below_later:
  assumes "gone_below cl view level clusters n r"
    and "\<And>k mc m. (mc, m) \<in> set (managed_pairs clusters) \<Longrightarrow> gone view k r m \<Longrightarrow> gone view k r' m"
  shows "gone_below cl view level clusters n r'"
  using assms unfolding gone_below_def by blast

context prompt_server
begin

lemma dependents_gone_below:
  assumes lev: "levelled level clusters" and below: "gone_below cl view level clusters n r"
    and m: "level (m_ref m) < Suc n"
  shows "\<forall>d \<in> set (getDependents clusters (m_ref m)). \<forall>k. c_client (d_Cluster d) = cl k \<longrightarrow>
           gone view k r (d_Object d)"
proof (intro ballI allI impI)
  fix d k assume d: "d \<in> set (getDependents clusters (m_ref m))" and k: "c_client (d_Cluster d) = cl k"
  from d have pair: "(d_Cluster d, d_Object d) \<in> set (managed_pairs clusters)"
    and dep: "m_ref m \<in> set (GetDependencies (d_Object d))"
    by (simp_all add: getDependents_iff in_managed_pairs)
  from lev pair dep have "level (m_ref (d_Object d)) < level (m_ref m)"
    "GetDeletionPolicy (d_Object d) \<noteq> Orphan"
    by (auto simp: levelled_def)
  with below pair k m show "gone view k r (d_Object d)"
    by (intro gone_belowD [OF below pair]) auto
qed

text \<open>What a step of the pass keeps, and what it achieves once the levels below are gone.\<close>

lemma delete_step_keeps:
  assumes known: "known_clusters cl clusters" and x: "x \<in> set (managed_pairs clusters)"
  shows "deleting view s (snd ((\<lambda>(mc, m). reconcileObject api (getDependents clusters) True mc m) x s)) \<and>
    (healthy (r_world s) \<longrightarrow>
       healthy (r_world (snd ((\<lambda>(mc, m). reconcileObject api (getDependents clusters) True mc m) x s))))"
proof -
  obtain mc m where p: "x = (mc, m)" by fastforce
  with x known obtain i where i: "c_client mc = cl i"
    by (auto simp: known_clusters_def list_all_iff in_managed_pairs)
  obtain res s' where del: "delete_object api (getDependents clusters) mc m s = (res, s')" by fastforce
  show ?thesis
    using delete_object_step(1) [OF i known_dependents [OF known] del]
      delete_object_healthy(1) [OF i known_dependents [OF known] del] del p
    by (simp add: reconcileObject_def)
qed

lemma delete_step_level:
  assumes known: "known_clusters cl clusters" and lev: "levelled level clusters"
    and mem: "(mc, m) \<in> set (managed_pairs clusters)"
    and h: "healthy (r_world t)" and below: "gone_below cl view level clusters n t"
    and run: "reconcileObject api (getDependents clusters) True mc m t = (Ret y, t')"
  shows "level (m_ref m) < Suc n \<Longrightarrow> GetDeletionPolicy m \<noteq> Orphan \<Longrightarrow> c_client mc = cl k \<Longrightarrow> gone view k t' m"
    "level (m_ref m) < n \<Longrightarrow> res_OperationResult y = OperationResultDeleted \<and> res_Error y = None"
proof -
  have del: "delete_object api (getDependents clusters) mc m t = (y, t')"
    using run by (auto simp: reconcileObject_def split: prod.splits)
  obtain i where i: "c_client mc = cl i"
    using known mem by (auto simp: known_clusters_def list_all_iff in_managed_pairs)
  note one = delete_object_healthy(2) [OF _ known_dependents [OF known] del h dependents_gone_below [OF lev below]]
  show "gone view k t' m" if "level (m_ref m) < Suc n" "GetDeletionPolicy m \<noteq> Orphan" "c_client mc = cl k"
    using one [OF that(3,1)] that(2) by blast
  show "res_OperationResult y = OperationResultDeleted \<and> res_Error y = None" if lt: "level (m_ref m) < n"
  proof -
    have "GetDeletionPolicy m = Orphan \<or> gone view i t m" using gone_belowD [OF below mem _ lt i] by blast
    with one [OF i] lt show ?thesis by simp
  qed
qed

text \<open>
  One pass over the objects: one more level is gone, and on a run where all of them are
  gone every result is "deleted".
\<close>

lemma delete_loop_level:
  assumes known: "known_clusters cl clusters" and lev: "levelled level clusters"
    and h: "healthy (r_world r)" and below: "gone_below cl view level clusters n r"
    and run: "map_prog (\<lambda>(mc, m). reconcileObject api (getDependents clusters) True mc m)
        (managed_pairs clusters) r = (Ret results, r')"
  shows "healthy (r_world r')" "gone_below cl view level clusters (Suc n) r'"
    "(\<forall>(mc, m) \<in> set (managed_pairs clusters). level (m_ref m) < n) \<Longrightarrow>
       \<forall>res \<in> set results. res_OperationResult res = OperationResultDeleted \<and> res_Error res = None"
proof -
  let ?f = "\<lambda>(mc, m). reconcileObject api (getDependents clusters) True mc m"
  let ?ps = "managed_pairs clusters"
  let ?R = "\<lambda>s t. deleting view s t \<and> (healthy (r_world s) \<longrightarrow> healthy (r_world t))"
  have stages: "?R r r' \<and> list_all2 (\<lambda>x y. \<exists>t t'. ?R r t \<and> ?f x t = (Ret y, t') \<and> ?R t' r') ?ps results"
    by (rule map_prog_stages [where R = ?R, OF _ _ delete_step_keeps [OF known] run]) (auto intro: deleting_trans)
  show "healthy (r_world r')" using stages h by blast
  have at: "\<exists>t t'. healthy (r_world t) \<and> gone_below cl view level clusters n t \<and>
      reconcileObject api (getDependents clusters) True mc m t = (Ret (results ! i), t') \<and> deleting view t' r'"
    if "i < length ?ps" "?ps ! i = (mc, m)" for i mc m
    using list_all2_nthD [OF conjunct2 [OF stages] that(1)] that(2) h gone_below_later [OF below deleting_gone] by auto
  show "gone_below cl view level clusters (Suc n) r'"
    unfolding gone_below_def
  proof (clarify)
    fix mc m k assume mem: "(mc, m) \<in> set ?ps" and *: "GetDeletionPolicy m \<noteq> Orphan"
      "level (m_ref m) < Suc n" "c_client mc = cl k"
    then obtain i where "i < length ?ps" "?ps ! i = (mc, m)" by (auto simp: in_set_conv_nth)
    from at [OF this] show "gone view k r' m"
      using delete_step_level(1) [OF known lev mem] * deleting_gone by metis
  qed
  show "\<forall>res \<in> set results. res_OperationResult res = OperationResultDeleted \<and> res_Error res = None"
    if all: "\<forall>(mc, m) \<in> set ?ps. level (m_ref m) < n"
  proof
    fix res assume "res \<in> set results"
    then obtain i where i: "i < length ?ps" "results ! i = res"
      using list_all2_lengthD [OF conjunct2 [OF stages]] by (auto simp: in_set_conv_nth)
    obtain mc m where x: "?ps ! i = (mc, m)" by fastforce
    have mem: "(mc, m) \<in> set ?ps" using i(1) x nth_mem by fastforce
    then have "level (m_ref m) < n" using all by blast
    with at [OF i(1) x] delete_step_level(2) [OF known lev mem] i(2)
    show "res_OperationResult res = OperationResultDeleted \<and> res_Error res = None" by metis
  qed
qed

end

section \<open>All passes\<close>

text \<open>A cleaner that keeps the servers as they answer.\<close>

definition cleaner_keeps :: "('w \<Rightarrow> bool) \<Rightarrow> 'w cleaner \<Rightarrow> bool" where
  "cleaner_keeps healthy c \<longleftrightarrow> (\<forall>r x r'. c r = (x, r') \<longrightarrow> healthy (r_world r) \<longrightarrow> healthy (r_world r'))"

lemma run_cleaners_keeps:
  assumes "\<forall>c \<in> set cs. cleaner_keeps healthy c" and "run_cleaners cs results r = (out, r')"
    and "healthy (r_world r)"
  shows "healthy (r_world r')"
  using assms
proof (induction cs arbitrary: results r)
  case Nil
  then show ?case by simp
next
  case (Cons c cs)
  obtain x r1 where c: "c r = (x, r1)" by fastforce
  have h: "healthy (r_world r1)" using Cons.prems c by (auto simp: cleaner_keeps_def)
  show ?case
  proof (cases x)
    case (Inl err)
    with Cons.prems(2) c h show ?thesis by auto
  next
    case (Inr rs)
    with Cons.prems(2) c have "run_cleaners cs (results @ rs) r1 = (out, r')" by simp
    with Cons.IH Cons.prems(1) h show ?thesis by simp
  qed
qed

lemma delete_pass_level:
  assumes server: "prompt_server api cl view healthy" and known: "known_clusters cl (mgr_clusters mgr)"
    and refs: "refs_below (r_next r) (mgr_clusters mgr)" and lev: "levelled level (mgr_clusters mgr)"
    and cleaners: "\<forall>c \<in> set (mgr_cleaners mgr). orphan_cleaner_on_server api cl view c \<and> cleaner_keeps healthy c"
    and h: "healthy (r_world r)" and below: "gone_below cl view level (mgr_clusters mgr) n r"
    and run: "Delete_all api mgr r = (Ret (results, err), r')"
  obtains rs extra where "results = rs @ extra" "length rs = length (managed_pairs (mgr_clusters mgr))"
    "healthy (r_world r')" "gone_below cl view level (mgr_clusters mgr) (Suc n) r'"
    "\<forall>(mc, m) \<in> set (managed_pairs (mgr_clusters mgr)).
       kind_of (GetObject r' m) = kind_of (GetObject r m) \<and>
       object_key (GetObject r' m) = object_key (GetObject r m)"
    "(\<forall>(mc, m) \<in> set (managed_pairs (mgr_clusters mgr)). level (m_ref m) < n) \<Longrightarrow>
       \<forall>res \<in> set rs. res_OperationResult res = OperationResultDeleted \<and> res_Error res = None"
proof -
  let ?cs = "mgr_clusters mgr"
  from run obtain rs r1 where loop:
      "map_prog (\<lambda>(mc, m). reconcileObject api (getDependents ?cs) True mc m) (managed_pairs ?cs) r =
        (Ret rs, r1)"
    and clean: "run_cleaners (mgr_cleaners mgr) rs r1 = ((results, err), r')"
    unfolding Delete_all_def by (rule reconcileObjects_parts)
  have as: "api_server api cl view" using server by (simp add: prompt_server_def)
  note level = prompt_server.delete_loop_level [OF server known lev h below loop]
    and deleting = api_server.delete_loop(1) [OF as known loop]
  have on: "\<forall>c \<in> set (mgr_cleaners mgr). orphan_cleaner_on_server api cl view c"
    and keeps: "\<forall>c \<in> set (mgr_cleaners mgr). cleaner_keeps healthy c"
    using cleaners by blast+
  then have "\<forall>c \<in> set (mgr_cleaners mgr). orphan_cleaner c"
    by (simp add: orphan_cleaner_on_server_def)
  from run_cleaners_results [OF this clean] obtain extra where out: "results = rs @ extra"
      and heap: "\<forall>j < r_next r1. r_heap r' j = r_heap r1 j"
    by blast
  have same: "GetObject r' m = GetObject r1 m" if "(mc, m) \<in> set (managed_pairs ?cs)" for mc m
    using refs_below_pair [OF refs that] deleting heap by (simp add: deleting_def GetObject_def)
  have later: "gone view k r' m" if "(mc, m) \<in> set (managed_pairs ?cs)" "gone view k r1 m" for k mc m
    using same [OF that(1)] that(2) run_cleaners_adds_nothing [OF on clean] by (simp add: gone_def)
  show thesis
  proof (rule that [OF out])
    show "length rs = length (managed_pairs ?cs)" by (rule map_prog_length [OF loop])
    show "healthy (r_world r')" by (rule run_cleaners_keeps [OF keeps clean level(1)])
    show "gone_below cl view level ?cs (Suc n) r'"
      by (rule gone_below_later [OF level(2)]) (rule later)
    show "\<forall>(mc, m) \<in> set (managed_pairs ?cs).
       kind_of (GetObject r' m) = kind_of (GetObject r m) \<and>
       object_key (GetObject r' m) = object_key (GetObject r m)"
      using same deleting by (auto simp: deleting_def GetObject_def)
  qed (rule level(3))
qed

end
