(* ===== verification/Orphan_Cleaner.thy ===== *)
theory Orphan_Cleaner
  imports Manager_Liveness
begin

text \<open>
  \<open>pkg/metricsoperator/orphancleaner.go\<close>: the generic cleaner that removes, in one
  name space of one cluster, every object of a kind that carries the managed-by label and
  is not to be kept. A hook may hold a deletion back. The cleaners of secrets and config
  maps are the same loop without the hook; their theories prove so and take their
  properties from here.
\<close>

section \<open>The code\<close>

text \<open>
  The hook takes and may mutate the object; it answers whether to proceed, or an error.
  \<open>EmptyList\<close>, a function that makes an empty list of some type, is that type's kind
  here; \<open>None\<close> is the nil function.
\<close>

type_synonym 'w pre_deletion_steps = "object \<Rightarrow> 'w \<Rightarrow> (bool \<times> gerr option) \<times> object \<times> 'w"

record 'w cleaner_type =
  ct_ObjectsToKeep :: "string list"
  ct_EmptyList :: "string option"
  ct_PreDeletionSteps :: "'w pre_deletion_steps option"

record 'w orphanCleaner =
  oc_cluster :: "'w managed_cluster"
  oc_namespace :: string
  oc_cleanerType :: "'w cleaner_type"

definition NewOrphanCleaner :: "'w managed_cluster \<Rightarrow> string \<Rightarrow> 'w cleaner_type \<Rightarrow> 'w orphanCleaner" where
  "NewOrphanCleaner cluster ns clType =
     \<lparr>oc_cluster = cluster, oc_namespace = ns, oc_cleanerType = clType\<rparr>"

definition cleanupPreparedStatus :: "object \<Rightarrow> resource_location \<Rightarrow> status go" where
  "cleanupPreparedStatus o' rl =
     Ret \<lparr>s_Phase = Terminating, s_Message = ''Orphan cleanup prepared'', s_Location = rl\<rparr>"

definition cleanupErrorStatus :: "object \<Rightarrow> resource_location \<Rightarrow> status go" where
  "cleanupErrorStatus o' rl =
     Ret \<lparr>s_Phase = Terminating, s_Message = ''Orphan cleanup failed'', s_Location = rl\<rparr>"

text \<open>A result on a new managed object, as all cleaners make them.\<close>

definition cleaner_result ::
    "(object \<Rightarrow> resource_location \<Rightarrow> status go) \<Rightarrow> operation_result \<Rightarrow> 'w managed_cluster \<Rightarrow> object \<Rightarrow>
     gerr option \<Rightarrow> 'w run \<Rightarrow> 'w result \<times> 'w run" where
  "cleaner_result status_fn op cluster obj err r =
     (let (mo, r') = NewManagedObject obj
            \<lparr>moc_ReconcileFunc = None, moc_DependsOn = [], moc_DeletionPolicy = Delete,
             moc_StatusFunc = Some status_fn\<rparr> r
      in (\<lparr>res_Object = mo, res_Cluster = cluster, res_OperationResult = op, res_Error = err\<rparr>, r'))"

definition deletionPrepared :: "'w managed_cluster \<Rightarrow> object \<Rightarrow> 'w run \<Rightarrow> 'w result \<times> 'w run" where
  "deletionPrepared cluster obj r =
     cleaner_result cleanupPreparedStatus OperationResultDeletionRequested cluster obj None r"

definition deletionError :: "'w managed_cluster \<Rightarrow> object \<Rightarrow> gerr option \<Rightarrow> 'w run \<Rightarrow> 'w result \<times> 'w run" where
  "deletionError cluster obj err r =
     cleaner_result cleanupErrorStatus OperationResultDeletionFailed cluster obj err r"

text \<open>\<open>slices.ContainsFunc(keep, func(ref) bool { return obj.GetName() == ref.Name })\<close>\<close>

definition to_keep :: "string list \<Rightarrow> object \<Rightarrow> bool" where
  "to_keep keep obj = list_ex (\<lambda>ref. o_Name obj = ref) keep"

text \<open>One object that is not to be kept; the results it adds.\<close>

definition cleanup_step ::
    "'w kube_api \<Rightarrow> 'w orphanCleaner \<Rightarrow> object \<Rightarrow> 'w run \<Rightarrow> 'w result list \<times> 'w run" where
  "cleanup_step api c obj r =
     (let delete = (\<lambda>obj r.
            let (err, w) = cl_delete (c_client (oc_cluster c)) obj (r_world r); r1 = r\<lparr>r_world := w\<rparr>
            in if IgnoreNotFound api err \<noteq> None
               then (let (res, r2) = deletionError (oc_cluster c) obj err r1 in ([res], r2))
               else ([], r1))
      in case ct_PreDeletionSteps (oc_cleanerType c) of
           None \<Rightarrow> delete obj r
         | Some steps \<Rightarrow>
             (case steps obj (r_world r) of
                ((proceed, err), obj', w) \<Rightarrow>
                  let r1 = r\<lparr>r_world := w\<rparr>
                  in if err \<noteq> None
                     then (let (res, r2) = deletionError (oc_cluster c) obj' err r1 in ([res], r2))
                     else if \<not> proceed
                     then (let (res, r2) = deletionPrepared (oc_cluster c) obj' r1 in ([res], r2))
                     else delete obj' r1))"

fun cleanup_loop ::
    "'w kube_api \<Rightarrow> 'w orphanCleaner \<Rightarrow> object list \<Rightarrow> 'w result list \<Rightarrow> 'w run \<Rightarrow> 'w result list \<times> 'w run" where
  "cleanup_loop api c [] results r = (results, r)"
| "cleanup_loop api c (obj # objs) results r =
     (if to_keep (ct_ObjectsToKeep (oc_cleanerType c)) obj then cleanup_loop api c objs results r
      else let (new, r') = cleanup_step api c obj r in cleanup_loop api c objs (results @ new) r')"

text \<open>
  \<open>Cleanup\<close>. Every item of a typed list is an object, so \<open>items\<close> keeps all of them.
\<close>

definition Cleanup :: "'w kube_api \<Rightarrow> 'w orphanCleaner \<Rightarrow> 'w cleaner" where
  "Cleanup api c r =
     (case ct_EmptyList (oc_cleanerType c) of
        None \<Rightarrow> (Inl (EWrap [] (ESentinel ErrOrphanCleanup)
                    '': orphan cleaner is missing empty list definition''), r)
      | Some kind \<Rightarrow>
          (case cl_list (c_client (oc_cluster c)) kind (oc_namespace c) ManagedBy (r_world r) of
             (Inl e, w) \<Rightarrow> (Inl (ESentinel ErrOrphanCleanup), r\<lparr>r_world := w\<rparr>)
           | (Inr objs, w) \<Rightarrow>
               let (results, r') = cleanup_loop api c objs [] (r\<lparr>r_world := w\<rparr>) in (Inr results, r')))"

section \<open>Cleaners keep to their interface\<close>

text \<open>
  What a step of any cleaner does to the run: the managed objects stay as they are, and
  its results are on new ones and never "deleted".
\<close>

definition cleaner_step :: "'w run \<Rightarrow> 'w result list \<Rightarrow> 'w run \<Rightarrow> bool" where
  "cleaner_step r new r' \<longleftrightarrow>
     r_next r \<le> r_next r' \<and> (\<forall>j < r_next r. r_heap r' j = r_heap r j) \<and>
     (\<forall>y \<in> set new. r_next r \<le> m_ref (res_Object y) \<and> m_ref (res_Object y) < r_next r' \<and>
        res_OperationResult y \<noteq> OperationResultDeleted)"

lemma cleaner_step_nothing [simp]: "r_next r' = r_next r \<Longrightarrow> r_heap r' = r_heap r \<Longrightarrow> cleaner_step r [] r'"
  by (simp add: cleaner_step_def)

lemma cleaner_step_trans:
  "cleaner_step r xs s \<Longrightarrow> cleaner_step s ys t \<Longrightarrow> cleaner_step r (xs @ ys) t"
  by (fastforce simp: cleaner_step_def)

lemma cleaner_step_result:
  assumes "cleaner_result f op cluster obj err r1 = (res, r2)" and "op \<noteq> OperationResultDeleted"
    and "r_next r1 = r_next r" "r_heap r1 = r_heap r"
  shows "cleaner_step r [res] r2"
  using assms by (auto simp: cleaner_result_def NewManagedObject_def cleaner_step_def Let_def)

lemma cleaner_result_fields:
  assumes "cleaner_result f op cluster obj err r1 = (res, r2)"
  shows "res_Cluster res = cluster" "res_OperationResult res = op" "res_Error res = err"
    "GetObject r2 (res_Object res) = obj" "r_world r2 = r_world r1"
    "m_statusFunc (res_Object res) = Some f"
  using assms by (auto simp: cleaner_result_def NewManagedObject_def GetObject_def Let_def)

lemma cleanup_step_interface:
  assumes "cleanup_step api c obj r = (new, r')"
  shows "cleaner_step r new r'"
proof -
  have delete: "cleaner_step r new r'"
    if "(let (err, w) = cl_delete (c_client (oc_cluster c)) obj (r_world r1); r2 = r1\<lparr>r_world := w\<rparr>
         in if IgnoreNotFound api err \<noteq> None
            then (let (res, r3) = deletionError (oc_cluster c) obj err r2 in ([res], r3))
            else ([], r2)) = (new, r')"
      "r_next r1 = r_next r" "r_heap r1 = r_heap r" for obj r1
    using that
    by (auto simp: deletionError_def Let_def split: prod.splits if_splits intro: cleaner_step_result)
  show ?thesis
    using assms delete unfolding cleanup_step_def
    by (auto simp: deletionError_def deletionPrepared_def Let_def
        split: option.splits prod.splits if_splits intro!: cleaner_step_result)
qed

lemma cleanup_loop_interface:
  "cleanup_loop api c objs results r = (out, r') \<Longrightarrow> \<exists>new. out = results @ new \<and> cleaner_step r new r'"
proof (induction objs arbitrary: results r)
  case Nil
  then show ?case by simp
next
  case (Cons obj objs)
  show ?case
  proof (cases "to_keep (ct_ObjectsToKeep (oc_cleanerType c)) obj")
    case True
    with Cons show ?thesis by simp
  next
    case False
    obtain new1 r1 where step: "cleanup_step api c obj r = (new1, r1)" by fastforce
    from Cons.IH [of "results @ new1" r1] Cons.prems False step obtain new where
      "out = (results @ new1) @ new" "cleaner_step r1 new r'" by auto
    with cleaner_step_trans [OF cleanup_step_interface [OF step]] show ?thesis by auto
  qed
qed

text \<open>A cleanup that lists, and then takes steps, keeps to the interface.\<close>

lemma orphan_cleanerI:
  assumes error: "\<And>r e r'. cleanup r = (Inl e, r') \<Longrightarrow> r_next r' = r_next r \<and> r_heap r' = r_heap r"
    and steps: "\<And>r new r'. cleanup r = (Inr new, r') \<Longrightarrow> cleaner_step r new r'"
  shows "orphan_cleaner cleanup"
proof
  fix r x r' j
  assume c: "cleanup r = (x, r')"
  show "r_next r \<le> r_next r'"
    using error [of r _ r'] steps [of r _ r'] c by (cases x) (auto simp: cleaner_step_def)
  assume "j < r_next r"
  then show "r_heap r' j = r_heap r j"
    using error [of r _ r'] steps [of r _ r'] c by (cases x) (auto simp: cleaner_step_def)
next
  fix r rs r' y
  assume c: "cleanup r = (Inr rs, r')" and "y \<in> set rs"
  then show "r_next r \<le> m_ref (res_Object y) \<and> m_ref (res_Object y) < r_next r'"
    "res_OperationResult y \<noteq> OperationResultDeleted"
    using steps [OF c] by (auto simp: cleaner_step_def)
qed

interpretation generic_cleaner: orphan_cleaner "Cleanup api c" for api c
proof (rule orphan_cleanerI)
  fix r e r'
  assume "Cleanup api c r = (Inl e, r')"
  then show "r_next r' = r_next r \<and> r_heap r' = r_heap r"
    by (auto simp: Cleanup_def split: option.splits prod.splits sum.splits)
next
  fix r new r'
  assume "Cleanup api c r = (Inr new, r')"
  then obtain kind objs w where
      "cl_list (c_client (oc_cluster c)) kind (oc_namespace c) ManagedBy (r_world r) = (Inr objs, w)"
    and "cleanup_loop api c objs [] (r\<lparr>r_world := w\<rparr>) = (new, r')"
    by (auto simp: Cleanup_def split: option.splits prod.splits sum.splits)
  with cleanup_loop_interface [of api c objs "[]"] show "cleaner_step r new r'"
    by (fastforce simp: cleaner_step_def)
qed

section \<open>Cleaners without a hook\<close>

text \<open>
  What the loop of a cleaner without a hook amounts to: the objects that are not to be
  kept are deleted one after the other, each deletion that fails gives one result.
\<close>

fun delete_each :: "'w client \<Rightarrow> object list \<Rightarrow> 'w \<Rightarrow> (object \<times> gerr option) list \<times> 'w" where
  "delete_each cl [] w = ([], w)"
| "delete_each cl (obj # objs) w =
     (let (e, w1) = cl_delete cl obj w; (rest, w2) = delete_each cl objs w1 in ((obj, e) # rest, w2))"

fun failed_results ::
    "(object \<Rightarrow> resource_location \<Rightarrow> status go) \<Rightarrow> 'w managed_cluster \<Rightarrow> (object \<times> gerr option) list \<Rightarrow>
     'w run \<Rightarrow> 'w result list \<times> 'w run" where
  "failed_results f cluster [] r = ([], r)"
| "failed_results f cluster ((obj, e) # rest) r =
     (let (res, r1) = cleaner_result f OperationResultDeletionFailed cluster obj e r;
          (results, r2) = failed_results f cluster rest r1
      in (res # results, r2))"

definition hookless_cleanup ::
    "'w kube_api \<Rightarrow> (object \<Rightarrow> resource_location \<Rightarrow> status go) \<Rightarrow> sentinel \<Rightarrow> 'w managed_cluster \<Rightarrow>
     string \<Rightarrow> string \<Rightarrow> string list \<Rightarrow> 'w cleaner" where
  "hookless_cleanup api f err cluster kind ns keep r =
     (case cl_list (c_client cluster) kind ns ManagedBy (r_world r) of
        (Inl e, w) \<Rightarrow> (Inl (ESentinel err), r\<lparr>r_world := w\<rparr>)
      | (Inr objs, w) \<Rightarrow>
          let (deleted, w') = delete_each (c_client cluster) (filter (\<lambda>x. \<not> to_keep keep x) objs) w;
              (results, r') = failed_results f cluster
                (filter (\<lambda>(x, e). IgnoreNotFound api e \<noteq> None) deleted) (r\<lparr>r_world := w'\<rparr>)
          in (Inr results, r'))"

text \<open>Making a result does not look at the world.\<close>

lemma cleaner_result_world:
  "cleaner_result f op cluster obj e (r\<lparr>r_world := w\<rparr>) =
     (let (res, r') = cleaner_result f op cluster obj e r in (res, r'\<lparr>r_world := w\<rparr>))"
  by (simp add: cleaner_result_def NewManagedObject_def Let_def)

lemma failed_results_world:
  "failed_results f cluster xs (r\<lparr>r_world := w\<rparr>) =
     (let (results, r') = failed_results f cluster xs r in (results, r'\<lparr>r_world := w\<rparr>))"
  by (induction xs arbitrary: r)
     (auto simp: cleaner_result_world Let_def split: prod.splits)

lemma failed_results_step:
  "failed_results f cluster xs r = (results, r') \<Longrightarrow>
     cleaner_step r results r' \<and> r_world r' = r_world r \<and>
     map (\<lambda>y. (GetObject r' (res_Object y), res_Error y)) results = xs \<and>
     (\<forall>y \<in> set results. res_Cluster y = cluster \<and> res_OperationResult y = OperationResultDeletionFailed \<and>
        m_statusFunc (res_Object y) = Some f)"
proof (induction xs arbitrary: r results)
  case Nil
  then show ?case by simp
next
  case (Cons x xs)
  obtain obj e where x: "x = (obj, e)" by fastforce
  obtain res r1 where one: "cleaner_result f OperationResultDeletionFailed cluster obj e r = (res, r1)"
    by fastforce
  obtain rest where rest: "failed_results f cluster xs r1 = (rest, r')" and results: "results = res # rest"
    using Cons.prems x one by (auto split: prod.splits)
  note IH = Cons.IH [OF rest] and fields = cleaner_result_fields [OF one]
  have first: "cleaner_step r [res] r1" by (rule cleaner_step_result [OF one]) simp_all
  have "m_ref (res_Object res) < r_next r1" using first by (simp add: cleaner_step_def)
  then have "GetObject r' (res_Object res) = obj"
    using IH fields(4) by (simp add: cleaner_step_def GetObject_def)
  then show ?case
    using cleaner_step_trans [OF first, of rest r'] IH fields x results by simp
qed

text \<open>A loop of the shape all cleaners have is the deletions followed by the results.\<close>

lemma hookless_loop:
  assumes nil: "\<And>results r. loop [] results r = (results, r)"
    and cons: "\<And>obj objs results r. loop (obj # objs) results r =
      (if to_keep keep obj then loop objs results r
       else let (err, w) = cl_delete (c_client cluster) obj (r_world r); r1 = r\<lparr>r_world := w\<rparr>
            in if IgnoreNotFound api err \<noteq> None
               then (let (res, r2) = cleaner_result f OperationResultDeletionFailed cluster obj err r1
                     in loop objs (results @ [res]) r2)
               else loop objs results r1)"
  shows "loop objs results r =
     (let (deleted, w') = delete_each (c_client cluster) (filter (\<lambda>x. \<not> to_keep keep x) objs) (r_world r);
          (new, r') = failed_results f cluster
            (filter (\<lambda>(x, e). IgnoreNotFound api e \<noteq> None) deleted) (r\<lparr>r_world := w'\<rparr>)
      in (results @ new, r'))"
proof (induction objs arbitrary: results r)
  case Nil
  then show ?case by (simp add: nil)
next
  case (Cons obj objs)
  show ?case
  proof (cases "to_keep keep obj")
    case True
    then show ?thesis by (simp add: cons Cons.IH)
  next
    case False
    obtain err w where d: "cl_delete (c_client cluster) obj (r_world r) = (err, w)" by fastforce
    obtain deleted w' where rest:
      "delete_each (c_client cluster) (filter (\<lambda>x. \<not> to_keep keep x) objs) w = (deleted, w')"
      by fastforce
    show ?thesis
    proof (cases "IgnoreNotFound api err = None")
      case True
      then show ?thesis using False d rest by (simp add: cons Cons.IH Let_def)
    next
      case not_ignored: False
      obtain res r2 where one: "cleaner_result f OperationResultDeletionFailed cluster obj err r = (res, r2)"
        by fastforce
      then have one': "cleaner_result f OperationResultDeletionFailed cluster obj err (r\<lparr>r_world := v\<rparr>) =
          (res, r2\<lparr>r_world := v\<rparr>)" for v
        by (simp add: cleaner_result_world)
      show ?thesis
        using False not_ignored d rest one one'
        by (auto simp: cons Cons.IH Let_def failed_results_world split: prod.splits)
    qed
  qed
qed

text \<open>The generic cleaner without a hook is such a cleaner.\<close>

lemma cleanup_loop_hookless:
  assumes "ct_PreDeletionSteps (oc_cleanerType c) = None"
  shows "cleanup_loop api c objs results r =
     (let (deleted, w') = delete_each (c_client (oc_cluster c))
            (filter (\<lambda>x. \<not> to_keep (ct_ObjectsToKeep (oc_cleanerType c)) x) objs) (r_world r);
          (new, r') = failed_results cleanupErrorStatus (oc_cluster c)
            (filter (\<lambda>(x, e). IgnoreNotFound api e \<noteq> None) deleted) (r\<lparr>r_world := w'\<rparr>)
      in (results @ new, r'))"
  by (rule hookless_loop)
     (simp_all add: cleanup_step_def assms deletionError_def Let_def split: prod.splits)

lemma Cleanup_hookless:
  assumes "ct_PreDeletionSteps (oc_cleanerType c) = None" "ct_EmptyList (oc_cleanerType c) = Some kind"
  shows "Cleanup api c = hookless_cleanup api cleanupErrorStatus ErrOrphanCleanup (oc_cluster c) kind
    (oc_namespace c) (ct_ObjectsToKeep (oc_cleanerType c))"
  by (rule ext)
     (simp add: Cleanup_def hookless_cleanup_def assms(2) cleanup_loop_hookless [OF assms(1)] Let_def
       split: prod.splits sum.splits)

section \<open>What a cleaner without a hook achieves\<close>

lemma hookless_cleanup_parts:
  assumes "hookless_cleanup api f err cluster kind ns keep r = (x, r')"
  obtains (failed) e w where "cl_list (c_client cluster) kind ns ManagedBy (r_world r) = (Inl e, w)"
      "x = Inl (ESentinel err)" "r' = r\<lparr>r_world := w\<rparr>"
    | (listed) objs w deleted w' results where
      "cl_list (c_client cluster) kind ns ManagedBy (r_world r) = (Inr objs, w)"
      "delete_each (c_client cluster) (filter (\<lambda>x. \<not> to_keep keep x) objs) w = (deleted, w')"
      "failed_results f cluster (filter (\<lambda>(x, e). IgnoreNotFound api e \<noteq> None) deleted)
         (r\<lparr>r_world := w'\<rparr>) = (results, r')"
      "x = Inr results" "r_world r' = w'"
proof -
  obtain y w where l: "cl_list (c_client cluster) kind ns ManagedBy (r_world r) = (y, w)" by fastforce
  show thesis
  proof (cases y)
    case (Inl e)
    with l assms failed show thesis by (simp add: hookless_cleanup_def)
  next
    case (Inr objs)
    obtain deleted w' where
      d: "delete_each (c_client cluster) (filter (\<lambda>x. \<not> to_keep keep x) objs) w = (deleted, w')"
      by fastforce
    obtain results r2 where
      fr: "failed_results f cluster (filter (\<lambda>(x, e). IgnoreNotFound api e \<noteq> None) deleted)
         (r\<lparr>r_world := w'\<rparr>) = (results, r2)"
      by fastforce
    have "x = Inr results" "r' = r2"
      using assms l Inr d fr by (simp_all add: hookless_cleanup_def)
    moreover have "r_world r2 = w'" using failed_results_step [OF fr] by simp
    ultimately show thesis using listed l Inr d fr by blast
  qed
qed

lemma hookless_orphan_cleaner: "orphan_cleaner (hookless_cleanup api f err cluster kind ns keep)"
proof (rule orphan_cleanerI)
  fix r e r'
  assume h: "hookless_cleanup api f err cluster kind ns keep r = (Inl e, r')"
  show "r_next r' = r_next r \<and> r_heap r' = r_heap r"
    by (rule hookless_cleanup_parts [OF h]) auto
next
  fix r new r'
  assume h: "hookless_cleanup api f err cluster kind ns keep r = (Inr new, r')"
  show "cleaner_step r new r'"
  proof (rule hookless_cleanup_parts [OF h])
    fix deleted w' results
    assume "failed_results f cluster (filter (\<lambda>(x, e). IgnoreNotFound api e \<noteq> None) deleted)
         (r\<lparr>r_world := w'\<rparr>) = (results, r')" "Inr new = Inr results"
    with failed_results_step show "cleaner_step r new r'" by (fastforce simp: cleaner_step_def)
  qed simp
qed

lemma to_keep_iff: "to_keep keep x \<longleftrightarrow> o_Name x \<in> set keep"
  by (auto simp: to_keep_def list_ex_iff)

context api_server
begin

lemma delete_each_adds_nothing:
  "delete_each (cl i) objs w = (ds, w') \<Longrightarrow> view j w kind k = None \<Longrightarrow> view j w' kind k = None"
proof (induction objs arbitrary: w ds)
  case Nil
  then show ?case by simp
next
  case (Cons obj objs)
  obtain e w1 where d: "cl_delete (cl i) obj w = (e, w1)" by fastforce
  obtain rest where "delete_each (cl i) objs w1 = (rest, w')"
    using Cons.prems(1) d by (auto split: prod.splits)
  moreover have "view j w1 kind k = None"
    using delete_adds_nothing [OF d, of j kind k] Cons.prems(2) by (cases "view j w1 kind k") auto
  ultimately show ?case by (rule Cons.IH)
qed

end

context listing_server
begin

lemma hookless_on_server:
  assumes "c_client cluster = cl i"
  shows "orphan_cleaner_on_server api cl view (hookless_cleanup api f err cluster kind ns keep)"
proof -
  have adds: "view j (r_world r') kind' k = None"
    if h: "hookless_cleanup api f err cluster kind ns keep r = (x, r')"
      and none: "view j (r_world r) kind' k = None" for r x r' j kind' k
  proof (rule hookless_cleanup_parts [OF h])
    fix e w assume "cl_list (c_client cluster) kind ns ManagedBy (r_world r) = (Inl e, w)"
      and "r' = r\<lparr>r_world := w\<rparr>"
    then show ?thesis using list_reads [of i] assms none by simp
  next
    fix objs w deleted w'
    assume l: "cl_list (c_client cluster) kind ns ManagedBy (r_world r) = (Inr objs, w)"
      and d: "delete_each (c_client cluster) (filter (\<lambda>x. \<not> to_keep keep x) objs) w = (deleted, w')"
      and "r_world r' = w'"
    moreover have "view j w kind' k = None" using list_reads [of i] l assms none by simp
    ultimately show ?thesis using delete_each_adds_nothing [of i] assms by simp
  qed
  show ?thesis
    by (intro orphan_cleaner_on_server.intro api_server_axioms hookless_orphan_cleaner
        orphan_cleaner_on_server_axioms.intro) (rule adds)
qed

lemma delete_each_frame:
  "delete_each (cl i) objs w = (ds, w') \<Longrightarrow>
     \<forall>x \<in> set objs. j \<noteq> i \<or> kind \<noteq> kind_of x \<or> k \<noteq> object_key x \<Longrightarrow>
     view j w' kind k = view j w kind k"
proof (induction objs arbitrary: w ds)
  case Nil
  then show ?case by simp
next
  case (Cons obj objs)
  obtain e w1 where d: "cl_delete (cl i) obj w = (e, w1)" by fastforce
  obtain rest where "delete_each (cl i) objs w1 = (rest, w')"
    using Cons.prems(1) d by (auto split: prod.splits)
  with Cons.IH Cons.prems(2) have "view j w' kind k = view j w1 kind k" by simp
  with delete_frame [OF d] Cons.prems(2) show ?case by simp
qed

text \<open>Only orphans are deleted: whatever else a cluster stores stays as it is.\<close>

lemma hookless_frame:
  assumes h: "hookless_cleanup api f err cluster kind ns keep r = (x, r')"
    and cluster: "c_client cluster = cl i" and ns: "ns \<noteq> []"
    and other: "j \<noteq> i \<or> kind' \<noteq> kind \<or> fst k \<noteq> ns \<or> snd k \<in> set keep \<or>
      (\<forall>x. view j (r_world r) kind' k = Some x \<longrightarrow> \<not> is_managed x)"
  shows "view j (r_world r') kind' k = view j (r_world r) kind' k"
proof (rule hookless_cleanup_parts [OF h])
  fix e w assume "cl_list (c_client cluster) kind ns ManagedBy (r_world r) = (Inl e, w)"
    and "r' = r\<lparr>r_world := w\<rparr>"
  then show ?thesis using list_reads [of i] cluster by simp
next
  fix objs w deleted w'
  assume l: "cl_list (c_client cluster) kind ns ManagedBy (r_world r) = (Inr objs, w)"
    and d: "delete_each (c_client cluster) (filter (\<lambda>x. \<not> to_keep keep x) objs) w = (deleted, w')"
    and w': "r_world r' = w'"
  have l': "cl_list (cl i) kind ns ManagedBy (r_world r) = (Inr objs, w)" using l cluster by simp
  have "j \<noteq> i \<or> kind' \<noteq> kind_of y \<or> k \<noteq> object_key y"
    if y: "y \<in> set (filter (\<lambda>x. \<not> to_keep keep x) objs)" for y
  proof -
    have "y \<in> set objs" "o_Name y \<notin> set keep" using y by (simp_all add: to_keep_iff)
    moreover from this(1) have "view i (r_world r) kind (object_key y) = Some y"
      "kind_of y = kind" "o_Namespace y = ns" "is_managed y"
      using list_sound [OF l' _ ns] by (auto simp: is_managed_def)
    ultimately show ?thesis using other by (auto simp: object_key_def)
  qed
  then have "view j w' kind' k = view j w kind' k"
    using delete_each_frame [of i "filter (\<lambda>x. \<not> to_keep keep x) objs" w deleted w' j kind' k]
      d cluster by simp
  then show ?thesis using w' list_reads [OF l'] by simp
qed

end

text \<open>Servers that answer, delete at once and list exactly: no orphan is left.\<close>

locale prompt_listing_server =
  prompt_server api cl view healthy + listing_server api cl view
  for api :: "'w kube_api" and cl :: "'c \<Rightarrow> 'w client"
    and view :: "'c \<Rightarrow> 'w \<Rightarrow> string \<Rightarrow> object_key \<Rightarrow> object option" and healthy :: "'w \<Rightarrow> bool" +
  assumes list_healthy: "cl_list (cl i) kind ns sel w = (x, w') \<Longrightarrow> healthy w \<Longrightarrow> healthy w'"
    and list_answers: "cl_list (cl i) kind ns sel w = (x, w') \<Longrightarrow> healthy w \<Longrightarrow> \<exists>os. x = Inr os"
begin

lemma delete_each_prompt:
  "delete_each (cl i) objs w = (ds, w') \<Longrightarrow> healthy w \<Longrightarrow>
     healthy w' \<and> (\<forall>x \<in> set objs. view i w' (kind_of x) (object_key x) = None)"
proof (induction objs arbitrary: w ds)
  case Nil
  then show ?case by simp
next
  case (Cons obj objs)
  obtain e w1 where d: "cl_delete (cl i) obj w = (e, w1)" by fastforce
  obtain rest where rest: "delete_each (cl i) objs w1 = (rest, w')"
    using Cons.prems(1) d by (auto split: prod.splits)
  have "healthy w1" by (rule delete_healthy [OF d Cons.prems(2)])
  moreover have "view i w1 (kind_of obj) (object_key obj) = None"
    by (rule delete_prompt [OF d Cons.prems(2)])
  then have "view i w' (kind_of obj) (object_key obj) = None"
    by (rule delete_each_adds_nothing [OF rest])
  ultimately show ?case using Cons.IH [OF rest] by simp
qed

lemma hookless_keeps_healthy:
  assumes cluster: "c_client cluster = cl i"
  shows "cleaner_keeps healthy (hookless_cleanup api f err cluster kind ns keep)"
  unfolding cleaner_keeps_def
proof (intro allI impI)
  fix r x r'
  assume h: "hookless_cleanup api f err cluster kind ns keep r = (x, r')" and hr: "healthy (r_world r)"
  show "healthy (r_world r')"
  proof (rule hookless_cleanup_parts [OF h])
    fix e w assume "cl_list (c_client cluster) kind ns ManagedBy (r_world r) = (Inl e, w)"
      and "r' = r\<lparr>r_world := w\<rparr>"
    then show ?thesis using list_healthy [of i] cluster hr by simp
  next
    fix objs w deleted w'
    assume l: "cl_list (c_client cluster) kind ns ManagedBy (r_world r) = (Inr objs, w)"
      and d: "delete_each (c_client cluster) (filter (\<lambda>x. \<not> to_keep keep x) objs) w = (deleted, w')"
      and w': "r_world r' = w'"
    have "healthy w" using list_healthy [of i] l cluster hr by simp
    then show ?thesis using delete_each_prompt [of i] d cluster w' by simp
  qed
qed

lemma hookless_complete:
  assumes h: "hookless_cleanup api f err cluster kind ns keep r = (Inr results, r')"
    and cluster: "c_client cluster = cl i" and ns: "ns \<noteq> []" and healthy: "healthy (r_world r)"
  shows "healthy (r_world r')"
    "view i (r_world r') kind (ns, n) = Some x \<Longrightarrow> is_managed x \<Longrightarrow> n \<in> set keep"
proof -
  from hookless_cleanup_parts [OF h] obtain objs w deleted w' where
      l: "cl_list (cl i) kind ns ManagedBy (r_world r) = (Inr objs, w)"
    and d: "delete_each (cl i) (filter (\<lambda>x. \<not> to_keep keep x) objs) w = (deleted, w')"
    and w': "r_world r' = w'"
    using cluster by (metis sum.distinct(1))
  have hw: "healthy w" by (rule list_healthy [OF l healthy])
  note each = delete_each_prompt [OF d hw]
  show "healthy (r_world r')" using each w' by simp
  show "n \<in> set keep" if v: "view i (r_world r') kind (ns, n) = Some x" and m: "is_managed x"
  proof (rule ccontr)
    assume n: "n \<notin> set keep"
    let ?del = "filter (\<lambda>x. \<not> to_keep keep x) objs"
    have untouched: "\<forall>z \<in> set ?del. kind \<noteq> kind_of z \<or> (ns, n) \<noteq> object_key z"
      using each v w' by auto
    then have "view i w' kind (ns, n) = view i w kind (ns, n)"
      using delete_each_frame [OF d, of i kind "(ns, n)"] by blast
    then have old: "view i (r_world r) kind (ns, n) = Some x"
      using v w' list_reads [OF l] by simp
    have "matches_labels ManagedBy x" using m by (simp add: is_managed_def)
    with list_complete [OF l old] have "x \<in> set objs" .
    moreover have id: "kind_of x = kind" "object_key x = (ns, n)"
      using view_identity [OF old] by simp_all
    ultimately have "x \<in> set ?del" using n by (simp add: to_keep_iff object_key_def)
    with untouched id show False by auto
  qed
qed

end

interpretation refpromptlist: prompt_listing_server ref_api ref_client ref_view
  "\<lambda>w. rw_down w = [] \<and> rw_held w = [] \<and> rw_custom w = (\<lambda>_ _. None)"
  by unfold_locales (auto simp: ref_list_def)

end
