(* ===== verification/Secrets.thy ===== *)
theory Secrets
  imports Orphan_Cleaner
begin

text \<open>
  \<open>pkg/metricsoperator/secret/secret.go\<close>: copies of the pull secrets in other clusters and name
  spaces, and the cleaner that removes the copies that are no longer asked for.
\<close>

section \<open>Status\<close>

definition SecretStatus :: "object \<Rightarrow> resource_location \<Rightarrow> status go" where
  "SecretStatus o' rl =
     Ret (if o_DeletionTimestamp o' \<noteq> None
          then \<lparr>s_Phase = Terminating, s_Message = ''Secret is terminating.'', s_Location = rl\<rparr>
          else if o_UID o' = []
          then \<lparr>s_Phase = Pending, s_Message = ''Secret has not been created yet.'', s_Location = rl\<rparr>
          else \<lparr>s_Phase = Ready, s_Message = ''Secret exists.'', s_Location = rl\<rparr>)"

interpretation secret_status: status_function SecretStatus "\<lambda>_. True" "\<lambda>o'. o_UID o' \<noteq> []"
  by unfold_locales (auto simp: SecretStatus_def)

section \<open>Copies of the pull secrets\<close>

record 'w secret_copy_config =
  scc_SourceClient :: "'w client"
  scc_SourceNamespace :: string
  scc_TargetNamespace :: string
  scc_TargetName :: string

definition SecretTypeDockerConfigJson :: string where
  "SecretTypeDockerConfigJson = ''kubernetes.io/dockerconfigjson''"

text \<open>The name of a copy is the target name, when one is given.\<close>

definition copy_name :: "string \<Rightarrow> string \<Rightarrow> string" where
  "copy_name name target = (if target \<noteq> [] then target else name)"

text \<open>The data of a secret that the client has filled in.\<close>

definition secret_data :: "object \<Rightarrow> gomap" where
  "secret_data o' = (case o_Body o' of Secret d t \<Rightarrow> d | _ \<Rightarrow> None)"

text \<open>The reconcile function of a copy: read the source, then mutate the copy.\<close>

definition pull_secret_reconcile ::
    "'w kube_api \<Rightarrow> string \<Rightarrow> 'w secret_copy_config \<Rightarrow> 'w reconcile_func" where
  "pull_secret_reconcile api pullName cfg = (\<lambda>o' w.
     case o_Body o' of
       Secret d t \<Rightarrow>
         (let source = new_object pullName (scc_SourceNamespace cfg) (Secret None []);
              ((err, source'), w') = cl_get (scc_SourceClient cfg) (object_key source) source w
          in if err \<noteq> None then (Ret err, o', w')
             else
               let (merr, o'') = SecretMutate api (copy_name pullName (scc_TargetName cfg))
                     (scc_TargetNamespace cfg) (secret_data source') SecretTypeDockerConfigJson o'
               in (Ret merr, o'', w'))
     | b \<Rightarrow> (Ret (Some (EMsg (''expected *corev1.Secret, got '' @ go_type b))), o', w))"

text \<open>
  \<open>ManagePullSecrets\<close> adds one managed object per pull secret to the cluster.
\<close>

fun ManagePullSecrets ::
    "'w kube_api \<Rightarrow> string list \<Rightarrow> 'w secret_copy_config \<Rightarrow> 'w managed_cluster \<Rightarrow> 'w run \<Rightarrow>
     'w managed_cluster \<times> 'w run" where
  "ManagePullSecrets api [] cfg cluster r = (cluster, r)"
| "ManagePullSecrets api (pull # pulls) cfg cluster r =
     (let (m, r') = NewManagedObject
            (new_object (copy_name pull (scc_TargetName cfg)) (scc_TargetNamespace cfg) (Secret None []))
            \<lparr>moc_ReconcileFunc = Some (pull_secret_reconcile api pull cfg), moc_DependsOn = [],
             moc_DeletionPolicy = PolicyUnset, moc_StatusFunc = Some SecretStatus\<rparr> r
      in ManagePullSecrets api pulls cfg (AddObject m cluster) r')"

text \<open>What a copy holds after it has been reconciled without an error.\<close>

lemma pull_secret_reconcile_ok:
  assumes "pull_secret_reconcile api pull cfg o' w = (Ret None, o'', w')"
  obtains source where
    "cl_get (scc_SourceClient cfg) (scc_SourceNamespace cfg, pull)
       (new_object pull (scc_SourceNamespace cfg) (Secret None [])) w = ((None, source), w')"
    "kind_of o' = ''Secret''"
    "SecretMutate api (copy_name pull (scc_TargetName cfg)) (scc_TargetNamespace cfg) (secret_data source)
       SecretTypeDockerConfigJson o' = (None, o'')"
  using assms
  by (cases "o_Body o'")
     (auto simp: pull_secret_reconcile_def Let_def object_key_def split: prod.splits if_splits)

lemma pull_secret_reconcile_no_panic: "\<not> panics (fst (pull_secret_reconcile api pull cfg o' w))"
  by (simp add: pull_secret_reconcile_def Let_def split: body.splits prod.splits)

lemma pull_secret_keeps_label:
  assumes mut: "mutators api" and m: "m_reconcileFunc m = Some (pull_secret_reconcile api pull cfg)"
    and key: "object_key ob = (scc_TargetNamespace cfg, copy_name pull (scc_TargetName cfg))"
  shows "keeps_label ob m"
  unfolding keeps_label_def
proof (intro allI impI)
  fix o0 w0 o1 w1
  assume run: "Reconcile m o0 w0 = (Ret None, o1, w1)" and lab: "is_managed o0"
    and ok: "object_key o0 = object_key ob"
  from run m have "pull_secret_reconcile api pull cfg o0 w0 = (Ret None, o1, w1)"
    by (simp add: Reconcile_def)
  then obtain source where kind: "kind_of o0 = ''Secret''"
    and mm: "SecretMutate api (copy_name pull (scc_TargetName cfg)) (scc_TargetNamespace cfg)
       (secret_data source) SecretTypeDockerConfigJson o0 = (None, o1)"
    by (rule pull_secret_reconcile_ok)
  show "is_managed o1 \<and> kind_of o1 = kind_of o0 \<and> object_key o1 = object_key o0"
    using mutators.secret_body [OF mut mm kind] mutators.secret_label [OF mut mm lab]
      mutators.secret_key [OF mut mm] kind ok key by simp
qed

text \<open>The managed object of a copy, known by its reference in a run.\<close>

definition is_copy ::
    "'w kube_api \<Rightarrow> 'w secret_copy_config \<Rightarrow> 'w run \<Rightarrow> nat \<Rightarrow> string \<Rightarrow> 'w managed_object \<Rightarrow> bool" where
  "is_copy api cfg r ref pull m \<longleftrightarrow>
     m = \<lparr>m_ref = ref, m_reconcileFunc = Some (pull_secret_reconcile api pull cfg),
          m_dependencies = [], m_deletionPolicy = Delete, m_statusFunc = Some SecretStatus\<rparr> \<and>
     r_heap r ref =
       new_object (copy_name pull (scc_TargetName cfg)) (scc_TargetNamespace cfg) (Secret None [])"

text \<open>The objects that are added, in the order of the pull secrets.\<close>

lemma ManagePullSecrets_adds:
  assumes "ManagePullSecrets api pulls cfg cluster r = (cluster', r')"
  obtains ms where "cluster' = cluster\<lparr>c_objects := c_objects cluster @ ms\<rparr>" "length ms = length pulls"
    "\<forall>n < length pulls. is_copy api cfg r' (r_next r + n) (pulls ! n) (ms ! n)"
    "r_next r' = r_next r + length pulls" "r_world r' = r_world r"
    "\<forall>j < r_next r. r_heap r' j = r_heap r j"
  using assms
proof (induction pulls arbitrary: cluster r thesis)
  case Nil
  then show ?case by simp
next
  case (Cons pull pulls)
  let ?ob = "new_object (copy_name pull (scc_TargetName cfg)) (scc_TargetNamespace cfg) (Secret None [])"
  let ?moc = "\<lparr>moc_ReconcileFunc = Some (pull_secret_reconcile api pull cfg), moc_DependsOn = [],
             moc_DeletionPolicy = PolicyUnset, moc_StatusFunc = Some SecretStatus\<rparr>"
  obtain m r1 where new: "NewManagedObject ?ob ?moc r = (m, r1)" by fastforce
  then have rest: "ManagePullSecrets api pulls cfg (AddObject m cluster) r1 = (cluster', r')"
    using Cons.prems(2) by simp
  have m: "m = \<lparr>m_ref = r_next r, m_reconcileFunc = Some (pull_secret_reconcile api pull cfg),
       m_dependencies = [], m_deletionPolicy = Delete, m_statusFunc = Some SecretStatus\<rparr>"
    and r1: "r_next r1 = Suc (r_next r)" "r_world r1 = r_world r" "r_heap r1 = (r_heap r)(r_next r := ?ob)"
    using new by (auto simp: NewManagedObject_def)
  show ?case
  proof (rule Cons.IH [OF _ rest])
    fix ms
    assume ms: "cluster' = (AddObject m cluster)\<lparr>c_objects := c_objects (AddObject m cluster) @ ms\<rparr>"
        "length ms = length pulls"
        "\<forall>n < length pulls. is_copy api cfg r' (r_next r1 + n) (pulls ! n) (ms ! n)"
      and r': "r_next r' = r_next r1 + length pulls" "r_world r' = r_world r1"
        "\<forall>j < r_next r1. r_heap r' j = r_heap r1 j"
    have "is_copy api cfg r' (r_next r) pull m" using r'(3) r1 m by (simp add: is_copy_def)
    then have "\<forall>n < length (pull # pulls). is_copy api cfg r' (r_next r + n) ((pull # pulls) ! n) ((m # ms) ! n)"
      using ms(3) r1(1) by (auto simp: nth_Cons split: nat.split)
    moreover have "cluster' = cluster\<lparr>c_objects := c_objects cluster @ m # ms\<rparr>"
      using ms(1) by (simp add: AddObject_def)
    moreover have "\<forall>j < r_next r. r_heap r' j = r_heap r j" using r'(3) r1 by simp
    ultimately show ?case using Cons.prems(1) [of "m # ms"] ms(2) r'(1,2) r1 by simp
  qed
qed

definition secretNamePrefix :: string where "secretNamePrefix = ''sp-mo-''"

text \<open>
  \<open>PrefixSecretName\<close>; \<open>shorten\<close> stands for \<open>ShortenToXCharacters\<close> of controller-utils,
  which takes the limit \<open>K8sMaxNameLength\<close> (63).
\<close>

definition K8sMaxNameLength :: nat where "K8sMaxNameLength = 63"

definition PrefixSecretName ::
    "(string \<Rightarrow> nat \<Rightarrow> gerr + string) \<Rightarrow> string \<Rightarrow> gerr + string" where
  "PrefixSecretName shorten secretName = shorten (secretNamePrefix @ secretName) K8sMaxNameLength"

section \<open>The cleaner\<close>

record 'w secretCleaner =
  sc_cluster :: "'w managed_cluster"
  sc_namespace :: string
  sc_secretsToKeep :: "string list"

definition NewSecretCleaner :: "'w managed_cluster \<Rightarrow> string \<Rightarrow> string list \<Rightarrow> 'w secretCleaner" where
  "NewSecretCleaner cluster ns keep =
     \<lparr>sc_cluster = cluster, sc_namespace = ns, sc_secretsToKeep = keep\<rparr>"

definition secret_cleanupErrorStatus :: "object \<Rightarrow> resource_location \<Rightarrow> status go" where
  "secret_cleanupErrorStatus o' rl =
     Ret \<lparr>s_Phase = Terminating, s_Message = ''Secret cleanup failed'', s_Location = rl\<rparr>"

definition secret_cleanupErrorResult ::
    "'w secretCleaner \<Rightarrow> object \<Rightarrow> gerr option \<Rightarrow> 'w run \<Rightarrow> 'w result \<times> 'w run" where
  "secret_cleanupErrorResult c obj err r =
     (let (mo, r') = NewManagedObject obj
            \<lparr>moc_ReconcileFunc = None, moc_DependsOn = [], moc_DeletionPolicy = Delete,
             moc_StatusFunc = Some secret_cleanupErrorStatus\<rparr> r
      in (\<lparr>res_Object = mo, res_Cluster = sc_cluster c,
           res_OperationResult = OperationResultDeletionFailed, res_Error = err\<rparr>, r'))"

fun secret_cleanup_loop ::
    "'w kube_api \<Rightarrow> 'w secretCleaner \<Rightarrow> object list \<Rightarrow> 'w result list \<Rightarrow> 'w run \<Rightarrow> 'w result list \<times> 'w run" where
  "secret_cleanup_loop api c [] results r = (results, r)"
| "secret_cleanup_loop api c (s # ss) results r =
     (if \<not> list_ex (\<lambda>ref. o_Name s = ref) (sc_secretsToKeep c)
      then let (err, w) = cl_delete (c_client (sc_cluster c)) s (r_world r);
               r1 = r\<lparr>r_world := w\<rparr>
           in if IgnoreNotFound api err \<noteq> None
              then let (res, r2) = secret_cleanupErrorResult c s err r1
                   in secret_cleanup_loop api c ss (results @ [res]) r2
              else secret_cleanup_loop api c ss results r1
      else secret_cleanup_loop api c ss results r)"

definition secret_Cleanup :: "'w kube_api \<Rightarrow> 'w secretCleaner \<Rightarrow> 'w cleaner" where
  "secret_Cleanup api c r =
     (case cl_list (c_client (sc_cluster c)) ''Secret'' (sc_namespace c)
             [(LabelManagedBy, LabelManagedByValue)] (r_world r) of
        (Inl e, w) \<Rightarrow> (Inl (ESentinel ErrSecretCleanup), r\<lparr>r_world := w\<rparr>)
      | (Inr items, w) \<Rightarrow>
          let (results, r') = secret_cleanup_loop api c items [] (r\<lparr>r_world := w\<rparr>) in (Inr results, r'))"

text \<open>It is the generic cleaner without a hook, with messages of its own.\<close>

lemma secret_cleanupErrorResult_eq:
  "secret_cleanupErrorResult c obj err r =
     cleaner_result secret_cleanupErrorStatus OperationResultDeletionFailed (sc_cluster c) obj err r"
  by (simp add: secret_cleanupErrorResult_def cleaner_result_def)

lemma secret_cleanup_loop_hookless:
  "secret_cleanup_loop api c objs results r =
     (let (deleted, w') = delete_each (c_client (sc_cluster c))
            (filter (\<lambda>x. \<not> to_keep (sc_secretsToKeep c) x) objs) (r_world r);
          (new, r') = failed_results secret_cleanupErrorStatus (sc_cluster c)
            (filter (\<lambda>(x, e). IgnoreNotFound api e \<noteq> None) deleted) (r\<lparr>r_world := w'\<rparr>)
      in (results @ new, r'))"
  by (rule hookless_loop)
     (simp_all add: to_keep_def secret_cleanupErrorResult_eq Let_def split: prod.splits)

lemma secret_Cleanup_hookless:
  "secret_Cleanup api c =
     hookless_cleanup api secret_cleanupErrorStatus ErrSecretCleanup (sc_cluster c) ''Secret'' (sc_namespace c)
       (sc_secretsToKeep c)"
  by (rule ext)
     (simp add: secret_Cleanup_def hookless_cleanup_def secret_cleanup_loop_hookless ManagedBy_def Let_def
       split: prod.splits sum.splits)

interpretation secret_cleaner: orphan_cleaner "secret_Cleanup api c" for api c
  unfolding secret_Cleanup_hookless by (rule hookless_orphan_cleaner)

lemma secret_cleaner_on_server:
  "listing_server api cl view \<Longrightarrow> c_client (sc_cluster c) = cl i \<Longrightarrow>
     orphan_cleaner_on_server api cl view (secret_Cleanup api c)"
  unfolding secret_Cleanup_hookless by (rule listing_server.hookless_on_server)

interpretation ref_secret_cleaner: orphan_cleaner_on_server ref_api ref_client ref_view
  "secret_Cleanup ref_api (NewSecretCleaner (NewManagedCluster (ref_client i) cfg dns ct) ns keep)"
  for i cfg dns ct ns keep
  by (rule secret_cleaner_on_server [OF reflist.listing_server_axioms])
     (simp add: NewSecretCleaner_def NewManagedCluster_def)

end
