(* ===== verification/Config_Maps.thy ===== *)
theory Config_Maps
  imports Orphan_Cleaner
begin

text \<open>
  \<open>pkg/metricsoperator/configmap/configmap.go\<close>: the copy of the CA bundle next to the workload, and the
  cleaner that removes copies that are no longer asked for.
\<close>

section \<open>Status\<close>

definition ConfigMapStatus :: "object \<Rightarrow> resource_location \<Rightarrow> status go" where
  "ConfigMapStatus o' rl =
     Ret (if o_DeletionTimestamp o' \<noteq> None
          then \<lparr>s_Phase = Terminating, s_Message = ''ConfigMap is terminating.'', s_Location = rl\<rparr>
          else if o_UID o' = []
          then \<lparr>s_Phase = Pending, s_Message = ''ConfigMap has not been created yet.'', s_Location = rl\<rparr>
          else \<lparr>s_Phase = Ready, s_Message = ''ConfigMap exists.'', s_Location = rl\<rparr>)"

interpretation configMap_status: status_function ConfigMapStatus "\<lambda>_. True" "\<lambda>o'. o_UID o' \<noteq> []"
  by unfold_locales (auto simp: ConfigMapStatus_def)

section \<open>The copy of the CA bundle\<close>

record 'w config_map_copy_config =
  ccc_SourceClient :: "'w client"
  ccc_SourceNamespace :: string
  ccc_TargetNamespace :: string
  ccc_TargetName :: string

text \<open>The data of a config map that the client has filled in.\<close>

definition config_map_data :: "object \<Rightarrow> gomap" where
  "config_map_data o' = (case o_Body o' of ConfigMap d \<Rightarrow> d | _ \<Rightarrow> None)"

definition ca_config_map_name :: "string \<Rightarrow> 'w config_map_copy_config \<Rightarrow> string" where
  "ca_config_map_name caName cfg = (if ccc_TargetName cfg \<noteq> [] then ccc_TargetName cfg else caName)"

definition ca_config_map_reconcile ::
    "'w kube_api \<Rightarrow> string \<Rightarrow> 'w config_map_copy_config \<Rightarrow> 'w reconcile_func" where
  "ca_config_map_reconcile api caName cfg = (\<lambda>o' w.
     case o_Body o' of
       ConfigMap d \<Rightarrow>
         (let source = new_object caName (ccc_SourceNamespace cfg) (ConfigMap None);
              ((err, source'), w') = cl_get (ccc_SourceClient cfg) (object_key source) source w
          in if err \<noteq> None then (Ret err, o', w')
             else
               let (merr, o'') = ConfigMapMutate api (ca_config_map_name caName cfg)
                     (ccc_TargetNamespace cfg) (config_map_data source') o'
               in (Ret merr, o'', w'))
     | b \<Rightarrow> (Ret (Some (EMsg (''expected *corev1.ConfigMap, got '' @ go_type b))), o', w))"

definition ManageCaConfigMap ::
    "'w kube_api \<Rightarrow> string \<Rightarrow> 'w config_map_copy_config \<Rightarrow> 'w managed_cluster \<Rightarrow> 'w run \<Rightarrow>
     'w managed_cluster \<times> 'w run" where
  "ManageCaConfigMap api caName cfg cluster r =
     (let (m, r') = NewManagedObject
            (new_object (ca_config_map_name caName cfg) (ccc_TargetNamespace cfg) (ConfigMap None))
            \<lparr>moc_ReconcileFunc = Some (ca_config_map_reconcile api caName cfg), moc_DependsOn = [],
             moc_DeletionPolicy = PolicyUnset, moc_StatusFunc = Some ConfigMapStatus\<rparr> r
      in (AddObject m cluster, r'))"

lemma ca_config_map_reconcile_ok:
  assumes "ca_config_map_reconcile api caName cfg o' w = (Ret None, o'', w')"
  obtains source where
    "cl_get (ccc_SourceClient cfg) (ccc_SourceNamespace cfg, caName)
       (new_object caName (ccc_SourceNamespace cfg) (ConfigMap None)) w = ((None, source), w')"
    "kind_of o' = ''ConfigMap''"
    "ConfigMapMutate api (ca_config_map_name caName cfg) (ccc_TargetNamespace cfg)
       (config_map_data source) o' = (None, o'')"
  using assms
  by (cases "o_Body o'")
     (auto simp: ca_config_map_reconcile_def Let_def object_key_def split: prod.splits if_splits)

lemma ca_config_map_reconcile_no_panic: "\<not> panics (fst (ca_config_map_reconcile api caName cfg o' w))"
  by (simp add: ca_config_map_reconcile_def Let_def split: body.splits prod.splits)

section \<open>The cleaner\<close>

record 'w configMapCleaner =
  cc_cluster :: "'w managed_cluster"
  cc_namespace :: string
  cc_configMapsToKeep :: "string list"

definition NewConfigMapCleaner :: "'w managed_cluster \<Rightarrow> string \<Rightarrow> string list \<Rightarrow> 'w configMapCleaner" where
  "NewConfigMapCleaner cluster ns keep =
     \<lparr>cc_cluster = cluster, cc_namespace = ns, cc_configMapsToKeep = keep\<rparr>"

definition cleanupErrorStatusConfigMap :: "object \<Rightarrow> resource_location \<Rightarrow> status go" where
  "cleanupErrorStatusConfigMap o' rl =
     Ret \<lparr>s_Phase = Terminating, s_Message = ''ConfigMap cleanup failed'', s_Location = rl\<rparr>"

definition configMap_cleanupErrorResult ::
    "'w configMapCleaner \<Rightarrow> object \<Rightarrow> gerr option \<Rightarrow> 'w run \<Rightarrow> 'w result \<times> 'w run" where
  "configMap_cleanupErrorResult c obj err r =
     (let (mo, r') = NewManagedObject obj
            \<lparr>moc_ReconcileFunc = None, moc_DependsOn = [], moc_DeletionPolicy = Delete,
             moc_StatusFunc = Some cleanupErrorStatusConfigMap\<rparr> r
      in (\<lparr>res_Object = mo, res_Cluster = cc_cluster c,
           res_OperationResult = OperationResultDeletionFailed, res_Error = err\<rparr>, r'))"

fun configMap_cleanup_loop ::
    "'w kube_api \<Rightarrow> 'w configMapCleaner \<Rightarrow> object list \<Rightarrow> 'w result list \<Rightarrow> 'w run \<Rightarrow> 'w result list \<times> 'w run" where
  "configMap_cleanup_loop api c [] results r = (results, r)"
| "configMap_cleanup_loop api c (configMap # configMaps) results r =
     (if \<not> list_ex (\<lambda>ref. o_Name configMap = ref) (cc_configMapsToKeep c)
      then let (err, w) = cl_delete (c_client (cc_cluster c)) configMap (r_world r);
               r1 = r\<lparr>r_world := w\<rparr>
           in if IgnoreNotFound api err \<noteq> None
              then let (res, r2) = configMap_cleanupErrorResult c configMap err r1
                   in configMap_cleanup_loop api c configMaps (results @ [res]) r2
              else configMap_cleanup_loop api c configMaps results r1
      else configMap_cleanup_loop api c configMaps results r)"

definition configMap_Cleanup :: "'w kube_api \<Rightarrow> 'w configMapCleaner \<Rightarrow> 'w cleaner" where
  "configMap_Cleanup api c r =
     (case cl_list (c_client (cc_cluster c)) ''ConfigMap'' (cc_namespace c)
             [(LabelManagedBy, LabelManagedByValue)] (r_world r) of
        (Inl e, w) \<Rightarrow> (Inl (ESentinel ErrConfigMapCleanup), r\<lparr>r_world := w\<rparr>)
      | (Inr items, w) \<Rightarrow>
          let (results, r') = configMap_cleanup_loop api c items [] (r\<lparr>r_world := w\<rparr>) in (Inr results, r'))"

text \<open>It is the generic cleaner without a hook, with messages of its own.\<close>

lemma configMap_cleanupErrorResult_eq:
  "configMap_cleanupErrorResult c obj err r =
     cleaner_result cleanupErrorStatusConfigMap OperationResultDeletionFailed (cc_cluster c) obj err r"
  by (simp add: configMap_cleanupErrorResult_def cleaner_result_def)

lemma configMap_cleanup_loop_hookless:
  "configMap_cleanup_loop api c objs results r =
     (let (deleted, w') = delete_each (c_client (cc_cluster c))
            (filter (\<lambda>x. \<not> to_keep (cc_configMapsToKeep c) x) objs) (r_world r);
          (new, r') = failed_results cleanupErrorStatusConfigMap (cc_cluster c)
            (filter (\<lambda>(x, e). IgnoreNotFound api e \<noteq> None) deleted) (r\<lparr>r_world := w'\<rparr>)
      in (results @ new, r'))"
  by (rule hookless_loop)
     (simp_all add: to_keep_def configMap_cleanupErrorResult_eq Let_def split: prod.splits)

lemma configMap_Cleanup_hookless:
  "configMap_Cleanup api c =
     hookless_cleanup api cleanupErrorStatusConfigMap ErrConfigMapCleanup (cc_cluster c) ''ConfigMap'' (cc_namespace c)
       (cc_configMapsToKeep c)"
  by (rule ext)
     (simp add: configMap_Cleanup_def hookless_cleanup_def configMap_cleanup_loop_hookless ManagedBy_def Let_def
       split: prod.splits sum.splits)

interpretation configMap_cleaner: orphan_cleaner "configMap_Cleanup api c" for api c
  unfolding configMap_Cleanup_hookless by (rule hookless_orphan_cleaner)

lemma configMap_cleaner_on_server:
  "listing_server api cl view \<Longrightarrow> c_client (cc_cluster c) = cl i \<Longrightarrow>
     orphan_cleaner_on_server api cl view (configMap_Cleanup api c)"
  unfolding configMap_Cleanup_hookless by (rule listing_server.hookless_on_server)

interpretation ref_configMap_cleaner: orphan_cleaner_on_server ref_api ref_client ref_view
  "configMap_Cleanup ref_api (NewConfigMapCleaner (NewManagedCluster (ref_client i) cfg dns ct) ns keep)"
  for i cfg dns ct ns keep
  by (rule configMap_cleaner_on_server [OF reflist.listing_server_axioms])
     (simp add: NewConfigMapCleaner_def NewManagedCluster_def)

end
