(* ===== verification/Helm_Values.thy ===== *)
theory Helm_Values
  imports Managed_Objects
begin

text \<open>
  \<open>pkg/metricsoperator/helm/helm.go\<close>: reading and rewriting the Helm values of the
  metrics operator chart. The values are a JSON object whose members are kept as raw
  messages; the code decodes only the members it changes, so all others pass through.
  How the Kubernetes API types are coded in JSON is a parameter (\<open>codecs\<close>).
\<close>

section \<open>The API types the values hold\<close>

text \<open>
  Of \<open>corev1.EnvVar\<close>, \<open>VolumeMount\<close> and \<open>Volume\<close> the fields the code sets or looks at;
  the rest of a value that was decoded is carried along.
\<close>

record env_var =
  ev_Name :: string
  ev_Value :: string
  ev_Rest :: "(string \<times> json) list"

record volume_mount =
  vm_Name :: string
  vm_ReadOnly :: bool
  vm_MountPath :: string
  vm_Rest :: "(string \<times> json) list"

datatype volume_source =
    SecretSource string
  | ConfigMapSource string "(string \<times> string) list"
  | OtherSource json

record volume =
  v_Name :: string
  v_Source :: volume_source

record codecs =
  env_codec :: "env_var codec"
  mount_codec :: "volume_mount codec"
  volume_codec :: "volume codec"

definition EnvVar :: "string \<Rightarrow> string \<Rightarrow> env_var" where
  "EnvVar name val = \<lparr>ev_Name = name, ev_Value = val, ev_Rest = []\<rparr>"

lemma EnvVar_simps [simp]: "ev_Name (EnvVar n v) = n" "ev_Value (EnvVar n v) = v"
  by (simp_all add: EnvVar_def)

section \<open>Constants\<close>

definition serviceAccountMountPath :: string where
  "serviceAccountMountPath = ''/var/run/secrets/kubernetes.io/serviceaccount''"

definition serviceAccountVolume :: string where
  "serviceAccountVolume = ''kube-api-access''"

definition customCaVolumeName :: string where
  "customCaVolumeName = ''custom-ca-bundle''"

definition customCaPath :: string where
  "customCaPath = ''/etc/open-control-plane/custom-ca''"

definition CustomCABundleConfigMapName :: string where
  "CustomCABundleConfigMapName = ''custom-ca-bundle''"

definition certDirectories :: "string list" where
  "certDirectories = [''/etc/ssl/certs'', ''/etc/pki/tls/certs'']"

section \<open>Decoding the values that are processed\<close>

record helm_values =
  hv_NamespaceOverride :: string
  hv_ImagePullSecrets :: "local_object_reference list"

text \<open>
  \<open>encoding/json\<close> finds the field of a member by its exact name or else by its folded
  name. Folding maps upper to lower case letters, and the two runes outside ASCII that
  fold to an ASCII letter, U+017F and U+212A (two and three bytes), to s and k.
\<close>

definition ascii_lower :: "char \<Rightarrow> char" where
  "ascii_lower c = (if 65 \<le> (of_char c :: nat) \<and> (of_char c :: nat) \<le> 90
                    then char_of ((of_char c :: nat) + 32) else c)"

fun fold_name :: "string \<Rightarrow> string" where
  "fold_name [] = []"
| "fold_name (c # cs) =
     (if c = CHR 0xC5 \<and> take 1 cs = [CHR 0xBF] then CHR ''s'' # fold_name (drop 1 cs)
      else if c = CHR 0xE2 \<and> take 2 cs = [CHR 0x84, CHR 0xAA] then CHR ''k'' # fold_name (drop 2 cs)
      else ascii_lower c # fold_name cs)"

definition names_field :: "string \<Rightarrow> string \<Rightarrow> bool" where
  "names_field member field = (member = field \<or> fold_name member = fold_name field)"

text \<open>Decoding into a string field; null leaves it as it is.\<close>

fun decode_string :: "string \<Rightarrow> json \<Rightarrow> gerr + string" where
  "decode_string old (JStr s) = Inr s"
| "decode_string old JNull = Inr old"
| "decode_string old _ = Inl json_type_error"

fun foldE :: "('a \<Rightarrow> 'b \<Rightarrow> 'e + 'b) \<Rightarrow> 'a list \<Rightarrow> 'b \<Rightarrow> 'e + 'b" where
  "foldE f [] b = Inr b"
| "foldE f (x # xs) b = (case f x b of Inl e \<Rightarrow> Inl e | Inr b' \<Rightarrow> foldE f xs b')"

text \<open>Decoding into a \<open>LocalObjectReference\<close>, a struct with the field \<open>name\<close>.\<close>

fun decode_reference :: "local_object_reference \<Rightarrow> json \<Rightarrow> gerr + local_object_reference" where
  "decode_reference old (JObj ms) =
     foldE (\<lambda>(k, v) name. if names_field k ''name'' then decode_string name v else Inr name) ms old"
| "decode_reference old JNull = Inr old"
| "decode_reference old _ = Inl json_type_error"

text \<open>
  Decoding into a slice: elements that are there already are decoded into, others start
  empty, and the slice gets the length of the array; null makes it nil.
\<close>

fun decode_references :: "local_object_reference list \<Rightarrow> json list \<Rightarrow> gerr + local_object_reference list" where
  "decode_references old [] = Inr []"
| "decode_references old (j # js) =
     (case decode_reference (if old = [] then [] else hd old) j of
        Inl e \<Rightarrow> Inl e
      | Inr r \<Rightarrow> (case decode_references (tl old) js of Inl e \<Rightarrow> Inl e | Inr rs \<Rightarrow> Inr (r # rs)))"

fun decode_reference_slice ::
    "local_object_reference list \<Rightarrow> json \<Rightarrow> gerr + local_object_reference list" where
  "decode_reference_slice old (JArr js) = decode_references old js"
| "decode_reference_slice old JNull = Inr []"
| "decode_reference_slice old _ = Inl json_type_error"

definition decode_member :: "string \<times> json \<Rightarrow> helm_values \<Rightarrow> gerr + helm_values" where
  "decode_member m hv =
     (let (k, v) = m in
      if names_field k ''namespaceOverride''
      then (case decode_string (hv_NamespaceOverride hv) v of
              Inl e \<Rightarrow> Inl e | Inr s \<Rightarrow> Inr (hv\<lparr>hv_NamespaceOverride := s\<rparr>))
      else if names_field k ''imagePullSecrets''
      then (case decode_reference_slice (hv_ImagePullSecrets hv) v of
              Inl e \<Rightarrow> Inl e | Inr refs \<Rightarrow> Inr (hv\<lparr>hv_ImagePullSecrets := refs\<rparr>))
      else Inr hv)"

definition empty_helm_values :: helm_values where
  "empty_helm_values = \<lparr>hv_NamespaceOverride = [], hv_ImagePullSecrets = []\<rparr>"

definition ExtractHelmValues :: "raw option \<Rightarrow> gerr + helm_values" where
  "ExtractHelmValues values =
     (case values of
        None \<Rightarrow> Inr empty_helm_values
      | Some RawEmpty \<Rightarrow> Inr empty_helm_values
      | Some RawInvalid \<Rightarrow> Inl json_syntax_error
      | Some (RawJson JNull) \<Rightarrow> Inr empty_helm_values
      | Some (RawJson (JObj ms)) \<Rightarrow> foldE decode_member ms empty_helm_values
      | Some (RawJson _) \<Rightarrow> Inl json_type_error)"

section \<open>Lists with replacement\<close>

definition upsertVolume :: "volume list \<Rightarrow> volume \<Rightarrow> volume list" where
  "upsertVolume xs v = filter (\<lambda>item. v_Name item \<noteq> v_Name v) xs @ [v]"

definition upsertVolumeMount :: "volume_mount list \<Rightarrow> volume_mount \<Rightarrow> volume_mount list" where
  "upsertVolumeMount xs vm =
     filter (\<lambda>item. vm_Name item \<noteq> vm_Name vm \<and> vm_MountPath item \<noteq> vm_MountPath vm) xs @ [vm]"

definition upsertEnvVar :: "env_var list \<Rightarrow> env_var \<Rightarrow> env_var list" where
  "upsertEnvVar xs e = filter (\<lambda>item. ev_Name item \<noteq> ev_Name e) xs @ [e]"

text \<open>What the three (and their twins in package authn) share.\<close>

locale upsert =
  fixes up :: "'a list \<Rightarrow> 'a \<Rightarrow> 'a list" and conflict :: "'a \<Rightarrow> 'a \<Rightarrow> bool"
  assumes keeps_others: "\<And>xs x. up xs x = filter (\<lambda>y. \<not> conflict y x) xs @ [x]"
    and self_conflict: "\<And>x. conflict x x"
begin

lemma up_member: "y \<in> set (up xs x) \<longleftrightarrow> y = x \<or> (y \<in> set xs \<and> \<not> conflict y x)"
  by (auto simp: keeps_others)

lemma up_present: "x \<in> set (up xs x)"
  by (simp add: up_member)

lemma up_unique: "y \<in> set (up xs x) \<Longrightarrow> conflict y x \<Longrightarrow> y = x"
  by (simp add: up_member)

lemma up_idempotent: "up (up xs x) x = up xs x"
  by (simp add: keeps_others self_conflict)

lemma up_same: "(\<And>y. y \<in> set xs \<Longrightarrow> \<not> conflict y x) \<Longrightarrow> up (xs @ [x]) x = xs @ [x]"
  by (simp add: keeps_others self_conflict)

lemma fold_up_present:
  "x \<in> set es \<Longrightarrow> (\<And>y z. y \<in> set es \<Longrightarrow> z \<in> set es \<Longrightarrow> conflict y z \<Longrightarrow> y = z) \<Longrightarrow>
     x \<in> set (foldl up xs es)"
proof (induction es arbitrary: xs)
  case Nil
  then show ?case by simp
next
  case (Cons e es)
  have keep: "x \<in> set (foldl up ys es)" if "x \<in> set ys" for ys
  proof (cases "x \<in> set es")
    case True
    then show ?thesis using Cons.IH Cons.prems(2) by simp
  next
    case False
    then have "\<forall>z \<in> set es. \<not> conflict x z" using Cons.prems by (metis list.set_intros(1,2) set_ConsD)
    then show ?thesis using that by (induction es arbitrary: ys) (simp_all add: up_member)
  qed
  show ?case using Cons keep up_present by (cases "x = e") auto
qed

text \<open>Replacing several that do not conflict with each other puts them at the end.\<close>

lemma fold_up:
  "pairwise (\<lambda>y z. \<not> conflict y z) (set es) \<Longrightarrow> distinct es \<Longrightarrow>
     foldl up xs es = filter (\<lambda>y. \<forall>x \<in> set es. \<not> conflict y x) xs @ es"
proof (induction es rule: rev_induct)
  case Nil
  then show ?case by simp
next
  case (snoc e es)
  then have "foldl up xs es = filter (\<lambda>y. \<forall>x \<in> set es. \<not> conflict y x) xs @ es"
    by (simp add: pairwise_insert)
  moreover have "filter (\<lambda>y. \<not> conflict y e) es = es"
    using snoc.prems by (auto simp: filter_id_conv pairwise_insert)
  ultimately show ?case
    using keeps_others [of "foldl up xs es" e] by (simp add: conj_commute)
qed

lemma fold_up_idempotent:
  assumes "pairwise (\<lambda>y z. \<not> conflict y z) (set es)" "distinct es"
  shows "foldl up (foldl up xs es) es = foldl up xs es"
proof -
  have "filter (\<lambda>y. \<forall>x \<in> set es. \<not> conflict y x) es = []"
    using self_conflict by (auto simp: filter_empty_conv)
  then show ?thesis by (simp add: fold_up [OF assms])
qed

end

interpretation volumes: upsert upsertVolume "\<lambda>y x. v_Name y = v_Name x"
  by unfold_locales (simp_all add: upsertVolume_def)

interpretation mounts: upsert upsertVolumeMount
  "\<lambda>y x. vm_Name y = vm_Name x \<or> vm_MountPath y = vm_MountPath x"
  by unfold_locales (simp_all add: upsertVolumeMount_def)

interpretation envs: upsert upsertEnvVar "\<lambda>y x. ev_Name y = ev_Name x"
  by unfold_locales (simp_all add: upsertEnvVar_def)

section \<open>Raw messages\<close>

definition unmarshalRoot :: "raw option \<Rightarrow> gerr + raw_map" where
  "unmarshalRoot values =
     (case values of
        None \<Rightarrow> Inr (Some fmempty)
      | Some RawEmpty \<Rightarrow> Inr (Some fmempty)
      | Some r \<Rightarrow>
          (case unmarshal_map r of
             Inl e \<Rightarrow> Inl (EWrap ''failed to unmarshal helm values: '' e [])
           | Inr root \<Rightarrow> Inr root))"

text \<open>
  \<open>unmarshalKey\<close> into a nil slice. A member that is present is a JSON value, so its raw
  message is not empty.
\<close>

definition unmarshalKey :: "'a codec \<Rightarrow> raw_map \<Rightarrow> string \<Rightarrow> gerr + 'a list" where
  "unmarshalKey c root key =
     (case map_index root key of None \<Rightarrow> Inr [] | Some j \<Rightarrow> unmarshal_slice c j)"

text \<open>A section starts from an empty map; null makes it the nil map.\<close>

definition unmarshal_section :: "json option \<Rightarrow> gerr + raw_map" where
  "unmarshal_section raw =
     (case raw of None \<Rightarrow> Inr (Some fmempty) | Some j \<Rightarrow> unmarshal_map_value j)"

definition patchContainerSection ::
    "codecs \<Rightarrow> json option \<Rightarrow> volume_mount \<Rightarrow> env_var list \<Rightarrow> json fallible" where
  "patchContainerSection C raw mount envVars =
     try_go id (Ret (unmarshal_section raw)) (\<lambda>section.
     try_go id (Ret (unmarshalKey (mount_codec C) section ''extraVolumeMounts'')) (\<lambda>mounts.
     try_go id (Ret (unmarshalKey (env_codec C) section ''extraEnv'')) (\<lambda>envs.
     let mounts' = upsertVolumeMount mounts mount; envs' = foldl upsertEnvVar envs envVars in
     assign_or_fail id section ''extraVolumeMounts'' (Ret (marshal_slice (mount_codec C) mounts')) (\<lambda>section.
     assign_or_fail id section ''extraEnv'' (Ret (marshal_slice (env_codec C) envs')) (\<lambda>section.
     ok (marshal_map section))))))"

definition patchEnvVars :: "codecs \<Rightarrow> json option \<Rightarrow> env_var list \<Rightarrow> json fallible" where
  "patchEnvVars C raw envVars =
     try_go id (Ret (unmarshal_section raw)) (\<lambda>section.
     try_go id (Ret (unmarshalKey (env_codec C) section ''extraEnv'')) (\<lambda>envs.
     let envs' = foldl upsertEnvVar envs envVars in
     assign_or_fail id section ''extraEnv'' (Ret (marshal_slice (env_codec C) envs')) (\<lambda>section.
     ok (marshal_map section))))"

section \<open>The three rewrites\<close>

text \<open>\<open>fmt.Errorf("name: %w", err)\<close>\<close>

definition at_key :: "string \<Rightarrow> gerr \<Rightarrow> gerr" where
  "at_key key e = EWrap (key @ '': '') e []"

definition AddDefaultHelmValues :: "codecs \<Rightarrow> raw option \<Rightarrow> string \<Rightarrow> raw fallible" where
  "AddDefaultHelmValues C values cpNamespace =
     try_go id (Ret (unmarshalRoot values)) (\<lambda>root.
     assign_or_fail (at_key ''manager'') root ''manager''
       (patchEnvVars C (map_index root ''manager'') [EnvVar ''OPERATOR_CONFIG_NAMESPACE'' cpNamespace]) (\<lambda>root.
     assign_or_fail id root ''serviceAccount''
       (ok (JObj [(''automount'', JBool False), (''create'', JBool False)])) (\<lambda>root.
     ok (RawJson (marshal_map root)))))"

definition authVolume :: "string \<Rightarrow> volume" where
  "authVolume saName = \<lparr>v_Name = serviceAccountVolume, v_Source = SecretSource saName\<rparr>"

definition authVolumeMount :: volume_mount where
  "authVolumeMount = \<lparr>vm_Name = serviceAccountVolume, vm_ReadOnly = True,
     vm_MountPath = serviceAccountMountPath, vm_Rest = []\<rparr>"

text \<open>
  Both rewrites add a volume, and a mount and variables to the init and manager sections;
  the last error is wrapped by one of them only.
\<close>

definition add_volume_and_sections ::
    "codecs \<Rightarrow> (gerr \<Rightarrow> gerr) \<Rightarrow> raw option \<Rightarrow> volume \<Rightarrow> volume_mount \<Rightarrow> env_var list \<Rightarrow> raw fallible" where
  "add_volume_and_sections C wrap values vol mount envVars =
     try_go id (Ret (unmarshalRoot values)) (\<lambda>root.
     try_go (at_key ''extraVolumes'') (Ret (unmarshalKey (volume_codec C) root ''extraVolumes'')) (\<lambda>extraVolumes.
     assign_or_fail id root ''extraVolumes''
       (Ret (marshal_slice (volume_codec C) (upsertVolume extraVolumes vol))) (\<lambda>root.
     assign_or_fail (at_key ''init'') root ''init''
       (patchContainerSection C (map_index root ''init'') mount envVars) (\<lambda>root.
     assign_or_fail (at_key ''manager'') root ''manager''
       (patchContainerSection C (map_index root ''manager'') mount envVars) (\<lambda>root.
     try_go wrap (ok (marshal_map root)) (\<lambda>out. ok (RawJson out)))))))"

definition AddAuthToHelmValues ::
    "codecs \<Rightarrow> raw option \<Rightarrow> 'w managed_cluster \<Rightarrow> string \<Rightarrow> raw fallible" where
  "AddAuthToHelmValues C values remoteCluster saName =
     (case GetHostAndPort remoteCluster of
        Panic p \<Rightarrow> Panic p
      | Ret (remoteHost, remotePort) \<Rightarrow>
          add_volume_and_sections C id values (authVolume saName) authVolumeMount
            [EnvVar ''KUBERNETES_SERVICE_HOST'' remoteHost, EnvVar ''KUBERNETES_SERVICE_PORT'' remotePort])"

definition caVolume :: "string \<Rightarrow> volume" where
  "caVolume key = \<lparr>v_Name = customCaVolumeName,
     v_Source = ConfigMapSource CustomCABundleConfigMapName [(key, key)]\<rparr>"

definition caVolumeMount :: volume_mount where
  "caVolumeMount = \<lparr>vm_Name = customCaVolumeName, vm_ReadOnly = True, vm_MountPath = customCaPath,
     vm_Rest = []\<rparr>"

definition caEnvVar :: env_var where
  "caEnvVar = EnvVar ''SSL_CERT_DIR'' (join_strings (certDirectories @ [customCaPath]) '':'')"

definition AddCAHelmValues ::
    "codecs \<Rightarrow> raw option \<Rightarrow> config_map_key_selector option \<Rightarrow> raw fallible" where
  "AddCAHelmValues C values configMap =
     (case configMap of
        None \<Rightarrow> fail (EMsg ''cannot add custom CA to Helm values: ConfigMapKeySelector is nil'')
      | Some cm \<Rightarrow>
          if cms_Name cm = []
          then fail (EMsg ''cannot add custom CA to Helm values: caBundleRef.Name must be set'')
          else if cms_Key cm = []
          then fail (EMsg ''cannot add custom CA to Helm values: caBundleRef.Key must be set'')
          else
            add_volume_and_sections C (\<lambda>e. EWrap ''failed to marshal helm values: '' e []) values
              (caVolume (cms_Key cm)) caVolumeMount [caEnvVar])"

end
