(* ===== verification/Instance_Id.thy ===== *)
theory Instance_Id
  imports Api_Types "HOL-Library.Word"
begin

text \<open>
  \<open>pkg/metricsoperator/instance/identity.go\<close>: the instance id of a MetricsOperator, a
  base32 text of the SHA-1 of its name space and name, kept in a label, and the name space
  made from it. SHA-1 and base32 are those of the Go standard library, written out.
\<close>

unbundle bit_operations_syntax

section \<open>SHA-1\<close>

definition byte_of :: "char \<Rightarrow> 8 word" where
  "byte_of c = word_of_nat (of_char c)"

text \<open>The message, a one bit, zeros, and the length in bits as eight bytes.\<close>

definition length_bytes :: "nat \<Rightarrow> 8 word list" where
  "length_bytes n = map (\<lambda>i. ucast (drop_bit (56 - 8 * i) (word_of_nat (8 * n) :: 64 word))) [0..<8]"

definition sha1_pad :: "8 word list \<Rightarrow> 8 word list" where
  "sha1_pad m = m @ 0x80 # replicate ((119 - length m mod 64) mod 64) 0 @ length_bytes (length m)"

fun be_words :: "8 word list \<Rightarrow> 32 word list" where
  "be_words (a # b # c # d # rest) =
     (push_bit 24 (ucast a) OR push_bit 16 (ucast b) OR push_bit 8 (ucast c) OR ucast d) # be_words rest"
| "be_words _ = []"

definition be_bytes :: "32 word \<Rightarrow> 8 word list" where
  "be_bytes w = [ucast (drop_bit 24 w), ucast (drop_bit 16 w), ucast (drop_bit 8 w), ucast w]"

function blocks :: "32 word list \<Rightarrow> 32 word list list" where
  "blocks ws = (if length ws < 16 then [] else take 16 ws # blocks (drop 16 ws))"
  by auto
termination by (relation "measure length") auto

declare blocks.simps [simp del]

definition schedule :: "32 word list \<Rightarrow> 32 word list" where
  "schedule ws = foldl (\<lambda>w t. w @ [word_rotl 1 (w ! (t - 3) XOR w ! (t - 8) XOR w ! (t - 14) XOR w ! (t - 16))])
     ws [16..<80]"

type_synonym sha1_state = "32 word \<times> 32 word \<times> 32 word \<times> 32 word \<times> 32 word"

definition sha1_f :: "nat \<Rightarrow> 32 word \<Rightarrow> 32 word \<Rightarrow> 32 word \<Rightarrow> 32 word" where
  "sha1_f t b c d =
     (if t < 20 then (b AND c) OR (NOT b AND d)
      else if t < 40 then b XOR c XOR d
      else if t < 60 then (b AND c) OR (b AND d) OR (c AND d)
      else b XOR c XOR d)"

definition sha1_k :: "nat \<Rightarrow> 32 word" where
  "sha1_k t = (if t < 20 then 0x5A827999 else if t < 40 then 0x6ED9EBA1
               else if t < 60 then 0x8F1BBCDC else 0xCA62C1D6)"

definition sha1_round :: "sha1_state \<Rightarrow> nat \<times> 32 word \<Rightarrow> sha1_state" where
  "sha1_round s tw =
     (let (a, b, c, d, e) = s; (t, w) = tw
      in (word_rotl 5 a + sha1_f t b c d + e + w + sha1_k t, a, word_rotl 30 b, c, d))"

definition sha1_block :: "sha1_state \<Rightarrow> 32 word list \<Rightarrow> sha1_state" where
  "sha1_block h ws =
     (let (a, b, c, d, e) = h;
          (a', b', c', d', e') = foldl sha1_round h (zip [0..<80] (schedule ws))
      in (a + a', b + b', c + c', d + d', e + e'))"

definition sha1_init :: sha1_state where
  "sha1_init = (0x67452301, 0xEFCDAB89, 0x98BADCFE, 0x10325476, 0xC3D2E1F0)"

definition sha1 :: "string \<Rightarrow> 8 word list" where
  "sha1 msg =
     (let (a, b, c, d, e) = foldl sha1_block sha1_init (blocks (be_words (sha1_pad (map byte_of msg))))
      in concat (map be_bytes [a, b, c, d, e]))"

lemma sha1_length: "length (sha1 msg) = 20"
  by (simp add: sha1_def be_bytes_def split: prod.splits)

section \<open>Base32 without padding\<close>

definition byte_bits :: "8 word \<Rightarrow> bool list" where
  "byte_bits b = map (\<lambda>i. bit b (7 - i)) [0..<8]"

fun bits_value :: "bool list \<Rightarrow> nat" where
  "bits_value [] = 0"
| "bits_value (x # xs) = (if x then 2 ^ length xs else 0) + bits_value xs"

function quintets :: "bool list \<Rightarrow> nat list" where
  "quintets bs =
     (if bs = [] then []
      else bits_value (take 5 (bs @ replicate 5 False)) # quintets (drop 5 bs))"
  by auto
termination by (relation "measure length") auto

declare quintets.simps [simp del]

definition base32EncodeStdLowerCase :: string where
  "base32EncodeStdLowerCase = ''abcdefghijklmnopqrstuvwxyz234567''"

definition base32 :: "8 word list \<Rightarrow> string" where
  "base32 bytes = map (\<lambda>q. base32EncodeStdLowerCase ! q) (quintets (concat (map byte_bits bytes)))"

lemma bits_value_bound: "bits_value bs < 2 ^ length bs"
  by (induction bs) auto

lemma quintets_bound: "q \<in> set (quintets bs) \<Longrightarrow> q < 32"
proof (induction bs rule: quintets.induct)
  case (1 bs)
  show ?case
  proof (cases "bs = []")
    case True
    with 1 show ?thesis by (simp add: quintets.simps)
  next
    case False
    have "bits_value (take 5 (bs @ replicate 5 False)) < 2 ^ 5"
    proof -
      have "length (take 5 (bs @ replicate 5 False)) = 5" by simp
      with bits_value_bound [of "take 5 (bs @ replicate 5 False)"] show ?thesis by metis
    qed
    with 1 False show ?thesis
      by (subst (asm) (2) quintets.simps) auto
  qed
qed

lemma quintets_length: "length bs = 5 * n \<Longrightarrow> length (quintets bs) = n"
proof (induction n arbitrary: bs)
  case 0
  then show ?case by (simp add: quintets.simps)
next
  case (Suc n)
  then have "bs \<noteq> []" "length (drop 5 bs) = 5 * n" by auto
  with Suc.IH show ?case by (subst quintets.simps) simp
qed

lemma base32_alphabet_length: "length base32EncodeStdLowerCase = 32"
  by (simp add: base32EncodeStdLowerCase_def)

lemma base32_alphabet: "set (base32 bytes) \<subseteq> set base32EncodeStdLowerCase"
proof
  fix c assume "c \<in> set (base32 bytes)"
  then obtain q where "q \<in> set (quintets (concat (map byte_bits bytes)))" "c = base32EncodeStdLowerCase ! q"
    by (auto simp: base32_def)
  moreover from this(1) have "q < 32" by (rule quintets_bound)
  ultimately show "c \<in> set base32EncodeStdLowerCase" by (simp add: base32_alphabet_length)
qed

lemma base32_length: "5 * n = 8 * length bytes \<Longrightarrow> length (base32 bytes) = n"
proof -
  assume n: "5 * n = 8 * length bytes"
  have "length (concat (map byte_bits bytes)) = 8 * length bytes"
    by (induction bytes) (simp_all add: byte_bits_def)
  with n show ?thesis by (simp add: base32_def quintets_length)
qed

section \<open>The instance id\<close>

definition labelInstanceID :: string where
  "labelInstanceID = ''metrics-operator.services.openmcp.cloud/instance-id''"

text \<open>A label that is not set reads as the empty string.\<close>

definition GetID :: "metrics_operator \<Rightarrow> string" where
  "GetID mo =
     (case mo_Labels mo of
        None \<Rightarrow> []
      | Some labels \<Rightarrow> (case labels labelInstanceID of None \<Rightarrow> [] | Some v \<Rightarrow> v))"

definition SetID :: "metrics_operator \<Rightarrow> string \<Rightarrow> metrics_operator" where
  "SetID mo tenantID =
     (let labels = (case mo_Labels mo of None \<Rightarrow> Map.empty | Some l \<Rightarrow> l)
      in mo\<lparr>mo_Labels := Some (labels(labelInstanceID \<mapsto> tenantID))\<rparr>)"

definition GenerateID :: "metrics_operator \<Rightarrow> string" where
  "GenerateID mo = base32 (sha1 (mo_Namespace mo @ ''/'' @ mo_Name mo))"

definition Instance_Namespace :: "metrics_operator \<Rightarrow> string" where
  "Instance_Namespace mo = ''metrics-operator-'' @ GetID mo"

lemma GetID_SetID [simp]: "GetID (SetID mo i) = i"
  by (simp add: GetID_def SetID_def Let_def)

lemma SetID_frame [simp]:
  "mo_Name (SetID mo i) = mo_Name mo" "mo_Namespace (SetID mo i) = mo_Namespace mo"
  "mo_Version (SetID mo i) = mo_Version mo" "mo_Status (SetID mo i) = mo_Status mo"
  by (simp_all add: SetID_def Let_def)

lemma GenerateID_length: "length (GenerateID mo) = 32"
  unfolding GenerateID_def by (rule base32_length) (simp add: sha1_length)

lemma GenerateID_alphabet: "set (GenerateID mo) \<subseteq> set base32EncodeStdLowerCase"
  by (simp add: GenerateID_def base32_alphabet)

lemma GenerateID_not_empty [simp]: "GenerateID mo \<noteq> []"
  using GenerateID_length [of mo] by auto

text \<open>What Kubernetes takes as a name of a name space (RFC 1123 label).\<close>

definition dns_label :: "string \<Rightarrow> bool" where
  "dns_label s \<longleftrightarrow>
     s \<noteq> [] \<and> length s \<le> 63 \<and>
     (\<forall>c \<in> set s. c \<in> set ''abcdefghijklmnopqrstuvwxyz0123456789-'') \<and>
     hd s \<noteq> CHR ''-'' \<and> last s \<noteq> CHR ''-''"

lemma base32_alphabet_dns:
  "set base32EncodeStdLowerCase \<subseteq> set ''abcdefghijklmnopqrstuvwxyz0123456789-''"
  by (simp add: base32EncodeStdLowerCase_def)

lemma dash_not_in_alphabet: "CHR ''-'' \<notin> set base32EncodeStdLowerCase"
  by (simp add: base32EncodeStdLowerCase_def)

text \<open>
  C32: the name space made from a generated instance id is one Kubernetes accepts: 49
  characters, lower case letters, digits and dashes, with no dash at either end.
\<close>

theorem generated_namespace_is_valid:
  "dns_label (Instance_Namespace (SetID mo (GenerateID mo'))) \<and>
   length (Instance_Namespace (SetID mo (GenerateID mo'))) = 49"
proof -
  let ?id = "GenerateID mo'"
  have len: "length ?id = 32" and alpha: "set ?id \<subseteq> set base32EncodeStdLowerCase"
    by (rule GenerateID_length, rule GenerateID_alphabet)
  have "last ?id \<in> set base32EncodeStdLowerCase"
    using alpha last_in_set [OF GenerateID_not_empty] by blast
  then have last: "last ?id \<noteq> CHR ''-''" using dash_not_in_alphabet by metis
  have chars: "\<forall>c \<in> set ?id. c \<in> set ''abcdefghijklmnopqrstuvwxyz0123456789-''"
    using alpha base32_alphabet_dns by blast
  have prefix: "\<forall>c \<in> set ''metrics-operator-''. c \<in> set ''abcdefghijklmnopqrstuvwxyz0123456789-''"
    by simp
  have name: "Instance_Namespace (SetID mo ?id) = ''metrics-operator-'' @ ?id"
    by (simp add: Instance_Namespace_def)
  have "length (''metrics-operator-'' @ ?id) = 49" using len by simp
  moreover have "\<forall>c \<in> set (''metrics-operator-'' @ ?id). c \<in> set ''abcdefghijklmnopqrstuvwxyz0123456789-''"
    using chars prefix unfolding set_append ball_Un by blast
  moreover have "last (''metrics-operator-'' @ ?id) = last ?id" by simp
  ultimately show ?thesis
    unfolding name dns_label_def using last by simp
qed

end
