(* ===== verification/Flux.thy ===== *)
theory Flux
  imports Manager_Correct Instance_Id
begin

text \<open>
  \<open>pkg/metricsoperator/flux/flux.go\<close>: the OCI repository with the chart and the Helm
  release that installs it, on the platform cluster.
\<close>

section \<open>The code\<close>

definition DefaultNamespace :: string where "DefaultNamespace = ''metrics-operator''"
definition OCIRepositoryName :: string where "OCIRepositoryName = ''metrics-operator''"
definition HelmReleaseName :: string where "HelmReleaseName = ''metrics-operator''"

text \<open>
  The parameters. Of the cluster context only the name of the workload access secret is
  used; the cluster itself is passed beside them, as it is changed.
\<close>

record flux_params =
  fp_CPNamespace :: string
  fp_WorkloadNamespace :: string
  fp_ChartPullSecretName :: string
  fp_Obj :: metrics_operator
  fp_Interval :: int
  fp_WorkloadAccessSecretName :: string
  fp_RequestedVersion :: metrics_operator_version

definition insecure_url :: "string \<Rightarrow> bool" where
  "insecure_url url \<longleftrightarrow> str_contains url ''local'' \<or> str_contains url ''127.0.0.1''"

definition oci_spec :: "flux_params \<Rightarrow> string \<Rightarrow> oci_repository_spec" where
  "oci_spec p url =
     (let spec = \<lparr>oci_Interval = fp_Interval p, oci_URL = url, oci_Insecure = insecure_url url,
            oci_Tag = mov_ChartVersion (fp_RequestedVersion p),
            oci_LayerMediaType = ''application/vnd.cncf.helm.chart.content.v1.tar+gzip'',
            oci_LayerOperation = ''extract'', oci_SecretRef = None\<rparr>
      in if fp_ChartPullSecretName p \<noteq> [] then spec\<lparr>oci_SecretRef := Some (fp_ChartPullSecretName p)\<rparr>
         else spec)"

definition oci_reconcile :: "flux_params \<Rightarrow> 'w reconcile_func" where
  "oci_reconcile p = (\<lambda>o' w.
     case o_Body o' of
       OCIRepository spec conds \<Rightarrow>
         (case mov_ChartURL (fp_RequestedVersion p) of
            None \<Rightarrow> (Ret (Some (EMsg (''missing ChartURL definition for Flux version '' @
                       mov_Version (fp_RequestedVersion p)))), o', w)
          | Some url \<Rightarrow> (Ret None, o'\<lparr>o_Body := OCIRepository (Some (oci_spec p url)) conds\<rparr>, w))
     | b \<Rightarrow> (Ret (Some (EMsg (''expected *sourcev1.OCIRepository, got '' @ go_type b))), o', w))"

definition helm_release_spec_of :: "flux_params \<Rightarrow> string \<Rightarrow> helm_release_spec" where
  "helm_release_spec_of p ns =
     \<lparr>hr_Interval = fp_Interval p, hr_ChartRefKind = ''OCIRepository'',
      hr_ChartRefName = OCIRepositoryName, hr_ChartRefNamespace = ns,
      hr_KubeConfigSecretName = fp_WorkloadAccessSecretName p, hr_KubeConfigSecretKey = ''kubeconfig'',
      hr_InstallRetries = 3, hr_CreateNamespace = True, hr_DriftDetection = ''enabled'',
      hr_Values = mov_HelmValues (fp_RequestedVersion p),
      hr_TargetNamespace = fp_WorkloadNamespace p, hr_StorageNamespace = fp_WorkloadNamespace p\<rparr>"

definition helm_release_reconcile :: "flux_params \<Rightarrow> string \<Rightarrow> 'w reconcile_func" where
  "helm_release_reconcile p ns = (\<lambda>o' w.
     case o_Body o' of
       HelmRelease spec conds \<Rightarrow>
         (Ret None, o'\<lparr>o_Body := HelmRelease (Some (helm_release_spec_of p ns)) conds\<rparr>, w)
     | b \<Rightarrow> (Ret (Some (EMsg (''expected *helmv2.HelmRelease, got '' @ go_type b))), o', w))"

text \<open>
  \<open>FluxStatus\<close> asserts that the object has conditions, which panics for other objects.
\<close>

definition no_conditions_panic :: string where
  "no_conditions_panic = ''interface conversion: missing method GetConditions''"

definition FluxStatus :: "'w kube_api \<Rightarrow> object \<Rightarrow> resource_location \<Rightarrow> status go" where
  "FluxStatus api o' rl =
     (let body_status = (\<lambda>conds. Ret
            (if o_DeletionTimestamp o' \<noteq> None
             then \<lparr>s_Phase = Terminating, s_Message = ''Resource is terminating.'', s_Location = rl\<rparr>
             else if ConditionsIsTrue api conds ''Ready''
             then \<lparr>s_Phase = Ready, s_Message = ''Resource is ready'', s_Location = rl\<rparr>
             else \<lparr>s_Phase = Pending, s_Message = ''Resource is not ready'', s_Location = rl\<rparr>))
      in case o_Body o' of
           OCIRepository spec conds \<Rightarrow> body_status conds
         | HelmRelease spec conds \<Rightarrow> body_status conds
         | _ \<Rightarrow> Panic no_conditions_panic)"

definition flux_context :: "'w kube_api \<Rightarrow> 'w reconcile_func \<Rightarrow> nat list \<Rightarrow> 'w managed_object_context" where
  "flux_context api f deps =
     \<lparr>moc_ReconcileFunc = Some f, moc_DependsOn = deps, moc_DeletionPolicy = Delete,
      moc_StatusFunc = Some (FluxStatus api)\<rparr>"

definition ManageFluxResources ::
    "'w kube_api \<Rightarrow> flux_params \<Rightarrow> 'w managed_cluster \<Rightarrow> 'w run \<Rightarrow> 'w managed_cluster \<times> 'w run" where
  "ManageFluxResources api p cluster r =
     (let ns = c_defaultNamespace cluster;
          (ociRepo, r1) = NewManagedObject (new_object OCIRepositoryName ns (OCIRepository None []))
            (flux_context api (oci_reconcile p) []) r;
          cluster1 = AddObject ociRepo cluster;
          (workloadHelmRelease, r2) = NewManagedObject (new_object HelmReleaseName ns (HelmRelease None []))
            (flux_context api (helm_release_reconcile p ns) [m_ref ociRepo]) r1
      in (AddObject workloadHelmRelease cluster1, r2))"

section \<open>Facts\<close>

fun flux_conditions :: "body \<Rightarrow> condition list option" where
  "flux_conditions (OCIRepository spec conds) = Some conds"
| "flux_conditions (HelmRelease spec conds) = Some conds"
| "flux_conditions _ = None"

lemma FluxStatus_conditions:
  "FluxStatus api o' rl =
     (case flux_conditions (o_Body o') of
        None \<Rightarrow> Panic no_conditions_panic
      | Some conds \<Rightarrow> Ret
            (if o_DeletionTimestamp o' \<noteq> None
             then \<lparr>s_Phase = Terminating, s_Message = ''Resource is terminating.'', s_Location = rl\<rparr>
             else if ConditionsIsTrue api conds ''Ready''
             then \<lparr>s_Phase = Ready, s_Message = ''Resource is ready'', s_Location = rl\<rparr>
             else \<lparr>s_Phase = Pending, s_Message = ''Resource is not ready'', s_Location = rl\<rparr>))"
  by (cases "o_Body o'") (simp_all add: FluxStatus_def)

interpretation flux_status: status_function "FluxStatus api"
  "\<lambda>o'. flux_conditions (o_Body o') \<noteq> None"
  "\<lambda>o'. ConditionsIsTrue api (the (flux_conditions (o_Body o'))) ''Ready''"
  for api
  by unfold_locales (auto simp: FluxStatus_conditions split: option.splits)

lemma oci_reconcile_no_panic: "\<not> panics (fst (oci_reconcile p o' w))"
  by (simp add: oci_reconcile_def split: body.splits option.splits)

lemma helm_release_reconcile_no_panic: "\<not> panics (fst (helm_release_reconcile p ns o' w))"
  by (simp add: helm_release_reconcile_def split: body.splits)


lemma oci_keeps_label:
  "m_reconcileFunc m = Some (oci_reconcile p) \<Longrightarrow> keeps_label ob m"
  by (auto simp: keeps_label_def Reconcile_def oci_reconcile_def is_managed_iff object_key_def
      split: body.splits option.splits)

lemma helm_release_keeps_label:
  "m_reconcileFunc m = Some (helm_release_reconcile p ns) \<Longrightarrow> keeps_label ob m"
  by (auto simp: keeps_label_def Reconcile_def helm_release_reconcile_def is_managed_iff object_key_def
      split: body.splits)

end
