(* ===== verification/Rfc3339.thy ===== *)
theory Rfc3339
  imports Main
begin

text \<open>
  The two functions of the standard library the token renewal keeps its time with:
  \<open>Time.Format\<close> and \<open>time.Parse\<close> for the layout \<open>time.RFC3339\<close>
  (\<open>2006-01-02T15:04:05Z07:00\<close>). A time is an \<open>int\<close>, the nanoseconds since the Unix epoch.
  The parser takes what Go's takes: an hour of one digit, a fraction of a second, and zone
  offsets of up to 24 hours and 60 minutes. The errors of the parser are not told apart.
\<close>

section \<open>The calendar\<close>

definition leap_year :: "int \<Rightarrow> bool" where
  "leap_year y \<longleftrightarrow> 4 dvd y \<and> (\<not> 100 dvd y \<or> 400 dvd y)"

definition month_lengths :: "int \<Rightarrow> int list" where
  "month_lengths y = [31, if leap_year y then 29 else 28, 31, 30, 31, 30, 31, 31, 30, 31, 30, 31]"

text \<open>The days from January 1 of year 1 to January 1 of year \<open>y\<close>.\<close>

definition days_before_year :: "int \<Rightarrow> int" where
  "days_before_year y = 365 * (y - 1) + (y - 1) div 4 - (y - 1) div 100 + (y - 1) div 400"

definition epoch_days :: int where
  "epoch_days = 719162"

lemma div_step: "0 < k \<Longrightarrow> (y :: int) div k = (y - 1) div k + (if k dvd y then 1 else 0)"
proof -
  assume k: "0 < k"
  show ?thesis
  proof (cases "k dvd y")
    case True
    then obtain q where y: "y = k * q" ..
    have "(k * q - 1) div k = q - 1" using k by (intro int_div_pos_eq [where r = "k - 1"]) (simp_all add: algebra_simps)
    with k y True show ?thesis by simp
  next
    case False
    then have "y mod k \<noteq> 0" by (simp add: dvd_eq_mod_eq_0)
    with k have r: "0 < y mod k" "y mod k < k" using pos_mod_sign [OF k, of y] pos_mod_bound [OF k, of y] by linarith+
    have "(y - 1) div k = y div k"
      by (rule int_div_pos_eq [where r = "y mod k - 1"]) (use r mult_div_mod_eq [of k y] in linarith)+
    with False show ?thesis by simp
  qed
qed

lemma next_day:
  fixes a b c :: int
  assumes "a' = a + i" "b' = b + j" "c' = c + k"
  shows "365 * y + a' - b' + c' = 365 * (y - 1) + a - b + c + (365 + i - j + k)"
  using assms by (simp add: algebra_simps)

lemma day_count:
  "p \<longrightarrow> q \<Longrightarrow> q \<longrightarrow> r \<Longrightarrow>
     (365 :: int) + (if r then 1 else 0) - (if q then 1 else 0) + (if p then 1 else 0) =
     (if r \<and> (\<not> q \<or> p) then 366 else 365)"
  by (cases p; cases q; cases r) simp_all

lemma days_before_next_year:
  "days_before_year (y + 1) = days_before_year y + (if leap_year y then 366 else 365)"
proof -
  have d: "(400 :: int) dvd y \<longrightarrow> 100 dvd y" "(100 :: int) dvd y \<longrightarrow> 4 dvd y"
    using dvd_trans [of 100 400 y] dvd_trans [of 4 100 y] by simp_all
  have 4: "y div 4 = (y - 1) div 4 + (if 4 dvd y then 1 else 0)" by (rule div_step) simp
  have 100: "y div 100 = (y - 1) div 100 + (if 100 dvd y then 1 else 0)" by (rule div_step) simp
  have 400: "y div 400 = (y - 1) div 400 + (if 400 dvd y then 1 else 0)" by (rule div_step) simp
  show ?thesis
    unfolding days_before_year_def add_diff_cancel_right' leap_year_def day_count [OF d, symmetric]
    by (rule next_day [OF 4 100 400])
qed

lemma sum_month_lengths: "sum_list (month_lengths y) = days_before_year (y + 1) - days_before_year y"
  by (simp add: days_before_next_year month_lengths_def)

lemma days_before_year_less: "y < z \<Longrightarrow> days_before_year (y + 1) \<le> days_before_year z"
proof (induction z rule: int_gr_induct)
  case base
  then show ?case by simp
next
  case (step z)
  then show ?case using days_before_next_year [of z] by (auto split: if_splits)
qed

lemma year_unique:
  assumes "days_before_year y \<le> d" "d < days_before_year (y + 1)"
    "days_before_year z \<le> d" "d < days_before_year (z + 1)"
  shows "y = z"
  using assms days_before_year_less [of y z] days_before_year_less [of z y] by linarith

text \<open>The year of a day is searched from a year that is not after it.\<close>

function year_from :: "int \<Rightarrow> int \<Rightarrow> int" where
  "year_from y d = (if days_before_year (y + 1) \<le> d then year_from (y + 1) d else y)"
  by auto
termination
  by (relation "measure (\<lambda>(y, d). nat (d - days_before_year y))")
     (auto simp: days_before_next_year split: if_splits)

declare year_from.simps [simp del]

definition year_of_days :: "int \<Rightarrow> int" where
  "year_of_days d = year_from ((if 0 \<le> d then d div 366 else d div 365) + 1) d"

lemma year_from_brackets:
  "days_before_year y \<le> d \<Longrightarrow>
     days_before_year (year_from y d) \<le> d \<and> d < days_before_year (year_from y d + 1)"
  by (induction y d rule: year_from.induct) (simp add: year_from.simps)

lemma year_start: "days_before_year ((if 0 \<le> d then d div 366 else d div 365) + 1) \<le> d"
proof (cases "0 \<le> d")
  case True
  then have "0 \<le> d div 366" by (simp add: pos_imp_zdiv_nonneg_iff)
  then have "d div 366 div 4 - d div 366 div 100 + d div 366 div 400 \<le> d div 366" by linarith
  moreover have "366 * (d div 366) \<le> d" using mult_div_mod_eq [of 366 d] pos_mod_sign [of 366 d] by simp
  ultimately show ?thesis using True by (simp add: days_before_year_def)
next
  case False
  then have "d div 365 < 0" by (simp add: neg_imp_zdiv_neg_iff)
  then have "d div 365 div 4 - d div 365 div 100 + d div 365 div 400 \<le> 0" by linarith
  moreover have "365 * (d div 365) \<le> d" using mult_div_mod_eq [of 365 d] pos_mod_sign [of 365 d] by simp
  ultimately show ?thesis using False by (simp add: days_before_year_def)
qed

lemma year_of_days:
  "days_before_year (year_of_days d) \<le> d" "d < days_before_year (year_of_days d + 1)"
  using year_from_brackets [OF year_start] by (simp_all add: year_of_days_def)

text \<open>The month and the day of the month, from the lengths of the months.\<close>

fun month_and_day :: "int list \<Rightarrow> int \<Rightarrow> int \<times> int" where
  "month_and_day [] doy = (1, doy + 1)"
| "month_and_day (l # ls) doy =
     (if doy < l then (1, doy + 1) else let (m, d) = month_and_day ls (doy - l) in (m + 1, d))"

lemma month_and_day:
  "0 \<le> doy \<Longrightarrow> doy < sum_list ls \<Longrightarrow> month_and_day ls doy = (m, d) \<Longrightarrow>
     1 \<le> m \<and> m \<le> int (length ls) \<and> 1 \<le> d \<and> d \<le> ls ! nat (m - 1) \<and>
     sum_list (take (nat (m - 1)) ls) + d - 1 = doy"
proof (induction ls arbitrary: doy m d)
  case Nil
  then show ?case by simp
next
  case (Cons l ls)
  show ?case
  proof (cases "doy < l")
    case True
    with Cons.prems show ?thesis by auto
  next
    case False
    obtain m' d' where md: "month_and_day ls (doy - l) = (m', d')" by fastforce
    have "1 \<le> m' \<and> m' \<le> int (length ls) \<and> 1 \<le> d' \<and> d' \<le> ls ! nat (m' - 1) \<and>
        sum_list (take (nat (m' - 1)) ls) + d' - 1 = doy - l"
      by (rule Cons.IH [OF _ _ md]) (use Cons.prems False in auto)
    moreover have "m = m' + 1" "d = d'" using Cons.prems(3) False md by auto
    moreover have "nat m' = Suc (nat (m' - 1))" using calculation(1) by (simp add: Suc_nat_eq_nat_zadd1)
    ultimately show ?thesis by simp
  qed
qed

section \<open>Formatting\<close>

definition digit :: "nat \<Rightarrow> char" where
  "digit n = char_of (48 + n)"

fun decimal :: "nat \<Rightarrow> string" where
  "decimal n = (if n < 10 then [digit n] else decimal (n div 10) @ [digit (n mod 10)])"

declare decimal.simps [simp del]

text \<open>\<open>appendInt\<close>: at least \<open>width\<close> digits, with zeros in front.\<close>

definition append_int :: "nat \<Rightarrow> int \<Rightarrow> string" where
  "append_int width x =
     (let ds = decimal (nat \<bar>x\<bar>)
      in (if x < 0 then ''-'' else []) @ replicate (width - length ds) (CHR ''0'') @ ds)"

definition nanos :: int where "nanos = 1000000000"

text \<open>A zone offset in seconds; a zero offset is \<open>Z\<close>, of others the whole minutes are shown.\<close>

definition format_zone :: "int \<Rightarrow> string" where
  "format_zone off =
     (if off = 0 then ''Z''
      else let zone = \<bar>off\<bar> div 60
           in (if off < 0 \<and> zone \<noteq> 0 then ''-'' else ''+'') @ append_int 2 (zone div 60) @ '':'' @ append_int 2 (zone mod 60))"

definition format_rfc3339 :: "int \<Rightarrow> int \<Rightarrow> string" where
  "format_rfc3339 off t =
     (let secs = t div nanos + off; days = secs div 86400 + epoch_days; sod = secs mod 86400;
          y = year_of_days days; (m, d) = month_and_day (month_lengths y) (days - days_before_year y)
      in append_int 4 y @ ''-'' @ append_int 2 m @ ''-'' @ append_int 2 d @ ''T'' @
         append_int 2 (sod div 3600) @ '':'' @ append_int 2 (sod mod 3600 div 60) @ '':'' @
         append_int 2 (sod mod 60) @ format_zone off)"

section \<open>Parsing\<close>

definition is_digit :: "char \<Rightarrow> bool" where
  "is_digit c \<longleftrightarrow> 48 \<le> (of_char c :: nat) \<and> (of_char c :: nat) \<le> 57"

definition digit_value :: "char \<Rightarrow> int" where
  "digit_value c = int (of_char c) - 48"

text \<open>\<open>getnum\<close>: a number of two digits, or of one when the width is not fixed.\<close>

fun getnum :: "bool \<Rightarrow> string \<Rightarrow> (int \<times> string) option" where
  "getnum fixed [] = None"
| "getnum fixed (c # cs) =
     (if \<not> is_digit c then None
      else case cs of
        c' # cs' \<Rightarrow> if is_digit c' then Some (10 * digit_value c + digit_value c', cs')
                    else if fixed then None else Some (digit_value c, cs)
      | [] \<Rightarrow> if fixed then None else Some (digit_value c, cs))"

definition getnum_in :: "bool \<Rightarrow> int \<Rightarrow> int \<Rightarrow> string \<Rightarrow> (int \<times> string) option" where
  "getnum_in fixed lo hi s =
     (case getnum fixed s of None \<Rightarrow> None | Some (n, rest) \<Rightarrow> if lo \<le> n \<and> n \<le> hi then Some (n, rest) else None)"

fun get_year :: "string \<Rightarrow> (int \<times> string) option" where
  "get_year (a # b # c # d # rest) =
     (if list_all is_digit [a, b, c, d]
      then Some (1000 * digit_value a + 100 * digit_value b + 10 * digit_value c + digit_value d, rest)
      else None)"
| "get_year _ = None"

fun skip_char :: "char \<Rightarrow> string \<Rightarrow> string option" where
  "skip_char c [] = None"
| "skip_char c (x # xs) = (if x = c then Some xs else None)"

text \<open>
  A fraction of a second: a period or comma and at least one digit; nanoseconds from the
  first nine digits.
\<close>

fun get_fraction :: "string \<Rightarrow> int \<times> string" where
  "get_fraction (p # c # cs) =
     (if (p = CHR ''.'' \<or> p = CHR '','') \<and> is_digit c
      then let ds = takeWhile is_digit (c # cs); used = take 9 ds
           in (foldl (\<lambda>n x. 10 * n + digit_value x) 0 used * 10 ^ (9 - length used), drop (length ds) (c # cs))
      else (0, p # c # cs))"
| "get_fraction s = (0, s)"

text \<open>The zone: its offset in seconds.\<close>

fun get_zone :: "string \<Rightarrow> (int \<times> string) option" where
  "get_zone (s # h1 # h2 # colon # m1 # m2 # rest) =
     (if s = CHR ''Z'' then Some (0, h1 # h2 # colon # m1 # m2 # rest)
      else if colon \<noteq> CHR '':'' \<or> s \<notin> {CHR ''+'', CHR ''-''} then None
      else case (getnum_in True 0 24 [h1, h2], getnum_in True 0 60 [m1, m2]) of
        (Some (h, _), Some (m, _)) \<Rightarrow>
          Some ((if s = CHR ''-'' then -1 else 1) * ((h * 60 + m) * 60), rest)
      | _ \<Rightarrow> None)"
| "get_zone (s # rest) = (if s = CHR ''Z'' then Some (0, rest) else None)"
| "get_zone [] = None"

definition field :: "(string \<Rightarrow> ('a \<times> string) option) \<Rightarrow> ('a \<Rightarrow> string \<Rightarrow> 'b option) \<Rightarrow> string \<Rightarrow> 'b option" where
  "field get k s = (case get s of None \<Rightarrow> None | Some (x, rest) \<Rightarrow> k x rest)"

definition char_then :: "char \<Rightarrow> (string \<Rightarrow> 'b option) \<Rightarrow> string \<Rightarrow> 'b option" where
  "char_then c k s = (case skip_char c s of None \<Rightarrow> None | Some rest \<Rightarrow> k rest)"

definition instant :: "int \<Rightarrow> int \<Rightarrow> int \<Rightarrow> int \<Rightarrow> int \<Rightarrow> int \<Rightarrow> int" where
  "instant y m d hour minute sec =
     ((days_before_year y - epoch_days + sum_list (take (nat (m - 1)) (month_lengths y)) + d - 1) * 86400 +
      hour * 3600 + minute * 60 + sec)"

definition parse_rfc3339 :: "string \<Rightarrow> int option" where
  "parse_rfc3339 =
     field get_year (\<lambda>y. char_then (CHR ''-'')
    (field (getnum_in True 1 12) (\<lambda>m. char_then (CHR ''-'')
    (field (getnum True) (\<lambda>d. char_then (CHR ''T'')
    (field (getnum_in False 0 23) (\<lambda>hour. char_then (CHR '':'')
    (field (getnum_in True 0 59) (\<lambda>minute. char_then (CHR '':'')
    (field (getnum_in True 0 59) (\<lambda>sec.
     field (\<lambda>s. Some (get_fraction s)) (\<lambda>ns.
     field get_zone (\<lambda>off rest.
       if rest = [] \<and> 1 \<le> d \<and> d \<le> month_lengths y ! nat (m - 1)
       then Some ((instant y m d hour minute sec - off) * nanos + ns) else None)))))))))))))"

section \<open>What is formatted reads back\<close>

lemma digits [simp]: "n < 10 \<Longrightarrow> is_digit (digit n)" "n < 10 \<Longrightarrow> digit_value (digit n) = int n"
  by (simp_all add: digit_def is_digit_def digit_value_def)

lemma digit_0: "digit 0 = CHR ''0''"
  by (simp add: digit_def char_of_def bit_0)

lemma two_digits: "10 * int (n div 10) + int (n mod 10) = int n"
  using mult_div_mod_eq [of 10 n] by (metis of_nat_add of_nat_mult of_nat_numeral)

lemma four_digits: "10 * a + r = n \<Longrightarrow> 10 * b + s = a \<Longrightarrow> 10 * c + t = b \<Longrightarrow>
    1000 * c + 100 * t + 10 * s + r = (n :: int)"
  by simp

lemma decimal_1: "n < 10 \<Longrightarrow> decimal n = [digit n]"
  by (simp add: decimal.simps)

lemma decimal_step: "10 \<le> n \<Longrightarrow> decimal n = decimal (n div 10) @ [digit (n mod 10)]"
  by (simp add: decimal.simps)

lemma append_int_2:
  assumes "0 \<le> x" "x < 100"
  shows "append_int 2 x = [digit (nat x div 10), digit (nat x mod 10)]"
proof (cases "nat x < 10")
  case True
  with assms show ?thesis by (simp add: append_int_def decimal_1 digit_0)
next
  case False
  moreover have "nat x div 10 < 10" using assms by simp
  ultimately show ?thesis using assms by (simp add: append_int_def decimal_step decimal_1)
qed

lemma append_int_4:
  assumes "0 \<le> x" "x < 10000"
  shows "append_int 4 x =
    [digit (nat x div 1000), digit (nat x div 100 mod 10), digit (nat x div 10 mod 10), digit (nat x mod 10)]"
proof -
  let ?n = "nat x"
  have small: "decimal (?n div 1000) = [digit (?n div 1000)]" using assms by (simp add: decimal_1)
  have 100: "decimal (?n div 100) = (if 1000 \<le> ?n then [digit (?n div 1000)] else []) @ [digit (?n div 100 mod 10)]"
  proof (cases "1000 \<le> ?n")
    case True
    have "?n div 100 div 10 = ?n div 1000" by (simp add: div_mult2_eq [symmetric])
    with True small decimal_step [of "?n div 100"] show ?thesis by simp
  qed (simp add: decimal_1)
  have 10: "decimal (?n div 10) = (if 100 \<le> ?n then decimal (?n div 100) else []) @ [digit (?n div 10 mod 10)]"
  proof (cases "100 \<le> ?n")
    case True
    have "?n div 10 div 10 = ?n div 100" by (simp add: div_mult2_eq [symmetric])
    with True decimal_step [of "?n div 10"] show ?thesis by simp
  qed (simp add: decimal_1)
  have 1: "decimal ?n = (if 10 \<le> ?n then decimal (?n div 10) else []) @ [digit (?n mod 10)]"
    by (cases "10 \<le> ?n") (simp_all add: decimal_step decimal_1)
  show ?thesis
    using assms by (auto simp: append_int_def 1 10 100 digit_0 numeral_3_eq_3 numeral_2_eq_2)
qed

lemma getnum_2: "0 \<le> x \<Longrightarrow> x < 100 \<Longrightarrow> getnum f (append_int 2 x @ rest) = Some (x, rest)"
  using two_digits [of "nat x"] by (simp add: append_int_2)

lemma getnum_in_2:
  "0 \<le> x \<Longrightarrow> x < 100 \<Longrightarrow> lo \<le> x \<Longrightarrow> x \<le> hi \<Longrightarrow> getnum_in f lo hi (append_int 2 x @ rest) = Some (x, rest)"
  by (simp add: getnum_in_def getnum_2)

lemma get_year_4: "0 \<le> y \<Longrightarrow> y < 10000 \<Longrightarrow> get_year (append_int 4 y @ rest) = Some (y, rest)"
proof -
  assume y: "0 \<le> y" "y < 10000"
  let ?n = "nat y"
  have "?n div 1000 < 10" using y by simp
  moreover have "?n div 10 div 10 = ?n div 100" "?n div 100 div 10 = ?n div 1000"
    by (simp_all add: div_mult2_eq [symmetric])
  then have "1000 * int (?n div 1000) + 100 * int (?n div 100 mod 10) + 10 * int (?n div 10 mod 10) + int (?n mod 10) = int ?n"
    using four_digits [OF two_digits [of ?n], of "int (?n div 100)" "int (?n div 10 mod 10)" "int (?n div 1000)"
        "int (?n div 100 mod 10)"] two_digits [of "?n div 10"] two_digits [of "?n div 100"] by simp
  ultimately show ?thesis using y by (simp add: append_int_4 [OF y])
qed

lemma format_zone_start:
  "\<exists>c cs. format_zone off = c # cs \<and> c \<noteq> CHR ''.'' \<and> c \<noteq> CHR '',''"
  by (simp add: format_zone_def Let_def)

lemma get_fraction_zone: "get_fraction (format_zone off) = (0, format_zone off)"
proof -
  obtain c cs where "format_zone off = c # cs" "c \<noteq> CHR ''.''" "c \<noteq> CHR '',''"
    using format_zone_start by blast
  then show ?thesis by (cases cs) simp_all
qed

lemma get_zone_minutes:
  assumes "0 \<le> h" "h \<le> 24" "0 \<le> m" "m \<le> 60" "s = CHR ''+'' \<or> s = CHR ''-''"
  shows "get_zone (s # append_int 2 h @ CHR '':'' # append_int 2 m) =
    Some ((if s = CHR ''-'' then -1 else 1) * ((h * 60 + m) * 60), [])"
proof -
  have "getnum_in True 0 24 (append_int 2 h @ []) = Some (h, [])" "getnum_in True 0 60 (append_int 2 m @ []) = Some (m, [])"
    by (rule getnum_in_2; use assms in simp)+
  then show ?thesis
    using assms by (auto simp: append_int_2)
qed

lemma get_zone_format:
  assumes "off mod 60 = 0" "\<bar>off\<bar> \<le> 86400"
  shows "get_zone (format_zone off) = Some (off, [])"
proof (cases "off = 0")
  case True
  then show ?thesis by (simp add: format_zone_def)
next
  case False
  let ?z = "\<bar>off\<bar> div 60"
  have z: "?z * 60 = \<bar>off\<bar>" using assms(1) by (simp add: abs_if) (simp add: mod_eq_0_iff_dvd)
  with False have "?z \<noteq> 0" by auto
  have "0 \<le> ?z" "?z \<le> 1440" using z assms(2) by linarith+
  then have h: "0 \<le> ?z div 60" "?z div 60 \<le> 24" "0 \<le> ?z mod 60" "?z mod 60 \<le> 60"
    using pos_mod_bound [of 60 ?z] by (simp_all add: pos_imp_zdiv_nonneg_iff)
  have whole: "(?z div 60 * 60 + ?z mod 60) * 60 = \<bar>off\<bar>" using z by simp
  show ?thesis
    using get_zone_minutes [OF h, of "if off < 0 then CHR ''-'' else CHR ''+''"] whole False \<open>?z \<noteq> 0\<close>
    by (cases "off < 0") (simp_all add: format_zone_def Let_def)
qed

text \<open>The date of a day, and the day of that date.\<close>

lemma date_of_day:
  assumes "y = year_of_days days" "month_and_day (month_lengths y) (days - days_before_year y) = (m, d)"
  shows "1 \<le> m" "m \<le> 12" "1 \<le> d" "d \<le> month_lengths y ! nat (m - 1)" "d \<le> 31"
    "days_before_year y + sum_list (take (nat (m - 1)) (month_lengths y)) + d - 1 = days"
proof -
  have "0 \<le> days - days_before_year y" "days - days_before_year y < sum_list (month_lengths y)"
    using year_of_days [of days] assms(1) by (simp_all add: sum_month_lengths)
  from month_and_day [OF this assms(2)]
  show 1: "1 \<le> m" "m \<le> 12" "1 \<le> d" "d \<le> month_lengths y ! nat (m - 1)"
    "days_before_year y + sum_list (take (nat (m - 1)) (month_lengths y)) + d - 1 = days"
    by (simp_all add: month_lengths_def)
  have "month_lengths y ! nat (m - 1) \<in> set (month_lengths y)"
    using 1(1,2) by (intro nth_mem) (simp add: month_lengths_def)
  then have "month_lengths y ! nat (m - 1) \<le> 31" by (auto simp: month_lengths_def split: if_splits)
  with 1 show "d \<le> 31" by simp
qed

text \<open>The years the format has four digits for.\<close>

definition four_digit_year :: "int \<Rightarrow> int \<Rightarrow> bool" where
  "four_digit_year off t \<longleftrightarrow> 0 \<le> year_of_days ((t div nanos + off) div 86400 + epoch_days) \<and>
     year_of_days ((t div nanos + off) div 86400 + epoch_days) < 10000"

lemma parse_fields:
  assumes "0 \<le> y" "y < 10000" "1 \<le> m" "m \<le> 12" "1 \<le> d" "d \<le> 31" "d \<le> month_lengths y ! nat (m - 1)"
    "0 \<le> h" "h \<le> 23" "0 \<le> mi" "mi \<le> 59" "0 \<le> se" "se \<le> 59" "off mod 60 = 0" "\<bar>off\<bar> \<le> 86400"
  shows "parse_rfc3339 (append_int 4 y @ ''-'' @ append_int 2 m @ ''-'' @ append_int 2 d @ ''T'' @
      append_int 2 h @ '':'' @ append_int 2 mi @ '':'' @ append_int 2 se @ format_zone off) =
    Some ((instant y m d h mi se - off) * nanos)"
proof -
  have "getnum_in True 1 12 (append_int 2 m @ rest) = Some (m, rest)"
    "getnum True (append_int 2 d @ rest) = Some (d, rest)"
    "getnum_in False 0 23 (append_int 2 h @ rest) = Some (h, rest)"
    "getnum_in True 0 59 (append_int 2 mi @ rest) = Some (mi, rest)"
    "getnum_in True 0 59 (append_int 2 se @ rest) = Some (se, rest)" for rest
    using assms by (simp_all add: getnum_in_2 getnum_2)
  then show ?thesis
    using assms(5,7) get_year_4 [OF assms(1,2)] get_fraction_zone [of off] get_zone_format [OF assms(14,15)]
    by (simp add: parse_rfc3339_def field_def char_then_def)
qed

lemma clock_parts: "s div 3600 * 3600 + s mod 3600 div 60 * 60 + s mod 60 = (s :: int)"
proof -
  have "s mod 3600 mod 60 = s mod 60" by (rule mod_mod_cancel) simp
  moreover have "s mod 3600 div 60 * 60 + s mod 3600 mod 60 = s mod 3600" by (rule div_mult_mod_eq)
  moreover have "s div 3600 * 3600 + s mod 3600 = s" by (rule div_mult_mod_eq)
  ultimately show ?thesis by linarith
qed

lemma instant_of_parts:
  assumes "days_before_year y + sum_list (take (nat (m - 1)) (month_lengths y)) + d - 1 = secs div 86400 + epoch_days"
    and "h * 3600 + mi * 60 + se = secs mod 86400"
  shows "instant y m d h mi se = secs"
proof -
  have "secs div 86400 * 86400 + secs mod 86400 = secs" by (rule div_mult_mod_eq)
  moreover have days: "days_before_year y - epoch_days + sum_list (take (nat (m - 1)) (month_lengths y)) + d - 1 =
      secs div 86400" using assms(1) by linarith
  ultimately show ?thesis using assms(2) unfolding instant_def days by linarith
qed

lemma whole_seconds:
  assumes "i = t div nanos + off" "text = fields" "parse_rfc3339 fields = Some ((i - off) * nanos)"
  shows "parse_rfc3339 text = Some (t div nanos * nanos)"
  using assms by simp

lemma parse_format:
  assumes zone: "off mod 60 = 0" "\<bar>off\<bar> \<le> 86400" and year: "four_digit_year off t"
  shows "parse_rfc3339 (format_rfc3339 off t) = Some (t div nanos * nanos)"
proof -
  let ?secs = "t div nanos + off"
  let ?days = "?secs div 86400 + epoch_days" and ?sod = "?secs mod 86400"
  let ?y = "year_of_days ?days"
  obtain m d where md: "month_and_day (month_lengths ?y) (?days - days_before_year ?y) = (m, d)" by fastforce
  note date = date_of_day [OF refl md]
  have y: "0 \<le> ?y" "?y < 10000" using year by (simp_all add: four_digit_year_def)
  have sod: "0 \<le> ?sod" "?sod < 86400" by simp_all
  have hour: "0 \<le> ?sod div 3600" "?sod div 3600 \<le> 23" using sod by (simp add: pos_imp_zdiv_nonneg_iff) linarith
  have minute: "0 \<le> ?sod mod 3600 div 60" "?sod mod 3600 div 60 \<le> 59"
    using pos_mod_bound [of 3600 ?sod] by (simp add: pos_imp_zdiv_nonneg_iff) linarith
  have sec: "0 \<le> ?sod mod 60" "?sod mod 60 \<le> 59" using pos_mod_bound [of 60 ?sod] by simp_all
  have parts: "?sod div 3600 * 3600 + ?sod mod 3600 div 60 * 60 + ?sod mod 60 = ?sod" by (rule clock_parts)
  have "instant ?y m d (?sod div 3600) (?sod mod 3600 div 60) (?sod mod 60) = ?secs"
    by (rule instant_of_parts [OF date(6) parts])
  moreover have "format_rfc3339 off t = append_int 4 ?y @ ''-'' @ append_int 2 m @ ''-'' @ append_int 2 d @ ''T'' @
      append_int 2 (?sod div 3600) @ '':'' @ append_int 2 (?sod mod 3600 div 60) @ '':'' @
      append_int 2 (?sod mod 60) @ format_zone off"
    unfolding format_rfc3339_def Let_def md prod.case ..
  ultimately show ?thesis
    using parse_fields [OF y date(1-3,5,4) hour minute sec zone] by (rule whole_seconds)
qed

lemma parse_empty: "parse_rfc3339 [] = None"
  by (simp add: parse_rfc3339_def field_def)

end
