(* ===== verification/Authn.thy ===== *)
theory Authn
  imports Manager_Correct Rfc3339
begin

text \<open>
  The service account of the operator on the control plane, in
  \<open>pkg/metricsoperator/authn/serviceaccount.go\<close>: the managed objects \<open>Configure\<close> adds, and
  the secret with a token for the service account, which is renewed before it expires.
  \<open>pkg/metricsoperator/authz/clusterrolebinding.go\<close> gives the account its role.
\<close>

section \<open>The operating system and the clock\<close>

text \<open>
  \<open>time.Now\<close> (nanoseconds), \<open>os.ReadFile\<close>, and the offset of the local time zone from UTC
  (seconds) at a time, which \<open>Time.Format\<close> writes.
\<close>

record 'w os_env =
  os_Now :: "'w \<Rightarrow> int"
  os_ReadFile :: "string \<Rightarrow> 'w \<Rightarrow> gerr + string"
  os_ZoneOffset :: "int \<Rightarrow> int"

definition ParseTime :: "string \<Rightarrow> gerr + int" where
  "ParseTime s = (case parse_rfc3339 s of None \<Rightarrow> Inl (EMsg (''cannot parse '' @ s)) | Some t \<Rightarrow> Inr t)"

definition FormatTime :: "'w os_env \<Rightarrow> int \<Rightarrow> string" where
  "FormatTime env t = format_rfc3339 (os_ZoneOffset env t) t"

text \<open>
  Texts of times have whole seconds. A text reads back as its time where the zone and the
  year can be written: the offset in minutes and of at most a day, the year with four digits.
\<close>

definition readable_time :: "int \<Rightarrow> int \<Rightarrow> bool" where
  "readable_time off t \<longleftrightarrow> off mod 60 = 0 \<and> \<bar>off\<bar> \<le> 86400 \<and> four_digit_year off t"

locale time_text =
  fixes write_time :: "int \<Rightarrow> int \<Rightarrow> string" and read_time :: "string \<Rightarrow> gerr + int"
    and readable :: "int \<Rightarrow> int \<Rightarrow> bool"
  assumes read_written: "readable off t \<Longrightarrow> read_time (write_time off t) = Inr (t div Second * Second)"
    and read_empty: "\<exists>e. read_time [] = Inl e"
begin

lemma written_not_after: "readable off t \<Longrightarrow> read_time (write_time off t) = Inr t' \<Longrightarrow> t' \<le> t"
  using read_written [of off t] by (simp add: Second_def)

lemma written_within_a_second:
  "readable off t \<Longrightarrow> read_time (write_time off t) = Inr t' \<Longrightarrow> t - t' < Second"
  using read_written [of off t] by (simp add: Second_def)

lemma written_is_read: "readable off t \<Longrightarrow> \<exists>t'. read_time (write_time off t) = Inr t' \<and> t' \<le> t \<and> t < t' + Second"
  using read_written [of off t] written_not_after [of off t] written_within_a_second [of off t] by auto

end

interpretation rfc3339: time_text format_rfc3339 ParseTime readable_time
  by unfold_locales (simp_all add: ParseTime_def readable_time_def parse_format parse_empty Second_def nanos_def)

section \<open>Tokens\<close>

record service_account_token =
  sat_CAData :: string
  sat_Token :: string
  sat_TokenExpiry :: int

record managed_service_account =
  msa_Name :: string
  msa_Namespace :: string

definition KubeAPIAccess :: "managed_service_account \<Rightarrow> string" where
  "KubeAPIAccess m = ''kube-api-access-'' @ msa_Name m"

definition generateToken ::
    "'w os_env \<Rightarrow> 'w client \<Rightarrow> rest_config option \<Rightarrow> managed_service_account \<Rightarrow> int \<Rightarrow> 'w \<Rightarrow>
     (gerr + service_account_token) \<times> 'w" where
  "generateToken env cp cfg svcAccRef expiration w =
     (if msa_Name svcAccRef = [] \<or> msa_Namespace svcAccRef = []
      then (Inl (ESentinel ErrSANameOrNamespaceEmpty), w)
      else case cfg of
        None \<Rightarrow> (Inl (ESentinel ErrRestConfigNil), w)
      | Some rc \<Rightarrow>
          if expiration < 10 * Minute then (Inl (ESentinel ErrExpirationInvalid), w)
          else
            let sa = new_object [] [] ServiceAccount;
                ((err, sa'), w1) = cl_get cp (msa_Namespace svcAccRef, msa_Name svcAccRef) sa w
            in case err of
                 Some e \<Rightarrow> (Inl e, w1)
               | None \<Rightarrow>
                   (case cl_create_token cp sa' (expiration div Second) w1 of
                      (Inl e, w2) \<Rightarrow> (Inl e, w2)
                    | (Inr (token, expiry), w2) \<Rightarrow>
                        let tok = \<lparr>sat_CAData = rc_CAData rc, sat_Token = token, sat_TokenExpiry = expiry\<rparr>
                        in if rc_CAFile rc \<noteq> []
                           then (case os_ReadFile env (rc_CAFile rc) w2 of
                                   Inl e \<Rightarrow> (Inl e, w2)
                                 | Inr caBytes \<Rightarrow> (Inr (tok\<lparr>sat_CAData := caBytes\<rparr>), w2))
                           else (Inr tok, w2)))"

definition annotationTokenExpirationTime :: string where
  "annotationTokenExpirationTime = ''metrics-operator.services.openmcp.cloud/token-expiration-time''"

text \<open>A missing annotation reads as the empty string.\<close>

definition getTokenExpirationTime :: "object \<Rightarrow> gerr + int" where
  "getTokenExpirationTime obj =
     (case o_Annotations obj of
        None \<Rightarrow> Inl (EMsg ''no expiration time set'')
      | Some as \<Rightarrow>
          ParseTime (case as annotationTokenExpirationTime of None \<Rightarrow> [] | Some t \<Rightarrow> t))"

definition setTokenExpirationTime :: "'w os_env \<Rightarrow> int \<Rightarrow> object \<Rightarrow> object" where
  "setTokenExpirationTime env expTime obj =
     (let as = (case o_Annotations obj of None \<Rightarrow> Map.empty | Some a \<Rightarrow> a)
      in obj\<lparr>o_Annotations := Some (as(annotationTokenExpirationTime \<mapsto> FormatTime env expTime))\<rparr>)"

section \<open>The managed objects\<close>

definition type_assertion_panic :: string where
  "type_assertion_panic = ''interface conversion: interface is of another type''"

text \<open>
  The reconcile function of the token secret: it renews the token when the annotation
  cannot be read, or names a time before the next reconciliation and a minute.
\<close>

definition token_expires :: "'w os_env \<Rightarrow> int \<Rightarrow> object \<Rightarrow> 'w \<Rightarrow> bool" where
  "token_expires env pollInterval oSecret w =
     (let nextReconcile = os_Now env w + pollInterval + Minute
      in case getTokenExpirationTime oSecret of
           Inl e \<Rightarrow> True
         | Inr expirationTime \<Rightarrow> expirationTime < nextReconcile)"

definition token_reconcile ::
    "'w os_env \<Rightarrow> 'w managed_cluster \<Rightarrow> managed_service_account \<Rightarrow> int \<Rightarrow> 'w reconcile_func" where
  "token_reconcile env cpCluster msa pollInterval = (\<lambda>o' w.
     case o_Body o' of
       Secret d t \<Rightarrow>
         if token_expires env pollInterval o' w
         then (case generateToken env (c_client cpCluster) (c_cfg cpCluster) msa (1 * Hour) w of
                 (Inl err, w') \<Rightarrow> (Ret (Some err), o', w')
               | (Inr rc, w') \<Rightarrow>
                   let o1 = o'\<lparr>o_Body := Secret (Some [''token'' \<mapsto> sat_Token rc,
                         ''namespace'' \<mapsto> c_defaultNamespace cpCluster, ''ca.crt'' \<mapsto> sat_CAData rc]) t\<rparr>
                   in (Ret None, setTokenExpirationTime env (sat_TokenExpiry rc) o1, w'))
         else (Ret None, o', w)
     | _ \<Rightarrow> (Panic type_assertion_panic, o', w))"

definition simple_context :: "'w reconcile_func \<Rightarrow> nat list \<Rightarrow> 'w managed_object_context" where
  "simple_context f deps =
     \<lparr>moc_ReconcileFunc = Some f, moc_DependsOn = deps, moc_DeletionPolicy = PolicyUnset,
      moc_StatusFunc = Some SimpleStatus\<rparr>"

text \<open>
  \<open>Configure\<close> adds, in this order: the name space and the service account on the control
  plane, the name space and the token secret on the workload cluster. The clusters are
  returned with their new objects (workload first).
\<close>

definition Authn_Configure ::
    "'w os_env \<Rightarrow> managed_service_account \<Rightarrow> 'w managed_cluster \<Rightarrow> 'w managed_cluster \<Rightarrow> int \<Rightarrow> 'w run \<Rightarrow>
     'w managed_cluster \<times> 'w managed_cluster \<times> 'w run" where
  "Authn_Configure env msa workloadCluster cpCluster pollInterval r =
     (let (ns, r1) = NewManagedObject (new_object (msa_Namespace msa) [] Namespace) (simple_context NoOp []) r;
          cp1 = AddObject ns cpCluster;
          (sa, r2) = NewManagedObject (new_object (msa_Name msa) (msa_Namespace msa) ServiceAccount)
            (simple_context NoOp [m_ref ns]) r1;
          cp2 = AddObject sa cp1;
          (wcns, r3) = NewManagedObject (new_object (c_defaultNamespace workloadCluster) [] Namespace)
            (simple_context NoOp []) r2;
          wc1 = AddObject wcns workloadCluster;
          (secret, r4) = NewManagedObject
            (new_object (KubeAPIAccess msa) (c_defaultNamespace workloadCluster) (Secret None []))
            (simple_context (token_reconcile env cpCluster msa pollInterval) [m_ref sa]) r3
      in (AddObject secret wc1, cp2, r4))"

definition clusterRoleBindingName :: string where
  "clusterRoleBindingName = ''metrics-operator-server''"

definition role_binding_reconcile :: "managed_service_account \<Rightarrow> 'w reconcile_func" where
  "role_binding_reconcile msa = (\<lambda>o' w.
     case o_Body o' of
       ClusterRoleBinding subjects ref \<Rightarrow>
         (Ret None, o'\<lparr>o_Body := ClusterRoleBinding
            [\<lparr>sub_Kind = ''ServiceAccount'', sub_Name = msa_Name msa, sub_Namespace = msa_Namespace msa\<rparr>]
            (Some \<lparr>rr_APIGroup = ''rbac.authorization.k8s.io'', rr_Kind = ''ClusterRole'',
                   rr_Name = ''cluster-admin''\<rparr>)\<rparr>, w)
     | _ \<Rightarrow> (Panic type_assertion_panic, o', w))"

definition Authz_Configure ::
    "'w managed_cluster \<Rightarrow> managed_service_account \<Rightarrow> 'w run \<Rightarrow> 'w managed_cluster \<times> 'w run" where
  "Authz_Configure cluster msa r =
     (let (crb, r1) = NewManagedObject (new_object clusterRoleBindingName [] (ClusterRoleBinding [] None))
            (simple_context (role_binding_reconcile msa) []) r
      in (AddObject crb cluster, r1))"

section \<open>Facts\<close>

lemma token_reconcile_ok:
  assumes "token_reconcile env cp msa poll o' w = (Ret None, o'', w')"
  obtains (kept) "\<not> token_expires env poll o' w" "o'' = o'" "w' = w"
    | (renewed) rc d t where "token_expires env poll o' w" "o_Body o' = Secret d t"
      "generateToken env (c_client cp) (c_cfg cp) msa (1 * Hour) w = (Inr rc, w')"
      "o'' = setTokenExpirationTime env (sat_TokenExpiry rc) (o'\<lparr>o_Body := Secret (Some [''token'' \<mapsto> sat_Token rc,
         ''namespace'' \<mapsto> c_defaultNamespace cp, ''ca.crt'' \<mapsto> sat_CAData rc]) t\<rparr>)"
  using assms
  by (cases "o_Body o'") (auto simp: token_reconcile_def Let_def split: if_splits prod.splits sum.splits)

lemma setTokenExpirationTime_get:
  "getTokenExpirationTime (setTokenExpirationTime env t obj) = ParseTime (FormatTime env t)"
  by (simp add: getTokenExpirationTime_def setTokenExpirationTime_def Let_def)

lemma setTokenExpirationTime_frame [simp]:
  "o_Body (setTokenExpirationTime env t obj) = o_Body obj"
  "o_Labels (setTokenExpirationTime env t obj) = o_Labels obj"
  "o_Name (setTokenExpirationTime env t obj) = o_Name obj"
  "o_Namespace (setTokenExpirationTime env t obj) = o_Namespace obj"
  "object_key (setTokenExpirationTime env t obj) = object_key obj"
  by (simp_all add: setTokenExpirationTime_def Let_def object_key_def)

lemma token_reconcile_no_panic:
  "kind_of o' = ''Secret'' \<Longrightarrow> \<not> panics (fst (token_reconcile env cp msa poll o' w))"
  by (cases "o_Body o'") (auto simp: token_reconcile_def Let_def split: if_splits prod.splits sum.splits)

lemma token_keeps_label:
  "m_reconcileFunc m = Some (token_reconcile env cp msa poll) \<Longrightarrow> keeps_label ob m"
  unfolding keeps_label_def
proof (intro allI impI)
  fix o0 w0 o1 w1
  assume m: "m_reconcileFunc m = Some (token_reconcile env cp msa poll)"
    and run: "Reconcile m o0 w0 = (Ret None, o1, w1)" and lab: "is_managed o0"
  have "token_reconcile env cp msa poll o0 w0 = (Ret None, o1, w1)" using run m by (simp add: Reconcile_def)
  then show "is_managed o1 \<and> kind_of o1 = kind_of o0 \<and> object_key o1 = object_key o0"
    by (rule token_reconcile_ok) (use lab in \<open>auto simp: is_managed_iff object_key_def\<close>)
qed

lemma no_op_keeps_label: "m_reconcileFunc m = Some NoOp \<Longrightarrow> keeps_label ob m"
  by (simp add: keeps_label_def Reconcile_def NoOp_def)

lemma role_binding_keeps_label:
  "m_reconcileFunc m = Some (role_binding_reconcile msa) \<Longrightarrow> keeps_label ob m"
  by (auto simp: keeps_label_def Reconcile_def role_binding_reconcile_def is_managed_iff object_key_def
      split: body.splits)

end
