(* ===== verification/Cp_Resources.thy ===== *)
theory Cp_Resources
  imports Api_Server
begin

text \<open>
  \<open>pkg/metricsoperator/cpresources/checker.go\<close>: which kinds of the metrics operator's own
  resources still have instances on the control plane, and so block deletion.
\<close>

definition MetricsGroup :: string where "MetricsGroup = ''metrics.open-control-plane.io''"
definition MetricsVersion :: string where "MetricsVersion = ''v1alpha1''"

definition metrics_gvk :: "string \<Rightarrow> gvk" where
  "metrics_gvk kind = \<lparr>gvk_Group = MetricsGroup, gvk_Version = MetricsVersion, gvk_Kind = kind\<rparr>"

definition metricsListGVKs :: "gvk list" where
  "metricsListGVKs =
     [metrics_gvk ''DataSinkList'',
      metrics_gvk ''FederatedClusterAccessList'',
      metrics_gvk ''FederatedManagedMetricList'',
      metrics_gvk ''FederatedMetricList'',
      metrics_gvk ''ManagedMetricList'',
      metrics_gvk ''MetricList'',
      metrics_gvk ''RemoteClusterAccessList'']"

fun blocking_loop ::
    "'w kube_api \<Rightarrow> 'w client \<Rightarrow> gvk list \<Rightarrow> string list \<Rightarrow> 'w \<Rightarrow> (gerr + string list) \<times> 'w" where
  "blocking_loop api cl [] blocking w = (Inr blocking, w)"
| "blocking_loop api cl (g # gs) blocking w =
     (case cl_count cl g w of
        (Inl err, w') \<Rightarrow>
          if IsNoMatchError api (Some err) then blocking_loop api cl gs blocking w'
          else (Inl (EWrap (''listing '' @ gvk_Kind g @ '': '') err []), w')
      | (Inr n, w') \<Rightarrow>
          blocking_loop api cl gs (if 0 < n then blocking @ [trim_suffix (gvk_Kind g) ''List''] else blocking) w')"

definition BlockingKinds :: "'w kube_api \<Rightarrow> 'w client \<Rightarrow> 'w \<Rightarrow> (gerr + string list) \<times> 'w" where
  "BlockingKinds api cl w = blocking_loop api cl metricsListGVKs [] w"

section \<open>What it reports\<close>

text \<open>
  On a server whose answers do not change while it is asked: \<open>answer g\<close> is what it says
  of a kind.
\<close>

definition answers :: "'w client \<Rightarrow> 'w \<Rightarrow> (gvk \<Rightarrow> gerr + nat) \<Rightarrow> bool" where
  "answers cl w answer \<longleftrightarrow> (\<forall>g. cl_count cl g w = (answer g, w))"

definition kind_blocks :: "(gvk \<Rightarrow> gerr + nat) \<Rightarrow> gvk \<Rightarrow> bool" where
  "kind_blocks answer g = (case answer g of Inr n \<Rightarrow> 0 < n | Inl e \<Rightarrow> False)"

definition kind_fails :: "'w kube_api \<Rightarrow> (gvk \<Rightarrow> gerr + nat) \<Rightarrow> gvk \<Rightarrow> bool" where
  "kind_fails api answer g = (case answer g of Inr n \<Rightarrow> False | Inl e \<Rightarrow> \<not> IsNoMatchError api (Some e))"

lemma blocking_loop_ok:
  assumes "answers cl w answer" and "\<forall>g \<in> set gs. \<not> kind_fails api answer g"
  shows "blocking_loop api cl gs acc w =
    (Inr (acc @ map (\<lambda>g. trim_suffix (gvk_Kind g) ''List'') (filter (kind_blocks answer) gs)), w)"
  using assms(2)
proof (induction gs arbitrary: acc)
  case Nil
  then show ?case by simp
next
  case (Cons g gs)
  have "cl_count cl g w = (answer g, w)" using assms(1) by (simp add: answers_def)
  with Cons show ?case
    by (cases "answer g") (auto simp: kind_fails_def kind_blocks_def)
qed

lemma blocking_loop_fails:
  assumes "answers cl w answer" and "g \<in> set gs" "kind_fails api answer g"
  shows "\<exists>g' \<in> set gs. kind_fails api answer g' \<and>
    blocking_loop api cl gs acc w =
      (Inl (EWrap (''listing '' @ gvk_Kind g' @ '': '') (projl (answer g')) []), w)"
  using assms(2)
proof (induction gs arbitrary: acc)
  case Nil
  then show ?case by simp
next
  case (Cons x gs)
  have a: "cl_count cl x w = (answer x, w)" using assms(1) by (simp add: answers_def)
  show ?case
  proof (cases "kind_fails api answer x")
    case True
    with a show ?thesis by (cases "answer x") (auto simp: kind_fails_def)
  next
    case False
    then have "g \<in> set gs" using Cons.prems assms(3) by auto
    from Cons.IH [OF this] a False show ?thesis
      by (cases "answer x") (auto simp: kind_fails_def)
  qed
qed

lemma trim_list: "trim_suffix (k @ ''List'') ''List'' = k"
  by (rule trim_suffix_append)

definition ex_answer :: "string \<Rightarrow> nat option" where
  "ex_answer kind = (if kind = ''MetricList'' then Some 3 else if kind = ''DataSinkList'' then Some 1
     else if kind = ''ManagedMetricList'' then Some 0 else None)"

definition ex_metrics :: ref_world where
  "ex_metrics = \<lparr>rw_store = (\<lambda>_. []), rw_custom = (\<lambda>_. ex_answer), rw_down = [], rw_held = [], rw_now = 0\<rparr>"

definition ex_metrics_answer :: "gvk \<Rightarrow> gerr + nat" where
  "ex_metrics_answer g = (case ex_answer (gvk_Kind g) of None \<Rightarrow> Inl ref_no_match | Some n \<Rightarrow> Inr n)"

text \<open>
  C33: on a cluster that answers for every kind, or says that the kind is not installed,
  \<open>BlockingKinds\<close> reports exactly the kinds with instances, each once, in the order of the
  table, by their singular names; it reports none exactly when no kind has instances.
\<close>

theorem blocking_kinds_are_exact:
  assumes "answers cl w answer" "\<forall>g \<in> set metricsListGVKs. \<not> kind_fails api answer g"
  shows "BlockingKinds api cl w =
      (Inr (map (\<lambda>g. trim_suffix (gvk_Kind g) ''List'') (filter (kind_blocks answer) metricsListGVKs)), w) \<and>
    (BlockingKinds api cl w = (Inr [], w) \<longleftrightarrow> (\<forall>g \<in> set metricsListGVKs. \<not> kind_blocks answer g))"
proof -
  have "BlockingKinds api cl w =
      (Inr (map (\<lambda>g. trim_suffix (gvk_Kind g) ''List'') (filter (kind_blocks answer) metricsListGVKs)), w)"
    using blocking_loop_ok [OF assms, of "[]"] by (simp add: BlockingKinds_def)
  then show ?thesis by (simp add: filter_empty_conv)
qed

lemma blocking_kinds_are_exact_witness:
  "BlockingKinds ref_api (ref_client 0) ex_metrics = (Inr [''DataSink'', ''Metric''], ex_metrics)"
proof -
  have a: "answers (ref_client 0) ex_metrics ex_metrics_answer"
    by (simp add: answers_def ref_count_def ex_metrics_def ex_metrics_answer_def split: option.splits)
  have ok: "\<forall>g \<in> set metricsListGVKs. \<not> kind_fails ref_api ex_metrics_answer g"
    by (simp add: kind_fails_def ex_metrics_answer_def metricsListGVKs_def ex_answer_def metrics_gvk_def)
  have "filter (kind_blocks ex_metrics_answer) metricsListGVKs = [metrics_gvk ''DataSinkList'', metrics_gvk ''MetricList'']"
    by (simp add: kind_blocks_def ex_metrics_answer_def metricsListGVKs_def ex_answer_def metrics_gvk_def)
  with blocking_kinds_are_exact [OF a ok] show ?thesis
    using trim_list [of "''DataSink''"] trim_list [of "''Metric''"] by (simp add: metrics_gvk_def)
qed

end
