(* ===== verification/Controller.thy ===== *)
theory Controller
  imports Secrets Config_Maps Helm_Values Flux Authn Cp_Resources
begin

text \<open>
  \<open>internal/controller/metricsoperator_controller.go\<close>: the two handlers of the service
  provider runtime. Each builds a manager with the objects of three clusters from the
  MetricsOperator and the ProviderConfig and lets it apply or delete them.
\<close>

section \<open>Parameters\<close>

text \<open>
  The functions of the runtime and of controller-utils the handlers call: the tenant name
  space, the status setters, the treatment of invalid user input, the shortening of names;
  and the update of the MetricsOperator on the onboarding cluster, which leaves the object
  as the answer has it.
\<close>

record 'w runtime_lib =
  lib_StableMCPNamespace :: "string \<Rightarrow> string \<Rightarrow> gerr + string"
  lib_StatusProgressing :: "metrics_operator \<Rightarrow> string \<Rightarrow> string \<Rightarrow> metrics_operator"
  lib_StatusReady :: "metrics_operator \<Rightarrow> metrics_operator"
  lib_StatusTerminating :: "metrics_operator \<Rightarrow> metrics_operator"
  lib_StatusTerminatingWithReason :: "metrics_operator \<Rightarrow> string \<Rightarrow> string \<Rightarrow> metrics_operator"
  lib_ErrInvalidUserInput :: gerr
  lib_IgnoreInvalidUserInput :: "gerr option \<Rightarrow> gerr option"
  lib_ShortenToXCharacters :: "string \<Rightarrow> nat \<Rightarrow> gerr + string"
  lib_UpdateOnboarding :: "metrics_operator \<Rightarrow> 'w \<Rightarrow> (gerr option \<times> metrics_operator) \<times> 'w"

text \<open>Everything outside the repository that the handlers use.\<close>

record 'w outside =
  out_api :: "'w kube_api"
  out_env :: "'w os_env"
  out_lib :: "'w runtime_lib"
  out_codecs :: codecs

text \<open>The reconciler: the platform cluster with its connection, and the own name space.\<close>

record 'w reconciler =
  rec_PlatformClient :: "'w client"
  rec_PlatformConfig :: "rest_config option"
  rec_PodNamespace :: string

text \<open>The cluster context of one request.\<close>

record 'w cluster_context =
  ctx_WorkloadClient :: "'w client"
  ctx_WorkloadConfig :: "rest_config option"
  ctx_MCPClient :: "'w client"
  ctx_MCPConfig :: "rest_config option"
  ctx_WorkloadAccessSecretName :: string

definition conditionReasonError :: string where
  "conditionReasonError = ''ReconcileError''"

section \<open>Inputs\<close>

definition ensureInstanceID ::
    "'w outside \<Rightarrow> metrics_operator \<Rightarrow> 'w \<Rightarrow> (gerr option \<times> metrics_operator) \<times> 'w" where
  "ensureInstanceID X obj w =
     (if length (GetID obj) = 0
      then
        let obj1 = SetID obj (GenerateID obj);
            ((err, obj2), w') = lib_UpdateOnboarding (out_lib X) obj1 w
        in case err of
             Some e \<Rightarrow> ((Some (EWrap (''failed to set instance id of metrics operator resource '' @
                          mo_Namespace obj2 @ ''/'' @ mo_Name obj2 @ '': '') e []), obj2), w')
           | None \<Rightarrow> ((None, obj2), w')
      else ((None, obj), w))"

definition selectMetricsOperatorVersion ::
    "'w outside \<Rightarrow> string \<Rightarrow> provider_config \<Rightarrow> gerr + metrics_operator_version" where
  "selectMetricsOperatorVersion X requestedVersion pc =
     (case find (\<lambda>v. mov_Version v = requestedVersion) (pc_Versions pc) of
        Some v \<Rightarrow> Inr v
      | None \<Rightarrow> Inl (EWrap [] (lib_ErrInvalidUserInput (out_lib X))
                  ('': requested version ('' @ requestedVersion @ '') is not available'')))"

definition prepareInputs ::
    "'w outside \<Rightarrow> metrics_operator \<Rightarrow> provider_config \<Rightarrow> 'w \<Rightarrow>
     (gerr + string \<times> metrics_operator_version \<times> helm_values) \<times> metrics_operator \<times> 'w" where
  "prepareInputs X obj pc w =
     (case lib_StableMCPNamespace (out_lib X) (mo_Name obj) (mo_Namespace obj) of
        Inl e \<Rightarrow> (Inl (EWrap ''failed to determine tenant namespace: '' e []), obj, w)
      | Inr tenantNamespace \<Rightarrow>
          (case ensureInstanceID X obj w of
             ((Some e, obj1), w1) \<Rightarrow> (Inl (EWrap ''failed to set instance id: '' e []), obj1, w1)
           | ((None, obj1), w1) \<Rightarrow>
               (case selectMetricsOperatorVersion X (mo_Version obj1) pc of
                  Inl e \<Rightarrow> (Inl (EWrap ''failed to select metrics operator version: '' e []), obj1, w1)
                | Inr moVersion \<Rightarrow>
                    (case ExtractHelmValues (mov_HelmValues moVersion) of
                       Inl e \<Rightarrow> (Inl (EWrap ''failed to extract helm values: '' e []), obj1, w1)
                     | Inr helmValues \<Rightarrow> (Inr (tenantNamespace, moVersion, helmValues), obj1, w1)))))"

section \<open>The parts of the manager\<close>

text \<open>
  Access to the control plane. The version comes back with its rewritten values, with the
  secrets to keep; the clusters come back with the objects that were added.
\<close>

definition setupAuth ::
    "'w outside \<Rightarrow> provider_config \<Rightarrow> metrics_operator_version \<Rightarrow> 'w managed_cluster \<Rightarrow>
     'w managed_cluster \<Rightarrow> string \<Rightarrow> 'w run \<Rightarrow>
     (metrics_operator_version \<times> string list \<times> 'w managed_cluster \<times> 'w managed_cluster \<times> 'w run) fallible"
where
  "setupAuth X pc moVersion workloadCluster cpCluster metricsNamespace r =
     (let cpServiceAccount = \<lparr>msa_Name = ''metrics-operator-server'', msa_Namespace = metricsNamespace\<rparr>;
          (wc1, cp1, r1) = Authn_Configure (out_env X) cpServiceAccount workloadCluster cpCluster (PollInterval pc) r
      in try_go (\<lambda>e. EWrap ''failed to inject CP auth into helm values: '' e [])
           (AddAuthToHelmValues (out_codecs X) (mov_HelmValues moVersion) cp1 (KubeAPIAccess cpServiceAccount))
           (\<lambda>values1.
         try_go (\<lambda>e. EWrap ''failed to set default helm values: '' e [])
           (AddDefaultHelmValues (out_codecs X) (Some values1) metricsNamespace)
           (\<lambda>values2.
         let (cp2, r2) = Authz_Configure cp1 cpServiceAccount r1
         in ok (moVersion\<lparr>mov_HelmValues := Some values2\<rparr>, [KubeAPIAccess cpServiceAccount], wc1, cp2, r2))))"

definition applyCABundle ::
    "'w outside \<Rightarrow> 'w reconciler \<Rightarrow> metrics_operator \<Rightarrow> provider_config \<Rightarrow> metrics_operator_version \<Rightarrow>
     'w managed_cluster \<Rightarrow> 'w run \<Rightarrow>
     (metrics_operator_version \<times> string list \<times> 'w managed_cluster \<times> 'w run) fallible" where
  "applyCABundle X rc obj pc moVersion workloadCluster r =
     (case pc_CABundleRef pc of
        None \<Rightarrow> ok (moVersion, [], workloadCluster, r)
      | Some ref \<Rightarrow>
          try_go (\<lambda>e. EWrap ''failed to add ca volume to helm values: '' e [])
            (AddCAHelmValues (out_codecs X) (mov_HelmValues moVersion) (Some ref))
            (\<lambda>values.
          let (wc1, r1) = ManageCaConfigMap (out_api X) (cms_Name ref)
                \<lparr>ccc_SourceClient = rec_PlatformClient rc, ccc_SourceNamespace = rec_PodNamespace rc,
                 ccc_TargetNamespace = Instance_Namespace obj, ccc_TargetName = CustomCABundleConfigMapName\<rparr>
                workloadCluster r
          in ok (moVersion\<lparr>mov_HelmValues := Some values\<rparr>, [CustomCABundleConfigMapName], wc1, r1)))"

definition syncImagePullSecrets ::
    "'w outside \<Rightarrow> 'w reconciler \<Rightarrow> 'w managed_cluster \<Rightarrow> metrics_operator \<Rightarrow> helm_values \<Rightarrow> 'w run \<Rightarrow>
     string list \<times> 'w managed_cluster \<times> 'w run" where
  "syncImagePullSecrets X rc workloadCluster obj helmValues r =
     (let (wc1, r1) = ManagePullSecrets (out_api X) (hv_ImagePullSecrets helmValues)
            \<lparr>scc_SourceClient = rec_PlatformClient rc, scc_SourceNamespace = rec_PodNamespace rc,
             scc_TargetNamespace = Instance_Namespace obj, scc_TargetName = []\<rparr>
            workloadCluster r
      in (hv_ImagePullSecrets helmValues, wc1, r1))"

definition syncChartPullSecret ::
    "'w outside \<Rightarrow> 'w reconciler \<Rightarrow> 'w managed_cluster \<Rightarrow> string \<Rightarrow> string \<Rightarrow> 'w run \<Rightarrow>
     (string \<times> string list \<times> 'w managed_cluster \<times> 'w run) fallible" where
  "syncChartPullSecret X rc platformCluster chartPullSecret tenantNamespace r =
     (if chartPullSecret = [] then ok ([], [], platformCluster, r)
      else
        try_go (\<lambda>e. EWrap ''error generating secret name: '' e [])
          (Ret (PrefixSecretName (lib_ShortenToXCharacters (out_lib X)) chartPullSecret))
          (\<lambda>prefixedName.
        let (pc1, r1) = ManagePullSecrets (out_api X) [chartPullSecret]
              \<lparr>scc_SourceClient = rec_PlatformClient rc, scc_SourceNamespace = rec_PodNamespace rc,
               scc_TargetNamespace = tenantNamespace, scc_TargetName = prefixedName\<rparr>
              platformCluster r
        in ok (prefixedName, [prefixedName], pc1, r1)))"

section \<open>The manager\<close>

text \<open>
  The clusters are made first and filled part by part; the manager and the cleaners hold
  pointers to them, so here both are put together at the end from the filled clusters.
\<close>

definition build_manager ::
    "'w outside \<Rightarrow> 'w reconciler \<Rightarrow> metrics_operator \<Rightarrow> provider_config \<Rightarrow> 'w cluster_context \<Rightarrow>
     string \<times> metrics_operator_version \<times> helm_values \<Rightarrow> 'w run \<Rightarrow> ('w manager \<times> 'w run) fallible" where
  "build_manager X rc obj pc ctx inputs r =
     (let (tenantNamespace, moVersion, helmValues) = inputs;
          api = out_api X;
          instanceNamespace = Instance_Namespace obj;
          platformCluster = NewManagedCluster (rec_PlatformClient rc) (rec_PlatformConfig rc) tenantNamespace
            PlatformCluster;
          workloadCluster = NewManagedCluster (ctx_WorkloadClient ctx) (ctx_WorkloadConfig ctx) instanceNamespace
            WorkloadCluster;
          cpCluster = NewManagedCluster (ctx_MCPClient ctx) (ctx_MCPConfig ctx) DefaultNamespace ControlPlane;
          metricsNamespace = (if hv_NamespaceOverride helmValues \<noteq> [] then hv_NamespaceOverride helmValues
                              else c_defaultNamespace cpCluster)
      in try_go id (setupAuth X pc moVersion workloadCluster cpCluster metricsNamespace r)
           (\<lambda>(moVersion, authSecretsToKeep, workloadCluster, cpCluster, r).
         try_go id (syncChartPullSecret X rc platformCluster (mov_ChartPullSecret moVersion) tenantNamespace r)
           (\<lambda>(prefixedChartPullSecret, chartSecretsToKeep, platformCluster, r).
         let (imagePullSecretsToKeep, workloadCluster, r) =
               syncImagePullSecrets X rc workloadCluster obj helmValues r
         in try_go id (applyCABundle X rc obj pc moVersion workloadCluster r)
           (\<lambda>(moVersion, caConfigMapsToKeep, workloadCluster, r).
         let (platformCluster, r) = ManageFluxResources api
               \<lparr>fp_CPNamespace = metricsNamespace, fp_WorkloadNamespace = instanceNamespace,
                fp_ChartPullSecretName = prefixedChartPullSecret, fp_Obj = obj, fp_Interval = PollInterval pc,
                fp_WorkloadAccessSecretName = ctx_WorkloadAccessSecretName ctx, fp_RequestedVersion = moVersion\<rparr>
               platformCluster r;
             mgr = AddCluster cpCluster (AddCluster workloadCluster (AddCluster platformCluster NewManager));
             mgr = AddCleaner (configMap_Cleanup api
               (NewConfigMapCleaner workloadCluster instanceNamespace caConfigMapsToKeep)) mgr;
             mgr = AddCleaner (secret_Cleanup api
               (NewSecretCleaner workloadCluster instanceNamespace (imagePullSecretsToKeep @ authSecretsToKeep))) mgr;
             mgr = AddCleaner (secret_Cleanup api
               (NewSecretCleaner platformCluster tenantNamespace chartSecretsToKeep)) mgr
         in ok (mgr, r)))))"

text \<open>The heap of a request is empty when its manager is built.\<close>

definition new_run :: "'w \<Rightarrow> 'w run" where
  "new_run w = \<lparr>r_world = w, r_heap = (\<lambda>_. new_object [] [] (OtherObject [])), r_next = 0\<rparr>"

definition createObjectManager ::
    "'w outside \<Rightarrow> 'w reconciler \<Rightarrow> metrics_operator \<Rightarrow> provider_config \<Rightarrow> 'w cluster_context \<Rightarrow> 'w \<Rightarrow>
     ('w manager \<times> 'w run) fallible \<times> metrics_operator \<times> 'w" where
  "createObjectManager X rc obj pc ctx w =
     (case prepareInputs X obj pc w of
        (Inl e, obj1, w1) \<Rightarrow> (fail e, obj1, w1)
      | (Inr inputs, obj1, w1) \<Rightarrow> (build_manager X rc obj1 pc ctx inputs (new_run w1), obj1, w1))"

section \<open>Results\<close>

definition nilIfEmptyString :: "string \<Rightarrow> string option" where
  "nilIfEmptyString str = (if str = [] then None else Some str)"

fun resultsToResources :: "'w result list \<Rightarrow> 'w run \<Rightarrow> (managed_resource list \<times> bool) go" where
  "resultsToResources [] r = Ret ([], False)"
| "resultsToResources (res # results) r =
     (let obj = GetObject r (res_Object res) in
      case GetStatusOf r (res_Object res) (c_clusterType (res_Cluster res)) of
        Panic p \<Rightarrow> Panic p
      | Ret status \<Rightarrow>
          (case resultsToResources results r of
             Panic p \<Rightarrow> Panic p
           | Ret (resources, containsError) \<Rightarrow>
               Ret (\<lparr>mr_Kind = type_name (o_Body obj), mr_Name = o_Name obj,
                     mr_Namespace = nilIfEmptyString (o_Namespace obj), mr_Phase = s_Phase status,
                     mr_Message = s_Message status, mr_Location = s_Location status\<rparr> # resources,
                    res_Error res \<noteq> None \<or> containsError)))"

definition allResourcesReady :: "managed_resource list \<Rightarrow> bool" where
  "allResourcesReady resources = list_all (\<lambda>res. mr_Phase res = Ready) resources"

text \<open>The texts of the user-facing errors that the error is or wraps; else its own text.\<close>

definition userErrorMessage :: "gerr option \<Rightarrow> string" where
  "userErrorMessage err =
     (case err of
        None \<Rightarrow> []
      | Some e \<Rightarrow>
          let errorMessages =
                (if errors_is e (ESentinel ErrManagedResources) then [sentinel_text ErrManagedResources] else []) @
                (if errors_is e (ESentinel ErrSecretCleanup) then [sentinel_text ErrSecretCleanup] else []) @
                (if errors_is e (ESentinel ErrConfigMapCleanup) then [sentinel_text ErrConfigMapCleanup] else [])
          in if length errorMessages = 0 then err_text e else join_strings errorMessages ''; '')"

definition updateStatusError ::
    "'w outside \<Rightarrow> metrics_operator \<Rightarrow> bool \<Rightarrow> gerr option \<Rightarrow> gerr option \<times> metrics_operator" where
  "updateStatusError X obj resourceErrors err =
     (let err1 = (if resourceErrors then errors_join [Some (ESentinel ErrManagedResources), err] else err)
      in (lib_IgnoreInvalidUserInput (out_lib X) err1,
          lib_StatusProgressing (out_lib X) obj conditionReasonError (userErrorMessage err1)))"

definition set_resources :: "metrics_operator \<Rightarrow> managed_resource list \<Rightarrow> metrics_operator" where
  "set_resources obj rs = obj\<lparr>mo_Status := (mo_Status obj)\<lparr>mos_Resources := rs\<rparr>\<rparr>"

section \<open>The handlers\<close>

text \<open>\<open>ctrl.Result\<close>: the time after which to requeue (0 for not at all), and the error.\<close>

type_synonym handler_result = "(int \<times> gerr option) go"

definition CreateOrUpdate_handler ::
    "'w outside \<Rightarrow> 'w reconciler \<Rightarrow> metrics_operator \<Rightarrow> provider_config \<Rightarrow> 'w cluster_context \<Rightarrow> 'w \<Rightarrow>
     handler_result \<times> metrics_operator \<times> 'w" where
  "CreateOrUpdate_handler X rc obj pc ctx w =
     (let lib = out_lib X;
          obj = lib_StatusProgressing lib obj ''Reconciling'' ''Reconcile in progress''
      in case createObjectManager X rc obj pc ctx w of
           (Panic p, obj, w) \<Rightarrow> (Panic p, obj, w)
         | (Ret (Inl err), obj, w) \<Rightarrow>
             (Ret (0, lib_IgnoreInvalidUserInput lib (Some err)),
              lib_StatusProgressing lib obj conditionReasonError (err_text err), w)
         | (Ret (Inr (mgr, r)), obj, w) \<Rightarrow>
             (case Apply (out_api X) mgr r of
                (Panic p, r') \<Rightarrow> (Panic p, obj, r_world r')
              | (Ret (results, err), r') \<Rightarrow>
                  (case resultsToResources results r' of
                     Panic p \<Rightarrow> (Panic p, obj, r_world r')
                   | Ret (managedResources, resultContainsErrors) \<Rightarrow>
                       let obj = set_resources obj managedResources;
                           obj = (if allResourcesReady managedResources then lib_StatusReady lib obj else obj)
                       in if resultContainsErrors \<or> err \<noteq> None
                          then (let (e, obj) = updateStatusError X obj resultContainsErrors err
                                in (Ret (0, e), obj, r_world r'))
                          else (Ret (0, None), obj, r_world r'))))"

definition Delete_handler ::
    "'w outside \<Rightarrow> 'w reconciler \<Rightarrow> metrics_operator \<Rightarrow> provider_config \<Rightarrow> 'w cluster_context \<Rightarrow> 'w \<Rightarrow>
     handler_result \<times> metrics_operator \<times> 'w" where
  "Delete_handler X rc obj pc ctx w =
     (let lib = out_lib X in
      case BlockingKinds (out_api X) (ctx_MCPClient ctx) w of
        (Inl err, w) \<Rightarrow>
          (Ret (0, Some err), lib_StatusProgressing lib obj conditionReasonError (err_text err), w)
      | (Inr blockingKinds, w) \<Rightarrow>
          if 0 < length blockingKinds
          then (Ret (Second * 5, None),
                lib_StatusTerminatingWithReason lib obj ''UserResourcesExist''
                  (''waiting for user resources to be deleted: '' @ join_strings blockingKinds '', ''), w)
          else
            let obj = lib_StatusTerminating lib obj
            in case createObjectManager X rc obj pc ctx w of
                 (Panic p, obj, w) \<Rightarrow> (Panic p, obj, w)
               | (Ret (Inl err), obj, w) \<Rightarrow>
                   (Ret (0, lib_IgnoreInvalidUserInput lib (Some err)),
                    lib_StatusProgressing lib obj conditionReasonError (err_text err), w)
               | (Ret (Inr (mgr, r)), obj, w) \<Rightarrow>
                   (case Delete_all (out_api X) mgr r of
                      (Panic p, r') \<Rightarrow> (Panic p, obj, r_world r')
                    | (Ret (results, err), r') \<Rightarrow>
                        (case resultsToResources results r' of
                           Panic p \<Rightarrow> (Panic p, obj, r_world r')
                         | Ret (managedResources, resultContainsErrors) \<Rightarrow>
                             let obj = set_resources obj managedResources
                             in if AllDeleted results then (Ret (0, None), obj, r_world r')
                                else if resultContainsErrors \<or> err \<noteq> None
                                then (let (e, obj) = updateStatusError X obj resultContainsErrors err
                                      in (Ret (0, e), obj, r_world r'))
                                else (Ret (Second * 5, None), obj, r_world r'))))"

end
