(* ===== verification/Manager_Properties.thy ===== *)
theory Manager_Properties
  imports Manager_Liveness
begin

text \<open>
  The properties of the manager, with an example manager on the reference server on which
  their hypotheses hold: a secret and a Helm release that depends on it.
\<close>

section \<open>The example\<close>

definition ex_object :: "nat \<Rightarrow> object" where
  "ex_object i = (if i = 0 then new_object ''ca'' ''ns'' (Secret None [])
                  else new_object ''release'' ''ns'' (HelmRelease None []))"

definition ex_managed :: "nat \<Rightarrow> nat list \<Rightarrow> ref_world managed_object" where
  "ex_managed i deps = \<lparr>m_ref = i, m_reconcileFunc = Some NoOp, m_dependencies = deps,
     m_deletionPolicy = Delete, m_statusFunc = Some SimpleStatus\<rparr>"

definition ex_cluster :: "ref_world managed_cluster" where
  "ex_cluster = \<lparr>c_client = ref_client 0, c_cfg = None,
     c_objects = [ex_managed 0 [], ex_managed 1 [0]],
     c_defaultNamespace = ''ns'', c_clusterType = PlatformCluster\<rparr>"

definition ex_manager :: "ref_world manager" where
  "ex_manager = AddCluster ex_cluster NewManager"

definition ex_world :: "object list \<Rightarrow> ref_world" where
  "ex_world os = \<lparr>rw_store = (\<lambda>_. os), rw_custom = (\<lambda>_ _. None), rw_down = [], rw_held = [], rw_now = 0\<rparr>"

definition ex_run :: "object list \<Rightarrow> ref_world run" where
  "ex_run os = \<lparr>r_world = ex_world os, r_heap = ex_object, r_next = 2\<rparr>"

lemma ex_pairs:
  "managed_pairs (mgr_clusters ex_manager) =
     [(ex_cluster, ex_managed 0 []), (ex_cluster, ex_managed 1 [0])]"
  by (simp add: ex_manager_def AddCluster_def NewManager_def managed_pairs_def ex_cluster_def)

lemma ex_cleaners [simp]: "mgr_cleaners ex_manager = []"
  by (simp add: ex_manager_def AddCluster_def NewManager_def)

lemma ex_known: "known_clusters ref_client (mgr_clusters ex_manager)"
  by (auto simp: known_clusters_def ex_manager_def AddCluster_def NewManager_def ex_cluster_def)

lemma ex_refs: "refs_below (r_next (ex_run os)) (mgr_clusters ex_manager)"
  by (simp add: refs_below_def ex_pairs ex_run_def ex_managed_def)

lemma ex_dependents:
  "getDependents (mgr_clusters ex_manager) =
     (\<lambda>_. [])(0 := [\<lparr>d_Object = ex_managed 1 [0], d_Cluster = ex_cluster\<rparr>])"
  by (simp add: getDependents_def ex_manager_def AddCluster_def NewManager_def ex_cluster_def
      GetDependencies_def ex_managed_def)

lemma ex_cluster_simps [simp]: "c_client ex_cluster = ref_client 0"
  by (simp add: ex_cluster_def)

lemma ex_managed_simps [simp]:
  "m_ref (ex_managed i ds) = i" "m_dependencies (ex_managed i ds) = ds"
  "m_deletionPolicy (ex_managed i ds) = Delete" "m_reconcileFunc (ex_managed i ds) = Some NoOp"
  by (simp_all add: ex_managed_def)

lemmas ex_pass_simps =
  reconcileObjects_flat Delete_all_def Apply_def ex_pairs ex_dependents bind_prog_def ret_def
  reconcileObject_def delete_object_def apply_object_def checkForDependents_def refresh_def GetObject_def
  GetDeletionPolicy_def ex_run_def ex_world_def ref_get_def ref_delete_def ref_view_def ref_set_store_def
  ref_upsert_def ref_create_def ref_update_def ref_put_def same_object_def object_key_def ex_object_def
  mutate_managed_def Reconcile_def NoOp_def set_object_def SetManagedBy_def Let_def

text \<open>A deletion pass over empty clusters, and one over clusters with both objects.\<close>

lemma ex_pass_empty:
  obtains results r' where "Delete_all ref_api ex_manager (ex_run []) = (Ret (results, None), r')"
    "AllDeleted results" "\<forall>res \<in> set results. res_Error res = None" "length results = 2"
proof -
  have "\<exists>results r'. Delete_all ref_api ex_manager (ex_run []) = (Ret (results, None), r') \<and>
      AllDeleted results \<and> (\<forall>res \<in> set results. res_Error res = None) \<and> length results = 2"
    by (simp add: ex_pass_simps AllDeleted_def)
  with that show thesis by blast
qed

lemma ex_pass_full:
  obtains results r' where
    "Delete_all ref_api ex_manager (ex_run [ex_object 0, ex_object 1]) = (Ret (results, None), r')"
    "res_Error (results ! 0) \<noteq> None" "res_Error (results ! 1) = None" "length results = 2"
proof -
  have "\<exists>results r'. Delete_all ref_api ex_manager (ex_run [ex_object 0, ex_object 1]) =
      (Ret (results, None), r') \<and>
      res_Error (results ! 0) \<noteq> None \<and> res_Error (results ! 1) = None \<and> length results = 2"
    by (simp add: ex_pass_simps)
  with that show thesis by blast
qed

lemma ex_pass_apply:
  obtains results r' where "Apply ref_api ex_manager (ex_run []) = (Ret (results, None), r')"
    "\<forall>res \<in> set results. res_Error res = None" "length results = 2"
proof -
  have "\<exists>results r'. Apply ref_api ex_manager (ex_run []) = (Ret (results, None), r') \<and>
      (\<forall>res \<in> set results. res_Error res = None) \<and> length results = 2"
    by (simp add: ex_pass_simps)
  with that show thesis by blast
qed

section \<open>Deletion\<close>

text \<open>
  C20: after a deletion pass whose result for an object carries no error, no object that
  names it as a dependency exists any more on the cluster it was created on. The pass thus
  never deletes an object from under a dependent.
\<close>

theorem delete_waits_for_dependents:
  assumes "api_server api cl view" "known_clusters cl (mgr_clusters mgr)"
    "refs_below (r_next r) (mgr_clusters mgr)"
    "\<forall>c \<in> set (mgr_cleaners mgr). orphan_cleaner_on_server api cl view c"
    "Delete_all api mgr r = (Ret (results, err), r')"
    "n < length (managed_pairs (mgr_clusters mgr))" "res_Error (results ! n) = None"
    "(mc, m) \<in> set (managed_pairs (mgr_clusters mgr))"
    "m_ref (snd (managed_pairs (mgr_clusters mgr) ! n)) \<in> set (GetDependencies m)"
    "c_client mc = cl k"
  shows "gone view k r' m"
proof (rule delete_pass [OF assms(1-5)])
  fix rs extra
  assume out: "results = rs @ extra" and reports:
    "list_all2 (deletion_report api cl view (mgr_clusters mgr) r') (managed_pairs (mgr_clusters mgr)) rs"
  have "results ! n = rs ! n"
    using out assms(6) list_all2_lengthD [OF reports] by (simp add: nth_append)
  with list_all2_nthD [OF reports assms(6)] assms(7-10) show ?thesis
    by (simp add: deletion_report_def)
qed

text \<open>On clusters with both objects, the second result is without an error: nothing depends on it.\<close>

lemma delete_waits_for_dependents_witness:
  "\<exists>results r'. Delete_all ref_api ex_manager (ex_run []) = (Ret (results, None), r') \<and>
     gone ref_view 0 r' (ex_managed 1 [0])"
proof (rule ex_pass_empty)
  fix results r'
  assume run: "Delete_all ref_api ex_manager (ex_run []) = (Ret (results, None), r')"
    and none: "\<forall>res \<in> set results. res_Error res = None" and len: "length results = 2"
  have "gone ref_view 0 r' (ex_managed 1 [0])"
    by (rule delete_waits_for_dependents
        [OF refsrv.api_server_axioms ex_known ex_refs _ run, of 0 ex_cluster])
       (use none len nth_mem [of 0 results] in \<open>simp_all add: ex_pairs GetDependencies_def\<close>)
  with run show ?thesis by blast
qed

text \<open>
  C19: when \<open>AllDeleted\<close> holds of the results of a deletion pass, every managed object that
  is not to be kept is gone from its cluster, and the results are those of the objects alone:
  no cleaner has added one, as it does for each object it could not delete. This is the
  condition under which the controller drops its finalizer. (A cleaner may still have failed
  to list its objects; that is the error beside the results.)
\<close>

theorem all_deleted_is_true:
  assumes "api_server api cl view" "known_clusters cl (mgr_clusters mgr)"
    "refs_below (r_next r) (mgr_clusters mgr)"
    "\<forall>c \<in> set (mgr_cleaners mgr). orphan_cleaner_on_server api cl view c"
    "Delete_all api mgr r = (Ret (results, err), r')"
    "OperationResultNone api \<noteq> OperationResultDeleted" "AllDeleted results"
  shows "length results = length (managed_pairs (mgr_clusters mgr)) \<and>
    (\<forall>mc m i. (mc, m) \<in> set (managed_pairs (mgr_clusters mgr)) \<longrightarrow> c_client mc = cl i \<longrightarrow>
       GetDeletionPolicy m \<noteq> Orphan \<longrightarrow> gone view i r' m)"
proof (rule delete_pass [OF assms(1-5)])
  fix rs extra
  assume out: "results = rs @ extra"
    and extra: "\<forall>y \<in> set extra. res_OperationResult y \<noteq> OperationResultDeleted"
    and reports: "list_all2 (deletion_report api cl view (mgr_clusters mgr) r')
      (managed_pairs (mgr_clusters mgr)) rs"
  have deleted: "\<forall>res \<in> set results. res_OperationResult res = OperationResultDeleted"
    using assms(7) by (simp add: AllDeleted_def list_all_iff)
  then have "extra = []" using out extra by (cases extra) auto
  have len: "length (managed_pairs (mgr_clusters mgr)) = length rs"
    by (rule list_all2_lengthD [OF reports])
  have "gone view i r' m" if mem: "(mc, m) \<in> set (managed_pairs (mgr_clusters mgr))"
    and "c_client mc = cl i" "GetDeletionPolicy m \<noteq> Orphan" for mc m i
  proof -
    obtain n where n: "n < length (managed_pairs (mgr_clusters mgr))"
      "managed_pairs (mgr_clusters mgr) ! n = (mc, m)"
      using mem by (auto simp: in_set_conv_nth)
    moreover have "res_OperationResult (rs ! n) = OperationResultDeleted"
      using deleted out n(1) len by simp
    ultimately show ?thesis
      using list_all2_nthD [OF reports n(1)] that(2,3) assms(6) by (simp add: deletion_report_def)
  qed
  then show ?thesis using out len \<open>extra = []\<close> by auto
qed

lemma all_deleted_is_true_witness:
  "\<exists>results r'. Delete_all ref_api ex_manager (ex_run []) = (Ret (results, None), r') \<and>
     AllDeleted results \<and> length results = 2 \<and> gone ref_view 0 r' (ex_managed 0 [])"
proof (rule ex_pass_empty)
  fix results r'
  assume run: "Delete_all ref_api ex_manager (ex_run []) = (Ret (results, None), r')"
    and all: "AllDeleted results" "length results = 2"
  have "gone ref_view 0 r' (ex_managed 0 [])"
    using all_deleted_is_true [OF refsrv.api_server_axioms ex_known ex_refs _ run _ all(1)]
    by (simp add: ex_pairs GetDeletionPolicy_def OperationResultDeleted_def)
  with run all show ?thesis by blast
qed

text \<open>
  As long as a dependent of an object exists, the deletion step of that object
  changes no cluster at all: it reports an error and the operation "unchanged".
\<close>

theorem blocked_object_is_untouched:
  assumes "api_server api cl view" "known_clusters cl clusters"
    "(mc, m) \<in> set (managed_pairs clusters)"
    "reconcileObject api (getDependents clusters) True mc m r = (Ret res, r')"
    "(mc', m') \<in> set (managed_pairs clusters)" "m_ref m \<in> set (GetDependencies m')"
    "c_client mc' = cl k" "\<not> gone view k r m'"
  shows "(\<forall>j. view j (r_world r') = view j (r_world r)) \<and> res_Error res \<noteq> None \<and>
    res_OperationResult res = OperationResultNone api"
proof -
  have del: "delete_object api (getDependents clusters) mc m r = (res, r')"
    using assms(4) by (auto simp: reconcileObject_def split: prod.splits)
  obtain i where i: "c_client mc = cl i"
    using assms(2,3) by (auto simp: known_clusters_def list_all_iff in_managed_pairs)
  have dep: "\<lparr>d_Object = m', d_Cluster = mc'\<rparr> \<in> set (getDependents clusters (m_ref m))"
    using assms(5,6) by (simp add: getDependents_iff in_managed_pairs)
  note step = api_server.delete_object_step
    [OF assms(1) i api_server.known_dependents [OF assms(1,2)] del]
  have blocked: "view j (r_world r') = view j (r_world r) \<and> res_OperationResult res = OperationResultNone api"
    for j
    using step(5) [OF dep] assms(7,8) by simp
  moreover have "res_Error res \<noteq> None"
    using step(4) [OF _ dep] assms(7,8) by auto
  ultimately show ?thesis by blast
qed

lemma blocked_object_is_untouched_witness:
  "\<exists>res r'. reconcileObject ref_api (getDependents (mgr_clusters ex_manager)) True ex_cluster
       (ex_managed 0 []) (ex_run [ex_object 0, ex_object 1]) = (Ret res, r') \<and>
     ref_view 0 (r_world r') = ref_view 0 (ex_world [ex_object 0, ex_object 1])"
proof -
  obtain res r' where "delete_object ref_api (getDependents (mgr_clusters ex_manager)) ex_cluster
       (ex_managed 0 []) (ex_run [ex_object 0, ex_object 1]) = (res, r')"
    by fastforce
  then have run: "reconcileObject ref_api (getDependents (mgr_clusters ex_manager)) True ex_cluster
       (ex_managed 0 []) (ex_run [ex_object 0, ex_object 1]) = (Ret res, r')"
    by (simp add: reconcileObject_def)
  have "\<forall>j. ref_view j (r_world r') = ref_view j (r_world (ex_run [ex_object 0, ex_object 1]))"
    by (rule conjunct1 [OF blocked_object_is_untouched [OF refsrv.api_server_axioms ex_known _ run,
          of ex_cluster "ex_managed 1 [0]" 0]])
       (simp_all add: ex_pairs GetDependencies_def gone_def GetObject_def ex_run_def ex_world_def
         ref_view_def same_object_def ex_object_def object_key_def)
  with run show ?thesis by (auto simp: ex_run_def)
qed

text \<open>A deletion pass never panics, whatever the clients answer.\<close>

theorem deletion_never_panics:
  "\<exists>results err r'. Delete_all api mgr r = (Ret (results, err), r')"
proof -
  have "\<not> panics (fst (Delete_all api mgr r))"
    unfolding Delete_all_def by (rule reconcileObjects_no_panic) (rule delete_never_panics)
  then show ?thesis
    by (cases "Delete_all api mgr r") (auto simp: not_panics_iff)
qed

section \<open>The end of deletion\<close>

lemma delete_passes_level:
  assumes "prompt_server api cl view healthy" "known_clusters cl (mgr_clusters mgr)"
    "refs_below (r_next r0) (mgr_clusters mgr)" "levelled level (mgr_clusters mgr)"
    "\<forall>c \<in> set (mgr_cleaners mgr). orphan_cleaner_on_server api cl view c \<and> cleaner_keeps healthy c"
    "healthy w"
  shows "healthy (delete_passes api mgr r0 n w) \<and>
    gone_below cl view level (mgr_clusters mgr) n (r0\<lparr>r_world := delete_passes api mgr r0 n w\<rparr>)"
proof (induction n)
  case 0
  then show ?case using assms(6) by (simp add: gone_below_def)
next
  case (Suc n)
  let ?r = "r0\<lparr>r_world := delete_passes api mgr r0 n w\<rparr>"
  have "\<not> panics (fst (Delete_all api mgr ?r))"
    unfolding Delete_all_def by (rule reconcileObjects_no_panic) (rule delete_never_panics)
  then obtain results err r' where run: "Delete_all api mgr ?r = (Ret (results, err), r')"
    by (cases "Delete_all api mgr ?r") (auto simp: not_panics_iff)
  have refs: "refs_below (r_next ?r) (mgr_clusters mgr)" using assms(3) by simp
  have h: "healthy (r_world ?r)" and below: "gone_below cl view level (mgr_clusters mgr) n ?r"
    using Suc by simp_all
  show ?case
  proof (rule delete_pass_level [OF assms(1,2) refs assms(4,5) h below run])
    assume h': "healthy (r_world r')" and below': "gone_below cl view level (mgr_clusters mgr) (Suc n) r'"
      and same: "\<forall>(mc, m) \<in> set (managed_pairs (mgr_clusters mgr)).
       kind_of (GetObject r' m) = kind_of (GetObject ?r m) \<and>
       object_key (GetObject r' m) = object_key (GetObject ?r m)"
    have world: "delete_passes api mgr r0 (Suc n) w = r_world r'" using run by simp
    have "gone_below cl view level (mgr_clusters mgr) (Suc n) (r0\<lparr>r_world := r_world r'\<rparr>)"
      by (rule gone_below_later [OF below']) (use same in \<open>auto simp: gone_def GetObject_def\<close>)
    with h' show ?thesis by (simp only: world)
  qed
qed

text \<open>
  C39: On servers that answer and delete at once, deletion ends. When no object has a
  dependent that is to be kept and the dependencies have no cycle (the levels), as many
  passes as there are levels remove every object, and the results of the next pass report
  each of them as deleted, without an error.
\<close>

theorem deletion_finishes:
  assumes "prompt_server api cl view healthy" "known_clusters cl (mgr_clusters mgr)"
    "refs_below (r_next r0) (mgr_clusters mgr)" "levelled level (mgr_clusters mgr)"
    "\<forall>c \<in> set (mgr_cleaners mgr). orphan_cleaner_on_server api cl view c \<and> cleaner_keeps healthy c"
    "healthy w" "\<forall>(mc, m) \<in> set (managed_pairs (mgr_clusters mgr)). level (m_ref m) < n"
  shows "\<exists>results err r'. Delete_all api mgr (r0\<lparr>r_world := delete_passes api mgr r0 n w\<rparr>) =
      (Ret (results, err), r') \<and>
    (\<forall>i < length (managed_pairs (mgr_clusters mgr)).
       res_OperationResult (results ! i) = OperationResultDeleted \<and> res_Error (results ! i) = None)"
proof -
  let ?r = "r0\<lparr>r_world := delete_passes api mgr r0 n w\<rparr>"
  note level = delete_passes_level [OF assms(1-6), of n]
  have "\<not> panics (fst (Delete_all api mgr ?r))"
    unfolding Delete_all_def by (rule reconcileObjects_no_panic) (rule delete_never_panics)
  then obtain results err r' where run: "Delete_all api mgr ?r = (Ret (results, err), r')"
    by (cases "Delete_all api mgr ?r") (auto simp: not_panics_iff)
  have refs: "refs_below (r_next ?r) (mgr_clusters mgr)" using assms(3) by simp
  have h: "healthy (r_world ?r)" using level by simp
  show ?thesis
  proof (rule delete_pass_level [OF assms(1,2) refs assms(4,5) h conjunct2 [OF level] run])
    fix rs extra
    assume out: "results = rs @ extra" "length rs = length (managed_pairs (mgr_clusters mgr))"
      and all: "\<forall>(mc, m) \<in> set (managed_pairs (mgr_clusters mgr)). level (m_ref m) < n \<Longrightarrow>
        \<forall>res \<in> set rs. res_OperationResult res = OperationResultDeleted \<and> res_Error res = None"
    have "\<forall>i < length (managed_pairs (mgr_clusters mgr)).
       res_OperationResult (results ! i) = OperationResultDeleted \<and> res_Error (results ! i) = None"
      using all [OF assms(7)] out by (simp add: nth_append)
    with run show ?thesis by blast
  qed
qed

text \<open>Two levels: first the release, then the secret it depends on.\<close>

lemma deletion_finishes_witness:
  "\<exists>results err r'.
     Delete_all ref_api ex_manager ((ex_run [])\<lparr>r_world := delete_passes ref_api ex_manager (ex_run [])
       2 (ex_world [ex_object 0, ex_object 1])\<rparr>) = (Ret (results, err), r') \<and>
     (\<forall>i < 2. res_OperationResult (results ! i) = OperationResultDeleted \<and>
        res_Error (results ! i) = None)"
  using deletion_finishes [OF refprompt.prompt_server_axioms ex_known ex_refs, where level = "\<lambda>i. 1 - i" and
      n = 2 and w = "ex_world [ex_object 0, ex_object 1]"]
  by (simp add: levelled_def ex_pairs GetDependencies_def GetDeletionPolicy_def ex_world_def numeral_2_eq_2)

section \<open>Applying\<close>

text \<open>
  C21: after an \<open>Apply\<close> whose result for an object carries no error, that object carries
  the managed-by label, by which the orphan cleaners find what the operator made, and it
  is still the object of that kind and key. (The reconcile function must keep the label.)
\<close>

theorem applied_objects_are_labelled:
  assumes "api_server api cl view" "known_clusters cl (mgr_clusters mgr)"
    "refs_below (r_next r) (mgr_clusters mgr)"
    "distinct (map (m_ref \<circ> snd) (managed_pairs (mgr_clusters mgr)))"
    "\<forall>c \<in> set (mgr_cleaners mgr). orphan_cleaner c"
    "Apply api mgr r = (Ret (results, err), r')"
    "n < length (managed_pairs (mgr_clusters mgr))" "managed_pairs (mgr_clusters mgr) ! n = (mc, m)"
    "keeps_label (GetObject r m) m" "res_Error (results ! n) = None"
  shows "is_managed (GetObject r' m) \<and> kind_of (GetObject r' m) = kind_of (GetObject r m) \<and>
    object_key (GetObject r' m) = object_key (GetObject r m)"
proof -
  let ?ps = "managed_pairs (mgr_clusters mgr)"
  have eq: "(\<lambda>(mc, m). reconcileObject api (getDependents (mgr_clusters mgr)) False mc m) =
      (\<lambda>(mc, m). apply_object api mc m)"
    by (simp add: fun_eq_iff reconcileObject_def)
  from assms(6) obtain rs r1 where loop: "map_prog (\<lambda>(mc, m). apply_object api mc m) ?ps r = (Ret rs, r1)"
    and clean: "run_cleaners (mgr_cleaners mgr) rs r1 = ((results, err), r')"
    unfolding Apply_def by (elim reconcileObjects_parts) (simp add: eq)
  note steps = apply_loop [OF assms(4) loop]
  from run_cleaners_results [OF assms(5) clean] obtain extra where out: "results = rs @ extra"
    and heap: "\<forall>j < r_next r1. r_heap r' j = r_heap r1 j"
    by blast
  have len: "length ?ps = length rs" using steps list_all2_lengthD by blast
  have mem: "(mc, m) \<in> set ?ps" using assms(7,8) nth_mem by fastforce
  obtain t t' where t: "GetObject t m = GetObject r m" "apply_object api mc m t = (Ret (rs ! n), t')"
      "GetObject r1 m = GetObject t' m"
    using list_all2_nthD [OF conjunct2 [OF conjunct2 [OF steps]] assms(7)] assms(8) by auto
  obtain i where i: "c_client mc = cl i"
    using assms(2) mem by (auto simp: known_clusters_def list_all_iff in_managed_pairs)
  have ok: "res_Error (rs ! n) = None" using assms(7,10) out len by (simp add: nth_append)
  note one = api_server.apply_object_ok [OF assms(1) i assms(9) [folded t(1)] t(2) ok]
  have "GetObject r' m = GetObject r1 m"
    using heap refs_below_pair [OF assms(3) mem] steps by (simp add: GetObject_def)
  then show ?thesis using one(1-3) t(1,3) by simp
qed

lemma ex_keeps_label: "keeps_label ob (ex_managed i ds)"
  by (simp add: keeps_label_def Reconcile_def NoOp_def)

lemma applied_objects_are_labelled_witness:
  "\<exists>results r'. Apply ref_api ex_manager (ex_run []) = (Ret (results, None), r') \<and>
     is_managed (GetObject r' (ex_managed 1 [0]))"
proof (rule ex_pass_apply)
  fix results r'
  assume run: "Apply ref_api ex_manager (ex_run []) = (Ret (results, None), r')"
    and none: "\<forall>res \<in> set results. res_Error res = None" and len: "length results = 2"
  have "is_managed (GetObject r' (ex_managed 1 [0]))"
    using applied_objects_are_labelled
      [OF refsrv.api_server_axioms ex_known ex_refs _ _ run, of 1 ex_cluster "ex_managed 1 [0]"]
      none len nth_mem [of 1 results] ex_keeps_label
    by (simp add: ex_pairs)
  with run show ?thesis by blast
qed

text \<open>
  A successful step of \<open>Apply\<close> leaves on the server exactly the object that the
  manager then holds, with the managed-by label.
\<close>

theorem applied_object_is_stored:
  assumes "api_server api cl view" "c_client mc = cl i" "keeps_label (GetObject r m) m"
    "reconcileObject api deps False mc m r = (Ret res, r')" "res_Error res = None"
  shows "view i (r_world r') (kind_of (GetObject r m)) (object_key (GetObject r m)) =
      Some (GetObject r' m) \<and> is_managed (GetObject r' m)"
proof -
  have run: "apply_object api mc m r = (Ret res, r')"
    using assms(4) by (simp add: reconcileObject_def)
  note one = api_server.apply_object_ok [OF assms(1-3) run assms(5)]
  show ?thesis using one by simp
qed

lemma applied_object_is_stored_witness:
  "\<exists>res r'. reconcileObject ref_api (\<lambda>_. []) False ex_cluster (ex_managed 1 [0]) (ex_run []) = (Ret res, r') \<and>
     ref_view 0 (r_world r') ''HelmRelease'' (''ns'', ''release'') = Some (GetObject r' (ex_managed 1 [0]))"
proof -
  have "\<exists>res r'. reconcileObject ref_api (\<lambda>_. []) False ex_cluster (ex_managed 1 [0]) (ex_run []) =
      (Ret res, r') \<and> res_Error res = None"
    by (simp add: ex_pass_simps)
  then obtain res r' where run: "reconcileObject ref_api (\<lambda>_. []) False ex_cluster (ex_managed 1 [0])
      (ex_run []) = (Ret res, r')" and ok: "res_Error res = None"
    by blast
  have "ref_view 0 (r_world r') (kind_of (GetObject (ex_run []) (ex_managed 1 [0])))
      (object_key (GetObject (ex_run []) (ex_managed 1 [0]))) = Some (GetObject r' (ex_managed 1 [0]))"
    by (rule conjunct1 [OF applied_object_is_stored
          [OF refsrv.api_server_axioms _ ex_keeps_label run ok]]) simp
  with run show ?thesis by (simp add: GetObject_def ex_run_def ex_object_def object_key_def)
qed

text \<open>
  \<open>Apply\<close> panics only if one of the reconcile functions does.
\<close>

theorem apply_does_not_panic:
  assumes "api_server api cl view" "known_clusters cl (mgr_clusters mgr)"
    "\<forall>(mc, m) \<in> set (managed_pairs (mgr_clusters mgr)). \<forall>o' w. \<not> panics (fst (Reconcile m o' w))"
  shows "\<exists>results err r'. Apply api mgr r = (Ret (results, err), r')"
proof -
  have "\<not> panics (fst (reconcileObject api (getDependents (mgr_clusters mgr)) False mc m s))"
    if mem: "(mc, m) \<in> set (managed_pairs (mgr_clusters mgr))" for mc m s
  proof -
    obtain i where "c_client mc = cl i"
      using assms(2) mem by (auto simp: known_clusters_def list_all_iff in_managed_pairs)
    then show ?thesis
      using api_server.apply_object_no_panic [OF assms(1)] assms(3) mem
      by (fastforce simp: reconcileObject_def)
  qed
  then have "\<not> panics (fst (Apply api mgr r))"
    unfolding Apply_def by (rule reconcileObjects_no_panic)
  then show ?thesis by (cases "Apply api mgr r") (auto simp: not_panics_iff)
qed

lemma apply_does_not_panic_witness:
  "\<exists>results err r'. Apply ref_api ex_manager (ex_run [ex_object 0]) = (Ret (results, err), r')"
  by (rule apply_does_not_panic [OF refsrv.api_server_axioms ex_known])
     (simp add: ex_pairs Reconcile_def NoOp_def)

section \<open>The order of the results\<close>

text \<open>
  Both passes give one result per managed object, in the order in which clusters
  and objects were added, before any result of a cleaner; without cleaners there are no
  other results and no error.
\<close>

theorem results_follow_the_objects:
  assumes "reconcileObjects api mgr isDeletion r = (Ret (results, err), r')"
    "\<forall>c \<in> set (mgr_cleaners mgr). orphan_cleaner c"
  shows "map (\<lambda>res. (res_Cluster res, res_Object res))
      (take (length (managed_pairs (mgr_clusters mgr))) results) = managed_pairs (mgr_clusters mgr) \<and>
    (mgr_cleaners mgr = [] \<longrightarrow> length results = length (managed_pairs (mgr_clusters mgr)) \<and> err = None)"
proof (rule reconcileObjects_parts [OF assms(1)])
  let ?ps = "managed_pairs (mgr_clusters mgr)"
  fix rs r1
  assume loop: "map_prog (\<lambda>(mc, m). reconcileObject api (getDependents (mgr_clusters mgr)) isDeletion mc m)
      ?ps r = (Ret rs, r1)"
    and clean: "run_cleaners (mgr_cleaners mgr) rs r1 = ((results, err), r')"
  have "list_all2 (\<lambda>p res. (res_Cluster res, res_Object res) = p) ?ps rs"
  proof (rule map_prog_results [OF _ loop])
    fix p s res s'
    assume "(case p of (mc, m) \<Rightarrow> reconcileObject api (getDependents (mgr_clusters mgr)) isDeletion mc m) s =
        (Ret res, s')"
    then show "(res_Cluster res, res_Object res) = p"
      using apply_object_result(1,2)
      by (cases p; cases isDeletion)
         (auto simp: reconcileObject_def delete_object_def Let_def split: prod.splits if_splits)
  qed
  then have rs: "map (\<lambda>res. (res_Cluster res, res_Object res)) rs = ?ps" "length ?ps = length rs"
    by (auto simp: list_all2_conv_all_nth intro: nth_equalityI)
  obtain extra where "results = rs @ extra"
    using run_cleaners_results [OF assms(2) clean] by blast
  moreover have "mgr_cleaners mgr = [] \<longrightarrow> results = rs \<and> err = None" using clean by auto
  ultimately show ?thesis using rs by auto
qed

lemma results_follow_the_objects_witness:
  "\<exists>results r'. reconcileObjects ref_api ex_manager False (ex_run []) = (Ret (results, None), r') \<and>
     length results = 2"
proof (rule ex_pass_apply)
  fix results r'
  assume run: "Apply ref_api ex_manager (ex_run []) = (Ret (results, None), r')"
  then have run': "reconcileObjects ref_api ex_manager False (ex_run []) = (Ret (results, None), r')"
    by (simp add: Apply_def)
  have "length results = length (managed_pairs (mgr_clusters ex_manager))"
    using results_follow_the_objects [OF run'] by simp
  with run' show ?thesis by (simp add: ex_pairs)
qed

end
