(* ===== verification/Helm_Correct.thy ===== *)
theory Helm_Correct
  imports Helm_Values
begin

text \<open>
  What the rewrites of the Helm values do to the decoded values, for codecs that decode
  what they encode: which values they accept, what they add, and what they leave alone.
\<close>

section \<open>Reading rewritten values\<close>

locale faithful_codecs =
  env: faithful_codec "env_codec C" + mount: faithful_codec "mount_codec C" +
  vol: faithful_codec "volume_codec C"
  for C :: codecs

text \<open>
  A section that was patched: its mounts and variables are the old ones with the given
  ones in the place of those in conflict, and no other member has changed.
\<close>

definition patched ::
    "codecs \<Rightarrow> (string, json) fmap \<Rightarrow> (string, json) fmap \<Rightarrow> volume_mount \<Rightarrow> env_var list \<Rightarrow> bool" where
  "patched C f f' mount es \<longleftrightarrow>
     (\<exists>mounts envs.
        unmarshalKey (mount_codec C) (Some f) ''extraVolumeMounts'' = Inr mounts \<and>
        unmarshalKey (env_codec C) (Some f) ''extraEnv'' = Inr envs \<and>
        unmarshalKey (mount_codec C) (Some f') ''extraVolumeMounts'' = Inr (upsertVolumeMount mounts mount) \<and>
        unmarshalKey (env_codec C) (Some f') ''extraEnv'' = Inr (foldl upsertEnvVar envs es) \<and>
        (\<forall>k. k \<noteq> ''extraVolumeMounts'' \<longrightarrow> k \<noteq> ''extraEnv'' \<longrightarrow> fmlookup f' k = fmlookup f k))"

text \<open>A section that can be patched: an object (not null) whose two lists can be decoded.\<close>

definition good_section :: "codecs \<Rightarrow> json option \<Rightarrow> bool" where
  "good_section C raw \<longleftrightarrow>
     (\<exists>f mounts envs. unmarshal_section raw = Inr (Some f) \<and>
        unmarshalKey (mount_codec C) (Some f) ''extraVolumeMounts'' = Inr mounts \<and>
        unmarshalKey (env_codec C) (Some f) ''extraEnv'' = Inr envs)"

definition good_values :: "codecs \<Rightarrow> raw option \<Rightarrow> bool" where
  "good_values C values \<longleftrightarrow>
     (\<exists>root vs. unmarshalRoot values = Inr (Some root) \<and>
        unmarshalKey (volume_codec C) (Some root) ''extraVolumes'' = Inr vs \<and>
        good_section C (fmlookup root ''init'') \<and> good_section C (fmlookup root ''manager''))"

lemma unmarshalRoot_written [simp]: "unmarshalRoot (Some (RawJson (marshal_map (Some f)))) = Inr (Some f)"
  by (simp add: unmarshalRoot_def)

lemma unmarshal_section_written [simp]: "unmarshal_section (Some (marshal_map (Some f))) = Inr (Some f)"
  by (simp add: unmarshal_section_def)

lemma unmarshalKey_upd:
  "unmarshalKey c (Some (fmupd k j f)) k' =
     (if k' = k then unmarshal_slice c j else unmarshalKey c (Some f) k')"
  by (simp add: unmarshalKey_def)

lemma patchContainerSection_ok_iff:
  "patchContainerSection C raw mount es = ok j \<longleftrightarrow>
     (\<exists>f mounts envs j1 j2. unmarshal_section raw = Inr (Some f) \<and>
        unmarshalKey (mount_codec C) (Some f) ''extraVolumeMounts'' = Inr mounts \<and>
        unmarshalKey (env_codec C) (Some f) ''extraEnv'' = Inr envs \<and>
        marshal_slice (mount_codec C) (upsertVolumeMount mounts mount) = Inr j1 \<and>
        marshal_slice (env_codec C) (foldl upsertEnvVar envs es) = Inr j2 \<and>
        j = marshal_map (Some (fmupd ''extraEnv'' j2 (fmupd ''extraVolumeMounts'' j1 f))))"
  unfolding patchContainerSection_def Let_def try_go_ok_iff assign_or_fail_ok_iff by auto

lemma patchEnvVars_ok_iff:
  "patchEnvVars C raw es = ok j \<longleftrightarrow>
     (\<exists>f envs j2. unmarshal_section raw = Inr (Some f) \<and>
        unmarshalKey (env_codec C) (Some f) ''extraEnv'' = Inr envs \<and>
        marshal_slice (env_codec C) (foldl upsertEnvVar envs es) = Inr j2 \<and>
        j = marshal_map (Some (fmupd ''extraEnv'' j2 f)))"
  unfolding patchEnvVars_def Let_def try_go_ok_iff assign_or_fail_ok_iff by auto

lemma add_volume_and_sections_ok_iff:
  "add_volume_and_sections C wrap values vol mount es = ok out \<longleftrightarrow>
     (\<exists>root vs j0 j1 j2. unmarshalRoot values = Inr (Some root) \<and>
        unmarshalKey (volume_codec C) (Some root) ''extraVolumes'' = Inr vs \<and>
        marshal_slice (volume_codec C) (upsertVolume vs vol) = Inr j0 \<and>
        patchContainerSection C (fmlookup root ''init'') mount es = ok j1 \<and>
        patchContainerSection C (fmlookup root ''manager'') mount es = ok j2 \<and>
        out = RawJson (marshal_map (Some (fmupd ''manager'' j2 (fmupd ''init'' j1 (fmupd ''extraVolumes'' j0 root))))))"
  unfolding add_volume_and_sections_def try_go_ok_iff assign_or_fail_ok_iff by auto

lemma AddDefault_ok_iff:
  "AddDefaultHelmValues C values ns = ok out \<longleftrightarrow>
     (\<exists>root j. unmarshalRoot values = Inr (Some root) \<and>
        patchEnvVars C (fmlookup root ''manager'') [EnvVar ''OPERATOR_CONFIG_NAMESPACE'' ns] = ok j \<and>
        out = RawJson (marshal_map (Some (fmupd ''serviceAccount''
          (JObj [(''automount'', JBool False), (''create'', JBool False)]) (fmupd ''manager'' j root)))))"
  unfolding AddDefaultHelmValues_def try_go_ok_iff assign_or_fail_ok_iff by auto

context faithful_codecs
begin

lemma patch_section:
  assumes "patchContainerSection C raw mount es = ok j"
  shows "\<exists>f f'. unmarshal_section raw = Inr (Some f) \<and> j = marshal_map (Some f') \<and> patched C f f' mount es"
proof -
  from assms obtain f mounts envs j1 j2 where *: "unmarshal_section raw = Inr (Some f)"
        "unmarshalKey (mount_codec C) (Some f) ''extraVolumeMounts'' = Inr mounts"
        "unmarshalKey (env_codec C) (Some f) ''extraEnv'' = Inr envs"
        "marshal_slice (mount_codec C) (upsertVolumeMount mounts mount) = Inr j1"
        "marshal_slice (env_codec C) (foldl upsertEnvVar envs es) = Inr j2"
        "j = marshal_map (Some (fmupd ''extraEnv'' j2 (fmupd ''extraVolumeMounts'' j1 f)))"
    unfolding patchContainerSection_ok_iff by blast
  have "patched C f (fmupd ''extraEnv'' j2 (fmupd ''extraVolumeMounts'' j1 f)) mount es"
    unfolding patched_def
    using * mount.slice_decodes [OF *(4)] env.slice_decodes [OF *(5)]
    by (intro exI [of _ mounts] exI [of _ envs]) (simp add: unmarshalKey_upd)
  with * show ?thesis by blast
qed

lemma patch_section_succeeds:
  "(\<exists>j. patchContainerSection C raw mount es = ok j) \<longleftrightarrow> good_section C raw"
proof
  assume "\<exists>j. patchContainerSection C raw mount es = ok j"
  then show "good_section C raw" unfolding patchContainerSection_ok_iff good_section_def by blast
next
  assume "good_section C raw"
  then obtain f mounts envs where f: "unmarshal_section raw = Inr (Some f)"
        "unmarshalKey (mount_codec C) (Some f) ''extraVolumeMounts'' = Inr mounts"
        "unmarshalKey (env_codec C) (Some f) ''extraEnv'' = Inr envs"
    unfolding good_section_def by blast
  obtain j1 j2 where "marshal_slice (mount_codec C) (upsertVolumeMount mounts mount) = Inr j1"
        "marshal_slice (env_codec C) (foldl upsertEnvVar envs es) = Inr j2"
    using mount.slice_round_trip env.slice_round_trip by blast
  with f show "\<exists>j. patchContainerSection C raw mount es = ok j"
    unfolding patchContainerSection_ok_iff by blast
qed

lemma add_volume_succeeds:
  "(\<exists>out. add_volume_and_sections C wrap values vol mount es = ok out) \<longleftrightarrow> good_values C values"
proof
  assume "\<exists>out. add_volume_and_sections C wrap values vol mount es = ok out"
  then show "good_values C values"
    unfolding add_volume_and_sections_ok_iff good_values_def
    using patch_section_succeeds by blast
next
  assume "good_values C values"
  then obtain root vs where root: "unmarshalRoot values = Inr (Some root)"
        "unmarshalKey (volume_codec C) (Some root) ''extraVolumes'' = Inr vs"
      and s: "good_section C (fmlookup root ''init'')" "good_section C (fmlookup root ''manager'')"
    unfolding good_values_def by blast
  obtain j0 where "marshal_slice (volume_codec C) (upsertVolume vs vol) = Inr j0"
    using vol.slice_round_trip by blast
  moreover obtain j1 where "patchContainerSection C (fmlookup root ''init'') mount es = ok j1"
    using s(1) patch_section_succeeds by blast
  moreover obtain j2 where "patchContainerSection C (fmlookup root ''manager'') mount es = ok j2"
    using s(2) patch_section_succeeds by blast
  ultimately show "\<exists>out. add_volume_and_sections C wrap values vol mount es = ok out"
    using root unfolding add_volume_and_sections_ok_iff by blast
qed

lemma patched_good: "patched C f f' mount es \<Longrightarrow> good_section C (Some (marshal_map (Some f')))"
  unfolding patched_def good_section_def by auto

text \<open>What a rewrite has done, read from its output.\<close>

lemma add_volume_effect:
  assumes "add_volume_and_sections C wrap values vol mount es = ok out"
  obtains root root' vs where "unmarshalRoot values = Inr (Some root)" "unmarshalRoot (Some out) = Inr (Some root')"
    "\<And>k. k \<notin> {''extraVolumes'', ''init'', ''manager''} \<Longrightarrow> fmlookup root' k = fmlookup root k"
    "unmarshalKey (volume_codec C) (Some root) ''extraVolumes'' = Inr vs"
    "unmarshalKey (volume_codec C) (Some root') ''extraVolumes'' = Inr (upsertVolume vs vol)"
    "\<And>s. s \<in> {''init'', ''manager''} \<Longrightarrow>
       \<exists>f f'. unmarshal_section (fmlookup root s) = Inr (Some f) \<and>
         unmarshal_section (fmlookup root' s) = Inr (Some f') \<and> patched C f f' mount es"
    "good_values C (Some out)"
proof -
  from assms obtain root vs j0 j1 j2 where *: "unmarshalRoot values = Inr (Some root)"
        "unmarshalKey (volume_codec C) (Some root) ''extraVolumes'' = Inr vs"
        "marshal_slice (volume_codec C) (upsertVolume vs vol) = Inr j0"
        "patchContainerSection C (fmlookup root ''init'') mount es = ok j1"
        "patchContainerSection C (fmlookup root ''manager'') mount es = ok j2"
        "out = RawJson (marshal_map (Some (fmupd ''manager'' j2 (fmupd ''init'' j1 (fmupd ''extraVolumes'' j0 root)))))"
    unfolding add_volume_and_sections_ok_iff by blast
  let ?root' = "fmupd ''manager'' j2 (fmupd ''init'' j1 (fmupd ''extraVolumes'' j0 root))"
  from patch_section [OF *(4)] obtain f1 f1' where
    i: "unmarshal_section (fmlookup root ''init'') = Inr (Some f1)" "j1 = marshal_map (Some f1')"
      "patched C f1 f1' mount es" by blast
  from patch_section [OF *(5)] obtain f2 f2' where
    m: "unmarshal_section (fmlookup root ''manager'') = Inr (Some f2)" "j2 = marshal_map (Some f2')"
      "patched C f2 f2' mount es" by blast
  have v: "unmarshalKey (volume_codec C) (Some ?root') ''extraVolumes'' = Inr (upsertVolume vs vol)"
    using vol.slice_decodes [OF *(3)] by (simp add: unmarshalKey_upd)
  have sections: "\<exists>f f'. unmarshal_section (fmlookup root s) = Inr (Some f) \<and>
         unmarshal_section (fmlookup ?root' s) = Inr (Some f') \<and> patched C f f' mount es"
    if "s \<in> {''init'', ''manager''}" for s
  proof (cases "s = ''init''")
    case True
    then show ?thesis by (intro exI [of _ f1] exI [of _ f1']) (simp add: i)
  next
    case False
    with that have "s = ''manager''" by simp
    then show ?thesis by (intro exI [of _ f2] exI [of _ f2']) (simp add: m)
  qed
  have "good_values C (Some out)"
    unfolding good_values_def
    using v *(6) patched_good [OF i(3)] patched_good [OF m(3)] i(2) m(2)
    by (intro exI [of _ ?root'] exI [of _ "upsertVolume vs vol"]) simp
  with *(1,2,6) v sections show thesis by (intro that [of root ?root' vs]) auto
qed

lemma defaults_succeed: "good_values C values \<Longrightarrow> \<exists>out. AddDefaultHelmValues C values ns = ok out"
proof -
  assume "good_values C values"
  then obtain root f envs where root: "unmarshalRoot values = Inr (Some root)"
    "unmarshal_section (fmlookup root ''manager'') = Inr (Some f)"
    "unmarshalKey (env_codec C) (Some f) ''extraEnv'' = Inr envs"
    unfolding good_values_def good_section_def by blast
  obtain j where "marshal_slice (env_codec C)
      (foldl upsertEnvVar envs [EnvVar ''OPERATOR_CONFIG_NAMESPACE'' ns]) = Inr j"
    using env.slice_round_trip by blast
  with root show ?thesis unfolding AddDefault_ok_iff patchEnvVars_ok_iff by blast
qed

lemma defaults_effect:
  assumes "AddDefaultHelmValues C values ns = ok out"
  obtains root root' f f' envs where
    "unmarshalRoot values = Inr (Some root)" "unmarshalRoot (Some out) = Inr (Some root')"
    "\<And>k. k \<notin> {''serviceAccount'', ''manager''} \<Longrightarrow> fmlookup root' k = fmlookup root k"
    "fmlookup root' ''serviceAccount'' = Some (JObj [(''automount'', JBool False), (''create'', JBool False)])"
    "unmarshal_section (fmlookup root ''manager'') = Inr (Some f)"
    "unmarshal_section (fmlookup root' ''manager'') = Inr (Some f')"
    "unmarshalKey (env_codec C) (Some f) ''extraEnv'' = Inr envs"
    "unmarshalKey (env_codec C) (Some f') ''extraEnv'' =
       Inr (upsertEnvVar envs (EnvVar ''OPERATOR_CONFIG_NAMESPACE'' ns))"
    "\<And>k. k \<noteq> ''extraEnv'' \<Longrightarrow> fmlookup f' k = fmlookup f k"
proof -
  from assms obtain root f envs j where *: "unmarshalRoot values = Inr (Some root)"
      "unmarshal_section (fmlookup root ''manager'') = Inr (Some f)"
      "unmarshalKey (env_codec C) (Some f) ''extraEnv'' = Inr envs"
      "marshal_slice (env_codec C) (foldl upsertEnvVar envs [EnvVar ''OPERATOR_CONFIG_NAMESPACE'' ns]) = Inr j"
      "out = RawJson (marshal_map (Some (fmupd ''serviceAccount''
          (JObj [(''automount'', JBool False), (''create'', JBool False)])
          (fmupd ''manager'' (marshal_map (Some (fmupd ''extraEnv'' j f))) root))))"
    unfolding AddDefault_ok_iff patchEnvVars_ok_iff by blast
  show thesis
    by (rule that [OF *(1), of "fmupd ''serviceAccount''
          (JObj [(''automount'', JBool False), (''create'', JBool False)])
          (fmupd ''manager'' (marshal_map (Some (fmupd ''extraEnv'' j f))) root)"
          f "fmupd ''extraEnv'' j f" envs])
       (use * env.slice_decodes [OF *(4)] in \<open>auto simp: unmarshalKey_upd\<close>)
qed

end

section \<open>The values as they are read\<close>

text \<open>
  What decoded values hold: a member of the root, the extra volumes, and the mounts and
  variables of a section; nothing where the values cannot be decoded.
\<close>

definition members :: "raw option \<Rightarrow> (string, json) fmap" where
  "members values = (case unmarshalRoot values of Inr (Some root) \<Rightarrow> root | _ \<Rightarrow> fmempty)"

definition section_members :: "raw option \<Rightarrow> string \<Rightarrow> (string, json) fmap" where
  "section_members values s =
     (case unmarshal_section (fmlookup (members values) s) of Inr (Some f) \<Rightarrow> f | _ \<Rightarrow> fmempty)"

definition slice_in :: "'a codec \<Rightarrow> (string, json) fmap \<Rightarrow> string \<Rightarrow> 'a list" where
  "slice_in c f key = (case unmarshalKey c (Some f) key of Inr xs \<Rightarrow> xs | Inl e \<Rightarrow> [])"

definition volumes_of :: "codecs \<Rightarrow> raw option \<Rightarrow> volume list" where
  "volumes_of C values = slice_in (volume_codec C) (members values) ''extraVolumes''"

definition mounts_of :: "codecs \<Rightarrow> raw option \<Rightarrow> string \<Rightarrow> volume_mount list" where
  "mounts_of C values s = slice_in (mount_codec C) (section_members values s) ''extraVolumeMounts''"

definition envs_of :: "codecs \<Rightarrow> raw option \<Rightarrow> string \<Rightarrow> env_var list" where
  "envs_of C values s = slice_in (env_codec C) (section_members values s) ''extraEnv''"

lemmas reading_defs = members_def section_members_def slice_in_def volumes_of_def mounts_of_def envs_of_def

text \<open>
  A rewrite of values to values: both can be rewritten again, the volumes, mounts and
  variables are the old ones with the given ones, and all else is as it was.
\<close>

definition rewritten ::
    "codecs \<Rightarrow> raw option \<Rightarrow> raw option \<Rightarrow> volume \<Rightarrow> volume_mount \<Rightarrow> env_var list \<Rightarrow> bool" where
  "rewritten C values out vol mount es \<longleftrightarrow>
     good_values C values \<and> good_values C out \<and>
     volumes_of C out = upsertVolume (volumes_of C values) vol \<and>
     (\<forall>s \<in> {''init'', ''manager''}.
        mounts_of C out s = upsertVolumeMount (mounts_of C values s) mount \<and>
        envs_of C out s = foldl upsertEnvVar (envs_of C values s) es \<and>
        (\<forall>k. k \<notin> {''extraVolumeMounts'', ''extraEnv''} \<longrightarrow>
           fmlookup (section_members out s) k = fmlookup (section_members values s) k)) \<and>
     (\<forall>k. k \<notin> {''extraVolumes'', ''init'', ''manager''} \<longrightarrow>
        fmlookup (members out) k = fmlookup (members values) k)"

lemma patched_reading:
  assumes "patched C f f' mount es"
  shows "slice_in (mount_codec C) f' ''extraVolumeMounts'' =
      upsertVolumeMount (slice_in (mount_codec C) f ''extraVolumeMounts'') mount"
    "slice_in (env_codec C) f' ''extraEnv'' = foldl upsertEnvVar (slice_in (env_codec C) f ''extraEnv'') es"
    "k \<notin> {''extraVolumeMounts'', ''extraEnv''} \<Longrightarrow> fmlookup f' k = fmlookup f k"
proof -
  from assms obtain mounts envs where
        "unmarshalKey (mount_codec C) (Some f) ''extraVolumeMounts'' = Inr mounts"
        "unmarshalKey (env_codec C) (Some f) ''extraEnv'' = Inr envs"
        "unmarshalKey (mount_codec C) (Some f') ''extraVolumeMounts'' = Inr (upsertVolumeMount mounts mount)"
        "unmarshalKey (env_codec C) (Some f') ''extraEnv'' = Inr (foldl upsertEnvVar envs es)"
    and keep: "\<forall>k. k \<noteq> ''extraVolumeMounts'' \<longrightarrow> k \<noteq> ''extraEnv'' \<longrightarrow> fmlookup f' k = fmlookup f k"
    unfolding patched_def by blast
  then show "slice_in (mount_codec C) f' ''extraVolumeMounts'' =
      upsertVolumeMount (slice_in (mount_codec C) f ''extraVolumeMounts'') mount"
    "slice_in (env_codec C) f' ''extraEnv'' = foldl upsertEnvVar (slice_in (env_codec C) f ''extraEnv'') es"
    by (simp_all add: slice_in_def)
  show "k \<notin> {''extraVolumeMounts'', ''extraEnv''} \<Longrightarrow> fmlookup f' k = fmlookup f k"
    using keep by blast
qed

context faithful_codecs
begin

lemma add_volume_rewritten:
  assumes run: "add_volume_and_sections C wrap values vol mount es = ok out"
  shows "rewritten C values (Some out) vol mount es"
proof (rule add_volume_effect [OF run])
  fix root root' vs
  assume root: "unmarshalRoot values = Inr (Some root)" "unmarshalRoot (Some out) = Inr (Some root')"
    and frame: "\<And>k. k \<notin> {''extraVolumes'', ''init'', ''manager''} \<Longrightarrow> fmlookup root' k = fmlookup root k"
    and vols: "unmarshalKey (volume_codec C) (Some root) ''extraVolumes'' = Inr vs"
      "unmarshalKey (volume_codec C) (Some root') ''extraVolumes'' = Inr (upsertVolume vs vol)"
    and sections: "\<And>s. s \<in> {''init'', ''manager''} \<Longrightarrow>
       \<exists>f f'. unmarshal_section (fmlookup root s) = Inr (Some f) \<and>
         unmarshal_section (fmlookup root' s) = Inr (Some f') \<and> patched C f f' mount es"
    and good: "good_values C (Some out)"
  have mem: "members values = root" "members (Some out) = root'"
    using root by (simp_all add: members_def)
  have "good_values C values" using run add_volume_succeeds by blast
  moreover have "volumes_of C (Some out) = upsertVolume (volumes_of C values) vol"
    using vols by (simp add: volumes_of_def slice_in_def mem)
  moreover have "mounts_of C (Some out) s = upsertVolumeMount (mounts_of C values s) mount \<and>
        envs_of C (Some out) s = foldl upsertEnvVar (envs_of C values s) es \<and>
        (\<forall>k. k \<notin> {''extraVolumeMounts'', ''extraEnv''} \<longrightarrow>
           fmlookup (section_members (Some out) s) k = fmlookup (section_members values s) k)"
    if s: "s \<in> {''init'', ''manager''}" for s
  proof -
    from sections [OF s] obtain f f' where "unmarshal_section (fmlookup root s) = Inr (Some f)"
      "unmarshal_section (fmlookup root' s) = Inr (Some f')" and p: "patched C f f' mount es"
      by blast
    then have "section_members values s = f" "section_members (Some out) s = f'"
      by (simp_all add: section_members_def mem)
    with patched_reading [OF p] show ?thesis by (simp add: mounts_of_def envs_of_def)
  qed
  ultimately show ?thesis
    using good frame unfolding rewritten_def mem by blast
qed

lemma defaults_reading:
  assumes good: "good_values C values" and run: "AddDefaultHelmValues C values ns = ok out"
  shows "good_values C (Some out)" "volumes_of C (Some out) = volumes_of C values"
    "s \<noteq> ''serviceAccount'' \<Longrightarrow> mounts_of C (Some out) s = mounts_of C values s"
    "envs_of C (Some out) ''init'' = envs_of C values ''init''"
    "envs_of C (Some out) ''manager'' =
       upsertEnvVar (envs_of C values ''manager'') (EnvVar ''OPERATOR_CONFIG_NAMESPACE'' ns)"
    "fmlookup (members (Some out)) ''serviceAccount'' =
       Some (JObj [(''automount'', JBool False), (''create'', JBool False)])"
    "k \<notin> {''serviceAccount'', ''manager''} \<Longrightarrow> fmlookup (members (Some out)) k = fmlookup (members values) k"
proof -
  from defaults_effect [OF run] obtain root root' f f' envs where
    root: "unmarshalRoot values = Inr (Some root)" "unmarshalRoot (Some out) = Inr (Some root')"
    and frame: "\<And>k. k \<notin> {''serviceAccount'', ''manager''} \<Longrightarrow> fmlookup root' k = fmlookup root k"
    and sa: "fmlookup root' ''serviceAccount'' = Some (JObj [(''automount'', JBool False), (''create'', JBool False)])"
    and sec: "unmarshal_section (fmlookup root ''manager'') = Inr (Some f)"
      "unmarshal_section (fmlookup root' ''manager'') = Inr (Some f')"
    and env: "unmarshalKey (env_codec C) (Some f) ''extraEnv'' = Inr envs"
      "unmarshalKey (env_codec C) (Some f') ''extraEnv'' =
       Inr (upsertEnvVar envs (EnvVar ''OPERATOR_CONFIG_NAMESPACE'' ns))"
    and keep: "\<And>k. k \<noteq> ''extraEnv'' \<Longrightarrow> fmlookup f' k = fmlookup f k"
    by blast
  have mem: "members values = root" "members (Some out) = root'"
    using root by (simp_all add: members_def)
  have man: "section_members values ''manager'' = f" "section_members (Some out) ''manager'' = f'"
    using sec by (simp_all add: section_members_def mem)
  have same: "section_members (Some out) t = section_members values t"
    if "t \<notin> {''serviceAccount'', ''manager''}" for t
    using frame [OF that] by (simp add: section_members_def mem)
  have mount: "unmarshalKey (mount_codec C) (Some f') ''extraVolumeMounts'' =
      unmarshalKey (mount_codec C) (Some f) ''extraVolumeMounts''"
    using keep by (simp add: unmarshalKey_def)
  have vol: "unmarshalKey (volume_codec C) (Some root') ''extraVolumes'' =
      unmarshalKey (volume_codec C) (Some root) ''extraVolumes''"
    using frame by (simp add: unmarshalKey_def)
  show "volumes_of C (Some out) = volumes_of C values"
    using vol by (simp add: volumes_of_def slice_in_def mem)
  show "envs_of C (Some out) ''init'' = envs_of C values ''init''"
    using same [of "''init''"] by (simp add: envs_of_def)
  show "envs_of C (Some out) ''manager'' =
       upsertEnvVar (envs_of C values ''manager'') (EnvVar ''OPERATOR_CONFIG_NAMESPACE'' ns)"
    using env by (simp add: envs_of_def man slice_in_def)
  show "fmlookup (members (Some out)) ''serviceAccount'' =
       Some (JObj [(''automount'', JBool False), (''create'', JBool False)])"
    using sa mem by simp
  show "k \<notin> {''serviceAccount'', ''manager''} \<Longrightarrow> fmlookup (members (Some out)) k = fmlookup (members values) k"
    using frame mem by simp
  show "mounts_of C (Some out) s = mounts_of C values s" if "s \<noteq> ''serviceAccount''"
    using that same [of s] mount by (cases "s = ''manager''") (simp_all add: mounts_of_def man slice_in_def)
  from good root have v: "\<exists>vs. unmarshalKey (volume_codec C) (Some root) ''extraVolumes'' = Inr vs"
    and i: "good_section C (fmlookup root ''init'')" and m: "good_section C (fmlookup root ''manager'')"
    by (auto simp: good_values_def)
  have "good_section C (fmlookup root' ''init'')" using i frame [of "''init''"] by simp
  moreover have "good_section C (fmlookup root' ''manager'')"
    using m sec env mount by (auto simp: good_section_def)
  ultimately show "good_values C (Some out)"
    using root v vol by (auto simp: good_values_def)
qed

end

section \<open>Rewriting twice\<close>

lemma fmupd_absorb: "fmlookup f k = Some v \<Longrightarrow> fmupd k v f = f"
  by (rule fmap_ext) auto

context faithful_codecs
begin

lemma patch_idempotent:
  assumes run: "patchContainerSection C raw mount es = ok j"
    and es: "\<And>xs. foldl upsertEnvVar (foldl upsertEnvVar xs es) es = foldl upsertEnvVar xs es"
  shows "patchContainerSection C (Some j) mount es = ok j"
proof -
  from run obtain f mounts envs j1 j2 where *: "unmarshal_section raw = Inr (Some f)"
        "marshal_slice (mount_codec C) (upsertVolumeMount mounts mount) = Inr j1"
        "marshal_slice (env_codec C) (foldl upsertEnvVar envs es) = Inr j2"
        "j = marshal_map (Some (fmupd ''extraEnv'' j2 (fmupd ''extraVolumeMounts'' j1 f)))"
    unfolding patchContainerSection_ok_iff by blast
  let ?f' = "fmupd ''extraEnv'' j2 (fmupd ''extraVolumeMounts'' j1 f)"
  have "unmarshal_section (Some j) = Inr (Some ?f')" using * by simp
  moreover have "unmarshalKey (mount_codec C) (Some ?f') ''extraVolumeMounts'' =
      Inr (upsertVolumeMount mounts mount)"
    using mount.slice_decodes [OF *(2)] by (simp add: unmarshalKey_upd)
  moreover have "unmarshalKey (env_codec C) (Some ?f') ''extraEnv'' = Inr (foldl upsertEnvVar envs es)"
    using env.slice_decodes [OF *(3)] by (simp add: unmarshalKey_upd)
  moreover have "fmupd ''extraEnv'' j2 (fmupd ''extraVolumeMounts'' j1 ?f') = ?f'"
    by (simp add: fmupd_absorb)
  ultimately show ?thesis
    unfolding patchContainerSection_ok_iff using *(2-4)
    by (intro exI [of _ ?f'] exI [of _ "upsertVolumeMount mounts mount"]
        exI [of _ "foldl upsertEnvVar envs es"] exI [of _ j1] exI [of _ j2])
       (simp only: mounts.up_idempotent es)
qed

lemma add_volume_idempotent:
  assumes run: "add_volume_and_sections C wrap values vol mount es = ok out"
    and es: "\<And>xs. foldl upsertEnvVar (foldl upsertEnvVar xs es) es = foldl upsertEnvVar xs es"
  shows "add_volume_and_sections C wrap (Some out) vol mount es = ok out"
proof -
  from run obtain root vs j0 j1 j2 where *: "unmarshalRoot values = Inr (Some root)"
        "marshal_slice (volume_codec C) (upsertVolume vs vol) = Inr j0"
        "patchContainerSection C (fmlookup root ''init'') mount es = ok j1"
        "patchContainerSection C (fmlookup root ''manager'') mount es = ok j2"
        "out = RawJson (marshal_map (Some (fmupd ''manager'' j2 (fmupd ''init'' j1 (fmupd ''extraVolumes'' j0 root)))))"
    unfolding add_volume_and_sections_ok_iff by blast
  let ?root' = "fmupd ''manager'' j2 (fmupd ''init'' j1 (fmupd ''extraVolumes'' j0 root))"
  have "unmarshalRoot (Some out) = Inr (Some ?root')" using * by simp
  moreover have "unmarshalKey (volume_codec C) (Some ?root') ''extraVolumes'' = Inr (upsertVolume vs vol)"
    using vol.slice_decodes [OF *(2)] by (simp add: unmarshalKey_upd)
  moreover have "patchContainerSection C (fmlookup ?root' ''init'') mount es = ok j1"
    using patch_idempotent [OF *(3) es] by simp
  moreover have "patchContainerSection C (fmlookup ?root' ''manager'') mount es = ok j2"
    using patch_idempotent [OF *(4) es] by simp
  moreover have "fmupd ''manager'' j2 (fmupd ''init'' j1 (fmupd ''extraVolumes'' j0 ?root')) = ?root'"
    by (simp add: fmupd_absorb)
  ultimately show ?thesis
    unfolding add_volume_and_sections_ok_iff using *(2,5)
    by (intro exI [of _ ?root'] exI [of _ "upsertVolume vs vol"] exI [of _ j0] exI [of _ j1] exI [of _ j2])
       (simp only: volumes.up_idempotent)
qed

end

end
