(* ===== verification/Controller_Correct.thy ===== *)
theory Controller_Correct
  imports Controller Manager_Properties Helm_Correct "HOL-Library.Multiset"
begin

text \<open>
  The manager that the controller builds: which objects it has on which cluster, their
  references and dependencies, and that it meets the hypotheses of the manager's
  properties, so that these hold of the two handlers.
\<close>

section \<open>Well-behaved objects\<close>

text \<open>
  All the managed objects of the program keep the label and their type when they are
  reconciled, and neither their reconcile nor their status function panics on them.
\<close>

definition behaved :: "object \<Rightarrow> 'w managed_object \<Rightarrow> bool" where
  "behaved ob m \<longleftrightarrow> keeps_label ob m \<and> reconciles ob m \<and> shows_status ob m"

lemma status_returns:
  "m_statusFunc m = Some SimpleStatus \<Longrightarrow> shows_status ob m"
  "m_statusFunc m = Some SecretStatus \<Longrightarrow> shows_status ob m"
  "m_statusFunc m = Some ConfigMapStatus \<Longrightarrow> shows_status ob m"
  by (simp_all add: shows_status_def simple.no_status_panic secret_status.no_status_panic
      configMap_status.no_status_panic)

lemma flux_status_returns:
  assumes "m_statusFunc m = Some (FluxStatus api)" "kind_of ob = ''OCIRepository'' \<or> kind_of ob = ''HelmRelease''"
  shows "shows_status ob m"
  unfolding shows_status_def
proof (intro allI impI)
  fix f o0 rl
  assume f: "m_statusFunc m = Some f" and "kind_of o0 = kind_of ob"
  then have "kind_of o0 = ''OCIRepository'' \<or> kind_of o0 = ''HelmRelease''" using assms(2) by simp
  then have "flux_conditions (o_Body o0) \<noteq> None" by (auto dest: body_kind_known)
  then show "\<not> panics (f o0 rl)" using f assms(1) flux_status.no_status_panic by auto
qed

lemma no_op_behaved:
  "m_reconcileFunc m = Some NoOp \<Longrightarrow> m_statusFunc m = Some SimpleStatus \<Longrightarrow> behaved ob m"
  by (simp add: behaved_def no_op_keeps_label status_returns reconciles_def Reconcile_def NoOp_def)

lemma token_behaved:
  assumes "m_reconcileFunc m = Some (token_reconcile env cp msa poll)" "m_statusFunc m = Some SimpleStatus"
    "kind_of ob = ''Secret''"
  shows "behaved ob m"
proof -
  have "kind_of (fst (snd (token_reconcile env cp msa poll o0 w0))) = ''Secret''" if "kind_of o0 = ''Secret''" for o0 w0
    using body_kind_known(1) [OF that] that
    by (auto simp: token_reconcile_def Let_def split: prod.splits sum.splits)
  with assms show ?thesis
    by (simp add: behaved_def token_keeps_label status_returns reconciles_def Reconcile_def token_reconcile_no_panic)
qed

lemma role_binding_behaved:
  assumes "m_reconcileFunc m = Some (role_binding_reconcile msa)" "m_statusFunc m = Some SimpleStatus"
    "kind_of ob = ''ClusterRoleBinding''"
  shows "behaved ob m"
  using assms
  by (auto simp: behaved_def role_binding_keeps_label status_returns reconciles_def Reconcile_def
      role_binding_reconcile_def dest: body_kind_known)

lemma oci_behaved:
  assumes "m_reconcileFunc m = Some (oci_reconcile p)" "m_statusFunc m = Some (FluxStatus api)"
    "kind_of ob = ''OCIRepository''"
  shows "behaved ob m"
  using assms oci_reconcile_no_panic
  by (auto simp: behaved_def oci_keeps_label flux_status_returns reconciles_def Reconcile_def
      oci_reconcile_def split: option.splits dest!: body_kind_known)

lemma helm_release_behaved:
  assumes "m_reconcileFunc m = Some (helm_release_reconcile p ns)" "m_statusFunc m = Some (FluxStatus api)"
    "kind_of ob = ''HelmRelease''"
  shows "behaved ob m"
  using assms
  by (auto simp: behaved_def helm_release_keeps_label flux_status_returns reconciles_def Reconcile_def
      helm_release_reconcile_def dest!: body_kind_known)

section \<open>The steps of building\<close>

text \<open>
  A managed object without dependencies that is deleted with its owner and behaves well.
\<close>

definition plain :: "'w run \<Rightarrow> 'w managed_object \<Rightarrow> bool" where
  "plain r m \<longleftrightarrow> m_dependencies m = [] \<and> m_deletionPolicy m = Delete \<and> behaved (GetObject r m) m"

text \<open>
  A step that adds objects to a run: the new ones have the references from the old to the
  new end of the heap, and the old ones stay.
\<close>

definition adds :: "'w run \<Rightarrow> nat list \<Rightarrow> 'w run \<Rightarrow> bool" where
  "adds r refs r' \<longleftrightarrow> refs = [r_next r..<r_next r'] \<and> r_next r \<le> r_next r' \<and> r_world r' = r_world r \<and>
     (\<forall>j < r_next r. r_heap r' j = r_heap r j)"

lemma adds_trans: "adds r xs s \<Longrightarrow> adds s ys t \<Longrightarrow> adds r (xs @ ys) t"
  unfolding adds_def by (metis le_trans less_le_trans upt_add_eq_append le_add_diff_inverse)

lemma adds_refl [simp]: "adds r [] r"
  by (simp add: adds_def)

lemma adds_heap: "adds r refs r' \<Longrightarrow> j < r_next r \<Longrightarrow> r_heap r' j = r_heap r j"
  by (simp add: adds_def)

lemma plain_later: "plain r m \<Longrightarrow> m_ref m < r_next r \<Longrightarrow> adds r refs r' \<Longrightarrow> plain r' m"
  by (simp add: plain_def GetObject_def adds_heap)

lemma NewManagedObject_adds:
  assumes "NewManagedObject ob moc r = (m, r')"
  shows "adds r [m_ref m] r'" "GetObject r' m = ob" "m_ref m = r_next r"
    "m_dependencies m = moc_DependsOn moc" "m_reconcileFunc m = moc_ReconcileFunc moc"
    "m_deletionPolicy m = (if moc_DeletionPolicy moc = PolicyUnset then Delete else moc_DeletionPolicy moc)"
    "m_statusFunc m = moc_StatusFunc moc" "r_next r' = Suc (r_next r)"
  using assms by (auto simp: NewManagedObject_def adds_def GetObject_def Let_def)

lemma pull_secret_behaved:
  assumes mut: "mutators api" and m: "m_reconcileFunc m = Some (pull_secret_reconcile api pull cfg)"
    and st: "m_statusFunc m = Some SecretStatus" and kind: "kind_of ob = ''Secret''"
    and key: "object_key ob = (scc_TargetNamespace cfg, copy_name pull (scc_TargetName cfg))"
  shows "behaved ob m"
proof -
  have "kind_of (fst (snd (pull_secret_reconcile api pull cfg o0 w0))) = ''Secret''"
    if "kind_of o0 = ''Secret''" for o0 w0
    using body_kind_known(1) [OF that] mutators.secret_kind [OF mut] that
    by (auto simp: pull_secret_reconcile_def Let_def split: prod.splits)
  with m kind pull_secret_keeps_label [OF mut m key] status_returns(2) [OF st] show ?thesis
    by (simp add: behaved_def reconciles_def Reconcile_def pull_secret_reconcile_no_panic)
qed

lemma ManagePullSecrets_plain:
  assumes mut: "mutators api" and run: "ManagePullSecrets api pulls cfg cluster r = (cluster', r')"
  obtains ms where "cluster' = cluster\<lparr>c_objects := c_objects cluster @ ms\<rparr>"
    "adds r (map m_ref ms) r'" "\<forall>m \<in> set ms. plain r' m"
proof -
  from run obtain ms where c: "cluster' = cluster\<lparr>c_objects := c_objects cluster @ ms\<rparr>"
    and len: "length ms = length pulls"
    and copies: "\<forall>n < length pulls. is_copy api cfg r' (r_next r + n) (pulls ! n) (ms ! n)"
    and next_r: "r_next r' = r_next r + length pulls" and rest: "r_world r' = r_world r"
      "\<forall>j < r_next r. r_heap r' j = r_heap r j"
    by (rule ManagePullSecrets_adds)
  have "map m_ref ms = [r_next r..<r_next r']"
    using copies len next_r by (intro nth_equalityI) (auto simp: is_copy_def)
  then have "adds r (map m_ref ms) r'" using next_r rest by (simp add: adds_def)
  moreover have "\<forall>m \<in> set ms. plain r' m"
  proof
    fix m assume "m \<in> set ms"
    then obtain n where n: "n < length pulls" "m = ms ! n" using len by (auto simp: in_set_conv_nth)
    with copies have cp: "is_copy api cfg r' (r_next r + n) (pulls ! n) m" by simp
    then have "object_key (GetObject r' m) = (scc_TargetNamespace cfg, copy_name (pulls ! n) (scc_TargetName cfg))"
      by (simp add: is_copy_def GetObject_def object_key_def)
    with pull_secret_behaved [OF mut] cp show "plain r' m" by (simp add: plain_def is_copy_def GetObject_def)
  qed
  ultimately show thesis using c that by blast
qed

lemma ca_keeps_label:
  assumes mut: "mutators api" and m: "m_reconcileFunc m = Some (ca_config_map_reconcile api caName cfg)"
    and key: "object_key ob = (ccc_TargetNamespace cfg, ca_config_map_name caName cfg)"
  shows "keeps_label ob m"
  unfolding keeps_label_def
proof (intro allI impI)
  fix o0 w0 o1 w1
  assume run: "Reconcile m o0 w0 = (Ret None, o1, w1)" and lab: "is_managed o0"
    and same: "object_key o0 = object_key ob"
  from run m have "ca_config_map_reconcile api caName cfg o0 w0 = (Ret None, o1, w1)"
    by (simp add: Reconcile_def)
  then obtain source where kind: "kind_of o0 = ''ConfigMap''"
    and mm: "ConfigMapMutate api (ca_config_map_name caName cfg) (ccc_TargetNamespace cfg)
       (config_map_data source) o0 = (None, o1)"
    by (rule ca_config_map_reconcile_ok)
  show "is_managed o1 \<and> kind_of o1 = kind_of o0 \<and> object_key o1 = object_key o0"
    using mutators.config_map_body [OF mut mm kind] mutators.config_map_label [OF mut mm lab]
      mutators.config_map_key [OF mut mm] kind same key by simp
qed

lemma ca_behaved:
  assumes mut: "mutators api" and m: "m_reconcileFunc m = Some (ca_config_map_reconcile api caName cfg)"
    and st: "m_statusFunc m = Some ConfigMapStatus" and kind: "kind_of ob = ''ConfigMap''"
    and key: "object_key ob = (ccc_TargetNamespace cfg, ca_config_map_name caName cfg)"
  shows "behaved ob m"
proof -
  have "kind_of (fst (snd (ca_config_map_reconcile api caName cfg o0 w0))) = ''ConfigMap''"
    if "kind_of o0 = ''ConfigMap''" for o0 w0
    using body_kind_known(2) [OF that] mutators.config_map_kind [OF mut] that
    by (auto simp: ca_config_map_reconcile_def Let_def split: prod.splits)
  with m kind ca_keeps_label [OF mut m key] status_returns(3) [OF st] show ?thesis
    by (simp add: behaved_def reconciles_def Reconcile_def ca_config_map_reconcile_no_panic)
qed

lemma ManageCaConfigMap_plain:
  assumes mut: "mutators api" and run: "ManageCaConfigMap api caName cfg cluster r = (cluster', r')"
  obtains m where "cluster' = cluster\<lparr>c_objects := c_objects cluster @ [m]\<rparr>" "adds r [m_ref m] r'" "plain r' m"
proof -
  let ?ob = "new_object (ca_config_map_name caName cfg) (ccc_TargetNamespace cfg) (ConfigMap None)"
  let ?moc = "\<lparr>moc_ReconcileFunc = Some (ca_config_map_reconcile api caName cfg), moc_DependsOn = [],
             moc_DeletionPolicy = PolicyUnset, moc_StatusFunc = Some ConfigMapStatus\<rparr>"
  obtain m r1 where new: "NewManagedObject ?ob ?moc r = (m, r1)" by fastforce
  then have eq: "cluster' = AddObject m cluster" "r' = r1" using run by (simp_all add: ManageCaConfigMap_def)
  note facts = NewManagedObject_adds [OF new]
  have "plain r1 m"
    using facts ca_behaved [OF mut, of m caName cfg "GetObject r1 m"]
    by (simp add: plain_def object_key_def)
  with facts eq show thesis by (intro that [of m]) (simp_all add: AddObject_def)
qed

text \<open>The objects for the access to the control plane, with their references.\<close>

lemma Authn_Configure_adds:
  assumes "Authn_Configure env msa wc cp poll r = (wc', cp', r')"
  obtains ns sa wcns tok where
    "cp' = cp\<lparr>c_objects := c_objects cp @ [ns, sa]\<rparr>" "wc' = wc\<lparr>c_objects := c_objects wc @ [wcns, tok]\<rparr>"
    "adds r [m_ref ns, m_ref sa, m_ref wcns, m_ref tok] r'"
    "plain r' ns" "plain r' wcns"
    "m_dependencies sa = [m_ref ns]" "m_deletionPolicy sa = Delete" "behaved (GetObject r' sa) sa"
    "m_dependencies tok = [m_ref sa]" "m_deletionPolicy tok = Delete" "behaved (GetObject r' tok) tok"
proof -
  obtain ns r1 where 1: "NewManagedObject (new_object (msa_Namespace msa) [] Namespace)
      (simple_context NoOp []) r = (ns, r1)" by fastforce
  obtain sa r2 where 2: "NewManagedObject (new_object (msa_Name msa) (msa_Namespace msa) ServiceAccount)
      (simple_context NoOp [m_ref ns]) r1 = (sa, r2)" by fastforce
  obtain wcns r3 where 3: "NewManagedObject (new_object (c_defaultNamespace wc) [] Namespace)
      (simple_context NoOp []) r2 = (wcns, r3)" by fastforce
  obtain tok r4 where 4: "NewManagedObject
      (new_object (KubeAPIAccess msa) (c_defaultNamespace wc) (Secret None []))
      (simple_context (token_reconcile env cp msa poll) [m_ref sa]) r3 = (tok, r4)" by fastforce
  have eq: "wc' = AddObject tok (AddObject wcns wc)" "cp' = AddObject sa (AddObject ns cp)" "r' = r4"
    using assms 1 2 3 4 by (simp_all add: Authn_Configure_def)
  note a = NewManagedObject_adds [OF 1] and b = NewManagedObject_adds [OF 2]
    and c = NewManagedObject_adds [OF 3] and d = NewManagedObject_adds [OF 4]
  have refs: "m_ref ns = r_next r" "m_ref sa = Suc (r_next r)" "m_ref wcns = Suc (Suc (r_next r))"
    "m_ref tok = Suc (Suc (Suc (r_next r)))"
    using a b c d by simp_all
  have all: "adds r ([m_ref ns] @ [m_ref sa] @ [m_ref wcns] @ [m_ref tok]) r4"
    by (rule adds_trans [OF a(1) adds_trans [OF b(1) adds_trans [OF c(1) d(1)]]])
  have "GetObject r4 tok = new_object (KubeAPIAccess msa) (c_defaultNamespace wc) (Secret None [])"
    using d(2) .
  then have label: "behaved ob ns" "behaved ob sa" "behaved ob wcns" "behaved (GetObject r4 tok) tok" for ob
    using a(5,7) b(5,7) c(5,7) d(5,7) no_op_behaved token_behaved [of tok env cp msa poll]
    by (simp_all add: simple_context_def)
  show thesis
    by (rule that [of ns sa wcns tok])
       (use eq all label a b c d in \<open>simp_all add: AddObject_def plain_def simple_context_def\<close>)
qed

lemma Authz_Configure_adds:
  assumes "Authz_Configure cluster msa r = (cluster', r')"
  obtains crb where "cluster' = cluster\<lparr>c_objects := c_objects cluster @ [crb]\<rparr>" "adds r [m_ref crb] r'"
    "plain r' crb"
proof -
  obtain crb r1 where new: "NewManagedObject (new_object clusterRoleBindingName [] (ClusterRoleBinding [] None))
      (simple_context (role_binding_reconcile msa) []) r = (crb, r1)" by fastforce
  note facts = NewManagedObject_adds [OF new]
  have "plain r1 crb"
    using facts role_binding_behaved [of crb msa "GetObject r1 crb"] by (simp add: plain_def simple_context_def)
  moreover have "cluster' = AddObject crb cluster" "r' = r1" using assms new by (simp_all add: Authz_Configure_def)
  ultimately show thesis using facts(1) that [of crb] by (simp add: AddObject_def)
qed

lemma ManageFluxResources_adds:
  assumes "ManageFluxResources api p cluster r = (cluster', r')"
  obtains oci hr where "cluster' = cluster\<lparr>c_objects := c_objects cluster @ [oci, hr]\<rparr>"
    "adds r [m_ref oci, m_ref hr] r'" "plain r' oci" "m_dependencies hr = [m_ref oci]"
    "m_deletionPolicy hr = Delete" "behaved (GetObject r' hr) hr"
proof -
  obtain oci r1 where 1: "NewManagedObject (new_object OCIRepositoryName (c_defaultNamespace cluster)
      (OCIRepository None [])) (flux_context api (oci_reconcile p) []) r = (oci, r1)" by fastforce
  obtain hr r2 where 2: "NewManagedObject (new_object HelmReleaseName (c_defaultNamespace cluster)
      (HelmRelease None [])) (flux_context api (helm_release_reconcile p (c_defaultNamespace cluster))
      [m_ref oci]) r1 = (hr, r2)" by fastforce
  note a = NewManagedObject_adds [OF 1] and b = NewManagedObject_adds [OF 2]
  have eq: "cluster' = AddObject hr (AddObject oci cluster)" "r' = r2"
    using assms 1 2 by (simp_all add: ManageFluxResources_def)
  have all: "adds r ([m_ref oci] @ [m_ref hr]) r2" by (rule adds_trans [OF a(1) b(1)])
  have "GetObject r2 oci = GetObject r1 oci" using a(3,8) b(1) by (simp add: adds_def GetObject_def)
  then have label: "behaved (GetObject r2 oci) oci" "behaved (GetObject r2 hr) hr"
    using a(2,5,7) b(2,5,7) oci_behaved [of oci p api]
      helm_release_behaved [of hr p "c_defaultNamespace cluster" api]
    by (simp_all add: flux_context_def)
  show thesis
    by (rule that [of oci hr])
       (use eq all label a b in \<open>simp_all add: AddObject_def plain_def flux_context_def\<close>)
qed

section \<open>The manager that is built\<close>

text \<open>
  An object that depends on one other: it is deleted with its owner, and behaves well.
\<close>

definition depends :: "'w run \<Rightarrow> 'w managed_object \<Rightarrow> 'w managed_object \<Rightarrow> bool" where
  "depends r m m' \<longleftrightarrow> m_dependencies m = [m_ref m'] \<and> m_deletionPolicy m = Delete \<and> behaved (GetObject r m) m"

lemma depends_later: "depends r m m' \<Longrightarrow> m_ref m < r_next r \<Longrightarrow> adds r refs r' \<Longrightarrow> depends r' m m'"
  by (simp add: depends_def GetObject_def adds_heap)

lemma adds_below: "adds r refs r' \<Longrightarrow> i \<in> set refs \<Longrightarrow> i < r_next r'"
  by (auto simp: adds_def)

lemma setupAuth_adds:
  assumes "setupAuth X pc mv wc cp mns r = ok (mv', keep, wc', cp', r')"
  obtains ns sa wcns tok crb where
    "cp' = cp\<lparr>c_objects := c_objects cp @ [ns, sa, crb]\<rparr>" "wc' = wc\<lparr>c_objects := c_objects wc @ [wcns, tok]\<rparr>"
    "adds r [m_ref ns, m_ref sa, m_ref wcns, m_ref tok, m_ref crb] r'"
    "plain r' ns" "plain r' wcns" "plain r' crb" "depends r' sa ns" "depends r' tok sa"
proof -
  let ?msa = "\<lparr>msa_Name = ''metrics-operator-server'', msa_Namespace = mns\<rparr>"
  obtain wc1 cp1 r1 where conf: "Authn_Configure (out_env X) ?msa wc cp (PollInterval pc) r = (wc1, cp1, r1)"
    by (metis prod.exhaust)
  obtain cp2 r2 where az: "Authz_Configure cp1 ?msa r1 = (cp2, r2)" by fastforce
  have eq: "wc' = wc1" "cp' = cp2" "r' = r2"
    using assms conf az by (auto simp: setupAuth_def try_go_ok_iff Let_def)
  from conf obtain ns sa wcns tok where
    a: "cp1 = cp\<lparr>c_objects := c_objects cp @ [ns, sa]\<rparr>" "wc1 = wc\<lparr>c_objects := c_objects wc @ [wcns, tok]\<rparr>"
      "adds r [m_ref ns, m_ref sa, m_ref wcns, m_ref tok] r1"
    and pl: "plain r1 ns" "plain r1 wcns"
    and sa: "m_dependencies sa = [m_ref ns]" "m_deletionPolicy sa = Delete" "behaved (GetObject r1 sa) sa"
    and tok: "m_dependencies tok = [m_ref sa]" "m_deletionPolicy tok = Delete" "behaved (GetObject r1 tok) tok"
    by (rule Authn_Configure_adds)
  from az obtain crb where b: "cp2 = cp1\<lparr>c_objects := c_objects cp1 @ [crb]\<rparr>" "adds r1 [m_ref crb] r2"
    "plain r2 crb"
    by (rule Authz_Configure_adds)
  note below = adds_below [OF a(3)]
  have "adds r ([m_ref ns, m_ref sa, m_ref wcns, m_ref tok] @ [m_ref crb]) r2"
    by (rule adds_trans [OF a(3) b(2)])
  moreover have "plain r2 ns" "plain r2 wcns"
    using plain_later [OF _ _ b(2)] pl below by simp_all
  moreover have "depends r2 sa ns" "depends r2 tok sa"
    using depends_later [OF _ _ b(2)] sa tok below by (simp_all add: depends_def)
  ultimately show thesis using that [of ns sa crb wcns tok] a(1,2) b eq by simp
qed

lemma syncChartPullSecret_adds:
  assumes "mutators (out_api X)" "syncChartPullSecret X rc c cps tns r = ok (name, keep, c', r')"
  obtains ms where "c' = c\<lparr>c_objects := c_objects c @ ms\<rparr>" "adds r (map m_ref ms) r'" "\<forall>m \<in> set ms. plain r' m"
proof (cases "cps = []")
  case True
  then have "c' = c" "r' = r" using assms(2) by (simp_all add: syncChartPullSecret_def)
  then show thesis by (intro that [of "[]"]) simp_all
next
  case False
  then obtain cfg where "ManagePullSecrets (out_api X) [cps] cfg c r = (c', r')"
    using assms(2) by (auto simp: syncChartPullSecret_def try_go_ok_iff simp del: ManagePullSecrets.simps
        split: prod.splits)
  then show thesis using ManagePullSecrets_plain [OF assms(1)] that by blast
qed

lemma syncImagePullSecrets_adds:
  assumes "mutators (out_api X)" "syncImagePullSecrets X rc c obj hv r = (keep, c', r')"
  obtains ms where "c' = c\<lparr>c_objects := c_objects c @ ms\<rparr>" "adds r (map m_ref ms) r'" "\<forall>m \<in> set ms. plain r' m"
proof -
  from assms(2) obtain cfg where "ManagePullSecrets (out_api X) (hv_ImagePullSecrets hv) cfg c r = (c', r')"
    by (auto simp: syncImagePullSecrets_def split: prod.splits)
  then show thesis using ManagePullSecrets_plain [OF assms(1)] that by blast
qed

lemma applyCABundle_adds:
  assumes "mutators (out_api X)" "applyCABundle X rc obj pc mv c r = ok (mv', keep, c', r')"
  obtains ms where "c' = c\<lparr>c_objects := c_objects c @ ms\<rparr>" "adds r (map m_ref ms) r'" "\<forall>m \<in> set ms. plain r' m"
proof (cases "pc_CABundleRef pc")
  case None
  then have "c' = c" "r' = r" using assms(2) by (simp_all add: applyCABundle_def)
  then show thesis by (intro that [of "[]"]) simp_all
next
  case (Some ref)
  then obtain cfg where "ManageCaConfigMap (out_api X) (cms_Name ref) cfg c r = (c', r')"
    using assms(2) by (auto simp: applyCABundle_def try_go_ok_iff split: prod.splits)
  then show thesis
  proof (rule ManageCaConfigMap_plain [OF assms(1)])
    fix m assume "c' = c\<lparr>c_objects := c_objects c @ [m]\<rparr>" "adds r [m_ref m] r'" "plain r' m"
    then show thesis using that [of "[m]"] by simp
  qed
qed

text \<open>The shape of the manager.\<close>

record 'w shape =
  sh_charts :: "'w managed_object list"
  sh_images :: "'w managed_object list"
  sh_cas :: "'w managed_object list"
  sh_ns :: "'w managed_object"
  sh_sa :: "'w managed_object"
  sh_wcns :: "'w managed_object"
  sh_tok :: "'w managed_object"
  sh_crb :: "'w managed_object"
  sh_oci :: "'w managed_object"
  sh_hr :: "'w managed_object"

definition shape_platform :: "'w shape \<Rightarrow> 'w managed_object list" where
  "shape_platform s = sh_charts s @ [sh_oci s, sh_hr s]"

definition shape_workload :: "'w shape \<Rightarrow> 'w managed_object list" where
  "shape_workload s = [sh_wcns s, sh_tok s] @ sh_images s @ sh_cas s"

definition shape_cp :: "'w shape \<Rightarrow> 'w managed_object list" where
  "shape_cp s = [sh_ns s, sh_sa s, sh_crb s]"

definition shape_all :: "'w shape \<Rightarrow> 'w managed_object list" where
  "shape_all s = [sh_ns s, sh_sa s, sh_wcns s, sh_tok s, sh_crb s] @ sh_charts s @ sh_images s @ sh_cas s @
     [sh_oci s, sh_hr s]"

definition has_shape ::
    "'w shape \<Rightarrow> 'w outside \<Rightarrow> 'w reconciler \<Rightarrow> metrics_operator \<Rightarrow> 'w cluster_context \<Rightarrow> string \<Rightarrow>
     'w run \<Rightarrow> 'w manager \<Rightarrow> 'w run \<Rightarrow> bool" where
  "has_shape s X rc obj ctx tenantNamespace r mgr r' \<longleftrightarrow>
     (\<exists>platform workload cp cas secrets charts.
        mgr = \<lparr>mgr_clusters = [platform, workload, cp],
               mgr_cleaners = [configMap_Cleanup (out_api X)
                   (NewConfigMapCleaner workload (Instance_Namespace obj) cas),
                 secret_Cleanup (out_api X) (NewSecretCleaner workload (Instance_Namespace obj) secrets),
                 secret_Cleanup (out_api X) (NewSecretCleaner platform tenantNamespace charts)]\<rparr> \<and>
        c_client platform = rec_PlatformClient rc \<and> c_objects platform = shape_platform s \<and>
        c_client workload = ctx_WorkloadClient ctx \<and> c_objects workload = shape_workload s \<and>
        c_client cp = ctx_MCPClient ctx \<and> c_objects cp = shape_cp s) \<and>
     adds r (map m_ref (shape_all s)) r' \<and>
     (\<forall>m \<in> set (sh_charts s @ sh_images s @ sh_cas s @ [sh_ns s, sh_wcns s, sh_crb s, sh_oci s]). plain r' m) \<and>
     depends r' (sh_sa s) (sh_ns s) \<and> depends r' (sh_tok s) (sh_sa s) \<and> depends r' (sh_hr s) (sh_oci s)"

lemma has_shapeI:
  assumes "mgr = \<lparr>mgr_clusters = [platform, workload, cp],
      mgr_cleaners = [configMap_Cleanup (out_api X) (NewConfigMapCleaner workload (Instance_Namespace obj) cas),
        secret_Cleanup (out_api X) (NewSecretCleaner workload (Instance_Namespace obj) secrets),
        secret_Cleanup (out_api X) (NewSecretCleaner platform tenantNamespace charts)]\<rparr>"
    and "c_client platform = rec_PlatformClient rc \<and> c_objects platform = shape_platform s \<and>
      c_client workload = ctx_WorkloadClient ctx \<and> c_objects workload = shape_workload s \<and>
      c_client cp = ctx_MCPClient ctx \<and> c_objects cp = shape_cp s"
    and "adds r (map m_ref (shape_all s)) r'"
    and "\<forall>m \<in> set (sh_charts s @ sh_images s @ sh_cas s @ [sh_ns s, sh_wcns s, sh_crb s, sh_oci s]). plain r' m"
    and "depends r' (sh_sa s) (sh_ns s)" "depends r' (sh_tok s) (sh_sa s)" "depends r' (sh_hr s) (sh_oci s)"
  shows "has_shape s X rc obj ctx tenantNamespace r mgr r'"
  unfolding has_shape_def using assms by blast

text \<open>The name space of the metrics on the control plane, the clusters as they are made, and
  the parameters of package flux.\<close>

definition metrics_namespace :: "helm_values \<Rightarrow> string" where
  "metrics_namespace hv = (if hv_NamespaceOverride hv \<noteq> [] then hv_NamespaceOverride hv else DefaultNamespace)"

definition new_platform :: "'w reconciler \<Rightarrow> string \<Rightarrow> 'w managed_cluster" where
  "new_platform rc tns = NewManagedCluster (rec_PlatformClient rc) (rec_PlatformConfig rc) tns PlatformCluster"

definition new_workload :: "'w cluster_context \<Rightarrow> string \<Rightarrow> 'w managed_cluster" where
  "new_workload ctx ins = NewManagedCluster (ctx_WorkloadClient ctx) (ctx_WorkloadConfig ctx) ins WorkloadCluster"

definition new_control_plane :: "'w cluster_context \<Rightarrow> 'w managed_cluster" where
  "new_control_plane ctx = NewManagedCluster (ctx_MCPClient ctx) (ctx_MCPConfig ctx) DefaultNamespace ControlPlane"

definition request_flux ::
    "metrics_operator \<Rightarrow> provider_config \<Rightarrow> 'w cluster_context \<Rightarrow> string \<Rightarrow> string \<Rightarrow> metrics_operator_version \<Rightarrow> flux_params" where
  "request_flux obj pc ctx mns name mv =
     \<lparr>fp_CPNamespace = mns, fp_WorkloadNamespace = Instance_Namespace obj, fp_ChartPullSecretName = name,
      fp_Obj = obj, fp_Interval = PollInterval pc,
      fp_WorkloadAccessSecretName = ctx_WorkloadAccessSecretName ctx, fp_RequestedVersion = mv\<rparr>"

text \<open>A manager that could be built was built in five steps, and these steps build it.\<close>

lemma build_manager_unfold:
  "build_manager X rc obj pc ctx (tns, mv, hv) r =
     try_go id (setupAuth X pc mv (new_workload ctx (Instance_Namespace obj)) (new_control_plane ctx) (metrics_namespace hv) r)
       (\<lambda>(mv1, akeep, wl1, cp1, r1).
     try_go id (syncChartPullSecret X rc (new_platform rc tns) (mov_ChartPullSecret mv1) tns r1)
       (\<lambda>(cname, ckeep, pl1, r2).
     let (ikeep, wl2, r3) = syncImagePullSecrets X rc wl1 obj hv r2
     in try_go id (applyCABundle X rc obj pc mv1 wl2 r3)
       (\<lambda>(mv2, cakeep, wl3, r4).
     let (pl2, r5) = ManageFluxResources (out_api X) (request_flux obj pc ctx (metrics_namespace hv) cname mv2) pl1 r4
     in ok (\<lparr>mgr_clusters = [pl2, wl3, cp1],
              mgr_cleaners = [configMap_Cleanup (out_api X) (NewConfigMapCleaner wl3 (Instance_Namespace obj) cakeep),
                secret_Cleanup (out_api X) (NewSecretCleaner wl3 (Instance_Namespace obj) (ikeep @ akeep)),
                secret_Cleanup (out_api X) (NewSecretCleaner pl2 tns ckeep)]\<rparr>, r5))))"
proof -
  have "c_defaultNamespace (new_control_plane ctx) = DefaultNamespace"
    by (simp add: new_control_plane_def NewManagedCluster_def)
  then show ?thesis
    unfolding build_manager_def Let_def prod.case
    by (simp add: NewManager_def AddCluster_def AddCleaner_def request_flux_def metrics_namespace_def
        flip: new_platform_def new_workload_def new_control_plane_def)
qed

lemma build_manager_steps:
  assumes "build_manager X rc obj pc ctx (tns, mv, hv) r = ok (mgr, r')"
  obtains mv1 akeep wl1 cp1 r1 cname ckeep pl1 r2 ikeep wl2 r3 mv2 cakeep wl3 r4 pl2 where
    "setupAuth X pc mv (new_workload ctx (Instance_Namespace obj)) (new_control_plane ctx) (metrics_namespace hv) r =
       ok (mv1, akeep, wl1, cp1, r1)"
    "syncChartPullSecret X rc (new_platform rc tns) (mov_ChartPullSecret mv1) tns r1 = ok (cname, ckeep, pl1, r2)"
    "syncImagePullSecrets X rc wl1 obj hv r2 = (ikeep, wl2, r3)"
    "applyCABundle X rc obj pc mv1 wl2 r3 = ok (mv2, cakeep, wl3, r4)"
    "ManageFluxResources (out_api X) (request_flux obj pc ctx (metrics_namespace hv) cname mv2) pl1 r4 = (pl2, r')"
    "mgr = \<lparr>mgr_clusters = [pl2, wl3, cp1],
       mgr_cleaners = [configMap_Cleanup (out_api X) (NewConfigMapCleaner wl3 (Instance_Namespace obj) cakeep),
         secret_Cleanup (out_api X) (NewSecretCleaner wl3 (Instance_Namespace obj) (ikeep @ akeep)),
         secret_Cleanup (out_api X) (NewSecretCleaner pl2 tns ckeep)]\<rparr>"
proof -
  note run = assms [unfolded build_manager_unfold]
  from run obtain mv1 akeep wl1 cp1 r1 where
    1: "setupAuth X pc mv (new_workload ctx (Instance_Namespace obj)) (new_control_plane ctx) (metrics_namespace hv) r =
       ok (mv1, akeep, wl1, cp1, r1)"
    by (auto simp: try_go_ok_iff)
  from run 1 obtain cname ckeep pl1 r2 where
    2: "syncChartPullSecret X rc (new_platform rc tns) (mov_ChartPullSecret mv1) tns r1 = ok (cname, ckeep, pl1, r2)"
    by (auto simp: try_go_ok_iff)
  obtain ikeep wl2 r3 where 3: "syncImagePullSecrets X rc wl1 obj hv r2 = (ikeep, wl2, r3)"
    by (metis prod.exhaust)
  from run 1 2 3 obtain mv2 cakeep wl3 r4 where
    4: "applyCABundle X rc obj pc mv1 wl2 r3 = ok (mv2, cakeep, wl3, r4)"
    by (auto simp: try_go_ok_iff)
  obtain pl2 r5 where
    5: "ManageFluxResources (out_api X) (request_flux obj pc ctx (metrics_namespace hv) cname mv2) pl1 r4 = (pl2, r5)"
    by fastforce
  show thesis by (rule that [OF 1 2 3 4]) (use run 1 2 3 4 5 in auto)
qed

lemma build_manager_shape:
  assumes mut: "mutators (out_api X)"
    and run: "build_manager X rc obj pc ctx (tns, mv, hv) r = ok (mgr, r')"
  obtains s where "has_shape s X rc obj ctx tns r mgr r'"
proof (rule build_manager_steps [OF run], goal_cases)
  case (1 mv1 akeep wl1 cp1 r1 cname ckeep pl1 r2 ikeep wl2 r3 mv2 cakeep wl3 r4 pl2)
  from 1(2) obtain ns sa wcns tok crb where a:
      "cp1 = (new_control_plane ctx)\<lparr>c_objects := [ns, sa, crb]\<rparr>"
      "wl1 = (new_workload ctx (Instance_Namespace obj))\<lparr>c_objects := [wcns, tok]\<rparr>"
      "adds r [m_ref ns, m_ref sa, m_ref wcns, m_ref tok, m_ref crb] r1"
    and pa: "plain r1 ns" "plain r1 wcns" "plain r1 crb" "depends r1 sa ns" "depends r1 tok sa"
    by (elim setupAuth_adds) (simp add: NewManagedCluster_def new_control_plane_def new_workload_def)
  from 1(3) obtain charts where b: "pl1 = (new_platform rc tns)\<lparr>c_objects := charts\<rparr>"
      "adds r1 (map m_ref charts) r2" "\<forall>m \<in> set charts. plain r2 m"
    by (elim syncChartPullSecret_adds [OF mut]) (simp add: NewManagedCluster_def new_platform_def)
  from 1(4) obtain images where c: "wl2 = wl1\<lparr>c_objects := c_objects wl1 @ images\<rparr>"
      "adds r2 (map m_ref images) r3" "\<forall>m \<in> set images. plain r3 m"
    by (rule syncImagePullSecrets_adds [OF mut])
  from 1(5) obtain cas where d: "wl3 = wl2\<lparr>c_objects := c_objects wl2 @ cas\<rparr>"
      "adds r3 (map m_ref cas) r4" "\<forall>m \<in> set cas. plain r4 m"
    by (rule applyCABundle_adds [OF mut])
  from 1(6) obtain oci hr where e: "pl2 = pl1\<lparr>c_objects := c_objects pl1 @ [oci, hr]\<rparr>"
      "adds r4 [m_ref oci, m_ref hr] r'" "plain r' oci"
    and hr: "m_dependencies hr = [m_ref oci]" "m_deletionPolicy hr = Delete" "behaved (GetObject r' hr) hr"
    by (rule ManageFluxResources_adds)
  note to3 = adds_trans [OF d(2) e(2)]
  note to2 = adds_trans [OF c(2) to3]
  note to1 = adds_trans [OF b(2) to2]
  have first: "plain r' ns" "plain r' wcns" "plain r' crb" "depends r' sa ns" "depends r' tok sa"
    using plain_later [OF _ _ to1] depends_later [OF _ _ to1] pa adds_below [OF a(3)] by simp_all
  have lists: "\<forall>m \<in> set charts. plain r' m" "\<forall>m \<in> set images. plain r' m" "\<forall>m \<in> set cas. plain r' m"
    using plain_later [OF _ _ to2] b(3) adds_below [OF b(2)] plain_later [OF _ _ to3] c(3) adds_below [OF c(2)]
      plain_later [OF _ _ e(2)] d(3) adds_below [OF d(2)] by simp_all
  let ?s = "\<lparr>sh_charts = charts, sh_images = images, sh_cas = cas, sh_ns = ns, sh_sa = sa, sh_wcns = wcns,
    sh_tok = tok, sh_crb = crb, sh_oci = oci, sh_hr = hr\<rparr>"
  have all: "adds r (map m_ref (shape_all ?s)) r'" using adds_trans [OF a(3) to1] by (simp add: shape_all_def)
  have clusters: "c_client pl2 = rec_PlatformClient rc \<and> c_objects pl2 = shape_platform ?s \<and>
      c_client wl3 = ctx_WorkloadClient ctx \<and> c_objects wl3 = shape_workload ?s \<and>
      c_client cp1 = ctx_MCPClient ctx \<and> c_objects cp1 = shape_cp ?s"
    by (simp add: a b c d e new_platform_def new_workload_def new_control_plane_def NewManagedCluster_def
      shape_platform_def shape_workload_def shape_cp_def)
  have plains: "\<forall>m \<in> set (sh_charts ?s @ sh_images ?s @ sh_cas ?s @ [sh_ns ?s, sh_wcns ?s, sh_crb ?s, sh_oci ?s]). plain r' m"
    using first lists e(3) by auto
  have "depends r' hr oci" using hr by (simp add: depends_def)
  with first(4,5) have deps: "depends r' (sh_sa ?s) (sh_ns ?s)" "depends r' (sh_tok ?s) (sh_sa ?s)" "depends r' (sh_hr ?s) (sh_oci ?s)"
    by simp_all
  show thesis by (rule 1(1) [OF has_shapeI [OF 1(7) clusters all plains deps]])
qed

section \<open>The hypotheses of the manager's properties hold\<close>

lemma shape_pairs:
  assumes "has_shape s X rc obj ctx tns r mgr r'"
  shows "map snd (managed_pairs (mgr_clusters mgr)) = shape_platform s @ shape_workload s @ shape_cp s"
  using assms by (auto simp: has_shape_def managed_pairs_def comp_def)

lemma shape_member:
  assumes "has_shape s X rc obj ctx tns r mgr r'" and "(mc, m) \<in> set (managed_pairs (mgr_clusters mgr))"
  shows "m \<in> set (shape_all s)"
proof -
  have "m \<in> set (map snd (managed_pairs (mgr_clusters mgr)))" using assms(2) by force
  then show ?thesis
    unfolding shape_pairs [OF assms(1)]
    by (auto simp: shape_platform_def shape_workload_def shape_cp_def shape_all_def)
qed

lemma shape_refs:
  assumes "has_shape s X rc obj ctx tns r mgr r'"
  shows "refs_below (r_next r') (mgr_clusters mgr)"
    "distinct (map (m_ref \<circ> snd) (managed_pairs (mgr_clusters mgr)))"
    "distinct (map m_ref (shape_all s))"
proof -
  have adds: "adds r (map m_ref (shape_all s)) r'" using assms by (simp add: has_shape_def)
  show "distinct (map m_ref (shape_all s))" using adds by (simp add: adds_def)
  show "refs_below (r_next r') (mgr_clusters mgr)"
    unfolding refs_below_def list_all_iff
    using adds_below [OF adds] shape_member [OF assms] by fastforce
  have "mset (map snd (managed_pairs (mgr_clusters mgr))) = mset (shape_all s)"
    unfolding shape_pairs [OF assms]
    by (simp add: shape_platform_def shape_workload_def shape_cp_def shape_all_def)
  then have "mset (map m_ref (map snd (managed_pairs (mgr_clusters mgr)))) = mset (map m_ref (shape_all s))"
    unfolding mset_map [of m_ref] by (rule arg_cong)
  from mset_eq_imp_distinct_iff [OF this] \<open>distinct (map m_ref (shape_all s))\<close>
  show "distinct (map (m_ref \<circ> snd) (managed_pairs (mgr_clusters mgr)))" by simp
qed

lemma shape_object:
  assumes "has_shape s X rc obj ctx tns r mgr r'" and "(mc, m) \<in> set (managed_pairs (mgr_clusters mgr))"
  shows "GetDeletionPolicy m = Delete" "behaved (GetObject r' m) m"
    "m_dependencies m = [] \<or> (m = sh_sa s \<and> m_dependencies m = [m_ref (sh_ns s)]) \<or>
     (m = sh_tok s \<and> m_dependencies m = [m_ref (sh_sa s)]) \<or>
     (m = sh_hr s \<and> m_dependencies m = [m_ref (sh_oci s)])"
proof -
  from assms(1) have
    plain: "\<forall>m \<in> set (sh_charts s @ sh_images s @ sh_cas s @ [sh_ns s, sh_wcns s, sh_crb s, sh_oci s]). plain r' m" and
    deps: "depends r' (sh_sa s) (sh_ns s)" "depends r' (sh_tok s) (sh_sa s)" "depends r' (sh_hr s) (sh_oci s)"
    unfolding has_shape_def by blast+
  have "plain r' m \<or> m = sh_sa s \<and> depends r' m (sh_ns s) \<or> m = sh_tok s \<and> depends r' m (sh_sa s) \<or>
      m = sh_hr s \<and> depends r' m (sh_oci s)"
    using shape_member [OF assms] plain deps unfolding shape_all_def by auto
  then show "GetDeletionPolicy m = Delete" "behaved (GetObject r' m) m"
    "m_dependencies m = [] \<or> (m = sh_sa s \<and> m_dependencies m = [m_ref (sh_ns s)]) \<or>
     (m = sh_tok s \<and> m_dependencies m = [m_ref (sh_sa s)]) \<or>
     (m = sh_hr s \<and> m_dependencies m = [m_ref (sh_oci s)])"
    by (auto simp: plain_def depends_def GetDeletionPolicy_def)
qed

definition shape_level :: "'w shape \<Rightarrow> nat \<Rightarrow> nat" where
  "shape_level s i =
     (if i = m_ref (sh_ns s) then 2 else if i = m_ref (sh_sa s) \<or> i = m_ref (sh_oci s) then 1 else 0)"

lemma shape_levelled:
  assumes "has_shape s X rc obj ctx tns r mgr r'"
  shows "levelled (shape_level s) (mgr_clusters mgr)"
proof -
  have "distinct (map m_ref [sh_ns s, sh_sa s, sh_wcns s, sh_tok s, sh_crb s])" "distinct (map m_ref [sh_oci s, sh_hr s])"
    "set (map m_ref [sh_ns s, sh_sa s, sh_wcns s, sh_tok s, sh_crb s]) \<inter> set (map m_ref [sh_oci s, sh_hr s]) = {}"
    using shape_refs(3) [OF assms] unfolding shape_all_def map_append distinct_append set_append by blast+
  then have d: "m_ref (sh_sa s) \<noteq> m_ref (sh_ns s)" "m_ref (sh_tok s) \<noteq> m_ref (sh_ns s)"
    "m_ref (sh_tok s) \<noteq> m_ref (sh_sa s)" "m_ref (sh_tok s) \<noteq> m_ref (sh_oci s)"
    "m_ref (sh_hr s) \<noteq> m_ref (sh_ns s)" "m_ref (sh_hr s) \<noteq> m_ref (sh_sa s)"
    "m_ref (sh_hr s) \<noteq> m_ref (sh_oci s)" "m_ref (sh_oci s) \<noteq> m_ref (sh_ns s)"
    by auto
  have "(\<forall>i \<in> set (GetDependencies m). shape_level s (m_ref m) < shape_level s i) \<and>
        (GetDeletionPolicy m = Orphan \<longrightarrow> GetDependencies m = [])"
    if "(mc, m) \<in> set (managed_pairs (mgr_clusters mgr))" for mc m
    using shape_object [OF assms that] d by (auto simp: GetDependencies_def shape_level_def)
  then show ?thesis unfolding levelled_def by blast
qed

text \<open>The clients of the three clusters are clients of known servers.\<close>

definition known_clients ::
    "('c \<Rightarrow> 'w client) \<Rightarrow> 'w reconciler \<Rightarrow> 'w cluster_context \<Rightarrow> bool" where
  "known_clients cl rc ctx \<longleftrightarrow>
     (\<exists>i. rec_PlatformClient rc = cl i) \<and> (\<exists>i. ctx_WorkloadClient ctx = cl i) \<and> (\<exists>i. ctx_MCPClient ctx = cl i)"

lemma shape_known:
  assumes "has_shape s X rc obj ctx tns r mgr r'" "known_clients cl rc ctx"
  shows "known_clusters cl (mgr_clusters mgr)"
  using assms by (auto simp: has_shape_def known_clusters_def known_clients_def)

lemma shape_cleaners:
  assumes "has_shape s X rc obj ctx tns r mgr r'" "known_clients cl rc ctx"
    "listing_server (out_api X) cl view"
  shows "\<forall>c \<in> set (mgr_cleaners mgr). orphan_cleaner_on_server (out_api X) cl view c"
proof -
  from assms(1) obtain platform workload cas secrets charts where
    c: "mgr_cleaners mgr = [configMap_Cleanup (out_api X)
                   (NewConfigMapCleaner workload (Instance_Namespace obj) cas),
                 secret_Cleanup (out_api X) (NewSecretCleaner workload (Instance_Namespace obj) secrets),
                 secret_Cleanup (out_api X) (NewSecretCleaner platform tns charts)]"
    and cl: "c_client platform = rec_PlatformClient rc" "c_client workload = ctx_WorkloadClient ctx"
    unfolding has_shape_def by auto
  from assms(2) obtain i j where ij: "rec_PlatformClient rc = cl i" "ctx_WorkloadClient ctx = cl j"
    by (auto simp: known_clients_def)
  show ?thesis
    unfolding c
    using configMap_cleaner_on_server [OF assms(3)] secret_cleaner_on_server [OF assms(3)] cl ij
    by (auto simp: NewConfigMapCleaner_def NewSecretCleaner_def)
qed

lemma shape_cleaners_keep:
  assumes "has_shape s X rc obj ctx tns r mgr r'" "known_clients cl rc ctx"
    "prompt_listing_server (out_api X) cl view healthy"
  shows "\<forall>c \<in> set (mgr_cleaners mgr). cleaner_keeps healthy c"
proof -
  from assms(1) obtain platform workload cas secrets charts where
    c: "mgr_cleaners mgr = [configMap_Cleanup (out_api X)
                   (NewConfigMapCleaner workload (Instance_Namespace obj) cas),
                 secret_Cleanup (out_api X) (NewSecretCleaner workload (Instance_Namespace obj) secrets),
                 secret_Cleanup (out_api X) (NewSecretCleaner platform tns charts)]"
    and cl: "c_client platform = rec_PlatformClient rc" "c_client workload = ctx_WorkloadClient ctx"
    unfolding has_shape_def by auto
  from assms(2) obtain i j where ij: "rec_PlatformClient rc = cl i" "ctx_WorkloadClient ctx = cl j"
    by (auto simp: known_clients_def)
  note keep = prompt_listing_server.hookless_keeps_healthy [OF assms(3)]
  show ?thesis
    unfolding c configMap_Cleanup_hookless secret_Cleanup_hookless
    using keep cl ij by (auto simp: NewConfigMapCleaner_def NewSecretCleaner_def)
qed

text \<open>Building the manager leaves the world alone.\<close>

lemma shape_world: "has_shape s X rc obj ctx tns r mgr r' \<Longrightarrow> r_world r' = r_world r"
  by (simp add: has_shape_def adds_def)

section \<open>When the manager can be built\<close>

lemma setupAuth_succeeds:
  assumes C: "faithful_codecs (out_codecs X)" and cfg: "c_cfg cp = Some conf"
    and good: "good_values (out_codecs X) (mov_HelmValues mv)"
  shows "\<exists>v akeep wl' cp' r'. setupAuth X pc mv wl cp mns r = ok (mv\<lparr>mov_HelmValues := Some v\<rparr>, akeep, wl', cp', r') \<and>
    good_values (out_codecs X) (Some v)"
proof -
  let ?msa = "\<lparr>msa_Name = ''metrics-operator-server'', msa_Namespace = mns\<rparr>"
  obtain wl1 cp1 r1 where conf: "Authn_Configure (out_env X) ?msa wl cp (PollInterval pc) r = (wl1, cp1, r1)"
    by (metis prod.exhaust)
  then have "c_cfg cp1 = Some conf" by (rule Authn_Configure_adds) (simp add: cfg)
  then obtain h p where hp: "GetHostAndPort cp1 = Ret (h, p)"
    by (cases "host_and_port (rc_Host conf)") (simp add: GetHostAndPort_def)
  obtain v1 where v1: "AddAuthToHelmValues (out_codecs X) (mov_HelmValues mv) cp1 (KubeAPIAccess ?msa) = ok v1"
    using faithful_codecs.add_volume_succeeds [OF C] good hp by (fastforce simp: AddAuthToHelmValues_def)
  have g1: "good_values (out_codecs X) (Some v1)"
    using v1 hp faithful_codecs.add_volume_rewritten [OF C]
    by (fastforce simp: AddAuthToHelmValues_def rewritten_def)
  obtain v2 where v2: "AddDefaultHelmValues (out_codecs X) (Some v1) mns = ok v2"
    using faithful_codecs.defaults_succeed [OF C g1] by blast
  have g2: "good_values (out_codecs X) (Some v2)"
    by (rule faithful_codecs.defaults_reading(1) [OF C g1 v2])
  obtain cp2 r2 where "Authz_Configure cp1 ?msa r1 = (cp2, r2)" by fastforce
  then have "setupAuth X pc mv wl cp mns r = ok (mv\<lparr>mov_HelmValues := Some v2\<rparr>, [KubeAPIAccess ?msa], wl1, cp2, r2)"
    using conf v1 v2 by (simp add: setupAuth_def Let_def)
  with g2 show ?thesis by blast
qed

lemma applyCABundle_succeeds:
  assumes C: "faithful_codecs (out_codecs X)" and good: "good_values (out_codecs X) (mov_HelmValues mv)"
    and ca: "\<And>ref. pc_CABundleRef pc = Some ref \<Longrightarrow> cms_Name ref \<noteq> [] \<and> cms_Key ref \<noteq> []"
  shows "\<exists>mv' keep wl' r'. applyCABundle X rc obj pc mv wl r = ok (mv', keep, wl', r')"
proof (cases "pc_CABundleRef pc")
  case None
  then show ?thesis by (simp add: applyCABundle_def)
next
  case (Some ref)
  from ca [OF Some] obtain v where "AddCAHelmValues (out_codecs X) (mov_HelmValues mv) (Some ref) = ok v"
    using faithful_codecs.add_volume_succeeds [OF C] good by (fastforce simp: AddCAHelmValues_def)
  with Some show ?thesis by (fastforce simp: applyCABundle_def split: prod.splits)
qed

lemma build_manager_succeeds:
  assumes C: "faithful_codecs (out_codecs X)" and cfg: "ctx_MCPConfig ctx = Some conf"
    and good: "good_values (out_codecs X) (mov_HelmValues mv)"
    and chart: "mov_ChartPullSecret mv = [] \<or>
      (\<exists>n. PrefixSecretName (lib_ShortenToXCharacters (out_lib X)) (mov_ChartPullSecret mv) = Inr n)"
    and ca: "\<And>ref. pc_CABundleRef pc = Some ref \<Longrightarrow> cms_Name ref \<noteq> [] \<and> cms_Key ref \<noteq> []"
  shows "\<exists>mgr r'. build_manager X rc obj pc ctx (tns, mv, hv) r = ok (mgr, r')"
proof -
  have "c_cfg (new_control_plane ctx) = Some conf" by (simp add: new_control_plane_def NewManagedCluster_def cfg)
  from setupAuth_succeeds [OF C this good] obtain v akeep wl1 cp1 r1 where
    1: "setupAuth X pc mv (new_workload ctx (Instance_Namespace obj)) (new_control_plane ctx) (metrics_namespace hv) r =
      ok (mv\<lparr>mov_HelmValues := Some v\<rparr>, akeep, wl1, cp1, r1)" and v: "good_values (out_codecs X) (Some v)"
    by blast
  obtain cname ckeep pl1 r2 where
    2: "syncChartPullSecret X rc (new_platform rc tns) (mov_ChartPullSecret mv) tns r1 = ok (cname, ckeep, pl1, r2)"
    using chart by (fastforce simp: syncChartPullSecret_def simp del: ManagePullSecrets.simps split: prod.splits)
  obtain ikeep wl2 r3 where 3: "syncImagePullSecrets X rc wl1 obj hv r2 = (ikeep, wl2, r3)"
    by (metis prod.exhaust)
  obtain mv4 cakeep wl3 r4 where
    4: "applyCABundle X rc obj pc (mv\<lparr>mov_HelmValues := Some v\<rparr>) wl2 r3 = ok (mv4, cakeep, wl3, r4)"
    using applyCABundle_succeeds [OF C _ ca, of "mv\<lparr>mov_HelmValues := Some v\<rparr>"] v by fastforce
  show ?thesis unfolding build_manager_unfold using 1 2 3 4 by (simp split: prod.splits)
qed

section \<open>Errors of the cleaners\<close>

lemma hookless_error: "hookless_cleanup api f err cluster kind ns keep r = (Inl e, r') \<Longrightarrow> e = ESentinel err"
  by (erule hookless_cleanup_parts) simp_all

lemma run_cleaners_error:
  assumes "\<And>c r e r'. c \<in> set cs \<Longrightarrow> c r = (Inl e, r') \<Longrightarrow> Q e"
    and "run_cleaners cs results r = ((out, Some e), r')"
  shows "Q e"
  using assms
proof (induction cs arbitrary: results r)
  case Nil
  then show ?case by simp
next
  case (Cons c cs)
  obtain x r1 where c: "c r = (x, r1)" by fastforce
  show ?case
  proof (cases x)
    case (Inl err)
    with c Cons.prems(2) have "e = err" by simp
    with Cons.prems(1) [of c r err r1] c Inl show ?thesis by simp
  next
    case (Inr rs)
    with c Cons.prems(2) have rest: "run_cleaners cs (results @ rs) r1 = ((out, Some e), r')" by simp
    have "\<And>c' r e r'. c' \<in> set cs \<Longrightarrow> c' r = (Inl e, r') \<Longrightarrow> Q e"
      using Cons.prems(1) by (meson list.set_intros(2))
    from Cons.IH [OF this rest] show ?thesis .
  qed
qed

lemma shape_error:
  assumes "has_shape s X rc obj ctx tns r mgr r0"
    and "reconcileObjects api mgr d r1 = (Ret (results, Some e), r')"
  shows "e = ESentinel ErrSecretCleanup \<or> e = ESentinel ErrConfigMapCleanup"
proof -
  from assms(1) obtain platform workload cas secrets charts where
    c: "mgr_cleaners mgr = [configMap_Cleanup (out_api X)
                   (NewConfigMapCleaner workload (Instance_Namespace obj) cas),
                 secret_Cleanup (out_api X) (NewSecretCleaner workload (Instance_Namespace obj) secrets),
                 secret_Cleanup (out_api X) (NewSecretCleaner platform tns charts)]"
    unfolding has_shape_def by auto
  from assms(2) obtain rs r2 where "run_cleaners (mgr_cleaners mgr) rs r2 = ((results, Some e), r')"
    by (rule reconcileObjects_parts)
  then show ?thesis
    by (rule run_cleaners_error [where Q = "\<lambda>e. e = ESentinel ErrSecretCleanup \<or> e = ESentinel ErrConfigMapCleanup", rotated])
       (auto simp: c configMap_Cleanup_hookless secret_Cleanup_hookless dest: hookless_error)
qed

text \<open>
  What the code relies on of the treatment of invalid user input: its error is a variable
  of another package, and exactly the errors that are or wrap it are dropped.
\<close>

locale user_input_errors =
  fixes lib :: "'w runtime_lib"
  assumes invalid_opaque: "\<exists>i t. lib_ErrInvalidUserInput lib = EOpaque i t"
    and ignore: "lib_IgnoreInvalidUserInput lib e =
          (case e of None \<Rightarrow> None
           | Some x \<Rightarrow> if errors_is x (lib_ErrInvalidUserInput lib) then None else e)"
begin

lemma sentinels_stay: "lib_IgnoreInvalidUserInput lib (Some (ESentinel t)) = Some (ESentinel t)"
  using invalid_opaque by (auto simp: ignore)

lemma joined_sentinels_stay:
  "\<forall>x \<in> set es. \<exists>t. x = ESentinel t \<Longrightarrow> lib_IgnoreInvalidUserInput lib (Some (EJoin es)) = Some (EJoin es)"
  using invalid_opaque by (fastforce simp: ignore list_ex_iff)

lemma update_error_stays:
  assumes "updateStatusError X obj res err = (e, obj')" and "out_lib X = lib"
    and "res \<or> err \<noteq> None" and "\<And>x. err = Some x \<Longrightarrow> \<exists>t. x = ESentinel t"
  shows "e \<noteq> None"
  using assms sentinels_stay joined_sentinels_stay
  by (cases err) (auto simp: updateStatusError_def Let_def errors_join_def split: if_splits)

end

text \<open>A reference runtime: it names tenants by their object and drops invalid user input.\<close>

definition ref_invalid_input :: gerr where "ref_invalid_input = EOpaque 400 ''invalid user input''"

definition ref_lib :: "'w runtime_lib" where
  "ref_lib =
     \<lparr>lib_StableMCPNamespace = (\<lambda>n ns. Inr (''mcp--'' @ n)),
      lib_StatusProgressing = (\<lambda>mo reason m. SetPhase ''Progressing'' mo),
      lib_StatusReady = SetPhase ''Ready'',
      lib_StatusTerminating = SetPhase ''Terminating'',
      lib_StatusTerminatingWithReason = (\<lambda>mo reason m. SetPhase ''Terminating'' mo),
      lib_ErrInvalidUserInput = ref_invalid_input,
      lib_IgnoreInvalidUserInput = (\<lambda>e. case e of None \<Rightarrow> None
         | Some x \<Rightarrow> if errors_is x ref_invalid_input then None else e),
      lib_ShortenToXCharacters = (\<lambda>s n. Inr (take n s)),
      lib_UpdateOnboarding = (\<lambda>mo w. ((None, mo), w))\<rparr>"

interpretation refinput: user_input_errors ref_lib
  by unfold_locales (auto simp: ref_lib_def ref_invalid_input_def split: option.splits)

end
