(* ===== verification/Controller_Handlers.thy ===== *)
theory Controller_Handlers
  imports Controller_Correct
begin

text \<open>
  What the two handlers do once their manager is built: the passes return, the status of
  every result can be shown, and the outcome of a handler is read off the results.
\<close>

section \<open>Results that can be shown\<close>

definition shown :: "'w result \<Rightarrow> bool" where
  "shown y \<longleftrightarrow> (\<exists>f. m_statusFunc (res_Object y) = Some f \<and> (\<forall>ob rl. \<not> panics (f ob rl)))"

lemma shownD: "shown y \<Longrightarrow> \<not> panics (GetStatusOf r (res_Object y) rl)"
  by (auto simp: shown_def GetStatusOf_def)

definition shows_results :: "'w cleaner \<Rightarrow> bool" where
  "shows_results c \<longleftrightarrow> (\<forall>r rs r'. c r = (Inr rs, r') \<longrightarrow> (\<forall>y \<in> set rs. shown y))"

lemma hookless_shows_results:
  assumes "\<And>ob rl. \<not> panics (f ob rl)"
  shows "shows_results (hookless_cleanup api f err cluster kind ns keep)"
  unfolding shows_results_def
proof (intro allI impI)
  fix r rs r'
  assume h: "hookless_cleanup api f err cluster kind ns keep r = (Inr rs, r')"
  show "\<forall>y \<in> set rs. shown y"
  proof (rule hookless_cleanup_parts [OF h])
    fix deleted w' results
    assume fr: "failed_results f cluster (filter (\<lambda>(x, e). IgnoreNotFound api e \<noteq> None) deleted)
         (r\<lparr>r_world := w'\<rparr>) = (results, r')" and rs: "Inr rs = Inr results"
    have "\<forall>y \<in> set results. m_statusFunc (res_Object y) = Some f"
      using failed_results_step [OF fr] by blast
    with rs assms show ?thesis by (simp add: shown_def)
  qed simp
qed

lemma run_cleaners_shown:
  assumes "\<forall>c \<in> set cs. shows_results c" and "run_cleaners cs results r = ((out, e), r')"
  shows "\<exists>extra. out = results @ extra \<and> (\<forall>y \<in> set extra. shown y)"
  using assms
proof (induction cs arbitrary: results r)
  case Nil
  then show ?case by simp
next
  case (Cons c cs)
  obtain x r1 where c: "c r = (x, r1)" by fastforce
  show ?case
  proof (cases x)
    case (Inl err)
    with Cons.prems(2) c show ?thesis by simp
  next
    case (Inr rs)
    with Cons.prems(2) c have "run_cleaners cs (results @ rs) r1 = ((out, e), r')" by simp
    with Cons.IH Cons.prems(1) obtain extra where "out = (results @ rs) @ extra" "\<forall>y \<in> set extra. shown y"
      by (metis list.set_intros(2))
    moreover have "\<forall>y \<in> set rs. shown y" using Cons.prems(1) c Inr by (auto simp: shows_results_def)
    ultimately show ?thesis by (intro exI [of _ "rs @ extra"]) auto
  qed
qed

lemma shape_shows_results:
  assumes "has_shape s X rc obj ctx tns r mgr r'"
  shows "\<forall>c \<in> set (mgr_cleaners mgr). shows_results c"
proof -
  from assms obtain platform workload cas secrets charts where
    c: "mgr_cleaners mgr = [configMap_Cleanup (out_api X)
                   (NewConfigMapCleaner workload (Instance_Namespace obj) cas),
                 secret_Cleanup (out_api X) (NewSecretCleaner workload (Instance_Namespace obj) secrets),
                 secret_Cleanup (out_api X) (NewSecretCleaner platform tns charts)]"
    unfolding has_shape_def by auto
  have "\<not> panics (cleanupErrorStatusConfigMap ob rl)" "\<not> panics (secret_cleanupErrorStatus ob rl)" for ob rl
    by (simp_all add: cleanupErrorStatusConfigMap_def secret_cleanupErrorStatus_def)
  then show ?thesis
    unfolding c configMap_Cleanup_hookless secret_Cleanup_hookless
    by (simp add: hookless_shows_results)
qed

lemma resultsToResources_returns:
  assumes "\<forall>res \<in> set results. \<not> panics (GetStatusOf r (res_Object res) (c_clusterType (res_Cluster res)))"
  shows "\<exists>rs. resultsToResources results r = Ret (rs, \<exists>res \<in> set results. res_Error res \<noteq> None) \<and>
    length rs = length results"
  using assms
proof (induction results)
  case Nil
  then show ?case by simp
next
  case (Cons res results)
  then obtain st where "GetStatusOf r (res_Object res) (c_clusterType (res_Cluster res)) = Ret st"
    by (auto simp: not_panics_iff)
  with Cons show ?case by (auto simp: Let_def)
qed

lemma resultsToResources_errors:
  "resultsToResources results r = Ret (rs, b) \<Longrightarrow> b \<longleftrightarrow> (\<exists>res \<in> set results. res_Error res \<noteq> None)"
  by (induction results arbitrary: rs b) (auto simp: Let_def split: go.splits)

section \<open>Passes return\<close>

text \<open>
  The results of the objects of a pass, and that a pass over the manager of the
  controller returns and its results can be shown.
\<close>

lemma pass_results:
  assumes "map_prog (\<lambda>(mc, m). reconcileObject api deps d mc m) ps r = (Ret rs, r')"
  shows "list_all2 (\<lambda>p res. (res_Cluster res, res_Object res) = p) ps rs"
proof (rule map_prog_results [OF _ assms])
  fix p s res s'
  assume "(case p of (mc, m) \<Rightarrow> reconcileObject api deps d mc m) s = (Ret res, s')"
  then show "(res_Cluster res, res_Object res) = p"
    using apply_object_result(1,2)
    by (cases p; cases d)
       (auto simp: reconcileObject_def delete_object_def Let_def split: prod.splits if_splits)
qed

lemma apply_pass_kinds:
  assumes "api_server api cl view" "known_clusters cl clusters"
    "distinct (map (m_ref \<circ> snd) (managed_pairs clusters))"
    "\<forall>(mc, m) \<in> set (managed_pairs clusters). behaved (GetObject r m) m"
  shows "\<exists>rs r'. map_prog (\<lambda>(mc, m). reconcileObject api deps False mc m) (managed_pairs clusters) r = (Ret rs, r') \<and>
    (\<forall>(mc, m) \<in> set (managed_pairs clusters). kind_of (GetObject r' m) = kind_of (GetObject r m)) \<and>
    r_next r' = r_next r"
proof -
  have eq: "(\<lambda>(mc, m). reconcileObject api deps False mc m) = (\<lambda>(mc, m). apply_object api mc m)"
    by (simp add: fun_eq_iff reconcileObject_def)
  have "\<forall>(mc, m) \<in> set (managed_pairs clusters). (\<exists>i. c_client mc = cl i) \<and> reconciles (GetObject r m) m"
    using assms(2,4) by (auto simp: known_clusters_def list_all_iff in_managed_pairs behaved_def)
  from api_server.apply_loop_returns [OF assms(1,3) this] apply_loop [OF assms(3)]
  show ?thesis unfolding eq by blast
qed

lemma delete_pass_kinds:
  assumes "api_server api cl view" "known_clusters cl clusters"
  shows "\<exists>rs r'. map_prog (\<lambda>(mc, m). reconcileObject api (getDependents clusters) True mc m) (managed_pairs clusters) r =
      (Ret rs, r') \<and>
    (\<forall>(mc, m) \<in> set (managed_pairs clusters). kind_of (GetObject r' m) = kind_of (GetObject r m)) \<and>
    r_next r' = r_next r"
proof -
  let ?f = "\<lambda>(mc, m). reconcileObject api (getDependents clusters) True mc m"
  have "\<not> panics (fst (map_prog ?f (managed_pairs clusters) r))"
    by (rule map_prog_no_panic) (auto simp: delete_never_panics)
  then obtain rs r' where run: "map_prog ?f (managed_pairs clusters) r = (Ret rs, r')"
    by (cases "map_prog ?f (managed_pairs clusters) r") (auto simp: not_panics_iff)
  from api_server.delete_loop(1) [OF assms run] show ?thesis
    using run by (auto simp: deleting_def GetObject_def)
qed

lemma pass_returns:
  assumes server: "api_server (out_api X) cl view" and known: "known_clients cl rc ctx"
    and shape: "has_shape s X rc obj ctx tns r mgr r0"
    and lists: "\<forall>c \<in> set (mgr_cleaners mgr). orphan_cleaner c"
  shows "\<exists>results err r' rs. reconcileObjects (out_api X) mgr d r0 = (Ret (results, err), r') \<and>
    resultsToResources results r' = Ret (rs, \<exists>res \<in> set results. res_Error res \<noteq> None) \<and>
    length rs = length results"
proof -
  let ?cs = "mgr_clusters mgr" and ?api = "out_api X"
  let ?loop = "map_prog (\<lambda>(mc, m). reconcileObject ?api (getDependents ?cs) d mc m) (managed_pairs ?cs) r0"
  have clusters: "known_clusters cl ?cs" by (rule shape_known [OF shape known])
  have all: "\<forall>(mc, m) \<in> set (managed_pairs ?cs). behaved (GetObject r0 m) m"
    using shape_object(2) [OF shape] by blast
  have "\<exists>rs r1. ?loop = (Ret rs, r1) \<and>
    (\<forall>(mc, m) \<in> set (managed_pairs ?cs). kind_of (GetObject r1 m) = kind_of (GetObject r0 m)) \<and>
    r_next r1 = r_next r0"
    using apply_pass_kinds [OF server clusters shape_refs(2) [OF shape] all]
      delete_pass_kinds [OF server clusters] by (cases d) simp_all
  then obtain rs r1 where loop: "?loop = (Ret rs, r1)"
    and kinds: "\<forall>(mc, m) \<in> set (managed_pairs ?cs). kind_of (GetObject r1 m) = kind_of (GetObject r0 m)"
    and next1: "r_next r1 = r_next r0" by blast
  obtain results err r' where clean: "run_cleaners (mgr_cleaners mgr) rs r1 = ((results, err), r')"
    by (metis prod.exhaust)
  have run: "reconcileObjects ?api mgr d r0 = (Ret (results, err), r')"
    unfolding reconcileObjects_flat by (simp add: bind_prog_def loop clean)
  obtain extra where out: "results = rs @ extra" and extra: "\<forall>y \<in> set extra. shown y"
    using run_cleaners_shown [OF shape_shows_results [OF shape] clean] by blast
  have heap: "\<forall>j < r_next r1. r_heap r' j = r_heap r1 j"
    using run_cleaners_results [OF lists clean] by blast
  note pairs = pass_results [OF loop]
  have "\<not> panics (GetStatusOf r' (res_Object y) (c_clusterType (res_Cluster y)))" if "y \<in> set results" for y
  proof (cases "y \<in> set extra")
    case True
    with extra show ?thesis by (simp add: shownD)
  next
    case False
    then have "y \<in> set rs" using that out by simp
    then obtain n where n: "n < length rs" "y = rs ! n" by (auto simp: in_set_conv_nth)
    then have "(res_Cluster y, res_Object y) = managed_pairs ?cs ! n"
      using list_all2_nthD2 [OF pairs n(1)] by simp
    then have mem: "(res_Cluster y, res_Object y) \<in> set (managed_pairs ?cs)"
      using n(1) list_all2_lengthD [OF pairs] by (metis nth_mem)
    have "GetObject r' (res_Object y) = GetObject r1 (res_Object y)"
      using heap refs_below_pair [OF shape_refs(1) [OF shape] mem] next1 by (simp add: GetObject_def)
    then have "kind_of (GetObject r' (res_Object y)) = kind_of (GetObject r0 (res_Object y))"
      using kinds mem by auto
    moreover have "shows_status (GetObject r0 (res_Object y)) (res_Object y)"
      using all mem by (auto simp: behaved_def)
    ultimately show ?thesis by (rule shows_statusD [rotated])
  qed
  with run resultsToResources_returns [of results r'] show ?thesis by blast
qed

lemma shape_orphan_cleaners:
  assumes "has_shape s X rc obj ctx tns r mgr r'"
  shows "\<forall>c \<in> set (mgr_cleaners mgr). orphan_cleaner c"
proof -
  from assms obtain platform workload cas secrets charts where
    c: "mgr_cleaners mgr = [configMap_Cleanup (out_api X)
                   (NewConfigMapCleaner workload (Instance_Namespace obj) cas),
                 secret_Cleanup (out_api X) (NewSecretCleaner workload (Instance_Namespace obj) secrets),
                 secret_Cleanup (out_api X) (NewSecretCleaner platform tns charts)]"
    unfolding has_shape_def by auto
  show ?thesis
    unfolding c configMap_Cleanup_hookless secret_Cleanup_hookless by (simp add: hookless_orphan_cleaner)
qed

section \<open>The manager of a request\<close>

text \<open>A manager that is made for a request has the shape, on the world the inputs left.\<close>

lemma createObjectManager_parts:
  assumes "createObjectManager X rc obj pc ctx w = (ok (mgr, r), obj1, w1)"
  obtains tns mv hv where "prepareInputs X obj pc w = (Inr (tns, mv, hv), obj1, w1)"
    "build_manager X rc obj1 pc ctx (tns, mv, hv) (new_run w1) = ok (mgr, r)"
  using assms by (auto simp: createObjectManager_def split: prod.splits sum.splits)

lemma createObjectManager_shape:
  assumes "mutators (out_api X)" "createObjectManager X rc obj pc ctx w = (ok (mgr, r), obj1, w1)"
  obtains s tns where "has_shape s X rc obj1 ctx tns (new_run w1) mgr r" "r_world r = w1"
proof (rule createObjectManager_parts [OF assms(2)])
  fix tns mv hv
  assume "build_manager X rc obj1 pc ctx (tns, mv, hv) (new_run w1) = ok (mgr, r)"
  with assms(1) obtain s where shape: "has_shape s X rc obj1 ctx tns (new_run w1) mgr r"
    by (rule build_manager_shape)
  then show thesis using that shape_world [OF shape] by (simp add: new_run_def)
qed

lemma request_pass_returns:
  assumes "api_server (out_api X) cl view" "mutators (out_api X)" "known_clients cl rc ctx"
    "createObjectManager X rc obj pc ctx w = (ok (mgr, r), obj1, w1)"
  shows "\<exists>results err r' rs. reconcileObjects (out_api X) mgr d r = (Ret (results, err), r') \<and>
    resultsToResources results r' = Ret (rs, \<exists>res \<in> set results. res_Error res \<noteq> None) \<and>
    length rs = length results"
proof (rule createObjectManager_shape [OF assms(2,4)])
  fix s tns
  assume shape: "has_shape s X rc obj1 ctx tns (new_run w1) mgr r"
  show ?thesis by (rule pass_returns [OF assms(1,3) shape shape_orphan_cleaners [OF shape]])
qed

text \<open>Both handlers panic only if making the manager does.\<close>

lemma CreateOrUpdate_returns:
  assumes "api_server (out_api X) cl view" "mutators (out_api X)" "known_clients cl rc ctx"
    "\<not> panics (fst (createObjectManager X rc
        (lib_StatusProgressing (out_lib X) obj ''Reconciling'' ''Reconcile in progress'') pc ctx w))"
  shows "\<not> panics (fst (CreateOrUpdate_handler X rc obj pc ctx w))"
proof -
  let ?obj = "lib_StatusProgressing (out_lib X) obj ''Reconciling'' ''Reconcile in progress''"
  obtain x obj1 w1 where c: "createObjectManager X rc ?obj pc ctx w = (Ret x, obj1, w1)"
    using assms(4) by (cases "createObjectManager X rc ?obj pc ctx w") (auto simp: not_panics_iff)
  show ?thesis
  proof (cases x)
    case (Inl e)
    with c show ?thesis by (simp add: CreateOrUpdate_handler_def Let_def)
  next
    case (Inr y)
    obtain mgr r where y: "y = (mgr, r)" by fastforce
    obtain results err r' rs where "Apply (out_api X) mgr r = (Ret (results, err), r')"
      "resultsToResources results r' = Ret (rs, \<exists>res \<in> set results. res_Error res \<noteq> None)"
      using request_pass_returns [OF assms(1-3), of ?obj pc w mgr r obj1 w1 False] c Inr y
      unfolding Apply_def by blast
    with c Inr y show ?thesis
      by (simp add: CreateOrUpdate_handler_def Let_def split: prod.splits)
  qed
qed

lemma Delete_returns:
  assumes "api_server (out_api X) cl view" "mutators (out_api X)" "known_clients cl rc ctx"
    "\<And>w. \<not> panics (fst (createObjectManager X rc (lib_StatusTerminating (out_lib X) obj) pc ctx w))"
  shows "\<not> panics (fst (Delete_handler X rc obj pc ctx w))"
proof -
  let ?obj = "lib_StatusTerminating (out_lib X) obj"
  obtain b w0 where b: "BlockingKinds (out_api X) (ctx_MCPClient ctx) w = (b, w0)" by fastforce
  obtain x obj1 w1 where c: "createObjectManager X rc ?obj pc ctx w0 = (Ret x, obj1, w1)"
    using assms(4) [of w0] by (cases "createObjectManager X rc ?obj pc ctx w0") (auto simp: not_panics_iff)
  have "\<not> panics (fst (Delete_handler X rc obj pc ctx w))" if bb: "b = Inr []"
  proof (cases x)
    case (Inl e)
    with b c bb show ?thesis by (simp add: Delete_handler_def Let_def)
  next
    case (Inr y)
    obtain mgr r where y: "y = (mgr, r)" by fastforce
    obtain results err r' rs where "Delete_all (out_api X) mgr r = (Ret (results, err), r')"
      "resultsToResources results r' = Ret (rs, \<exists>res \<in> set results. res_Error res \<noteq> None)"
      using request_pass_returns [OF assms(1-3), of ?obj pc w0 mgr r obj1 w1 True] c Inr y
      unfolding Delete_all_def by blast
    with b bb c Inr y show ?thesis
      by (simp add: Delete_handler_def Let_def split: prod.splits)
  qed
  then show ?thesis
    using b by (cases b) (auto simp: Delete_handler_def Let_def)
qed

end
