(* ===== verification/Deletion_Rounds.thy ===== *)
theory Deletion_Rounds
  imports Controller_Handlers
begin

text \<open>
  Deletion as the runtime drives it: the delete handler is called again and again until it
  no longer asks to be requeued. Every call makes its manager anew; the manager does not
  depend on the world, so the calls are passes of one manager. On servers that answer and
  delete at once, the objects vanish level by level and the cleaners find nothing the
  second time, so the fourth call reports that deletion is done.
\<close>

section \<open>The manager does not depend on the world\<close>

lemma NewManagedObject_world:
  "NewManagedObject ob moc r = (m, r') \<Longrightarrow>
     NewManagedObject ob moc (r\<lparr>r_world := w\<rparr>) = (m, r'\<lparr>r_world := w\<rparr>)"
  by (auto simp: NewManagedObject_def Let_def)

lemma ManagePullSecrets_world:
  "ManagePullSecrets api pulls cfg cluster r = (cluster', r') \<Longrightarrow>
     ManagePullSecrets api pulls cfg cluster (r\<lparr>r_world := w\<rparr>) = (cluster', r'\<lparr>r_world := w\<rparr>)"
  by (induction pulls arbitrary: cluster r)
     (auto split: prod.splits simp: NewManagedObject_world)

lemma ManageCaConfigMap_world:
  "ManageCaConfigMap api caName cfg cluster r = (cluster', r') \<Longrightarrow>
     ManageCaConfigMap api caName cfg cluster (r\<lparr>r_world := w\<rparr>) = (cluster', r'\<lparr>r_world := w\<rparr>)"
  by (auto simp: ManageCaConfigMap_def NewManagedObject_def Let_def)

lemma Authn_Configure_world:
  "Authn_Configure env msa wc cp poll r = (wc', cp', r') \<Longrightarrow>
     Authn_Configure env msa wc cp poll (r\<lparr>r_world := w\<rparr>) = (wc', cp', r'\<lparr>r_world := w\<rparr>)"
  by (auto simp: Authn_Configure_def NewManagedObject_def Let_def)

lemma Authz_Configure_world:
  "Authz_Configure cluster msa r = (cluster', r') \<Longrightarrow>
     Authz_Configure cluster msa (r\<lparr>r_world := w\<rparr>) = (cluster', r'\<lparr>r_world := w\<rparr>)"
  by (auto simp: Authz_Configure_def NewManagedObject_def Let_def)

lemma ManageFluxResources_world:
  "ManageFluxResources api p cluster r = (cluster', r') \<Longrightarrow>
     ManageFluxResources api p cluster (r\<lparr>r_world := w\<rparr>) = (cluster', r'\<lparr>r_world := w\<rparr>)"
  by (auto simp: ManageFluxResources_def NewManagedObject_def Let_def)

lemma setupAuth_world:
  assumes "setupAuth X pc mv wc cp mns r = ok (mv', keep, wc', cp', r')"
  shows "setupAuth X pc mv wc cp mns (r\<lparr>r_world := w\<rparr>) = ok (mv', keep, wc', cp', r'\<lparr>r_world := w\<rparr>)"
proof -
  let ?msa = "\<lparr>msa_Name = ''metrics-operator-server'', msa_Namespace = mns\<rparr>"
  obtain wc1 cp1 r1 where a: "Authn_Configure (out_env X) ?msa wc cp (PollInterval pc) r = (wc1, cp1, r1)"
    by (metis prod.exhaust)
  obtain cp2 r2 where z: "Authz_Configure cp1 ?msa r1 = (cp2, r2)" by fastforce
  show ?thesis
    using assms a z Authn_Configure_world [OF a, of w] Authz_Configure_world [OF z, of w]
    by (auto simp: setupAuth_def try_go_ok_iff Let_def)
qed

lemma syncChartPullSecret_world:
  assumes "syncChartPullSecret X rc c cps tns r = ok (name, keep, c', r')"
  shows "syncChartPullSecret X rc c cps tns (r\<lparr>r_world := w\<rparr>) = ok (name, keep, c', r'\<lparr>r_world := w\<rparr>)"
  using assms
  by (auto intro!: ManagePullSecrets_world simp: syncChartPullSecret_def try_go_ok_iff simp del: ManagePullSecrets.simps
      split: if_splits prod.splits)

lemma syncImagePullSecrets_world:
  assumes "syncImagePullSecrets X rc c obj hv r = (keep, c', r')"
  shows "syncImagePullSecrets X rc c obj hv (r\<lparr>r_world := w\<rparr>) = (keep, c', r'\<lparr>r_world := w\<rparr>)"
  using assms
  by (auto intro!: ManagePullSecrets_world simp: syncImagePullSecrets_def split: prod.splits)

lemma applyCABundle_world:
  assumes "applyCABundle X rc obj pc mv c r = ok (mv', keep, c', r')"
  shows "applyCABundle X rc obj pc mv c (r\<lparr>r_world := w\<rparr>) = ok (mv', keep, c', r'\<lparr>r_world := w\<rparr>)"
  using assms
  by (auto intro!: ManageCaConfigMap_world simp: applyCABundle_def try_go_ok_iff split: option.splits prod.splits)

lemma build_manager_world:
  assumes "build_manager X rc obj pc ctx inputs r = ok (mgr, r')"
  shows "build_manager X rc obj pc ctx inputs (r\<lparr>r_world := w\<rparr>) = ok (mgr, r'\<lparr>r_world := w\<rparr>)"
proof -
  obtain tns mv hv where inputs: "inputs = (tns, mv, hv)" by (metis prod.exhaust)
  show ?thesis
  proof (rule build_manager_steps [OF assms [unfolded inputs]], goal_cases)
    case 1
    then show ?case
      unfolding inputs build_manager_unfold
      by (simp add: setupAuth_world [OF 1(1)] syncChartPullSecret_world [OF 1(2)] syncImagePullSecrets_world [OF 1(3)]
          applyCABundle_world [OF 1(4)] ManageFluxResources_world [OF 1(5)])
  qed
qed

text \<open>With an instance id, the inputs do not depend on the world either.\<close>

lemma prepareInputs_world:
  assumes "GetID obj \<noteq> []"
  shows "prepareInputs X obj pc w' = (fst (prepareInputs X obj pc w), obj, w')"
  using assms
  by (auto simp: prepareInputs_def ensureInstanceID_def split: sum.splits)

lemma createObjectManager_world:
  assumes "GetID obj \<noteq> []" "createObjectManager X rc obj pc ctx w = (ok (mgr, r), obj1, w1)"
  shows "createObjectManager X rc obj pc ctx w' = (ok (mgr, r\<lparr>r_world := w'\<rparr>), obj, w')"
proof (rule createObjectManager_parts [OF assms(2)])
  fix tns mv hv
  assume p: "prepareInputs X obj pc w = (Inr (tns, mv, hv), obj1, w1)"
    and b: "build_manager X rc obj1 pc ctx (tns, mv, hv) (new_run w1) = ok (mgr, r)"
  have "obj1 = obj" using prepareInputs_world [OF assms(1), of X pc w w] p by simp
  moreover have "prepareInputs X obj pc w' = (Inr (tns, mv, hv), obj, w')"
    using prepareInputs_world [OF assms(1), of X pc w' w] p by simp
  moreover have "(new_run w1)\<lparr>r_world := w'\<rparr> = new_run w'" by (simp add: new_run_def)
  ultimately show ?thesis
    using build_manager_world [OF b, of w'] by (simp add: createObjectManager_def)
qed

section \<open>Worlds only shrink\<close>

definition shrinks ::
    "('c \<Rightarrow> 'w \<Rightarrow> string \<Rightarrow> object_key \<Rightarrow> object option) \<Rightarrow> ('w \<Rightarrow> bool) \<Rightarrow> 'w \<Rightarrow> 'w \<Rightarrow> bool" where
  "shrinks view healthy w w' \<longleftrightarrow> (healthy w \<longrightarrow> healthy w' \<and>
     (\<forall>i kind k x. view i w' kind k = Some x \<longrightarrow> view i w kind k = Some x))"

lemma shrinks_refl [simp]: "shrinks view healthy w w"
  by (simp add: shrinks_def)

lemma shrinks_trans: "shrinks view healthy u v \<Longrightarrow> shrinks view healthy v w \<Longrightarrow> shrinks view healthy u w"
  by (simp add: shrinks_def)

lemma shrinksD:
  "shrinks view healthy w w' \<Longrightarrow> healthy w \<Longrightarrow> healthy w'"
  "shrinks view healthy w w' \<Longrightarrow> healthy w \<Longrightarrow> view i w' kind k = Some x \<Longrightarrow> view i w kind k = Some x"
  unfolding shrinks_def by blast+

text \<open>A call that leaves every store alone.\<close>

lemma shrinks_reads:
  "(\<And>j. view j w' = view j w) \<Longrightarrow> (healthy w \<Longrightarrow> healthy w') \<Longrightarrow> shrinks view healthy w w'"
  by (simp add: shrinks_def)

context prompt_listing_server
begin

lemma get_shrinks: "cl_get (cl i) k ob w = ((e, ob'), w') \<Longrightarrow> shrinks view healthy w w'"
  by (rule shrinks_reads, rule get_reads, assumption, rule get_healthy)

lemma delete_shrinks:
  assumes d: "cl_delete (cl i) ob w = (e, w')"
  shows "shrinks view healthy w w'"
  unfolding shrinks_def
proof (intro impI conjI allI)
  assume h: "healthy w"
  show "healthy w'" by (rule delete_healthy [OF d h])
  fix j kind k x assume x: "view j w' kind k = Some x"
  have "j \<noteq> i \<or> kind \<noteq> kind_of ob \<or> k \<noteq> object_key ob"
    using delete_prompt [OF d h] x by (metis option.distinct(1))
  with x delete_frame [OF d] show "view j w kind k = Some x" by metis
qed

lemma list_shrinks: "cl_list (cl i) kind ns sel w = (x, w') \<Longrightarrow> shrinks view healthy w w'"
  by (rule shrinks_reads, rule list_reads, assumption, rule list_healthy)

lemma refresh_shrinks:
  "c_client mc = cl i \<Longrightarrow> refresh m mc r = (e, r') \<Longrightarrow> shrinks view healthy (r_world r) (r_world r')"
  using get_shrinks by (fastforce simp: refresh_def Let_def split: prod.splits)

lemma dependent_errors_shrinks:
  "known_clusters cl (map d_Cluster deps) \<Longrightarrow> dependent_errors api deps errs r = (errs', r') \<Longrightarrow>
     shrinks view healthy (r_world r) (r_world r')"
proof (induction deps arbitrary: errs r)
  case Nil
  then show ?case by simp
next
  case (Cons d deps)
  obtain e r1 where ref: "refresh (d_Object d) (d_Cluster d) r = (e, r1)" by fastforce
  obtain i where "c_client (d_Cluster d) = cl i" using Cons.prems(1) by (auto simp: known_clusters_def)
  from refresh_shrinks [OF this ref] have one: "shrinks view healthy (r_world r) (r_world r1)" .
  have "known_clusters cl (map d_Cluster deps)" using Cons.prems(1) by (simp add: known_clusters_def)
  moreover obtain errs1 where "dependent_errors api deps errs1 r1 = (errs', r')"
    using Cons.prems(2) ref by (auto split: if_splits option.splits)
  ultimately show ?case using shrinks_trans [OF one] Cons.IH by blast
qed

lemma delete_object_shrinks:
  assumes mc: "c_client mc = cl i" and known: "known_clusters cl (map d_Cluster (deps (m_ref m)))"
    and del: "delete_object api deps mc m r = (res, r')"
  shows "shrinks view healthy (r_world r) (r_world r')"
proof -
  obtain errs r1 where de: "dependent_errors api (deps (m_ref m)) [] r = (errs, r1)" by fastforce
  then have chk: "checkForDependents api (deps (m_ref m)) r = (errors_join (map Some errs), r1)"
    by (simp add: checkForDependents_def)
  note one = dependent_errors_shrinks [OF known de]
  show ?thesis
    by (rule delete_object_cases [OF del chk])
       (use one delete_shrinks mc in \<open>auto intro: shrinks_trans [OF one]\<close>)
qed

lemma delete_loop_shrinks:
  assumes known: "known_clusters cl clusters"
    and run: "map_prog (\<lambda>(mc, m). reconcileObject api (getDependents clusters) True mc m)
        (managed_pairs clusters) r = (y, r')"
  shows "shrinks view healthy (r_world r) (r_world r')"
proof (rule map_prog_invariant [where I = "\<lambda>s. shrinks view healthy (r_world r) (r_world s)", OF _ _ run])
  fix p s res s'
  assume mem: "p \<in> set (managed_pairs clusters)" and I: "shrinks view healthy (r_world r) (r_world s)"
    and step: "(case p of (mc, m) \<Rightarrow> reconcileObject api (getDependents clusters) True mc m) s = (res, s')"
  obtain mc m where p: "p = (mc, m)" by fastforce
  with mem known obtain i where "c_client mc = cl i"
    by (auto simp: known_clusters_def list_all_iff in_managed_pairs)
  moreover obtain x where "delete_object api (getDependents clusters) mc m s = (x, s')"
    using step p by (auto simp: reconcileObject_def split: prod.splits)
  ultimately have "shrinks view healthy (r_world s) (r_world s')"
    by (rule delete_object_shrinks [where deps = "getDependents clusters", OF _ known_dependents [OF known]])
  then show "shrinks view healthy (r_world r) (r_world s')" by (rule shrinks_trans [OF I])
qed simp

lemma delete_each_shrinks:
  "delete_each (cl i) objs w = (ds, w') \<Longrightarrow> shrinks view healthy w w'"
proof (induction objs arbitrary: w ds)
  case Nil
  then show ?case by simp
next
  case (Cons obj objs)
  obtain e w1 where d: "cl_delete (cl i) obj w = (e, w1)" by fastforce
  obtain rest where "delete_each (cl i) objs w1 = (rest, w')"
    using Cons.prems d by (auto split: prod.splits)
  with shrinks_trans [OF delete_shrinks [OF d]] Cons.IH show ?case by blast
qed

end

section \<open>Cleaners that find nothing the second time\<close>

text \<open>
  A cleaner sweeps when it succeeds on a healthy world, leaves a clean one behind, finds
  nothing in a clean one, and when a clean world that shrinks stays clean.
\<close>

definition sweeps ::
    "('c \<Rightarrow> 'w \<Rightarrow> string \<Rightarrow> object_key \<Rightarrow> object option) \<Rightarrow> ('w \<Rightarrow> bool) \<Rightarrow> 'w cleaner \<Rightarrow> ('w \<Rightarrow> bool) \<Rightarrow> bool"
where
  "sweeps view healthy c clean \<longleftrightarrow>
     (\<forall>r x r'. c r = (x, r') \<longrightarrow> healthy (r_world r) \<longrightarrow>
        (\<exists>rs. x = Inr rs \<and> shrinks view healthy (r_world r) (r_world r') \<and> clean (r_world r') \<and>
           (clean (r_world r) \<longrightarrow> rs = []))) \<and>
     (\<forall>w w'. healthy w \<longrightarrow> shrinks view healthy w w' \<longrightarrow> clean w \<longrightarrow> clean w')"

lemma list_all2_right: "list_all2 P xs ys \<Longrightarrow> y \<in> set ys \<Longrightarrow> \<exists>x \<in> set xs. P x y"
  by (induction rule: list_all2_induct) auto

text \<open>What the cleaners have swept stays clean in a world that shrinks.\<close>

lemma swept_stays:
  assumes "list_all2 (sweeps view healthy) cs cleans" "clean \<in> set cleans"
    and "healthy w" "shrinks view healthy w w'" "clean w"
  shows "clean w'"
proof -
  from list_all2_right [OF assms(1,2)] obtain c where "sweeps view healthy c clean" ..
  then have "\<forall>w w'. healthy w \<longrightarrow> shrinks view healthy w w' \<longrightarrow> clean w \<longrightarrow> clean w'"
    unfolding sweeps_def by (rule conjunct2)
  with assms(3-5) show ?thesis by blast
qed

lemma run_cleaners_sweep:
  assumes "list_all2 (sweeps view healthy) cs cleans" "run_cleaners cs results r = (y, r')" "healthy (r_world r)"
  shows "\<exists>extra. y = (results @ extra, None) \<and> shrinks view healthy (r_world r) (r_world r') \<and>
    (\<forall>clean \<in> set cleans. clean (r_world r')) \<and>
    ((\<forall>clean \<in> set cleans. clean (r_world r)) \<longrightarrow> extra = [])"
  using assms
proof (induction cs cleans arbitrary: results r rule: list_all2_induct)
  case Nil
  then show ?case by simp
next
  case (Cons c cs clean cleans)
  obtain x r1 where c: "c r = (x, r1)" by fastforce
  from Cons.hyps(1) c Cons.prems(2) obtain rs where x: "x = Inr rs"
    and sh: "shrinks view healthy (r_world r) (r_world r1)" and cl: "clean (r_world r1)"
    and none: "clean (r_world r) \<longrightarrow> rs = []"
    unfolding sweeps_def by blast
  have h1: "healthy (r_world r1)" by (rule shrinksD(1) [OF sh Cons.prems(2)])
  from Cons.prems(1) c x have "run_cleaners cs (results @ rs) r1 = (y, r')" by simp
  from Cons.IH [OF this h1] obtain extra where y: "y = ((results @ rs) @ extra, None)"
    and sh': "shrinks view healthy (r_world r1) (r_world r')"
    and cls: "\<forall>clean \<in> set cleans. clean (r_world r')"
    and none': "(\<forall>clean \<in> set cleans. clean (r_world r1)) \<longrightarrow> extra = []"
    by blast
  have all: "list_all2 (sweeps view healthy) (c # cs) (clean # cleans)" using Cons.hyps by simp
  have "clean (r_world r')" 
    using swept_stays [of view healthy "c # cs" "clean # cleans" clean "r_world r1" "r_world r'"] all h1 sh' cl
    by simp
  moreover have "k (r_world r1)" if "k \<in> set cleans" "k (r_world r)" for k
    using swept_stays [of view healthy "c # cs" "clean # cleans" k "r_world r" "r_world r1"]
      all Cons.prems(2) sh that
    by simp
  ultimately show ?case
    using y cls none none' shrinks_trans [OF sh sh'] by (intro exI [of _ "rs @ extra"]) auto
qed

text \<open>No object of a name space carries the label without a reason to be kept.\<close>

definition no_orphans ::
    "('c \<Rightarrow> 'w \<Rightarrow> string \<Rightarrow> object_key \<Rightarrow> object option) \<Rightarrow> 'c \<Rightarrow> string \<Rightarrow> string \<Rightarrow> string list \<Rightarrow> 'w \<Rightarrow> bool"
where
  "no_orphans view i kind ns keep w \<longleftrightarrow>
     (\<forall>n x. view i w kind (ns, n) = Some x \<longrightarrow> is_managed x \<longrightarrow> n \<in> set keep)"

context prompt_listing_server
begin

lemma hookless_sweeps:
  assumes cluster: "c_client cluster = cl i" and ns: "ns \<noteq> []"
  shows "sweeps view healthy (hookless_cleanup api f err cluster kind ns keep) (no_orphans view i kind ns keep)"
  unfolding sweeps_def
proof (intro conjI allI impI)
  fix r x r'
  assume h: "hookless_cleanup api f err cluster kind ns keep r = (x, r')" and hr: "healthy (r_world r)"
  show "\<exists>rs. x = Inr rs \<and> shrinks view healthy (r_world r) (r_world r') \<and>
      no_orphans view i kind ns keep (r_world r') \<and> (no_orphans view i kind ns keep (r_world r) \<longrightarrow> rs = [])"
  proof (rule hookless_cleanup_parts [OF h])
    fix e w assume "cl_list (c_client cluster) kind ns ManagedBy (r_world r) = (Inl e, w)"
    then show ?thesis using list_answers [of i] cluster hr by fastforce
  next
    fix objs w deleted w' results
    assume l: "cl_list (c_client cluster) kind ns ManagedBy (r_world r) = (Inr objs, w)"
      and d: "delete_each (c_client cluster) (filter (\<lambda>x. \<not> to_keep keep x) objs) w = (deleted, w')"
      and fr: "failed_results f cluster (filter (\<lambda>(x, e). IgnoreNotFound api e \<noteq> None) deleted)
         (r\<lparr>r_world := w'\<rparr>) = (results, r')"
      and x: "x = Inr results" and w': "r_world r' = w'"
    have l': "cl_list (cl i) kind ns ManagedBy (r_world r) = (Inr objs, w)" using l cluster by simp
    have sh: "shrinks view healthy (r_world r) (r_world r')"
      using shrinks_trans [OF list_shrinks [OF l'], of w'] delete_each_shrinks [of i] d w' cluster by simp
    have "n \<in> set keep" if "view i (r_world r') kind (ns, n) = Some y" "is_managed y" for n y
      by (rule hookless_complete(2) [OF h [unfolded x] cluster ns hr that])
    then have clean: "no_orphans view i kind ns keep (r_world r')" by (simp add: no_orphans_def)
    have "results = []" if no: "no_orphans view i kind ns keep (r_world r)"
    proof -
      have "to_keep keep ob" if "ob \<in> set objs" for ob
      proof -
        from list_sound [OF l' that ns] have "view i (r_world r) kind (ns, o_Name ob) = Some ob" "is_managed ob"
          by (auto simp: is_managed_def object_key_def)
        with no show ?thesis unfolding no_orphans_def to_keep_iff by blast
      qed
      then have "filter (\<lambda>x. \<not> to_keep keep x) objs = []" by (simp add: filter_empty_conv)
      with d fr show ?thesis by simp
    qed
    with x sh clean show ?thesis by simp
  qed
next
  fix w w' assume "healthy w" "shrinks view healthy w w'" "no_orphans view i kind ns keep w"
  then show "no_orphans view i kind ns keep w'"
    unfolding no_orphans_def using shrinksD(2) by metis
qed

end

lemma shape_sweeps:
  assumes server: "prompt_listing_server (out_api X) cl view healthy" and known: "known_clients cl rc ctx"
    and shape: "has_shape s X rc obj ctx tns r mgr r'" and tns: "tns \<noteq> []"
  obtains cleans where "list_all2 (sweeps view healthy) (mgr_cleaners mgr) cleans"
proof -
  from shape obtain platform workload cas secrets charts where
    c: "mgr_cleaners mgr = [configMap_Cleanup (out_api X)
                   (NewConfigMapCleaner workload (Instance_Namespace obj) cas),
                 secret_Cleanup (out_api X) (NewSecretCleaner workload (Instance_Namespace obj) secrets),
                 secret_Cleanup (out_api X) (NewSecretCleaner platform tns charts)]"
    and cl: "c_client platform = rec_PlatformClient rc" "c_client workload = ctx_WorkloadClient ctx"
    unfolding has_shape_def by auto
  from known obtain i j where "rec_PlatformClient rc = cl i" "ctx_WorkloadClient ctx = cl j"
    by (auto simp: known_clients_def)
  with cl have ij: "c_client platform = cl i" "c_client workload = cl j" by simp_all
  have ins: "Instance_Namespace obj \<noteq> []" by (simp add: Instance_Namespace_def)
  note sweep = prompt_listing_server.hookless_sweeps [OF server]
  show thesis
    by (rule that [of "[no_orphans view j ''ConfigMap'' (Instance_Namespace obj) cas,
          no_orphans view j ''Secret'' (Instance_Namespace obj) secrets, no_orphans view i ''Secret'' tns charts]"])
       (use sweep [OF ij(1) tns] sweep [OF ij(2) ins] in
         \<open>simp add: c configMap_Cleanup_hookless secret_Cleanup_hookless NewConfigMapCleaner_def NewSecretCleaner_def\<close>)
qed

section \<open>The rounds\<close>

text \<open>\<open>n\<close> calls of the delete handler for the same request; the world they leave.\<close>

fun delete_calls ::
    "'w outside \<Rightarrow> 'w reconciler \<Rightarrow> metrics_operator \<Rightarrow> provider_config \<Rightarrow> 'w cluster_context \<Rightarrow> nat \<Rightarrow> 'w \<Rightarrow> 'w"
where
  "delete_calls X rc obj pc ctx 0 w = w"
| "delete_calls X rc obj pc ctx (Suc n) w =
     snd (snd (Delete_handler X rc obj pc ctx (delete_calls X rc obj pc ctx n w)))"

text \<open>A call is a pass of the manager.\<close>

lemma Delete_handler_pass:
  assumes "api_server (out_api X) cl view" "mutators (out_api X)" "known_clients cl rc ctx"
    "GetID (lib_StatusTerminating (out_lib X) obj) \<noteq> []"
    "createObjectManager X rc (lib_StatusTerminating (out_lib X) obj) pc ctx w0 = (ok (mgr, r), obj1, w1)"
    "BlockingKinds (out_api X) (ctx_MCPClient ctx) w = (Inr [], w)"
  obtains results err r' where "Delete_all (out_api X) mgr (r\<lparr>r_world := w\<rparr>) = (Ret (results, err), r')"
    "snd (snd (Delete_handler X rc obj pc ctx w)) = r_world r'"
    "AllDeleted results \<Longrightarrow> fst (Delete_handler X rc obj pc ctx w) = Ret (0, None)"
proof -
  let ?obj = "lib_StatusTerminating (out_lib X) obj"
  note c = createObjectManager_world [OF assms(4,5), of w]
  obtain results err r' rs where run: "Delete_all (out_api X) mgr (r\<lparr>r_world := w\<rparr>) = (Ret (results, err), r')"
    and shown: "resultsToResources results r' = Ret (rs, \<exists>res \<in> set results. res_Error res \<noteq> None)"
    using request_pass_returns [OF assms(1-3) c, of True] unfolding Delete_all_def by blast
  show thesis
    by (rule that [OF run])
       (use assms(6) c run shown in \<open>auto simp: Delete_handler_def Let_def split: prod.splits\<close>)
qed

text \<open>A pass leaves a clean world, and on a clean one only the objects have results.\<close>

lemma clean_pass:
  assumes server: "prompt_listing_server api cl view healthy" and known: "known_clusters cl (mgr_clusters mgr)"
    and sweep: "list_all2 (sweeps view healthy) (mgr_cleaners mgr) cleans" and h: "healthy (r_world r)"
    and run: "Delete_all api mgr r = (Ret (results, err), r')"
  shows "err = None \<and> (\<forall>clean \<in> set cleans. clean (r_world r')) \<and>
    ((\<forall>clean \<in> set cleans. clean (r_world r)) \<longrightarrow> length results = length (managed_pairs (mgr_clusters mgr)))"
proof -
  let ?cs = "mgr_clusters mgr"
  from run obtain rs r1 where
    loop: "map_prog (\<lambda>(mc, m). reconcileObject api (getDependents ?cs) True mc m) (managed_pairs ?cs) r = (Ret rs, r1)"
    and clean: "run_cleaners (mgr_cleaners mgr) rs r1 = ((results, err), r')"
    unfolding Delete_all_def by (rule reconcileObjects_parts)
  have sh: "shrinks view healthy (r_world r) (r_world r1)"
    by (rule prompt_listing_server.delete_loop_shrinks [OF server known loop])
  have h1: "healthy (r_world r1)" by (rule shrinksD(1) [OF sh h])
  from run_cleaners_sweep [OF sweep clean h1] obtain extra where out: "results = rs @ extra" "err = None"
    and after: "\<forall>clean \<in> set cleans. clean (r_world r')"
    and none: "(\<forall>clean \<in> set cleans. clean (r_world r1)) \<longrightarrow> extra = []"
    by blast
  have "clean (r_world r1)" if "clean \<in> set cleans" "clean (r_world r)" for clean
    using swept_stays [of view healthy "mgr_cleaners mgr" cleans clean "r_world r" "r_world r1"] sweep h sh that
    by simp
  with out after none map_prog_length [OF loop] show ?thesis by auto
qed

lemma delete_calls_level:
  assumes server: "prompt_listing_server (out_api X) cl view healthy" and mut: "mutators (out_api X)"
    and known: "known_clients cl rc ctx" and id: "GetID (lib_StatusTerminating (out_lib X) obj) \<noteq> []"
    and make: "createObjectManager X rc (lib_StatusTerminating (out_lib X) obj) pc ctx w0 = (ok (mgr, r), obj1, w1)"
    and shape: "has_shape s X rc obj1 ctx tns (new_run w1) mgr r"
    and sweep: "list_all2 (sweeps view healthy) (mgr_cleaners mgr) cleans"
    and free: "\<forall>w. healthy w \<longrightarrow> BlockingKinds (out_api X) (ctx_MCPClient ctx) w = (Inr [], w)" and h: "healthy w"
  shows "healthy (delete_calls X rc obj pc ctx n w) \<and>
    gone_below cl view (shape_level s) (mgr_clusters mgr) n (r\<lparr>r_world := delete_calls X rc obj pc ctx n w\<rparr>) \<and>
    (0 < n \<longrightarrow> (\<forall>clean \<in> set cleans. clean (delete_calls X rc obj pc ctx n w)))"
proof (induction n)
  case 0
  then show ?case using h by (simp add: gone_below_def)
next
  case (Suc n)
  let ?cs = "mgr_clusters mgr" and ?w = "delete_calls X rc obj pc ctx n w"
  have listing: "listing_server (out_api X) cl view" and prompt: "prompt_server (out_api X) cl view healthy"
    using server by (simp_all add: prompt_listing_server_def)
  have as: "api_server (out_api X) cl view" using prompt by (simp add: prompt_server_def)
  note clusters = shape_known [OF shape known] and lev = shape_levelled [OF shape]
  have refs: "refs_below (r_next (r\<lparr>r_world := ?w\<rparr>)) ?cs" using shape_refs(1) [OF shape] by simp
  have cleaners: "\<forall>c \<in> set (mgr_cleaners mgr). orphan_cleaner_on_server (out_api X) cl view c \<and> cleaner_keeps healthy c"
    using shape_cleaners [OF shape known listing] shape_cleaners_keep [OF shape known server] by blast
  have hw: "healthy (r_world (r\<lparr>r_world := ?w\<rparr>))"
    and below: "gone_below cl view (shape_level s) ?cs n (r\<lparr>r_world := ?w\<rparr>)"
    using Suc by simp_all
  have "healthy ?w" using Suc by blast
  then have block: "BlockingKinds (out_api X) (ctx_MCPClient ctx) ?w = (Inr [], ?w)" using free by blast
  obtain results err r' where run: "Delete_all (out_api X) mgr (r\<lparr>r_world := ?w\<rparr>) = (Ret (results, err), r')"
    and world: "snd (snd (Delete_handler X rc obj pc ctx ?w)) = r_world r'"
    using Delete_handler_pass [OF as mut known id make block] by blast
  note clean = clean_pass [OF server clusters sweep hw run]
  show ?case
  proof (rule delete_pass_level [OF prompt clusters refs lev cleaners hw below run])
    assume h': "healthy (r_world r')" and below': "gone_below cl view (shape_level s) ?cs (Suc n) r'"
      and same: "\<forall>(mc, m) \<in> set (managed_pairs ?cs).
        kind_of (GetObject r' m) = kind_of (GetObject (r\<lparr>r_world := ?w\<rparr>) m) \<and>
        object_key (GetObject r' m) = object_key (GetObject (r\<lparr>r_world := ?w\<rparr>) m)"
    have "gone_below cl view (shape_level s) ?cs (Suc n) (r\<lparr>r_world := r_world r'\<rparr>)"
      by (rule gone_below_later [OF below']) (use same in \<open>auto simp: gone_def GetObject_def\<close>)
    moreover have "delete_calls X rc obj pc ctx (Suc n) w = r_world r'" using world by simp
    ultimately show ?thesis using h' clean by (simp only:) blast
  qed
qed

text \<open>The fourth call finds everything gone and says so.\<close>

lemma fourth_call_is_done:
  assumes server: "prompt_listing_server (out_api X) cl view healthy" and mut: "mutators (out_api X)"
    and known: "known_clients cl rc ctx" and id: "GetID (lib_StatusTerminating (out_lib X) obj) \<noteq> []"
    and make: "createObjectManager X rc (lib_StatusTerminating (out_lib X) obj) pc ctx w0 = (ok (mgr, r), obj1, w1)"
    and shape: "has_shape s X rc obj1 ctx tns (new_run w1) mgr r" and tns: "tns \<noteq> []"
    and free: "\<forall>w. healthy w \<longrightarrow> BlockingKinds (out_api X) (ctx_MCPClient ctx) w = (Inr [], w)" and h: "healthy w"
  shows "fst (Delete_handler X rc obj pc ctx (delete_calls X rc obj pc ctx 3 w)) = Ret (0, None)"
proof -
  let ?cs = "mgr_clusters mgr" and ?w = "delete_calls X rc obj pc ctx 3 w"
  have listing: "listing_server (out_api X) cl view" and prompt: "prompt_server (out_api X) cl view healthy"
    using server by (simp_all add: prompt_listing_server_def)
  have as: "api_server (out_api X) cl view" using prompt by (simp add: prompt_server_def)
  obtain cleans where sweep: "list_all2 (sweeps view healthy) (mgr_cleaners mgr) cleans"
    by (rule shape_sweeps [OF server known shape tns])
  note level = delete_calls_level [OF server mut known id make shape sweep free h, of 3]
  have hw: "healthy (r_world (r\<lparr>r_world := ?w\<rparr>))"
    and below: "gone_below cl view (shape_level s) ?cs 3 (r\<lparr>r_world := ?w\<rparr>)"
    using level by simp_all
  have clean: "\<forall>clean \<in> set cleans. clean (r_world (r\<lparr>r_world := ?w\<rparr>))"
    using level by (metis run.select_convs(1) run.surjective run.update_convs(1) zero_less_numeral)
  have refs: "refs_below (r_next (r\<lparr>r_world := ?w\<rparr>)) ?cs" using shape_refs(1) [OF shape] by simp
  have cleaners: "\<forall>c \<in> set (mgr_cleaners mgr). orphan_cleaner_on_server (out_api X) cl view c \<and> cleaner_keeps healthy c"
    using shape_cleaners [OF shape known listing] shape_cleaners_keep [OF shape known server] by blast
  have "healthy ?w" using level by blast
  then have block: "BlockingKinds (out_api X) (ctx_MCPClient ctx) ?w = (Inr [], ?w)" using free by blast
  obtain results err r' where run: "Delete_all (out_api X) mgr (r\<lparr>r_world := ?w\<rparr>) = (Ret (results, err), r')"
    and fst_call: "AllDeleted results \<Longrightarrow> fst (Delete_handler X rc obj pc ctx ?w) = Ret (0, None)"
    using Delete_handler_pass [OF as mut known id make block] by blast
  have len: "length results = length (managed_pairs ?cs)"
    using clean_pass [OF server shape_known [OF shape known] sweep hw run] clean by simp
  have low: "\<forall>(mc, m) \<in> set (managed_pairs ?cs). shape_level s (m_ref m) < 3" by (auto simp: shape_level_def)
  have "AllDeleted results"
  proof (rule delete_pass_level [OF prompt shape_known [OF shape known] refs shape_levelled [OF shape] cleaners hw below run])
    fix rs extra
    assume "results = rs @ extra" "length rs = length (managed_pairs ?cs)"
      and "\<forall>(mc, m) \<in> set (managed_pairs ?cs). shape_level s (m_ref m) < 3 \<Longrightarrow>
        \<forall>res \<in> set rs. res_OperationResult res = OperationResultDeleted \<and> res_Error res = None"
    with len low show ?thesis by (simp add: AllDeleted_def list_all_iff)
  qed
  then show ?thesis by (rule fst_call)
qed

end
