(* ===== verification/Inventory.thy ===== *)
theory Inventory
  imports Deletion_Rounds
begin

text \<open>
  What a request installs, as a table: for each cluster the objects the controller's manager
  holds, with their reconcile functions, computed from the inputs of the request alone; and
  that the manager the controller builds step by step is exactly this table.
\<close>

section \<open>Entries of a cluster\<close>

text \<open>An entry is the object as it is made, with its reconcile function.\<close>

type_synonym 'w entry = "object \<times> 'w reconcile_func option"

definition cluster_entries :: "'w run \<Rightarrow> 'w managed_cluster \<Rightarrow> 'w entry list" where
  "cluster_entries r c = map (\<lambda>m. (GetObject r m, m_reconcileFunc m)) (c_objects c)"

definition below :: "'w run \<Rightarrow> 'w managed_cluster \<Rightarrow> bool" where
  "below r c \<longleftrightarrow> (\<forall>m \<in> set (c_objects c). m_ref m < r_next r)"

definition same_cluster :: "'w managed_cluster \<Rightarrow> 'w managed_cluster \<Rightarrow> bool" where
  "same_cluster c c' \<longleftrightarrow> c_client c' = c_client c \<and> c_cfg c' = c_cfg c \<and>
     c_defaultNamespace c' = c_defaultNamespace c \<and> c_clusterType c' = c_clusterType c"

text \<open>
  A step of building leaves the entries of other clusters alone; a step on a cluster adds
  entries to it.
\<close>

definition leaves :: "'w run \<Rightarrow> 'w run \<Rightarrow> 'w managed_cluster \<Rightarrow> bool" where
  "leaves r r' d \<longleftrightarrow> (below r d \<longrightarrow> below r' d \<and> cluster_entries r' d = cluster_entries r d)"

definition extends :: "'w run \<Rightarrow> 'w managed_cluster \<Rightarrow> 'w entry list \<Rightarrow> 'w run \<Rightarrow> 'w managed_cluster \<Rightarrow> bool" where
  "extends r c es r' c' \<longleftrightarrow> same_cluster c c' \<and>
     (below r c \<longrightarrow> below r' c' \<and> cluster_entries r' c' = cluster_entries r c @ es)"

lemma same_cluster_refl [simp]: "same_cluster c c"
  by (simp add: same_cluster_def)

lemma extends_refl [simp]: "extends r c [] r c"
  by (simp add: extends_def)

lemma leaves_refl [simp]: "leaves r r d"
  by (simp add: leaves_def)

lemma extends_trans: "extends r c es s d \<Longrightarrow> extends s d fs t e \<Longrightarrow> extends r c (es @ fs) t e"
  by (auto simp: extends_def same_cluster_def)

lemma leaves_trans: "leaves r s d \<Longrightarrow> leaves s t d \<Longrightarrow> leaves r t d"
  by (simp add: leaves_def)

lemma extends_later: "extends r c es s d \<Longrightarrow> leaves s t d \<Longrightarrow> extends r c es t d"
  by (simp add: extends_def leaves_def)

lemma extends_before: "leaves r s c \<Longrightarrow> extends s c es t d \<Longrightarrow> extends r c es t d"
  by (simp add: extends_def leaves_def)

lemma new_leaves: "NewManagedObject ob moc r = (m, r') \<Longrightarrow> leaves r r' d"
  by (auto simp: NewManagedObject_def Let_def leaves_def below_def cluster_entries_def GetObject_def)

lemma new_extends:
  "NewManagedObject ob moc r = (m, r') \<Longrightarrow> extends r c [(ob, moc_ReconcileFunc moc)] r' (AddObject m c)"
  by (auto simp: NewManagedObject_def Let_def extends_def same_cluster_def below_def cluster_entries_def GetObject_def)

section \<open>The entries of each step\<close>

definition copies :: "'w kube_api \<Rightarrow> string list \<Rightarrow> 'w secret_copy_config \<Rightarrow> 'w entry list" where
  "copies api pulls cfg = map (\<lambda>pull.
     (new_object (copy_name pull (scc_TargetName cfg)) (scc_TargetNamespace cfg) (Secret None []),
      Some (pull_secret_reconcile api pull cfg))) pulls"

lemma ManagePullSecrets_extends:
  "ManagePullSecrets api pulls cfg c r = (c', r') \<Longrightarrow> extends r c (copies api pulls cfg) r' c' \<and> leaves r r' d"
proof (induction pulls arbitrary: c r)
  case Nil
  then show ?case by (simp add: copies_def)
next
  case (Cons pull pulls)
  let ?ob = "new_object (copy_name pull (scc_TargetName cfg)) (scc_TargetNamespace cfg) (Secret None [])"
  let ?moc = "\<lparr>moc_ReconcileFunc = Some (pull_secret_reconcile api pull cfg), moc_DependsOn = [],
             moc_DeletionPolicy = PolicyUnset, moc_StatusFunc = Some SecretStatus\<rparr>"
  obtain m r1 where new: "NewManagedObject ?ob ?moc r = (m, r1)" by fastforce
  with Cons.prems have "ManagePullSecrets api pulls cfg (AddObject m c) r1 = (c', r')" by simp
  from Cons.IH [OF this] extends_trans [OF new_extends [OF new, of c]] leaves_trans [OF new_leaves [OF new]]
  show ?case by (fastforce simp: copies_def)
qed

definition ca_entry :: "'w kube_api \<Rightarrow> string \<Rightarrow> 'w config_map_copy_config \<Rightarrow> 'w entry" where
  "ca_entry api caName cfg =
     (new_object (ca_config_map_name caName cfg) (ccc_TargetNamespace cfg) (ConfigMap None),
      Some (ca_config_map_reconcile api caName cfg))"

lemma ManageCaConfigMap_extends:
  "ManageCaConfigMap api caName cfg c r = (c', r') \<Longrightarrow> extends r c [ca_entry api caName cfg] r' c' \<and> leaves r r' d"
  using new_extends new_leaves
  by (fastforce simp: ManageCaConfigMap_def ca_entry_def split: prod.splits)

definition workload_access ::
    "'w os_env \<Rightarrow> managed_service_account \<Rightarrow> 'w managed_cluster \<Rightarrow> 'w managed_cluster \<Rightarrow> int \<Rightarrow> 'w entry list" where
  "workload_access env msa wc cp poll =
     [(new_object (c_defaultNamespace wc) [] Namespace, Some NoOp),
      (new_object (KubeAPIAccess msa) (c_defaultNamespace wc) (Secret None []),
       Some (token_reconcile env cp msa poll))]"

definition account_entries :: "managed_service_account \<Rightarrow> 'w entry list" where
  "account_entries msa =
     [(new_object (msa_Namespace msa) [] Namespace, Some NoOp),
      (new_object (msa_Name msa) (msa_Namespace msa) ServiceAccount, Some NoOp)]"

definition role_entry :: "managed_service_account \<Rightarrow> 'w entry" where
  "role_entry msa = (new_object clusterRoleBindingName [] (ClusterRoleBinding [] None),
     Some (role_binding_reconcile msa))"

lemma Authn_Configure_extends:
  assumes "Authn_Configure env msa wc cp poll r = (wc', cp', r')"
  shows "extends r wc (workload_access env msa wc cp poll) r' wc'" "extends r cp (account_entries msa) r' cp'"
    "leaves r r' d"
proof -
  obtain ns r1 where 1: "NewManagedObject (new_object (msa_Namespace msa) [] Namespace)
      (simple_context NoOp []) r = (ns, r1)" by fastforce
  obtain sa r2 where 2: "NewManagedObject (new_object (msa_Name msa) (msa_Namespace msa) ServiceAccount)
      (simple_context NoOp [m_ref ns]) r1 = (sa, r2)" by fastforce
  obtain wcns r3 where 3: "NewManagedObject (new_object (c_defaultNamespace wc) [] Namespace)
      (simple_context NoOp []) r2 = (wcns, r3)" by fastforce
  obtain tok r4 where 4: "NewManagedObject
      (new_object (KubeAPIAccess msa) (c_defaultNamespace wc) (Secret None []))
      (simple_context (token_reconcile env cp msa poll) [m_ref sa]) r3 = (tok, r4)" by fastforce
  have eq: "wc' = AddObject tok (AddObject wcns wc)" "cp' = AddObject sa (AddObject ns cp)" "r' = r4"
    using assms 1 2 3 4 by (simp_all add: Authn_Configure_def)
  note l1 = new_leaves [OF 1] and l2 = new_leaves [OF 2] and l3 = new_leaves [OF 3] and l4 = new_leaves [OF 4]
  have "extends r wc ([(new_object (c_defaultNamespace wc) [] Namespace, Some NoOp)] @
      [(new_object (KubeAPIAccess msa) (c_defaultNamespace wc) (Secret None []),
       Some (token_reconcile env cp msa poll))]) r4 wc'"
    unfolding eq
    using extends_trans [OF extends_before [OF leaves_trans [OF l1 l2] new_extends [OF 3]] new_extends [OF 4]]
    by (simp add: simple_context_def)
  then show "extends r wc (workload_access env msa wc cp poll) r' wc'" by (simp add: workload_access_def eq)
  have "extends r cp ([(new_object (msa_Namespace msa) [] Namespace, Some NoOp)] @
      [(new_object (msa_Name msa) (msa_Namespace msa) ServiceAccount, Some NoOp)]) r4 cp'"
    unfolding eq
    using extends_later [OF extends_trans [OF new_extends [OF 1] new_extends [OF 2]] leaves_trans [OF l3 l4]]
    by (simp add: simple_context_def)
  then show "extends r cp (account_entries msa) r' cp'" by (simp add: account_entries_def eq)
  show "leaves r r' d" unfolding eq by (rule leaves_trans [OF leaves_trans [OF l1 l2] leaves_trans [OF l3 l4]])
qed

lemma Authz_Configure_extends:
  "Authz_Configure c msa r = (c', r') \<Longrightarrow> extends r c [role_entry msa] r' c' \<and> leaves r r' d"
  using new_extends new_leaves
  by (fastforce simp: Authz_Configure_def role_entry_def simple_context_def split: prod.splits)

definition flux_entries :: "flux_params \<Rightarrow> string \<Rightarrow> 'w entry list" where
  "flux_entries p ns =
     [(new_object OCIRepositoryName ns (OCIRepository None []), Some (oci_reconcile p)),
      (new_object HelmReleaseName ns (HelmRelease None []), Some (helm_release_reconcile p ns))]"

lemma ManageFluxResources_extends:
  assumes "ManageFluxResources api p c r = (c', r')"
  shows "extends r c (flux_entries p (c_defaultNamespace c)) r' c' \<and> leaves r r' d"
proof -
  let ?ns = "c_defaultNamespace c"
  obtain oci r1 where 1: "NewManagedObject (new_object OCIRepositoryName ?ns (OCIRepository None []))
      (flux_context api (oci_reconcile p) []) r = (oci, r1)" by fastforce
  obtain hr r2 where 2: "NewManagedObject (new_object HelmReleaseName ?ns (HelmRelease None []))
      (flux_context api (helm_release_reconcile p ?ns) [m_ref oci]) r1 = (hr, r2)" by fastforce
  have eq: "c' = AddObject hr (AddObject oci c)" "r' = r2"
    using assms 1 2 by (simp_all add: ManageFluxResources_def)
  show ?thesis
    using extends_trans [OF new_extends [OF 1, of c] new_extends [OF 2]]
      leaves_trans [OF new_leaves [OF 1] new_leaves [OF 2]]
    by (simp add: eq flux_entries_def flux_context_def)
qed

section \<open>The table of a request\<close>

definition chart_config ::
    "'w reconciler \<Rightarrow> string \<Rightarrow> string \<Rightarrow> 'w secret_copy_config" where
  "chart_config rc tns name = \<lparr>scc_SourceClient = rec_PlatformClient rc, scc_SourceNamespace = rec_PodNamespace rc,
     scc_TargetNamespace = tns, scc_TargetName = name\<rparr>"

definition image_config :: "'w reconciler \<Rightarrow> string \<Rightarrow> 'w secret_copy_config" where
  "image_config rc ins = \<lparr>scc_SourceClient = rec_PlatformClient rc, scc_SourceNamespace = rec_PodNamespace rc,
     scc_TargetNamespace = ins, scc_TargetName = []\<rparr>"

definition ca_config :: "'w reconciler \<Rightarrow> string \<Rightarrow> 'w config_map_copy_config" where
  "ca_config rc ins = \<lparr>ccc_SourceClient = rec_PlatformClient rc, ccc_SourceNamespace = rec_PodNamespace rc,
     ccc_TargetNamespace = ins, ccc_TargetName = CustomCABundleConfigMapName\<rparr>"

definition operator_account :: "string \<Rightarrow> managed_service_account" where
  "operator_account mns = \<lparr>msa_Name = ''metrics-operator-server'', msa_Namespace = mns\<rparr>"

text \<open>The name of the copy of the chart's pull secret; the values with all rewrites.\<close>

definition chart_secret_name :: "'w outside \<Rightarrow> string \<Rightarrow> gerr + string" where
  "chart_secret_name X cps =
     (if cps = [] then Inr [] else PrefixSecretName (lib_ShortenToXCharacters (out_lib X)) cps)"

definition rewritten_values ::
    "'w outside \<Rightarrow> provider_config \<Rightarrow> 'w cluster_context \<Rightarrow> string \<Rightarrow> raw option \<Rightarrow> raw fallible" where
  "rewritten_values X pc ctx mns values =
     try_go id (AddAuthToHelmValues (out_codecs X) values (new_control_plane ctx) (KubeAPIAccess (operator_account mns)))
       (\<lambda>v1. try_go id (AddDefaultHelmValues (out_codecs X) (Some v1) mns)
         (\<lambda>v2. case pc_CABundleRef pc of
            None \<Rightarrow> ok v2
          | Some ref \<Rightarrow> AddCAHelmValues (out_codecs X) (Some v2) (Some ref)))"

definition platform_table ::
    "'w outside \<Rightarrow> 'w reconciler \<Rightarrow> string \<Rightarrow> string \<Rightarrow> string \<Rightarrow> flux_params \<Rightarrow> 'w entry list" where
  "platform_table X rc tns cps name p =
     copies (out_api X) (if cps = [] then [] else [cps]) (chart_config rc tns name) @ flux_entries p tns"

definition workload_table ::
    "'w outside \<Rightarrow> 'w reconciler \<Rightarrow> provider_config \<Rightarrow> 'w cluster_context \<Rightarrow> string \<Rightarrow> string \<Rightarrow> string list \<Rightarrow> 'w entry list" where
  "workload_table X rc pc ctx ins mns pulls =
     workload_access (out_env X) (operator_account mns) (new_workload ctx ins) (new_control_plane ctx) (PollInterval pc) @
     copies (out_api X) pulls (image_config rc ins) @
     (case pc_CABundleRef pc of None \<Rightarrow> [] | Some ref \<Rightarrow> [ca_entry (out_api X) (cms_Name ref) (ca_config rc ins)])"

definition control_plane_table :: "string \<Rightarrow> 'w entry list" where
  "control_plane_table mns = account_entries (operator_account mns) @ [role_entry (operator_account mns)]"

section \<open>The manager is the table\<close>

lemma AddAuth_same_cfg: "c_cfg c' = c_cfg c \<Longrightarrow> AddAuthToHelmValues C values c' sa = AddAuthToHelmValues C values c sa"
  by (simp add: AddAuthToHelmValues_def GetHostAndPort_def)

lemma setupAuth_extends:
  assumes "setupAuth X pc mv wc cp mns r = ok (mv', keep, wc', cp', r')"
  shows "extends r wc (workload_access (out_env X) (operator_account mns) wc cp (PollInterval pc)) r' wc'"
    "extends r cp (account_entries (operator_account mns) @ [role_entry (operator_account mns)]) r' cp'"
    "leaves r r' d" "keep = [KubeAPIAccess (operator_account mns)]"
    "\<exists>v1 v2. AddAuthToHelmValues (out_codecs X) (mov_HelmValues mv) cp (KubeAPIAccess (operator_account mns)) = ok v1 \<and>
       AddDefaultHelmValues (out_codecs X) (Some v1) mns = ok v2 \<and> mv' = mv\<lparr>mov_HelmValues := Some v2\<rparr>"
proof -
  let ?msa = "operator_account mns"
  obtain wc1 cp1 r1 where conf: "Authn_Configure (out_env X) ?msa wc cp (PollInterval pc) r = (wc1, cp1, r1)"
    by (metis prod.exhaust)
  obtain cp2 r2 where az: "Authz_Configure cp1 ?msa r1 = (cp2, r2)" by fastforce
  have eq: "wc' = wc1" "cp' = cp2" "r' = r2" "keep = [KubeAPIAccess ?msa]"
    and rewr: "\<exists>v1 v2. AddAuthToHelmValues (out_codecs X) (mov_HelmValues mv) cp1 (KubeAPIAccess ?msa) = ok v1 \<and>
       AddDefaultHelmValues (out_codecs X) (Some v1) mns = ok v2 \<and> mv' = mv\<lparr>mov_HelmValues := Some v2\<rparr>"
    using assms conf az by (auto simp: setupAuth_def try_go_ok_iff Let_def operator_account_def)
  note a = Authn_Configure_extends [OF conf] and b = Authz_Configure_extends [OF az]
  show "extends r wc (workload_access (out_env X) ?msa wc cp (PollInterval pc)) r' wc'"
    unfolding eq by (rule extends_later [OF a(1) conjunct2 [OF b]])
  show "extends r cp (account_entries ?msa @ [role_entry ?msa]) r' cp'"
    unfolding eq by (rule extends_trans [OF a(2) conjunct1 [OF b]])
  show "leaves r r' d" unfolding eq by (rule leaves_trans [OF a(3) conjunct2 [OF b]])
  show "keep = [KubeAPIAccess ?msa]" by (rule eq)
  have "c_cfg cp1 = c_cfg cp" using a(2) by (simp add: extends_def same_cluster_def)
  from rewr [unfolded AddAuth_same_cfg [OF this]]
  show "\<exists>v1 v2. AddAuthToHelmValues (out_codecs X) (mov_HelmValues mv) cp (KubeAPIAccess ?msa) = ok v1 \<and>
       AddDefaultHelmValues (out_codecs X) (Some v1) mns = ok v2 \<and> mv' = mv\<lparr>mov_HelmValues := Some v2\<rparr>" .
qed

lemma syncChartPullSecret_extends:
  assumes "syncChartPullSecret X rc c cps tns r = ok (name, keep, c', r')"
  shows "extends r c (copies (out_api X) (if cps = [] then [] else [cps]) (chart_config rc tns name)) r' c' \<and>
    leaves r r' d \<and> chart_secret_name X cps = Inr name \<and> keep = (if cps = [] then [] else [name])"
proof (cases "cps = []")
  case True
  then show ?thesis using assms by (simp add: syncChartPullSecret_def copies_def chart_secret_name_def)
next
  case False
  with assms have "ManagePullSecrets (out_api X) [cps] (chart_config rc tns name) c r = (c', r')"
    "chart_secret_name X cps = Inr name" "keep = [name]"
    by (auto simp: syncChartPullSecret_def chart_config_def chart_secret_name_def try_go_ok_iff
        simp del: ManagePullSecrets.simps split: prod.splits)
  with ManagePullSecrets_extends [OF this(1)] False show ?thesis by simp
qed

lemma syncImagePullSecrets_extends:
  assumes "syncImagePullSecrets X rc c obj hv r = (keep, c', r')"
  shows "extends r c (copies (out_api X) (hv_ImagePullSecrets hv) (image_config rc (Instance_Namespace obj))) r' c' \<and>
    leaves r r' d \<and> keep = hv_ImagePullSecrets hv"
proof -
  from assms have "ManagePullSecrets (out_api X) (hv_ImagePullSecrets hv) (image_config rc (Instance_Namespace obj)) c r =
      (c', r')" "keep = hv_ImagePullSecrets hv"
    by (auto simp: syncImagePullSecrets_def image_config_def split: prod.splits)
  with ManagePullSecrets_extends [OF this(1)] show ?thesis by simp
qed

lemma applyCABundle_extends:
  assumes "applyCABundle X rc obj pc mv c r = ok (mv', keep, c', r')"
  shows "extends r c (case pc_CABundleRef pc of None \<Rightarrow> []
      | Some ref \<Rightarrow> [ca_entry (out_api X) (cms_Name ref) (ca_config rc (Instance_Namespace obj))]) r' c'" (is ?e)
    "leaves r r' d" "keep = (if pc_CABundleRef pc = None then [] else [CustomCABundleConfigMapName])"
    "(case pc_CABundleRef pc of None \<Rightarrow> mv' = mv
      | Some ref \<Rightarrow> \<exists>v. AddCAHelmValues (out_codecs X) (mov_HelmValues mv) (Some ref) = ok v \<and>
          mv' = mv\<lparr>mov_HelmValues := Some v\<rparr>)" (is ?v)
proof -
  have "?e \<and> leaves r r' d \<and> keep = (if pc_CABundleRef pc = None then [] else [CustomCABundleConfigMapName]) \<and> ?v"
  proof (cases "pc_CABundleRef pc")
    case None
    then show ?thesis using assms by (simp add: applyCABundle_def)
  next
    case (Some ref)
    from assms Some obtain v where v: "AddCAHelmValues (out_codecs X) (mov_HelmValues mv) (Some ref) = ok v"
      "mv' = mv\<lparr>mov_HelmValues := Some v\<rparr>" "keep = [CustomCABundleConfigMapName]"
      and run: "ManageCaConfigMap (out_api X) (cms_Name ref) (ca_config rc (Instance_Namespace obj)) c r = (c', r')"
      by (auto simp: applyCABundle_def ca_config_def try_go_ok_iff split: prod.splits)
    with ManageCaConfigMap_extends [OF run, of d] Some show ?thesis by simp
  qed
  then show ?e "leaves r r' d" "keep = (if pc_CABundleRef pc = None then [] else [CustomCABundleConfigMapName])" ?v
    by blast+
qed

text \<open>A manager with its cleaners as the table has them.\<close>

definition has_table ::
    "'w outside \<Rightarrow> 'w reconciler \<Rightarrow> metrics_operator \<Rightarrow> provider_config \<Rightarrow> 'w cluster_context \<Rightarrow> string \<Rightarrow>
     metrics_operator_version \<Rightarrow> helm_values \<Rightarrow> string \<Rightarrow> raw \<Rightarrow>
     'w managed_cluster \<Rightarrow> 'w managed_cluster \<Rightarrow> 'w managed_cluster \<Rightarrow> 'w manager \<Rightarrow> 'w run \<Rightarrow> bool" where
  "has_table X rc obj pc ctx tns mv hv name v platform workload cp mgr r \<longleftrightarrow>
     (let ins = Instance_Namespace obj; mns = metrics_namespace hv; cps = mov_ChartPullSecret mv
      in chart_secret_name X cps = Inr name \<and>
         rewritten_values X pc ctx mns (mov_HelmValues mv) = ok v \<and>
         mgr = \<lparr>mgr_clusters = [platform, workload, cp],
           mgr_cleaners = [configMap_Cleanup (out_api X) (NewConfigMapCleaner workload ins
               (if pc_CABundleRef pc = None then [] else [CustomCABundleConfigMapName])),
             secret_Cleanup (out_api X) (NewSecretCleaner workload ins
               (hv_ImagePullSecrets hv @ [KubeAPIAccess (operator_account mns)])),
             secret_Cleanup (out_api X) (NewSecretCleaner platform tns (if cps = [] then [] else [name]))]\<rparr> \<and>
         same_cluster (new_platform rc tns) platform \<and> same_cluster (new_workload ctx ins) workload \<and>
         same_cluster (new_control_plane ctx) cp \<and>
         cluster_entries r platform = platform_table X rc tns cps name
           (request_flux obj pc ctx mns name (mv\<lparr>mov_HelmValues := Some v\<rparr>)) \<and>
         cluster_entries r workload = workload_table X rc pc ctx ins mns (hv_ImagePullSecrets hv) \<and>
         cluster_entries r cp = control_plane_table mns)"

lemma new_entries:
  assumes "extends r c es r' c'" "c_objects c = []"
  shows "cluster_entries r' c' = es" "same_cluster c c'"
  using assms by (simp_all add: extends_def below_def cluster_entries_def)

lemma build_manager_table:
  assumes run: "build_manager X rc obj pc ctx (tns, mv, hv) r = ok (mgr, r')"
  obtains name v platform workload cp where
    "has_table X rc obj pc ctx tns mv hv name v platform workload cp mgr r'"
proof (rule build_manager_steps [OF run], goal_cases)
  case (1 mv1 akeep wl1 cp1 r1 cname ckeep pl1 r2 ikeep wl2 r3 mv2 cakeep wl3 r4 pl2)
  let ?mns = "metrics_namespace hv"
  let ?pl = "new_platform rc tns" and ?wl = "new_workload ctx (Instance_Namespace obj)" and ?cp = "new_control_plane ctx"
  note a = setupAuth_extends [OF 1(2)] and d = applyCABundle_extends [OF 1(5)]
  from a(5) obtain v1 v2 where
    v: "AddAuthToHelmValues (out_codecs X) (mov_HelmValues mv) ?cp (KubeAPIAccess (operator_account ?mns)) = ok v1"
      "AddDefaultHelmValues (out_codecs X) (Some v1) ?mns = ok v2" and mv1: "mv1 = mv\<lparr>mov_HelmValues := Some v2\<rparr>"
    by blast
  have cps: "mov_ChartPullSecret mv1 = mov_ChartPullSecret mv" by (simp add: mv1)
  note b = syncChartPullSecret_extends [OF 1(3) [unfolded cps]] and c = syncImagePullSecrets_extends [OF 1(4)]
  obtain v3 where v3: "rewritten_values X pc ctx ?mns (mov_HelmValues mv) = ok v3" "mv2 = mv\<lparr>mov_HelmValues := Some v3\<rparr>"
    using d(4) v mv1 by (cases "pc_CABundleRef pc") (auto simp: rewritten_values_def)
  let ?p = "request_flux obj pc ctx ?mns cname mv2"
  have e: "extends r4 pl1 (flux_entries ?p (c_defaultNamespace pl1)) r' pl2" "leaves r4 r' x" for x
    using ManageFluxResources_extends [OF 1(6)] by (simp_all add: request_flux_def)
  have l1: "leaves r r1 x" and l2: "leaves r1 r2 x" and l3: "leaves r2 r3 x" and l4: "leaves r3 r4 x" for x
    using a(3) b c d(2) by blast+
  have pl1: "extends r1 ?pl (copies (out_api X) (if mov_ChartPullSecret mv = [] then [] else [mov_ChartPullSecret mv])
      (chart_config rc tns cname)) r4 pl1"
    using extends_later [OF conjunct1 [OF b] leaves_trans [OF l3 l4]] .
  then have "c_defaultNamespace pl1 = tns"
    by (simp add: extends_def same_cluster_def new_platform_def NewManagedCluster_def)
  note platform = extends_trans [OF pl1 e(1) [unfolded this]]
  note w1 = extends_later [OF a(1) l2]
  note workload = extends_later [OF extends_trans [OF extends_trans [OF w1 conjunct1 [OF c]] d(1)] e(2)]
  note cp = extends_later [OF a(2) leaves_trans [OF leaves_trans [OF l2 l3] leaves_trans [OF l4 e(2)]]]
  have empty: "c_objects ?pl = []" "c_objects ?wl = []" "c_objects ?cp = []"
    by (simp_all add: new_platform_def new_workload_def new_control_plane_def NewManagedCluster_def)
  note entries = new_entries [OF platform empty(1)] new_entries [OF workload empty(2)] new_entries [OF cp empty(3)]
  have "has_table X rc obj pc ctx tns mv hv cname v3 pl2 wl3 cp1 mgr r'"
    unfolding has_table_def Let_def
    using b c d(3) a(4) v3 entries 1(7)
    by (simp add: platform_table_def workload_table_def control_plane_table_def)
  then show thesis by (rule 1(1))
qed

end
