(* ===== verification/Keeping_Server.thy ===== *)
theory Keeping_Server
  imports Deletion_Rounds
begin

text \<open>
  Servers on which the calls of the operator touch no object but the one they are about, and
  what this gives for a pass of \<open>Apply\<close>: the objects that were applied without an error are
  all there when the pass is over, each as its reconcile function left it.
\<close>

section \<open>The contract\<close>

text \<open>
  \<open>CreateOrUpdate\<close> with a mutate function that changes no store and no type touches only
  the object of the given kind and key; asking for a token touches none.
\<close>

locale keeping_server = listing_server api cl view
  for api :: "'w kube_api" and cl :: "'c \<Rightarrow> 'w client"
    and view :: "'c \<Rightarrow> 'w \<Rightarrow> string \<Rightarrow> object_key \<Rightarrow> object option" +
  assumes token_reads: "cl_create_token (cl i) sa secs w = (x, w') \<Longrightarrow> view j w' = view j w"
    and upsert_frame: "CreateOrUpdate api (cl i) o' f w = (out, o'', w') \<Longrightarrow>
          (\<And>o0 w0 j. view j (snd (snd (f o0 w0))) = view j w0) \<Longrightarrow>
          (\<And>o0 w0. kind_of o0 = kind_of o' \<Longrightarrow> kind_of (fst (snd (f o0 w0))) = kind_of o') \<Longrightarrow>
          j \<noteq> i \<or> kind \<noteq> kind_of o' \<or> k \<noteq> object_key o' \<Longrightarrow> view j w' kind k = view j w kind k"

text \<open>The reference server is one.\<close>

lemma ref_put_frame:
  assumes "j \<noteq> i \<or> kind \<noteq> kind_of o' \<or> k \<noteq> object_key o'"
  shows "ref_view j (ref_put i o' w) kind k = ref_view j w kind k"
proof (cases "j = i")
  case False
  then show ?thesis by (simp add: ref_put_def)
next
  case True
  then have ne: "\<not> (kind = kind_of o' \<and> k = object_key o')" using assms by auto
  have "find (same_object kind k) (filter (\<lambda>x. \<not> same_object (kind_of o') (object_key o') x) (rw_store w i)) =
      find (same_object kind k) (rw_store w i)"
    by (rule find_filter_other) (use ne in \<open>auto simp: same_object_def\<close>)
  moreover have "\<not> same_object kind k o'" using ne by (auto simp: same_object_def)
  moreover have "ref_view i (ref_put i o' w) kind k = find (same_object kind k)
      (o' # filter (\<lambda>x. \<not> same_object (kind_of o') (object_key o') x) (rw_store w i))"
    by (simp only: ref_put_def ref_view_set_store if_True simp_thms)
  ultimately show ?thesis using True by (simp add: ref_view_def)
qed

lemma ref_update_frame:
  assumes "ref_update i o' w = (x, w')" "j \<noteq> i \<or> kind \<noteq> kind_of o' \<or> k \<noteq> object_key o'"
  shows "ref_view j w' kind k = ref_view j w kind k"
  using assms ref_put_frame [of j i kind o' k w] by (auto simp: ref_update_def split: if_splits option.splits)

lemma ref_create_frame:
  assumes "ref_create i o' w = (x, w')" "j \<noteq> i \<or> kind \<noteq> kind_of o' \<or> k \<noteq> object_key o'"
  shows "ref_view j w' kind k = ref_view j w kind k"
  using assms ref_put_frame [of j i kind "o'\<lparr>o_UID := ''uid''\<rparr>" k w]
  by (auto simp: ref_create_def Let_def object_key_def split: if_splits)

lemma ref_upsert_frame:
  assumes "ref_upsert (ref_client i) o' f w = (x, o'', w')"
    and reads: "\<And>o0 w0 j. ref_view j (snd (snd (f o0 w0))) = ref_view j w0"
    and f: "\<And>o0 w0. kind_of o0 = kind_of o' \<Longrightarrow> kind_of (fst (snd (f o0 w0))) = kind_of o'"
    and other: "j \<noteq> i \<or> kind \<noteq> kind_of o' \<or> k \<noteq> object_key o'"
  shows "ref_view j w' kind k = ref_view j w kind k"
proof -
  obtain e o0 w0 where get: "ref_get i (object_key o') o' w = ((e, o0), w0)"
    by (metis prod.exhaust)
  have w0: "w0 = w" and o0: "kind_of o0 = kind_of o'" "object_key o0 = object_key o'"
    using ref_get_result(1) [OF get] ref_get_identity [OF get] by simp_all
  obtain y o1 w1 where fy: "f o0 w0 = (y, o1, w1)" by (metis prod.exhaust)
  have o1: "kind_of o1 = kind_of o'" and w1: "ref_view j w1 = ref_view j w"
    using f [OF o0(1), of w0] reads [of j o0 w0] fy w0 by simp_all
  obtain ue uo uw where u: "ref_update i o1 w1 = ((ue, uo), uw)" by (metis prod.exhaust)
  obtain ce co cw where c: "ref_create i o1 w1 = ((ce, co), cw)" by (metis prod.exhaust)
  have "ref_view j uw kind k = ref_view j w kind k \<and> ref_view j cw kind k = ref_view j w kind k"
    if "object_key o1 = object_key o0"
    using ref_update_frame [OF u, of j kind k] ref_create_frame [OF c, of j kind k] other o1 o0 w1 that by simp
  with assms(1) get fy u c w0 w1 show ?thesis
    by (auto simp: ref_upsert_def split: if_splits go.splits option.splits)
qed

interpretation refkeep: keeping_server ref_api ref_client ref_view
proof
  fix i sa secs w x w' j
  assume "cl_create_token (ref_client i) sa secs w = (x, w')"
  then show "ref_view j w' = ref_view j w" by (auto simp: ref_token_def split: if_splits)
next
  fix i o' f w out o'' w' j kind k
  assume "CreateOrUpdate ref_api (ref_client i) o' f w = (out, o'', w')"
    and "\<And>o0 w0 j. ref_view j (snd (snd (f o0 w0))) = ref_view j w0"
    and "\<And>o0 w0. kind_of o0 = kind_of o' \<Longrightarrow> kind_of (fst (snd (f o0 w0))) = kind_of o'"
    and "j \<noteq> i \<or> kind \<noteq> kind_of o' \<or> k \<noteq> object_key o'"
  then show "ref_view j w' kind k = ref_view j w kind k" using ref_upsert_frame by simp
qed

section \<open>Reading reconcile functions\<close>

definition reads ::
    "('c \<Rightarrow> 'w \<Rightarrow> string \<Rightarrow> object_key \<Rightarrow> object option) \<Rightarrow> 'w reconcile_func \<Rightarrow> bool" where
  "reads view g \<longleftrightarrow> (\<forall>o0 w0 j. view j (snd (snd (g o0 w0))) = view j w0)"

text \<open>What an entry of a table wants: the object stored, labelled, as the function left it.\<close>

definition installed ::
    "('c \<Rightarrow> 'w \<Rightarrow> string \<Rightarrow> object_key \<Rightarrow> object option) \<Rightarrow> 'c \<Rightarrow> 'w \<Rightarrow> object \<Rightarrow> 'w reconcile_func \<Rightarrow> bool" where
  "installed view i w ob g \<longleftrightarrow>
     (\<exists>s. view i w (kind_of ob) (object_key ob) = Some s \<and> is_managed s \<and>
        (\<exists>o0 w0 o1 w1. g o0 w0 = (Ret None, o1, w1) \<and> kind_of o0 = kind_of ob \<and>
           o_Body s = o_Body o1 \<and> o_Annotations s = o_Annotations o1))"

lemma installedE:
  assumes "installed view i w ob g"
  obtains s o0 w0 o1 w1 where "view i w (kind_of ob) (object_key ob) = Some s" "is_managed s"
    "g o0 w0 = (Ret None, o1, w1)" "kind_of o0 = kind_of ob" "o_Body s = o_Body o1"
  using assms unfolding installed_def by blast

lemma installed_later:
  "installed view i w ob g \<Longrightarrow> view i w' (kind_of ob) (object_key ob) = view i w (kind_of ob) (object_key ob) \<Longrightarrow>
     installed view i w' ob g"
  by (simp add: installed_def)

context keeping_server
begin

lemma apply_object_frame_view:
  assumes mc: "c_client mc = cl i" and m: "reconciles (GetObject r m) m" "reads view (Reconcile m)"
    and run: "apply_object api mc m r = (x, r')"
    and other: "j \<noteq> i \<or> kind \<noteq> kind_of (GetObject r m) \<or> k \<noteq> object_key (GetObject r m)"
  shows "view j (r_world r') kind k = view j (r_world r) kind k"
proof -
  obtain y o'' w' where up: "CreateOrUpdate api (cl i) (GetObject r m) (mutate_managed m) (r_world r) = (y, o'', w')"
    by (metis prod.exhaust)
  have "view j w' kind k = view j (r_world r) kind k"
    by (rule upsert_frame [OF up _ _ other])
       (use m in \<open>auto simp: reads_def reconciles_def mutate_managed_def\<close>)
  moreover have "r_world r' = w'"
    using run up mc by (auto simp: apply_object_def set_object_def split: go.splits)
  ultimately show ?thesis by simp
qed

lemma apply_object_installs:
  assumes mc: "c_client mc = cl i" and keep: "keeps_label (GetObject r m) m"
    and g: "m_reconcileFunc m = Some g"
    and run: "apply_object api mc m r = (Ret res, r')" and ok: "res_Error res = None"
  shows "installed view i (r_world r') (GetObject r m) g"
proof -
  have up: "CreateOrUpdate api (cl i) (GetObject r m) (mutate_managed m) (r_world r) =
      (Ret (res_OperationResult res, None), GetObject r' m, r_world r')"
    using apply_object_result(5) [OF run] mc ok by simp
  from upsert_ok [OF up] obtain o0 w0 o1 w1 where f: "mutate_managed m o0 w0 = (Ret None, o1, w1)"
    and o0: "kind_of o0 = kind_of (GetObject r m)"
    and o1: "o_Annotations (GetObject r' m) = o_Annotations o1" "o_Body (GetObject r' m) = o_Body o1"
    by blast
  have "g (SetManagedBy o0) w0 = (Ret None, o1, w1)" using f g by (simp add: mutate_managed_def Reconcile_def)
  moreover have "kind_of (SetManagedBy o0) = kind_of (GetObject r m)" using o0 by simp
  ultimately show ?thesis
    using apply_object_ok [OF mc keep run ok] o1 unfolding installed_def by metis
qed

end

section \<open>A pass of Apply\<close>

text \<open>Where the object of a managed object is: cluster, kind and key.\<close>

definition address ::
    "('w managed_cluster \<Rightarrow> 'c) \<Rightarrow> 'w run \<Rightarrow> 'w managed_cluster \<times> 'w managed_object \<Rightarrow> 'c \<times> string \<times> object_key" where
  "address idx r p = (idx (fst p), kind_of (GetObject r (snd p)), object_key (GetObject r (snd p)))"

context keeping_server
begin

lemma apply_loop_frame:
  assumes "distinct (map (m_ref \<circ> snd) ps)"
    and "\<forall>(mc, m) \<in> set ps. c_client mc = cl (idx mc) \<and> reconciles (GetObject r m) m \<and> reads view (Reconcile m)"
    and "(j, kind, k) \<notin> address idx r ` set ps"
    and "map_prog (\<lambda>(mc, m). apply_object api mc m) ps r = (Ret rs, r')"
  shows "view j (r_world r') kind k = view j (r_world r) kind k"
  using assms
proof (induction ps arbitrary: r rs)
  case Nil
  then show ?case by (simp add: ret_apply)
next
  case (Cons p ps)
  show ?case
  proof (rule apply_loop_Cons [OF Cons.prems(1,4)])
    fix res r1 rs'
    assume one: "apply_object api (fst p) (snd p) r = (Ret res, r1)"
      and rest: "map_prog (\<lambda>(mc, m). apply_object api mc m) ps r1 = (Ret rs', r')"
      and d: "distinct (map (m_ref \<circ> snd) ps)" and same: "\<forall>q \<in> set ps. GetObject r1 (snd q) = GetObject r (snd q)"
    have "view j (r_world r1) kind k = view j (r_world r) kind k"
      by (rule apply_object_frame_view [OF _ _ _ one, of "idx (fst p)"])
         (use Cons.prems(2,3) in \<open>auto simp: address_def case_prod_unfold\<close>)
    moreover have "address idx r1 ` set ps = address idx r ` set ps"
      by (rule image_cong) (simp_all add: address_def same)
    then have "(j, kind, k) \<notin> address idx r1 ` set ps" using Cons.prems(3) by simp
    moreover have "\<forall>(mc, m) \<in> set ps. c_client mc = cl (idx mc) \<and> reconciles (GetObject r1 m) m \<and> reads view (Reconcile m)"
      by (rule same_objects_all [where P = "\<lambda>mc m ob. c_client mc = cl (idx mc) \<and> reconciles ob m \<and> reads view (Reconcile m)",
            OF same]) (use Cons.prems(2) in simp)
    ultimately show ?thesis using Cons.IH [OF d _ _ rest] by simp
  qed
qed

lemma apply_loop_installs:
  assumes "distinct (map (m_ref \<circ> snd) ps)" "distinct (map (address idx r) ps)"
    and "\<forall>(mc, m) \<in> set ps. c_client mc = cl (idx mc) \<and> reconciles (GetObject r m) m \<and> reads view (Reconcile m)"
    and "map_prog (\<lambda>(mc, m). apply_object api mc m) ps r = (Ret rs, r')"
    and "n < length ps" "ps ! n = (mc, m)" "res_Error (rs ! n) = None"
    and "keeps_label (GetObject r m) m" "m_reconcileFunc m = Some g"
  shows "installed view (idx mc) (r_world r') (GetObject r m) g"
  using assms
proof (induction ps arbitrary: r rs n)
  case Nil
  then show ?case by simp
next
  case (Cons p ps)
  show ?case
  proof (rule apply_loop_Cons [OF Cons.prems(1,4)])
    fix res r1 rs'
    assume one: "apply_object api (fst p) (snd p) r = (Ret res, r1)" and rs: "rs = res # rs'"
      and rest: "map_prog (\<lambda>(mc, m). apply_object api mc m) ps r1 = (Ret rs', r')"
      and d: "distinct (map (m_ref \<circ> snd) ps)" and same: "\<forall>q \<in> set ps. GetObject r1 (snd q) = GetObject r (snd q)"
    have addr: "map (address idx r1) ps = map (address idx r) ps"
      by (rule map_cong [OF refl]) (simp add: address_def same)
    have all: "\<forall>(mc, m) \<in> set ps. c_client mc = cl (idx mc) \<and> reconciles (GetObject r1 m) m \<and> reads view (Reconcile m)"
      by (rule same_objects_all [where P = "\<lambda>mc m ob. c_client mc = cl (idx mc) \<and> reconciles ob m \<and> reads view (Reconcile m)",
            OF same]) (use Cons.prems(3) in simp)
    show ?thesis
    proof (cases n)
      case 0
      then have here: "p = (mc, m)" "res_Error res = None" using Cons.prems(6,7) rs by simp_all
      have c: "c_client mc = cl (idx mc)" using Cons.prems(3) here by auto
      have "installed view (idx mc) (r_world r1) (GetObject r m) g"
        using apply_object_installs [OF c Cons.prems(8,9) _ here(2)] one here(1) by simp
      moreover have "(idx mc, kind_of (GetObject r m), object_key (GetObject r m)) \<notin> set (map (address idx r1) ps)"
        using Cons.prems(2) here(1) unfolding addr by (simp add: address_def)
      with apply_loop_frame [OF d all _ rest]
      have "view (idx mc) (r_world r') (kind_of (GetObject r m)) (object_key (GetObject r m)) =
          view (idx mc) (r_world r1) (kind_of (GetObject r m)) (object_key (GetObject r m))" by simp
      ultimately show ?thesis by (rule installed_later)
    next
      case (Suc n')
      then have n': "n' < length ps" "ps ! n' = (mc, m)" "res_Error (rs' ! n') = None"
        using Cons.prems(5-7) rs by simp_all
      have "distinct (map (address idx r1) ps)" using Cons.prems(2) addr by (simp only: distinct.simps list.map)
      moreover have "GetObject r1 m = GetObject r m" using same nth_mem [OF n'(1)] n'(2) by force
      ultimately show ?thesis using Cons.IH [OF d _ all rest n'] Cons.prems(8,9) by simp
    qed
  qed
qed

end

section \<open>Cleaners that spare an object\<close>

definition spares ::
    "('c \<Rightarrow> 'w \<Rightarrow> string \<Rightarrow> object_key \<Rightarrow> object option) \<Rightarrow> 'w cleaner \<Rightarrow> 'c \<Rightarrow> string \<Rightarrow> object_key \<Rightarrow> bool" where
  "spares view c i kind k \<longleftrightarrow>
     (\<forall>r x r'. c r = (x, r') \<longrightarrow> view i (r_world r') kind k = view i (r_world r) kind k)"

lemma run_cleaners_spare:
  "\<forall>c \<in> set cs. spares view c i kind k \<Longrightarrow> run_cleaners cs results r = (out, r') \<Longrightarrow>
     view i (r_world r') kind k = view i (r_world r) kind k"
proof (induction cs arbitrary: results r)
  case Nil
  then show ?case by simp
next
  case (Cons c cs)
  obtain x r1 where c: "c r = (x, r1)" by fastforce
  then have 1: "view i (r_world r1) kind k = view i (r_world r) kind k"
    using Cons.prems(1) by (simp add: spares_def)
  show ?case
  proof (cases x)
    case (Inl err)
    with Cons.prems(2) c 1 show ?thesis by auto
  next
    case (Inr rs)
    with Cons.prems(2) c have "run_cleaners cs (results @ rs) r1 = (out, r')" by simp
    with Cons.IH Cons.prems(1) 1 show ?thesis by simp
  qed
qed

context listing_server
begin

lemma hookless_spares:
  "c_client cluster = cl i \<Longrightarrow> ns \<noteq> [] \<Longrightarrow> j \<noteq> i \<or> kind' \<noteq> kind \<or> fst k \<noteq> ns \<or> snd k \<in> set keep \<Longrightarrow>
     spares view (hookless_cleanup api f err cluster kind ns keep) j kind' k"
  unfolding spares_def by (intro allI impI, rule hookless_frame) auto

end

section \<open>What a pass installs\<close>

lemma Apply_parts:
  assumes "Apply api mgr r = (Ret (results, err), r')"
  obtains rs r1 where
    "map_prog (\<lambda>(mc, m). apply_object api mc m) (managed_pairs (mgr_clusters mgr)) r = (Ret rs, r1)"
    "run_cleaners (mgr_cleaners mgr) rs r1 = ((results, err), r')"
proof -
  have eq: "(\<lambda>(mc, m). reconcileObject api (getDependents (mgr_clusters mgr)) False mc m) =
      (\<lambda>(mc, m). apply_object api mc m)"
    by (simp add: fun_eq_iff reconcileObject_def)
  from assms show thesis
    unfolding Apply_def by (elim reconcileObjects_parts) (simp add: eq that)
qed

context keeping_server
begin

lemma pass_installs:
  assumes run: "Apply api mgr r = (Ret (results, err), r')"
    and refs: "distinct (map (m_ref \<circ> snd) (managed_pairs (mgr_clusters mgr)))"
    and addresses: "distinct (map (address idx r) (managed_pairs (mgr_clusters mgr)))"
    and all: "\<forall>(mc, m) \<in> set (managed_pairs (mgr_clusters mgr)).
      c_client mc = cl (idx mc) \<and> reconciles (GetObject r m) m \<and> reads view (Reconcile m)"
    and cleaners: "\<forall>c \<in> set (mgr_cleaners mgr). orphan_cleaner c"
    and spare: "\<forall>c \<in> set (mgr_cleaners mgr). spares view c (idx mc) (kind_of (GetObject r m)) (object_key (GetObject r m))"
    and n: "n < length (managed_pairs (mgr_clusters mgr))" "managed_pairs (mgr_clusters mgr) ! n = (mc, m)"
      "res_Error (results ! n) = None"
    and m: "keeps_label (GetObject r m) m" "m_reconcileFunc m = Some g"
  shows "installed view (idx mc) (r_world r') (GetObject r m) g"
  using run
proof (rule Apply_parts)
  fix rs r1
  assume loop: "map_prog (\<lambda>(mc, m). apply_object api mc m) (managed_pairs (mgr_clusters mgr)) r = (Ret rs, r1)"
    and clean: "run_cleaners (mgr_cleaners mgr) rs r1 = ((results, err), r')"
  have "length rs = length (managed_pairs (mgr_clusters mgr))"
    using apply_loop [OF refs loop] list_all2_lengthD by fastforce
  moreover obtain extra where "results = rs @ extra"
    using run_cleaners_results [OF cleaners clean] by blast
  ultimately have "res_Error (rs ! n) = None" using n by (simp add: nth_append)
  from apply_loop_installs [OF refs addresses all loop n(1,2) this m]
  have "installed view (idx mc) (r_world r1) (GetObject r m) g" .
  moreover have "view (idx mc) (r_world r') (kind_of (GetObject r m)) (object_key (GetObject r m)) =
      view (idx mc) (r_world r1) (kind_of (GetObject r m)) (object_key (GetObject r m))"
    by (rule run_cleaners_spare [OF spare clean])
  ultimately show ?thesis by (rule installed_later)
qed

end

end
