(* ===== verification/Installed.thy ===== *)
theory Installed
  imports Inventory Keeping_Server
begin

text \<open>
  After a pass of \<open>Apply\<close> the tables of the request are installed: every object whose result
  carries no error is on its cluster as its reconcile function left it. The three clusters
  of a request must be different ones.
\<close>

section \<open>The reconcile functions change no store\<close>

context keeping_server
begin

lemma no_op_reads: "reads view NoOp"
  by (simp add: reads_def NoOp_def)

lemma pull_secret_reads: "scc_SourceClient cfg = cl i \<Longrightarrow> reads view (pull_secret_reconcile api pull cfg)"
  using get_reads
  by (fastforce simp: reads_def pull_secret_reconcile_def Let_def split: body.splits prod.splits)

lemma ca_reads: "ccc_SourceClient cfg = cl i \<Longrightarrow> reads view (ca_config_map_reconcile api caName cfg)"
  using get_reads
  by (fastforce simp: reads_def ca_config_map_reconcile_def Let_def split: body.splits prod.splits)

lemma generateToken_reads:
  assumes "generateToken env (cl i) cfg msa expiration w = (x, w')"
  shows "view j w' = view j w"
proof -
  obtain e sa w1 where get: "cl_get (cl i) (msa_Namespace msa, msa_Name msa) (new_object [] [] ServiceAccount) w =
      ((e, sa), w1)" by (metis prod.exhaust)
  obtain y w2 where create: "cl_create_token (cl i) sa (expiration div Second) w1 = (y, w2)" by fastforce
  have "w' = w \<or> w' = w1 \<or> w' = w2"
    using assms get create
    by (auto simp: generateToken_def Let_def split: if_splits option.splits sum.splits)
  then show ?thesis using get_reads [OF get] token_reads [OF create] by auto
qed

lemma token_reconcile_reads: "c_client cp = cl i \<Longrightarrow> reads view (token_reconcile env cp msa poll)"
  using generateToken_reads
  by (fastforce simp: reads_def token_reconcile_def Let_def split: body.splits prod.splits sum.splits)

lemma pure_reads:
  "reads view (role_binding_reconcile msa)" "reads view (oci_reconcile p)" "reads view (helm_release_reconcile p ns)"
  by (simp_all add: reads_def role_binding_reconcile_def oci_reconcile_def helm_release_reconcile_def
      split: body.splits option.splits)

lemmas reconcilers_read = no_op_reads pull_secret_reads ca_reads token_reconcile_reads pure_reads

end

section \<open>Entries and addresses\<close>

definition entry_address :: "'c \<Rightarrow> 'w entry \<Rightarrow> 'c \<times> string \<times> object_key" where
  "entry_address i e = (i, kind_of (fst e), object_key (fst e))"

definition reading_entry ::
    "('c \<Rightarrow> 'w \<Rightarrow> string \<Rightarrow> object_key \<Rightarrow> object option) \<Rightarrow> 'w entry \<Rightarrow> bool" where
  "reading_entry view e \<longleftrightarrow> (\<exists>g. snd e = Some g \<and> reads view g)"

definition all_installed ::
    "('c \<Rightarrow> 'w \<Rightarrow> string \<Rightarrow> object_key \<Rightarrow> object option) \<Rightarrow> 'c \<Rightarrow> 'w \<Rightarrow> 'w entry list \<Rightarrow> bool" where
  "all_installed view i w es \<longleftrightarrow> (\<forall>(ob, f) \<in> set es. \<exists>g. f = Some g \<and> installed view i w ob g)"

lemma all_installed_append [simp]:
  "all_installed view i w (es @ fs) \<longleftrightarrow> all_installed view i w es \<and> all_installed view i w fs"
  unfolding all_installed_def set_append by (rule ball_Un)

lemma all_installedD: "all_installed view i w es \<Longrightarrow> (ob, Some g) \<in> set es \<Longrightarrow> installed view i w ob g"
  by (fastforce simp: all_installed_def)

lemma cluster_addresses:
  "map (address idx r) (map (Pair c) (c_objects c)) = map (entry_address (idx c)) (cluster_entries r c)"
  by (simp add: address_def entry_address_def cluster_entries_def comp_def)

lemma Reconcile_Some: "m_reconcileFunc m = Some g \<Longrightarrow> Reconcile m = g"
  by (simp add: fun_eq_iff Reconcile_def)

lemma distinct_addresses:
  "distinct (map (entry_address i) es) \<longleftrightarrow> distinct (map (\<lambda>e. (kind_of (fst e), object_key (fst e))) es)"
  by (induction es) (auto simp: entry_address_def image_iff)

lemma apart_addresses: "i \<noteq> j \<Longrightarrow> set (map (entry_address i) es) \<inter> set (map (entry_address j) fs) = {}"
  by (auto simp: entry_address_def)

context keeping_server
begin

lemma platform_reads:
  "rec_PlatformClient rc = cl i \<Longrightarrow> out_api X = api \<Longrightarrow>
     e \<in> set (platform_table X rc tns cps name p) \<Longrightarrow> reading_entry view e"
  using reconcilers_read
  by (auto simp: platform_table_def copies_def flux_entries_def reading_entry_def chart_config_def)

lemma workload_reads:
  "rec_PlatformClient rc = cl i \<Longrightarrow> ctx_MCPClient ctx = cl k \<Longrightarrow> out_api X = api \<Longrightarrow>
     e \<in> set (workload_table X rc pc ctx ins mns pulls) \<Longrightarrow> reading_entry view e"
  using reconcilers_read
  by (auto simp: workload_table_def workload_access_def copies_def ca_entry_def reading_entry_def image_config_def
      ca_config_def new_control_plane_def NewManagedCluster_def split: option.splits)

lemma control_plane_reads: "e \<in> set (control_plane_table mns) \<Longrightarrow> reading_entry view e"
  using reconcilers_read
  by (auto simp: control_plane_table_def account_entries_def role_entry_def reading_entry_def)

end

text \<open>The names of a table are different when the image pull secrets are, and not the token secret's.\<close>

definition distinct_names :: "string list \<Rightarrow> string \<Rightarrow> bool" where
  "distinct_names pulls mns \<longleftrightarrow> distinct pulls \<and> KubeAPIAccess (operator_account mns) \<notin> set pulls"

lemma platform_distinct: "distinct (map (entry_address i) (platform_table X rc tns cps name p))"
  by (auto simp: platform_table_def copies_def flux_entries_def entry_address_def)

lemma copies_addresses:
  "map (entry_address i) (copies api pulls (image_config rc ins)) = map (\<lambda>n. (i, ''Secret'', ins, n)) pulls"
  by (simp add: copies_def entry_address_def image_config_def copy_name_def object_key_def)

lemma workload_distinct:
  assumes "distinct_names pulls mns"
  shows "distinct (map (entry_address i) (workload_table X rc pc ctx ins mns pulls))"
proof -
  have "distinct (map (\<lambda>n. (i, ''Secret'', ins, n)) pulls)"
    using assms by (simp add: distinct_names_def distinct_map inj_on_def)
  then show ?thesis
    using assms
    by (auto simp: workload_table_def copies_addresses workload_access_def distinct_names_def entry_address_def ca_entry_def
        object_key_def new_workload_def NewManagedCluster_def split: option.splits)
qed

lemma control_plane_distinct: "distinct (map (entry_address i) (control_plane_table mns))"
  by (auto simp: control_plane_table_def account_entries_def role_entry_def entry_address_def)

section \<open>The cleaners spare the tables\<close>

lemma instance_namespace_not_empty [simp]: "Instance_Namespace obj \<noteq> []"
  by (simp add: Instance_Namespace_def)

text \<open>The copy of the chart's pull secret has the shortened name unless that is empty.\<close>

definition chart_name_ok :: "string \<Rightarrow> string \<Rightarrow> bool" where
  "chart_name_ok cps name \<longleftrightarrow> cps = [] \<or> name \<noteq> []"

lemma table_cleaners:
  assumes "has_table X rc obj pc ctx tns mv hv name v platform workload cp mgr r"
  shows "mgr_cleaners mgr = [configMap_Cleanup (out_api X) (NewConfigMapCleaner workload (Instance_Namespace obj)
               (if pc_CABundleRef pc = None then [] else [CustomCABundleConfigMapName])),
             secret_Cleanup (out_api X) (NewSecretCleaner workload (Instance_Namespace obj)
               (hv_ImagePullSecrets hv @ [KubeAPIAccess (operator_account (metrics_namespace hv))])),
             secret_Cleanup (out_api X) (NewSecretCleaner platform tns
               (if mov_ChartPullSecret mv = [] then [] else [name]))]"
    "mgr_clusters mgr = [platform, workload, cp]"
    "c_client platform = rec_PlatformClient rc" "c_client workload = ctx_WorkloadClient ctx"
    "c_client cp = ctx_MCPClient ctx"
    "c_clusterType platform = PlatformCluster" "c_clusterType workload = WorkloadCluster"
    "c_clusterType cp = ControlPlane"
  using assms
  by (simp_all add: has_table_def Let_def same_cluster_def new_platform_def new_workload_def
      new_control_plane_def NewManagedCluster_def)

lemma platform_kinds:
  "\<forall>e \<in> set (platform_table X rc tns cps name p). kind_of (fst e) = ''Secret'' \<longrightarrow>
     cps \<noteq> [] \<and> o_Name (fst e) = copy_name cps name"
  by (simp add: platform_table_def copies_def flux_entries_def chart_config_def)

lemma workload_kinds:
  "\<forall>e \<in> set (workload_table X rc pc ctx ins mns pulls).
     (kind_of (fst e) = ''Secret'' \<longrightarrow> o_Name (fst e) \<in> set pulls \<or> o_Name (fst e) = KubeAPIAccess (operator_account mns)) \<and>
     (kind_of (fst e) = ''ConfigMap'' \<longrightarrow> pc_CABundleRef pc \<noteq> None \<and> o_Name (fst e) = CustomCABundleConfigMapName)"
  by (cases "pc_CABundleRef pc")
     (simp_all add: workload_table_def workload_access_def copies_def ca_entry_def image_config_def ca_config_def
      copy_name_def ca_config_map_name_def CustomCABundleConfigMapName_def ball_Un)

lemma table_entries:
  assumes "has_table X rc obj pc ctx tns mv hv name v platform workload cp mgr r"
  shows "cluster_entries r platform = platform_table X rc tns (mov_ChartPullSecret mv) name
      (request_flux obj pc ctx (metrics_namespace hv) name (mv\<lparr>mov_HelmValues := Some v\<rparr>))"
    "cluster_entries r workload = workload_table X rc pc ctx (Instance_Namespace obj) (metrics_namespace hv)
      (hv_ImagePullSecrets hv)"
    "cluster_entries r cp = control_plane_table (metrics_namespace hv)"
  using assms by (simp_all add: has_table_def Let_def)

context keeping_server
begin

lemma cleaners_spare:
  assumes table: "has_table X rc obj pc ctx tns mv hv name v platform workload cp mgr r" and api: "out_api X = api"
    and clients: "rec_PlatformClient rc = cl ip" "ctx_WorkloadClient ctx = cl iw" and tns: "tns \<noteq> []"
    and w: "i = iw \<longrightarrow>
        (kind = ''ConfigMap'' \<longrightarrow> fst k \<noteq> Instance_Namespace obj \<or>
          snd k \<in> set (if pc_CABundleRef pc = None then [] else [CustomCABundleConfigMapName])) \<and>
        (kind = ''Secret'' \<longrightarrow> fst k \<noteq> Instance_Namespace obj \<or>
          snd k \<in> set (hv_ImagePullSecrets hv @ [KubeAPIAccess (operator_account (metrics_namespace hv))]))"
    and p: "i = ip \<longrightarrow> kind = ''Secret'' \<longrightarrow> fst k \<noteq> tns \<or> snd k \<in> set (if mov_ChartPullSecret mv = [] then [] else [name])"
  shows "\<forall>c \<in> set (mgr_cleaners mgr). spares view c i kind k"
proof -
  note t = table_cleaners [OF table]
  have "spares view (configMap_Cleanup api (NewConfigMapCleaner workload (Instance_Namespace obj)
               (if pc_CABundleRef pc = None then [] else [CustomCABundleConfigMapName]))) i kind k"
    unfolding configMap_Cleanup_hookless
    by (rule hookless_spares [of _ iw]) (use t(4) clients w in \<open>auto simp: NewConfigMapCleaner_def\<close>)
  moreover have "spares view (secret_Cleanup api (NewSecretCleaner workload (Instance_Namespace obj)
               (hv_ImagePullSecrets hv @ [KubeAPIAccess (operator_account (metrics_namespace hv))]))) i kind k"
    unfolding secret_Cleanup_hookless
    by (rule hookless_spares [of _ iw]) (use t(4) clients w in \<open>auto simp: NewSecretCleaner_def\<close>)
  moreover have "spares view (secret_Cleanup api (NewSecretCleaner platform tns
               (if mov_ChartPullSecret mv = [] then [] else [name]))) i kind k"
    unfolding secret_Cleanup_hookless
    by (rule hookless_spares [of _ ip]) (use t(3) clients p tns in \<open>auto simp: NewSecretCleaner_def\<close>)
  ultimately show ?thesis by (simp add: t(1) api)
qed

lemma table_is_spared:
  assumes table: "has_table X rc obj pc ctx tns mv hv name v platform workload cp mgr r" and api: "out_api X = api"
    and clients: "rec_PlatformClient rc = cl ip" "ctx_WorkloadClient ctx = cl iw" and tns: "tns \<noteq> []"
    and apart: "distinct [ip, iw, im]" and name: "chart_name_ok (mov_ChartPullSecret mv) name"
  shows "e \<in> set (cluster_entries r platform) \<Longrightarrow>
      \<forall>c \<in> set (mgr_cleaners mgr). spares view c ip (kind_of (fst e)) (object_key (fst e))"
    "e \<in> set (cluster_entries r workload) \<Longrightarrow>
      \<forall>c \<in> set (mgr_cleaners mgr). spares view c iw (kind_of (fst e)) (object_key (fst e))"
    "\<forall>c \<in> set (mgr_cleaners mgr). spares view c im kind k"
proof -
  note spare = cleaners_spare [OF table api clients tns]
  show "\<forall>c \<in> set (mgr_cleaners mgr). spares view c im kind k"
    by (rule spare) (use apart in auto)
  show "\<forall>c \<in> set (mgr_cleaners mgr). spares view c ip (kind_of (fst e)) (object_key (fst e))"
    if "e \<in> set (cluster_entries r platform)"
  proof -
    have "kind_of (fst e) = ''Secret'' \<longrightarrow>
        mov_ChartPullSecret mv \<noteq> [] \<and> o_Name (fst e) = copy_name (mov_ChartPullSecret mv) name"
      by (rule bspec [OF platform_kinds that [unfolded table_entries(1) [OF table]]])
    then show ?thesis
      using apart name by (intro spare) (auto simp: object_key_def copy_name_def chart_name_ok_def)
  qed
  show "\<forall>c \<in> set (mgr_cleaners mgr). spares view c iw (kind_of (fst e)) (object_key (fst e))"
    if "e \<in> set (cluster_entries r workload)"
  proof -
    have "(kind_of (fst e) = ''Secret'' \<longrightarrow> o_Name (fst e) \<in> set (hv_ImagePullSecrets hv) \<or>
           o_Name (fst e) = KubeAPIAccess (operator_account (metrics_namespace hv))) \<and>
        (kind_of (fst e) = ''ConfigMap'' \<longrightarrow> pc_CABundleRef pc \<noteq> None \<and> o_Name (fst e) = CustomCABundleConfigMapName)"
      by (rule bspec [OF workload_kinds that [unfolded table_entries(2) [OF table]]])
    then show ?thesis using apart by (intro spare) (auto simp: object_key_def)
  qed
qed

end

section \<open>The tables are installed\<close>

text \<open>The cluster of a managed cluster.\<close>

definition cluster_index :: "'c \<Rightarrow> 'c \<Rightarrow> 'c \<Rightarrow> 'w managed_cluster \<Rightarrow> 'c" where
  "cluster_index ip iw im mc =
     (if c_clusterType mc = PlatformCluster then ip else if c_clusterType mc = WorkloadCluster then iw else im)"

lemma table_index:
  assumes "has_table X rc obj pc ctx tns mv hv name v platform workload cp mgr r"
  shows "cluster_index ip iw im platform = ip" "cluster_index ip iw im workload = iw" "cluster_index ip iw im cp = im"
  using table_cleaners(6-8) [OF assms]
  by (simp_all add: cluster_index_def PlatformCluster_def WorkloadCluster_def ControlPlane_def)

lemma table_addresses:
  assumes table: "has_table X rc obj pc ctx tns mv hv name v platform workload cp mgr r"
    and apart: "distinct [ip, iw, im]" and names: "distinct_names (hv_ImagePullSecrets hv) (metrics_namespace hv)"
  shows "distinct (map (address (cluster_index ip iw im) r) (managed_pairs (mgr_clusters mgr)))"
proof -
  have "map (address (cluster_index ip iw im) r) (managed_pairs (mgr_clusters mgr)) =
      map (entry_address ip) (cluster_entries r platform) @ map (entry_address iw) (cluster_entries r workload) @
      map (entry_address im) (cluster_entries r cp)"
    by (simp add: table_cleaners(2) [OF table] managed_pairs_def cluster_addresses table_index [OF table] del: map_map)
  moreover have "distinct (map (entry_address ip) (cluster_entries r platform))"
    "distinct (map (entry_address iw) (cluster_entries r workload))"
    "distinct (map (entry_address im) (cluster_entries r cp))"
    using names platform_distinct workload_distinct control_plane_distinct by (simp_all add: table_entries [OF table])
  ultimately show ?thesis
    using apart apart_addresses [of ip iw "cluster_entries r platform" "cluster_entries r workload"]
      apart_addresses [of ip im "cluster_entries r platform" "cluster_entries r cp"]
      apart_addresses [of iw im "cluster_entries r workload" "cluster_entries r cp"]
    by (simp only: distinct_append set_append) (simp add: Int_Un_distrib)
qed

text \<open>The managed objects of the three clusters are the entries of their tables.\<close>

lemma table_members:
  assumes table: "has_table X rc obj pc ctx tns mv hv name v platform workload cp mgr r"
    and "(mc, m) \<in> set (managed_pairs (mgr_clusters mgr))"
  shows "(mc = platform \<or> mc = workload \<or> mc = cp) \<and> (GetObject r m, m_reconcileFunc m) \<in> set (cluster_entries r mc)"
  using assms(2) by (auto simp: table_cleaners(2) [OF table] in_managed_pairs cluster_entries_def)

lemma entries_pair:
  assumes "e \<in> set (cluster_entries r mc)" "mc \<in> set clusters"
  obtains n m where "n < length (managed_pairs clusters)" "managed_pairs clusters ! n = (mc, m)"
    "e = (GetObject r m, m_reconcileFunc m)"
proof -
  from assms obtain m where m: "m \<in> set (c_objects mc)" "e = (GetObject r m, m_reconcileFunc m)"
    by (auto simp: cluster_entries_def)
  then have "(mc, m) \<in> set (managed_pairs clusters)" using assms(2) by (simp add: in_managed_pairs)
  then show thesis using m(2) that by (auto simp: in_set_conv_nth)
qed

context keeping_server
begin

lemma table_reads:
  assumes table: "has_table X rc obj pc ctx tns mv hv name v platform workload cp mgr r" and api: "out_api X = api"
    and clients: "rec_PlatformClient rc = cl ip" "ctx_WorkloadClient ctx = cl iw" "ctx_MCPClient ctx = cl im"
    and mem: "(mc, m) \<in> set (managed_pairs (mgr_clusters mgr))"
  shows "c_client mc = cl (cluster_index ip iw im mc)" "\<exists>g. m_reconcileFunc m = Some g \<and> reads view (Reconcile m)"
proof -
  note t = table_cleaners [OF table]
  note e = table_members [OF table mem]
  show "c_client mc = cl (cluster_index ip iw im mc)"
    using e t(3-5) clients table_index [OF table, of ip iw im] by auto
  have "\<forall>e \<in> set (cluster_entries r platform). reading_entry view e"
    "\<forall>e \<in> set (cluster_entries r workload). reading_entry view e"
    "\<forall>e \<in> set (cluster_entries r cp). reading_entry view e"
    unfolding table_entries [OF table]
    using platform_reads [OF clients(1) api] workload_reads [OF clients(1,3) api] control_plane_reads by blast+
  with e have "reading_entry view (GetObject r m, m_reconcileFunc m)" by auto
  then show "\<exists>g. m_reconcileFunc m = Some g \<and> reads view (Reconcile m)"
    using Reconcile_Some by (fastforce simp: reading_entry_def)
qed

lemma pass_installs_entry:
  assumes table: "has_table X rc obj pc ctx tns mv hv name v platform workload cp mgr r" and api: "out_api X = api"
    and shape: "has_shape s X rc obj ctx tns r0 mgr r"
    and clients: "rec_PlatformClient rc = cl ip" "ctx_WorkloadClient ctx = cl iw" "ctx_MCPClient ctx = cl im"
    and tns: "tns \<noteq> []" and apart: "distinct [ip, iw, im]"
    and names: "distinct_names (hv_ImagePullSecrets hv) (metrics_namespace hv)"
      "chart_name_ok (mov_ChartPullSecret mv) name"
    and run: "Apply api mgr r = (Ret (results, err), r')"
    and n: "n < length (managed_pairs (mgr_clusters mgr))" "managed_pairs (mgr_clusters mgr) ! n = (mc, m)"
      "res_Error (results ! n) = None"
  shows "\<exists>g. m_reconcileFunc m = Some g \<and> installed view (cluster_index ip iw im mc) (r_world r') (GetObject r m) g"
proof -
  have mem: "(mc, m) \<in> set (managed_pairs (mgr_clusters mgr))" using n(1,2) nth_mem by metis
  obtain g where g: "m_reconcileFunc m = Some g" using table_reads(2) [OF table api clients mem] by blast
  have all: "\<forall>(mc, m) \<in> set (managed_pairs (mgr_clusters mgr)).
      c_client mc = cl (cluster_index ip iw im mc) \<and> reconciles (GetObject r m) m \<and> reads view (Reconcile m)"
    using table_reads [OF table api clients] shape_object(2) [OF shape] by (fastforce simp: behaved_def)
  have label: "keeps_label (GetObject r m) m" using shape_object(2) [OF shape mem] by (simp add: behaved_def)
  have spare: "\<forall>c \<in> set (mgr_cleaners mgr). spares view c (cluster_index ip iw im mc)
      (kind_of (GetObject r m)) (object_key (GetObject r m))"
  proof -
    note index = table_index [OF table, of ip iw im] and spared = table_is_spared [OF table api clients(1,2) tns apart names(2)]
    have e: "mc = platform \<or> mc = workload \<or> mc = cp" "(GetObject r m, m_reconcileFunc m) \<in> set (cluster_entries r mc)"
      using table_members [OF table mem] by blast+
    from e(1) show ?thesis
    proof (elim disjE)
      assume mc: "mc = platform"
      from spared(1) [OF e(2) [unfolded this]] show ?thesis unfolding mc index fst_conv .
    next
      assume mc: "mc = workload"
      from spared(2) [OF e(2) [unfolded this]] show ?thesis unfolding mc index fst_conv .
    next
      assume mc: "mc = cp"
      show ?thesis unfolding mc index by (rule spared(3))
    qed
  qed
  have "installed view (cluster_index ip iw im mc) (r_world r') (GetObject r m) g"
    by (rule pass_installs [OF run shape_refs(2) [OF shape] table_addresses [OF table apart names(1)] all
          shape_orphan_cleaners [OF shape] spare n label g])
  with g show ?thesis by blast
qed

lemma pass_installs_tables:
  assumes table: "has_table X rc obj pc ctx tns mv hv name v platform workload cp mgr r" and api: "out_api X = api"
    and shape: "has_shape s X rc obj ctx tns r0 mgr r"
    and clients: "rec_PlatformClient rc = cl ip" "ctx_WorkloadClient ctx = cl iw" "ctx_MCPClient ctx = cl im"
    and tns: "tns \<noteq> []" and apart: "distinct [ip, iw, im]"
    and names: "distinct_names (hv_ImagePullSecrets hv) (metrics_namespace hv)"
      "chart_name_ok (mov_ChartPullSecret mv) name"
    and run: "Apply api mgr r = (Ret (results, err), r')"
    and ok: "\<forall>n < length (managed_pairs (mgr_clusters mgr)). res_Error (results ! n) = None"
  shows "all_installed view ip (r_world r') (cluster_entries r platform)"
    "all_installed view iw (r_world r') (cluster_entries r workload)"
    "all_installed view im (r_world r') (cluster_entries r cp)"
proof -
  have "\<forall>mc \<in> {platform, workload, cp}. all_installed view (cluster_index ip iw im mc) (r_world r') (cluster_entries r mc)"
    unfolding all_installed_def
  proof clarify
    fix mc ob f
    assume mc: "mc \<in> {platform, workload, cp}" and e: "(ob, f) \<in> set (cluster_entries r mc)"
    have "mc \<in> set (mgr_clusters mgr)" using mc table_cleaners(2) [OF table] by auto
    with e obtain n m where n: "n < length (managed_pairs (mgr_clusters mgr))" "managed_pairs (mgr_clusters mgr) ! n = (mc, m)"
      and ob: "(ob, f) = (GetObject r m, m_reconcileFunc m)"
      by (rule entries_pair)
    have "res_Error (results ! n) = None" using ok n(1) by blast
    from pass_installs_entry [OF table api shape clients tns apart names run n this] ob
    show "\<exists>g. f = Some g \<and> installed view (cluster_index ip iw im mc) (r_world r') ob g" by simp
  qed
  then show "all_installed view ip (r_world r') (cluster_entries r platform)"
    "all_installed view iw (r_world r') (cluster_entries r workload)"
    "all_installed view im (r_world r') (cluster_entries r cp)"
    using table_index [OF table, of ip iw im] by simp_all
qed

end

end
