(* ===== verification/Serving.thy ===== *)
theory Serving
  imports Installed
begin

text \<open>
  Servers that serve what they are asked for, and that on them the pass of a request
  succeeds: every object whose reconcile function can do its work is applied without an
  error, and the cleaners report nothing.
\<close>

section \<open>The contract\<close>

text \<open>
  On a healthy server a stored object is found, a token is granted, a deletion succeeds or
  finds nothing, and \<open>CreateOrUpdate\<close> with a mutate function that succeeds on every object
  of the kind and key, without changing a store, succeeds.
\<close>

definition mutates_well ::
    "('c \<Rightarrow> 'w \<Rightarrow> string \<Rightarrow> object_key \<Rightarrow> object option) \<Rightarrow> ('w \<Rightarrow> bool) \<Rightarrow> object \<Rightarrow> 'w mutate \<Rightarrow> 'w \<Rightarrow> bool" where
  "mutates_well view healthy o' f w \<longleftrightarrow>
     (\<forall>o0 w0. healthy w0 \<longrightarrow> (\<forall>j. view j w0 = view j w) \<longrightarrow> kind_of o0 = kind_of o' \<longrightarrow> object_key o0 = object_key o' \<longrightarrow>
        (\<exists>o1 w1. f o0 w0 = (Ret None, o1, w1) \<and> healthy w1 \<and> (\<forall>j. view j w1 = view j w0) \<and>
           kind_of o1 = kind_of o' \<and> object_key o1 = object_key o'))"

locale serving_server =
  keeping_server api cl view + prompt_listing_server api cl view healthy
  for api :: "'w kube_api" and cl :: "'c \<Rightarrow> 'w client"
    and view :: "'c \<Rightarrow> 'w \<Rightarrow> string \<Rightarrow> object_key \<Rightarrow> object option" and healthy :: "'w \<Rightarrow> bool" +
  assumes get_present: "cl_get (cl i) k o' w = ((e, o''), w') \<Longrightarrow> healthy w \<Longrightarrow>
          view i w (kind_of o') k \<noteq> None \<Longrightarrow> e = None"
    and token_granted: "cl_create_token (cl i) sa secs w = (x, w') \<Longrightarrow> healthy w \<Longrightarrow>
          healthy w' \<and> (\<exists>token expiry. x = Inr (token, expiry))"
    and delete_clean: "cl_delete (cl i) o' w = (e, w') \<Longrightarrow> healthy w \<Longrightarrow> e = None \<or> IsNotFound api e"
    and upsert_healthy: "CreateOrUpdate api (cl i) o' f w = (out, o'', w') \<Longrightarrow> healthy w \<Longrightarrow>
          (\<And>o0 w0. healthy w0 \<Longrightarrow> healthy (snd (snd (f o0 w0)))) \<Longrightarrow> healthy w'"
    and upsert_serves: "CreateOrUpdate api (cl i) o' f w = (out, o'', w') \<Longrightarrow> healthy w \<Longrightarrow>
          mutates_well view healthy o' f w \<Longrightarrow> \<exists>op. out = Ret (op, None)"

text \<open>The mutators of controller-utils give no error for objects of their type.\<close>

locale serving_mutators = mutators api for api :: "'w kube_api" +
  assumes secret_serves: "kind_of o' = ''Secret'' \<Longrightarrow> \<exists>o''. SecretMutate api n ns d t o' = (None, o'')"
    and config_map_serves: "kind_of o' = ''ConfigMap'' \<Longrightarrow> \<exists>o''. ConfigMapMutate api n ns d o' = (None, o'')"

interpretation refmutserve: serving_mutators ref_api
  by unfold_locales simp_all

text \<open>The reference server serves when it is up.\<close>

abbreviation ref_healthy :: "ref_world \<Rightarrow> bool" where
  "ref_healthy w \<equiv> rw_down w = [] \<and> rw_held w = [] \<and> rw_custom w = (\<lambda>_ _. None)"

lemma ref_put_healthy [simp]:
  "rw_down (ref_put i o' w) = rw_down w" "rw_held (ref_put i o' w) = rw_held w" "rw_custom (ref_put i o' w) = rw_custom w"
  by (simp_all add: ref_put_def ref_set_store_def)

lemma ref_store_healthy:
  "ref_create i o' w = (x, w') \<Longrightarrow> ref_healthy w \<Longrightarrow> ref_healthy w'"
  "ref_update i o' w = (x, w') \<Longrightarrow> ref_healthy w \<Longrightarrow> ref_healthy w'"
  by (auto simp: ref_create_def ref_update_def Let_def split: option.splits)

lemma ref_upsert_healthy:
  assumes "ref_upsert (ref_client i) o' f w = (x, o'', w')" "ref_healthy w"
    and f: "\<And>o0 w0. ref_healthy w0 \<Longrightarrow> ref_healthy (snd (snd (f o0 w0)))"
  shows "ref_healthy w'"
proof -
  obtain e o0 w0 where get: "ref_get i (object_key o') o' w = ((e, o0), w0)"
    by (metis prod.exhaust)
  have w0: "w0 = w" by (rule ref_get_result(1) [OF get])
  obtain y o1 w1 where fy: "f o0 w0 = (y, o1, w1)" by (metis prod.exhaust)
  have w1: "ref_healthy w1" using f [of w0 o0] fy w0 assms(2) by simp
  obtain u uw where u: "ref_update i o1 w1 = (u, uw)" by (metis prod.exhaust)
  obtain c cw where c: "ref_create i o1 w1 = (c, cw)" by (metis prod.exhaust)
  have "w' = w0 \<or> w' = w1 \<or> w' = uw \<or> w' = cw"
    using assms(1) get fy u c by (auto simp: ref_upsert_def split: if_splits go.splits option.splits prod.splits)
  then show ?thesis
    using w0 w1 assms(2) ref_store_healthy(2) [OF u w1] ref_store_healthy(1) [OF c w1] by (elim disjE) (simp_all only:)
qed

lemma ref_upsert_serves:
  assumes "ref_upsert (ref_client i) o' f w = (x, o'', w')" "ref_healthy w" "mutates_well ref_view ref_healthy o' f w"
  shows "\<exists>op. x = Ret (op, None)"
proof -
  obtain e o0 w0 where get: "ref_get i (object_key o') o' w = ((e, o0), w0)"
    by (metis prod.exhaust)
  have w0: "w0 = w" and o0: "kind_of o0 = kind_of o'" "object_key o0 = object_key o'"
    using ref_get_result(1) [OF get] ref_get_identity [OF get] by simp_all
  obtain o1 w1 where f: "f o0 w0 = (Ret None, o1, w1)" "ref_healthy w1" "\<forall>j. ref_view j w1 = ref_view j w0"
      "kind_of o1 = kind_of o'" "object_key o1 = object_key o'"
    using assms(2,3) w0 o0 unfolding mutates_well_def by metis
  have found: "e = None \<Longrightarrow> ref_view i w (kind_of o') (object_key o') = Some o0"
    by (rule ref_get_result(2) [OF get])
  have err: "e = None \<or> ref_is_not_found e"
    using get assms(2) by (auto simp: ref_get_def split: option.splits)
  have "\<exists>s. ref_update i o1 w1 = ((None, o1), s)" if "e = None"
    using f found [OF that] w0 by (simp add: ref_update_def)
  moreover have "\<exists>s t. ref_create i o1 w1 = ((None, s), t)" using f by (simp add: ref_create_def Let_def)
  ultimately show ?thesis
    using assms(1) get f(1,5) o0 err
    by (auto simp: ref_upsert_def split: if_splits)
qed

interpretation refserve: serving_server ref_api ref_client ref_view ref_healthy
proof
  fix i k o' w e o'' w'
  assume "cl_get (ref_client i) k o' w = ((e, o''), w')" "ref_healthy w" "ref_view i w (kind_of o') k \<noteq> None"
  then show "e = None" by (auto simp: ref_get_def split: option.splits)
next
  fix i sa secs w x w'
  assume "cl_create_token (ref_client i) sa secs w = (x, w')" "ref_healthy w"
  then show "ref_healthy w' \<and> (\<exists>token expiry. x = Inr (token, expiry))" by (auto simp: ref_token_def)
next
  fix i o' w e w'
  assume "cl_delete (ref_client i) o' w = (e, w')" "ref_healthy w"
  then show "e = None \<or> IsNotFound ref_api e" by (auto simp: ref_delete_def Let_def split: option.splits)
next
  fix i o' f w out o'' w'
  assume "CreateOrUpdate ref_api (ref_client i) o' f w = (out, o'', w')" "ref_healthy w"
    and "\<And>o0 w0. ref_healthy w0 \<Longrightarrow> ref_healthy (snd (snd (f o0 w0)))"
  then show "ref_healthy w'" using ref_upsert_healthy by simp
next
  fix i o' f w out o'' w'
  assume "CreateOrUpdate ref_api (ref_client i) o' f w = (out, o'', w')" "ref_healthy w"
    and "mutates_well ref_view ref_healthy o' f w"
  then show "\<exists>op. out = Ret (op, None)" using ref_upsert_serves by simp
qed

section \<open>A pass that succeeds\<close>

text \<open>
  The objects the reconcile functions need, as addresses; an object that is reconciled
  without an error wherever these are present.
\<close>

definition present ::
    "('c \<Rightarrow> 'w \<Rightarrow> string \<Rightarrow> object_key \<Rightarrow> object option) \<Rightarrow> ('c \<times> string \<times> object_key) set \<Rightarrow> 'w \<Rightarrow> bool" where
  "present view needs w \<longleftrightarrow> (\<forall>(j, kind, k) \<in> needs. view j w kind k \<noteq> None)"

definition keeps_healthy :: "('w \<Rightarrow> bool) \<Rightarrow> 'w mutate \<Rightarrow> bool" where
  "keeps_healthy healthy g \<longleftrightarrow> (\<forall>o0 w0. healthy w0 \<longrightarrow> healthy (snd (snd (g o0 w0))))"

definition serves ::
    "('c \<Rightarrow> 'w \<Rightarrow> string \<Rightarrow> object_key \<Rightarrow> object option) \<Rightarrow> ('w \<Rightarrow> bool) \<Rightarrow> ('c \<times> string \<times> object_key) set \<Rightarrow>
     object \<Rightarrow> 'w mutate \<Rightarrow> bool" where
  "serves view healthy needs ob g \<longleftrightarrow>
     (\<forall>o0 w0. healthy w0 \<longrightarrow> present view needs w0 \<longrightarrow> kind_of o0 = kind_of ob \<longrightarrow> object_key o0 = object_key ob \<longrightarrow>
        (\<exists>o1 w1. g o0 w0 = (Ret None, o1, w1)))"

lemma presentD: "present view needs w \<Longrightarrow> (j, kind, k) \<in> needs \<Longrightarrow> view j w kind k \<noteq> None"
  by (auto simp: present_def)

lemma presentI: "(\<And>j kind k. (j, kind, k) \<in> needs \<Longrightarrow> view j w kind k \<noteq> None) \<Longrightarrow> present view needs w"
  unfolding present_def by blast

lemma present_cong: "(\<And>j. view j w' = view j w) \<Longrightarrow> present view needs w' = present view needs w"
  by (simp add: present_def)

context serving_server
begin

lemma apply_object_healthy:
  assumes mc: "c_client mc = cl i" and m: "keeps_healthy healthy (Reconcile m)" and h: "healthy (r_world r)"
    and run: "apply_object api mc m r = (x, r')"
  shows "healthy (r_world r')"
proof -
  obtain y o'' w' where up: "CreateOrUpdate api (cl i) (GetObject r m) (mutate_managed m) (r_world r) = (y, o'', w')"
    by (metis prod.exhaust)
  have "healthy w'"
    by (rule upsert_healthy [OF up h]) (use m in \<open>simp add: keeps_healthy_def mutate_managed_def\<close>)
  moreover have "r_world r' = w'"
    using run up mc by (auto simp: apply_object_def set_object_def split: go.splits)
  ultimately show ?thesis by simp
qed

lemma apply_object_serves:
  assumes mc: "c_client mc = cl i" and label: "keeps_label (GetObject r m) m" and rd: "reads view (Reconcile m)"
    and keep: "keeps_healthy healthy (Reconcile m)" and serve: "serves view healthy needs (GetObject r m) (Reconcile m)"
    and h: "healthy (r_world r)" and here: "present view needs (r_world r)"
    and run: "apply_object api mc m r = (Ret res, r')"
  shows "res_Error res = None"
proof -
  have "mutates_well view healthy (GetObject r m) (mutate_managed m) (r_world r)"
    unfolding mutates_well_def
  proof (intro allI impI)
    fix o0 w0
    assume h0: "healthy w0" and v0: "\<forall>j. view j w0 = view j (r_world r)"
      and o0: "kind_of o0 = kind_of (GetObject r m)" "object_key o0 = object_key (GetObject r m)"
    have "present view needs w0" using here present_cong [of view w0 "r_world r" needs] v0 by blast
    then obtain o1 w1 where f: "mutate_managed m o0 w0 = (Ret None, o1, w1)"
      using serve h0 o0 unfolding serves_def mutate_managed_def
      by (metis SetManagedBy_fields(6,7))
    note kept = keeps_labelD [OF label f o0]
    have "Reconcile m (SetManagedBy o0) w0 = (Ret None, o1, w1)" using f by (simp add: mutate_managed_def)
    then have "healthy w1" "\<forall>j. view j w1 = view j w0"
      using keep rd h0 unfolding keeps_healthy_def reads_def by (metis snd_conv)+
    with f kept o0 show "\<exists>o1 w1. mutate_managed m o0 w0 = (Ret None, o1, w1) \<and> healthy w1 \<and>
        (\<forall>j. view j w1 = view j w0) \<and> kind_of o1 = kind_of (GetObject r m) \<and> object_key o1 = object_key (GetObject r m)"
      by simp
  qed
  from upsert_serves [OF _ h this, of i] apply_object_result(5) [OF run] mc
  show ?thesis by fastforce
qed

text \<open>One object: the server stays healthy, and all that is needed stays or comes to be there.\<close>

lemma apply_object_needs:
  assumes here: "c_client mc = cl (idx mc)" "keeps_label (GetObject r m) m" "reconciles (GetObject r m) m"
      "reads view (Reconcile m)" "keeps_healthy healthy (Reconcile m)"
    and serve: "address idx r (mc, m) \<in> needs \<longrightarrow> serves view healthy needs (GetObject r m) (Reconcile m)"
    and h: "healthy (r_world r)" and n: "present view needs (r_world r)"
    and one: "apply_object api mc m r = (Ret res, r1)"
  shows "healthy (r_world r1)" "present view needs (r_world r1)"
    "serves view healthy needs (GetObject r m) (Reconcile m) \<Longrightarrow> res_Error res = None"
proof -
  show "healthy (r_world r1)" by (rule apply_object_healthy [OF here(1,5) h one])
  show served: "res_Error res = None" if "serves view healthy needs (GetObject r m) (Reconcile m)"
    by (rule apply_object_serves [OF here(1,2,4,5) that h n one])
  show "present view needs (r_world r1)"
  proof (rule presentI)
    fix j kind k
    assume need: "(j, kind, k) \<in> needs"
    show "view j (r_world r1) kind k \<noteq> None"
    proof (cases "(j, kind, k) = address idx r (mc, m)")
      case True
      then have "serves view healthy needs (GetObject r m) (Reconcile m)" using serve need by auto
      from apply_object_ok [OF here(1,2) one served [OF this]] True show ?thesis by (simp add: address_def)
    next
      case False
      then have "view j (r_world r1) kind k = view j (r_world r) kind k"
        by (intro apply_object_frame_view [OF here(1,3,4) one]) (auto simp: address_def)
      with presentD [OF n need] show ?thesis by simp
    qed
  qed
qed

lemma apply_loop_serves:
  assumes "distinct (map (m_ref \<circ> snd) ps)"
    and "\<forall>(mc, m) \<in> set ps. c_client mc = cl (idx mc) \<and> keeps_label (GetObject r m) m \<and>
      reconciles (GetObject r m) m \<and> reads view (Reconcile m) \<and> keeps_healthy healthy (Reconcile m)"
    and "\<forall>(mc, m) \<in> set ps. address idx r (mc, m) \<in> needs \<longrightarrow> serves view healthy needs (GetObject r m) (Reconcile m)"
    and "healthy (r_world r)" "present view needs (r_world r)"
    and "map_prog (\<lambda>(mc, m). apply_object api mc m) ps r = (Ret rs, r')"
  shows "healthy (r_world r') \<and> present view needs (r_world r') \<and>
    (\<forall>n < length ps. serves view healthy needs (GetObject r (snd (ps ! n))) (Reconcile (snd (ps ! n))) \<longrightarrow>
       res_Error (rs ! n) = None)"
  using assms
proof (induction ps arbitrary: r rs)
  case Nil
  then show ?case by (simp add: ret_apply)
next
  case (Cons p ps)
  show ?case
  proof (rule apply_loop_Cons [OF Cons.prems(1,6)])
    fix res r1 rs'
    assume one: "apply_object api (fst p) (snd p) r = (Ret res, r1)" and rs: "rs = res # rs'"
      and rest: "map_prog (\<lambda>(mc, m). apply_object api mc m) ps r1 = (Ret rs', r')"
      and d: "distinct (map (m_ref \<circ> snd) ps)" and same: "\<forall>q \<in> set ps. GetObject r1 (snd q) = GetObject r (snd q)"
    obtain mc m where p: "p = (mc, m)" by fastforce
    have here: "c_client mc = cl (idx mc)" "keeps_label (GetObject r m) m" "reconciles (GetObject r m) m"
      "reads view (Reconcile m)" "keeps_healthy healthy (Reconcile m)"
      and serve: "address idx r (mc, m) \<in> needs \<longrightarrow> serves view healthy needs (GetObject r m) (Reconcile m)"
      using Cons.prems(2,3) p by auto
    have one: "apply_object api mc m r = (Ret res, r1)" using one p by simp
    note step = apply_object_needs [OF here serve Cons.prems(4,5) one]
    have all: "\<forall>(mc, m) \<in> set ps. c_client mc = cl (idx mc) \<and> keeps_label (GetObject r1 m) m \<and>
        reconciles (GetObject r1 m) m \<and> reads view (Reconcile m) \<and> keeps_healthy healthy (Reconcile m)"
      by (rule same_objects_all [where P = "\<lambda>mc m ob. c_client mc = cl (idx mc) \<and> keeps_label ob m \<and> reconciles ob m \<and>
            reads view (Reconcile m) \<and> keeps_healthy healthy (Reconcile m)", OF same]) (use Cons.prems(2) in simp)
    have need: "\<forall>(mc, m) \<in> set ps. address idx r1 (mc, m) \<in> needs \<longrightarrow> serves view healthy needs (GetObject r1 m) (Reconcile m)"
      using Cons.prems(3) unfolding address_def fst_conv snd_conv list.set
      by (intro same_objects_all [where P = "\<lambda>mc m ob. (idx mc, kind_of ob, object_key ob) \<in> needs \<longrightarrow>
            serves view healthy needs ob (Reconcile m)", OF same]) simp
    note IH = Cons.IH [OF d all need step(1,2) rest]
    have "res_Error (rs ! n) = None"
      if "n < length (p # ps)" "serves view healthy needs (GetObject r (snd ((p # ps) ! n))) (Reconcile (snd ((p # ps) ! n)))" for n
      using that step(3) IH same rs p by (cases n) auto
    with IH show ?thesis by blast
  qed
qed

end

section \<open>Cleaners that report nothing\<close>

definition quiet :: "('w \<Rightarrow> bool) \<Rightarrow> 'w cleaner \<Rightarrow> bool" where
  "quiet healthy c \<longleftrightarrow> (\<forall>r x r'. c r = (x, r') \<longrightarrow> healthy (r_world r) \<longrightarrow> x = Inr [] \<and> healthy (r_world r'))"

lemma run_cleaners_quiet:
  "\<forall>c \<in> set cs. quiet healthy c \<Longrightarrow> healthy (r_world r) \<Longrightarrow>
     \<exists>r'. run_cleaners cs results r = ((results, None), r') \<and> healthy (r_world r')"
proof (induction cs arbitrary: r)
  case Nil
  then show ?case by simp
next
  case (Cons c cs)
  obtain x r1 where c: "c r = (x, r1)" by fastforce
  with Cons.prems have "x = Inr []" "healthy (r_world r1)" by (auto simp: quiet_def)
  with Cons.IH [of r1] Cons.prems(1) c show ?case by simp
qed

context serving_server
begin

lemma delete_each_clean:
  "delete_each (cl i) objs w = (ds, w') \<Longrightarrow> healthy w \<Longrightarrow> \<forall>(x, e) \<in> set ds. IgnoreNotFound api e = None"
proof (induction objs arbitrary: w ds)
  case Nil
  then show ?case by simp
next
  case (Cons obj objs)
  obtain e w1 where d: "cl_delete (cl i) obj w = (e, w1)" by fastforce
  obtain rest where rest: "delete_each (cl i) objs w1 = (rest, w')" and ds: "ds = (obj, e) # rest"
    using Cons.prems(1) d by (auto split: prod.splits)
  have "IgnoreNotFound api e = None"
    using delete_clean [OF d Cons.prems(2)] ignore_not_found_iff [of e] by (cases "IgnoreNotFound api e") auto
  with Cons.IH [OF rest delete_healthy [OF d Cons.prems(2)]] ds show ?case by simp
qed

lemma hookless_quiet:
  assumes "c_client cluster = cl i"
  shows "quiet healthy (hookless_cleanup api f err cluster kind ns keep)"
  unfolding quiet_def
proof (intro allI impI)
  fix r x r'
  assume h: "hookless_cleanup api f err cluster kind ns keep r = (x, r')" and hr: "healthy (r_world r)"
  have "healthy (r_world r')" using hookless_keeps_healthy [OF assms] h hr unfolding cleaner_keeps_def by blast
  moreover have "x = Inr []"
  proof (rule hookless_cleanup_parts [OF h])
    fix e w assume "cl_list (c_client cluster) kind ns ManagedBy (r_world r) = (Inl e, w)"
    then show ?thesis using list_answers [of i] assms hr by fastforce
  next
    fix objs w deleted w' results
    assume l: "cl_list (c_client cluster) kind ns ManagedBy (r_world r) = (Inr objs, w)"
      and d: "delete_each (c_client cluster) (filter (\<lambda>x. \<not> to_keep keep x) objs) w = (deleted, w')"
      and fr: "failed_results f cluster (filter (\<lambda>(x, e). IgnoreNotFound api e \<noteq> None) deleted)
         (r\<lparr>r_world := w'\<rparr>) = (results, r')"
      and x: "x = Inr results"
    have "healthy w" using list_healthy [of i] l assms hr by simp
    then have "\<forall>(x, e) \<in> set deleted. IgnoreNotFound api e = None" using delete_each_clean [of i] d assms by simp
    then have "filter (\<lambda>(x, e). IgnoreNotFound api e \<noteq> None) deleted = []" by (auto simp: filter_empty_conv)
    with fr x show ?thesis by simp
  qed
  ultimately show "x = Inr [] \<and> healthy (r_world r')" by simp
qed

end

section \<open>What the reconcile functions need\<close>

text \<open>The sources of the copies on the platform, and the service account on the control plane.\<close>

definition source_needs ::
    "'c \<Rightarrow> 'w reconciler \<Rightarrow> provider_config \<Rightarrow> string \<Rightarrow> string list \<Rightarrow> ('c \<times> string \<times> object_key) set" where
  "source_needs ip rc pc cps pulls =
     (\<lambda>n. (ip, ''Secret'', rec_PodNamespace rc, n)) ` set ((if cps = [] then [] else [cps]) @ pulls) \<union>
     (case pc_CABundleRef pc of None \<Rightarrow> {} | Some ref \<Rightarrow> {(ip, ''ConfigMap'', rec_PodNamespace rc, cms_Name ref)})"

definition account_need :: "'c \<Rightarrow> string \<Rightarrow> 'c \<times> string \<times> object_key" where
  "account_need im mns = (im, ''ServiceAccount'', mns, ''metrics-operator-server'')"

definition serving_entry ::
    "('c \<Rightarrow> 'w \<Rightarrow> string \<Rightarrow> object_key \<Rightarrow> object option) \<Rightarrow> ('w \<Rightarrow> bool) \<Rightarrow> ('c \<times> string \<times> object_key) set \<Rightarrow> 'w entry \<Rightarrow> bool" where
  "serving_entry view healthy needs e \<longleftrightarrow>
     (\<exists>g. snd e = Some g \<and> keeps_healthy healthy g \<and> serves view healthy needs (fst e) g)"

lemma no_op_serves: "serving_entry view healthy needs (ob, Some NoOp)"
  by (simp add: serving_entry_def keeps_healthy_def serves_def NoOp_def)

lemma role_serves: "serving_entry view healthy needs (role_entry msa)"
  by (auto simp: serving_entry_def keeps_healthy_def serves_def role_entry_def role_binding_reconcile_def
      split: body.splits dest: body_kind_known)

lemma flux_serves:
  assumes "mov_ChartURL (fp_RequestedVersion p) \<noteq> None" "e \<in> set (flux_entries p ns)"
  shows "serving_entry view healthy needs e"
  using assms
  by (auto simp: flux_entries_def serving_entry_def keeps_healthy_def serves_def oci_reconcile_def
      helm_release_reconcile_def split: body.splits option.splits dest: body_kind_known)

context serving_server
begin

lemma copy_serves:
  assumes mut: "serving_mutators api" and cfg: "scc_SourceClient cfg = cl i"
    and need: "\<forall>n \<in> set pulls. (i, ''Secret'', scc_SourceNamespace cfg, n) \<in> needs" and e: "e \<in> set (copies api pulls cfg)"
  shows "serving_entry view healthy needs e"
proof -
  from e obtain pull where pull: "pull \<in> set pulls"
    and e': "snd e = Some (pull_secret_reconcile api pull cfg)" "kind_of (fst e) = ''Secret''"
    by (auto simp: copies_def)
  let ?src = "new_object pull (scc_SourceNamespace cfg) (Secret None [])"
  have "keeps_healthy healthy (pull_secret_reconcile api pull cfg)"
    using get_healthy cfg
    by (fastforce simp: keeps_healthy_def pull_secret_reconcile_def Let_def split: body.splits prod.splits)
  moreover have "\<exists>o1 w1. pull_secret_reconcile api pull cfg o0 w0 = (Ret None, o1, w1)"
    if h: "healthy w0" and p: "present view needs w0" and kind: "kind_of o0 = ''Secret''" for o0 w0
  proof -
    obtain e source w1 where get: "cl_get (cl i) (object_key ?src) ?src w0 = ((e, source), w1)" by (metis prod.exhaust)
    have "view i w0 (kind_of ?src) (object_key ?src) \<noteq> None"
      using presentD [OF p] need pull by (simp add: object_key_def)
    then have "e = None" by (rule get_present [OF get h])
    moreover obtain o1 where "SecretMutate api (copy_name pull (scc_TargetName cfg)) (scc_TargetNamespace cfg)
        (secret_data source) SecretTypeDockerConfigJson o0 = (None, o1)"
      using serving_mutators.secret_serves [OF mut kind] by blast
    ultimately show ?thesis
      using get cfg body_kind_known(1) [OF kind] by (auto simp: pull_secret_reconcile_def Let_def)
  qed
  ultimately show ?thesis using e' by (auto simp: serving_entry_def serves_def)
qed

lemma ca_serves:
  assumes mut: "serving_mutators api" and cfg: "ccc_SourceClient cfg = cl i"
    and need: "(i, ''ConfigMap'', ccc_SourceNamespace cfg, caName) \<in> needs"
  shows "serving_entry view healthy needs (ca_entry api caName cfg)"
proof -
  let ?src = "new_object caName (ccc_SourceNamespace cfg) (ConfigMap None)"
  have "keeps_healthy healthy (ca_config_map_reconcile api caName cfg)"
    using get_healthy cfg
    by (fastforce simp: keeps_healthy_def ca_config_map_reconcile_def Let_def split: body.splits prod.splits)
  moreover have "\<exists>o1 w1. ca_config_map_reconcile api caName cfg o0 w0 = (Ret None, o1, w1)"
    if h: "healthy w0" and p: "present view needs w0" and kind: "kind_of o0 = ''ConfigMap''" for o0 w0
  proof -
    obtain e source w1 where get: "cl_get (cl i) (object_key ?src) ?src w0 = ((e, source), w1)" by (metis prod.exhaust)
    have "view i w0 (kind_of ?src) (object_key ?src) \<noteq> None"
      using presentD [OF p need] by (simp add: object_key_def)
    then have "e = None" by (rule get_present [OF get h])
    moreover obtain o1 where "ConfigMapMutate api (ca_config_map_name caName cfg) (ccc_TargetNamespace cfg)
        (config_map_data source) o0 = (None, o1)"
      using serving_mutators.config_map_serves [OF mut kind] by blast
    ultimately show ?thesis
      using get cfg body_kind_known(2) [OF kind] by (auto simp: ca_config_map_reconcile_def Let_def)
  qed
  ultimately show ?thesis by (auto simp: serving_entry_def serves_def ca_entry_def)
qed

lemma token_generated:
  assumes cfg: "cfg = Some conf" "rc_CAFile conf = []" and msa: "msa_Name msa \<noteq> []" "msa_Namespace msa \<noteq> []"
    and h: "healthy w" and run: "generateToken env (cl i) cfg msa Hour w = (x, w')"
  shows "healthy w'" "view i w ''ServiceAccount'' (msa_Namespace msa, msa_Name msa) \<noteq> None \<Longrightarrow> \<exists>t. x = Inr t"
proof -
  obtain e sa w1 where get: "cl_get (cl i) (msa_Namespace msa, msa_Name msa) (new_object [] [] ServiceAccount) w =
      ((e, sa), w1)" by (metis prod.exhaust)
  obtain y w2 where create: "cl_create_token (cl i) sa (Hour div Second) w1 = (y, w2)" by fastforce
  have h1: "healthy w1" by (rule get_healthy [OF get h])
  from token_granted [OF create h1] obtain token expiry where y: "y = Inr (token, expiry)" and h2: "healthy w2" by blast
  have hour: "\<not> Hour < 10 * Minute" by (simp add: Hour_def Minute_def Second_def)
  have eq: "(x, w') = (case e of Some err \<Rightarrow> (Inl err, w1)
      | None \<Rightarrow> (Inr \<lparr>sat_CAData = rc_CAData conf, sat_Token = token, sat_TokenExpiry = expiry\<rparr>, w2))"
    using run get create y cfg msa hour by (cases e) (simp_all add: generateToken_def Let_def)
  show "healthy w'" using eq h1 h2 by (cases e) simp_all
  show "\<exists>t. x = Inr t" if "view i w ''ServiceAccount'' (msa_Namespace msa, msa_Name msa) \<noteq> None"
  proof -
    have "e = None" by (rule get_present [OF get h]) (use that in simp)
    with eq show ?thesis by simp
  qed
qed

lemma token_serves:
  assumes cp: "c_client cp = cl i" "c_cfg cp = Some conf" "rc_CAFile conf = []"
    and msa: "msa_Name msa \<noteq> []" "msa_Namespace msa \<noteq> []" and kind: "kind_of ob = ''Secret''"
    and need: "(i, ''ServiceAccount'', msa_Namespace msa, msa_Name msa) \<in> needs"
  shows "keeps_healthy healthy (token_reconcile env cp msa poll)"
    "serving_entry view healthy needs (ob, Some (token_reconcile env cp msa poll))"
proof -
  show keep: "keeps_healthy healthy (token_reconcile env cp msa poll)"
    using token_generated(1) [OF cp(2,3) msa] cp(1)
    by (fastforce simp: keeps_healthy_def token_reconcile_def Let_def split: body.splits prod.splits sum.splits)
  have "\<exists>o1 w1. token_reconcile env cp msa poll o0 w0 = (Ret None, o1, w1)"
    if h: "healthy w0" and p: "present view needs w0" and k: "kind_of o0 = ''Secret''" for o0 w0
  proof -
    obtain x w1 where g: "generateToken env (cl i) (c_cfg cp) msa Hour w0 = (x, w1)" by fastforce
    obtain t where "x = Inr t" using token_generated(2) [OF cp(2,3) msa h g presentD [OF p need]] by blast
    with g cp(1) body_kind_known(1) [OF k] show ?thesis by (auto simp: token_reconcile_def Let_def)
  qed
  with keep kind show "serving_entry view healthy needs (ob, Some (token_reconcile env cp msa poll))"
    by (simp add: serving_entry_def serves_def)
qed

end

end
