(* ===== verification/Serving_Pass.thy ===== *)
theory Serving_Pass
  imports Serving
begin

text \<open>
  The pass of a request on servers that serve: the first pass installs everything but,
  at most, the token, which needs the service account that the same pass makes after it;
  from then on every pass succeeds.
\<close>

section \<open>The tables are served\<close>

definition all_needs ::
    "'c \<Rightarrow> 'c \<Rightarrow> 'w reconciler \<Rightarrow> provider_config \<Rightarrow> string \<Rightarrow> string list \<Rightarrow> string \<Rightarrow> ('c \<times> string \<times> object_key) set" where
  "all_needs ip im rc pc cps pulls mns = insert (account_need im mns) (source_needs ip rc pc cps pulls)"

text \<open>The connection to the control plane has no file for its certificates; a chart URL is given.\<close>

definition servable :: "'w cluster_context \<Rightarrow> metrics_operator_version \<Rightarrow> bool" where
  "servable ctx mv \<longleftrightarrow> mov_ChartURL mv \<noteq> None \<and> (\<exists>conf. ctx_MCPConfig ctx = Some conf \<and> rc_CAFile conf = [])"

lemma metrics_namespace_not_empty [simp]: "metrics_namespace hv \<noteq> []"
  by (simp add: metrics_namespace_def DefaultNamespace_def)

lemma operator_account_simps [simp]:
  "msa_Name (operator_account mns) = ''metrics-operator-server''" "msa_Namespace (operator_account mns) = mns"
  by (simp_all add: operator_account_def)

context serving_server
begin

lemma platform_serves:
  assumes "serving_mutators (out_api X)" "out_api X = api" "rec_PlatformClient rc = cl ip"
    "mov_ChartURL (fp_RequestedVersion p) \<noteq> None" "source_needs ip rc pc cps pulls \<subseteq> needs"
    "e \<in> set (platform_table X rc tns cps name p)"
  shows "serving_entry view healthy needs e"
proof (cases "e \<in> set (flux_entries p tns)")
  case True
  then show ?thesis by (rule flux_serves [OF assms(4)])
next
  case False
  then have e: "e \<in> set (copies api (if cps = [] then [] else [cps]) (chart_config rc tns name))"
    using assms(2,6) by (simp add: platform_table_def)
  show ?thesis
    by (rule copy_serves [OF _ _ _ e, of ip])
       (use assms in \<open>auto simp: chart_config_def source_needs_def\<close>)
qed

lemma workload_serves:
  assumes "serving_mutators (out_api X)" "out_api X = api" "rec_PlatformClient rc = cl ip" "ctx_MCPClient ctx = cl im"
    "servable ctx mv" "mns \<noteq> []" "all_needs ip im rc pc cps pulls mns \<subseteq> needs"
    "e \<in> set (workload_table X rc pc ctx ins mns pulls)"
  shows "serving_entry view healthy needs e"
proof -
  from assms(5) obtain conf where conf: "c_cfg (new_control_plane ctx) = Some conf" "rc_CAFile conf = []"
    by (auto simp: servable_def new_control_plane_def NewManagedCluster_def)
  have cp: "c_client (new_control_plane ctx) = cl im" using assms(4) by (simp add: new_control_plane_def NewManagedCluster_def)
  have "serving_entry view healthy needs (ob, Some (token_reconcile (out_env X) (new_control_plane ctx)
      (operator_account mns) (PollInterval pc)))" if "kind_of ob = ''Secret''" for ob
    by (rule token_serves(2) [OF cp conf _ _ that])
       (use assms(6,7) in \<open>simp_all add: all_needs_def account_need_def\<close>)
  then have access: "serving_entry view healthy needs x"
    if "x \<in> set (workload_access (out_env X) (operator_account mns) (new_workload ctx ins) (new_control_plane ctx) (PollInterval pc))" for x
    using that no_op_serves by (auto simp: workload_access_def)
  have images: "serving_entry view healthy needs x" if "x \<in> set (copies api pulls (image_config rc ins))" for x
    by (rule copy_serves [OF _ _ _ that, of ip])
       (use assms in \<open>auto simp: image_config_def source_needs_def all_needs_def\<close>)
  have "serving_entry view healthy needs (ca_entry api (cms_Name ref) (ca_config rc ins))" if "pc_CABundleRef pc = Some ref" for ref
    by (rule ca_serves [of _ ip]) (use assms that in \<open>auto simp: ca_config_def source_needs_def all_needs_def\<close>)
  moreover have "e \<in> set (workload_access (out_env X) (operator_account mns) (new_workload ctx ins) (new_control_plane ctx)
      (PollInterval pc)) \<or> e \<in> set (copies api pulls (image_config rc ins)) \<or>
      (\<exists>ref. pc_CABundleRef pc = Some ref \<and> e = ca_entry api (cms_Name ref) (ca_config rc ins))"
    using assms(2,8) by (cases "pc_CABundleRef pc") (auto simp: workload_table_def)
  ultimately show ?thesis using access images by blast
qed

lemma control_plane_serves: "e \<in> set (control_plane_table mns) \<Longrightarrow> serving_entry view healthy needs e"
  using no_op_serves role_serves by (auto simp: control_plane_table_def account_entries_def)

end

text \<open>The sources lie outside of the tables, in the name space of the operator.\<close>

lemma sources_apart:
  assumes table: "has_table X rc obj pc ctx tns mv hv name v platform workload cp mgr r"
    and apart: "distinct [ip, iw, im]" and pod: "rec_PodNamespace rc \<noteq> tns"
    and mem: "(mc, m) \<in> set (managed_pairs (mgr_clusters mgr))"
  shows "address (cluster_index ip iw im) r (mc, m) \<notin> source_needs ip rc pc cps pulls"
proof -
  note e = table_members [OF table mem] and index = table_index [OF table, of ip iw im]
  have "\<forall>x \<in> set (platform_table X rc tns (mov_ChartPullSecret mv) name
      (request_flux obj pc ctx (metrics_namespace hv) name (mv\<lparr>mov_HelmValues := Some v\<rparr>))).
      kind_of (fst x) \<noteq> ''ConfigMap'' \<and> (kind_of (fst x) = ''Secret'' \<longrightarrow> o_Namespace (fst x) = tns)"
    by (simp add: platform_table_def copies_def flux_entries_def chart_config_def)
  then have "mc = platform \<longrightarrow> kind_of (GetObject r m) \<noteq> ''ConfigMap'' \<and>
      (kind_of (GetObject r m) = ''Secret'' \<longrightarrow> o_Namespace (GetObject r m) = tns)"
    using e table_entries(1) [OF table] by fastforce
  with e index apart pod show ?thesis
    by (auto simp: source_needs_def address_def object_key_def split: option.splits)
qed

lemma account_entry:
  assumes table: "has_table X rc obj pc ctx tns mv hv name v platform workload cp mgr r"
  obtains n m where "n < length (managed_pairs (mgr_clusters mgr))" "managed_pairs (mgr_clusters mgr) ! n = (cp, m)"
    "m_reconcileFunc m = Some NoOp"
    "GetObject r m = new_object ''metrics-operator-server'' (metrics_namespace hv) ServiceAccount"
proof -
  have "(new_object ''metrics-operator-server'' (metrics_namespace hv) ServiceAccount, Some NoOp) \<in> set (cluster_entries r cp)"
    by (simp add: table_entries(3) [OF table] control_plane_table_def account_entries_def)
  moreover have "cp \<in> set (mgr_clusters mgr)" by (simp add: table_cleaners(2) [OF table])
  ultimately show thesis by (rule entries_pair) (use that in auto)
qed

section \<open>The pass\<close>

text \<open>The setting of a request: three different clusters, and names that do not clash.\<close>

definition separate_clusters ::
    "('c \<Rightarrow> 'w client) \<Rightarrow> 'w reconciler \<Rightarrow> 'w cluster_context \<Rightarrow> 'c \<Rightarrow> 'c \<Rightarrow> 'c \<Rightarrow> bool" where
  "separate_clusters cl rc ctx ip iw im \<longleftrightarrow>
     rec_PlatformClient rc = cl ip \<and> ctx_WorkloadClient ctx = cl iw \<and> ctx_MCPClient ctx = cl im \<and> distinct [ip, iw, im]"

definition names_apart ::
    "'w outside \<Rightarrow> string \<Rightarrow> metrics_operator_version \<Rightarrow> helm_values \<Rightarrow> bool" where
  "names_apart X tns mv hv \<longleftrightarrow> tns \<noteq> [] \<and>
     distinct_names (hv_ImagePullSecrets hv) (metrics_namespace hv) \<and>
     (\<forall>name. chart_secret_name X (mov_ChartPullSecret mv) = Inr name \<longrightarrow> chart_name_ok (mov_ChartPullSecret mv) name)"

context serving_server
begin

text \<open>Every object of the request can be served once all its needs are there.\<close>

lemma table_serves:
  assumes mut: "serving_mutators (out_api X)" and api: "out_api X = api"
    and table: "has_table X rc obj pc ctx tns mv hv name v platform workload cp mgr r"
    and shape: "has_shape s X rc obj ctx tns r0 mgr r"
    and clients: "rec_PlatformClient rc = cl ip" "ctx_WorkloadClient ctx = cl iw" "ctx_MCPClient ctx = cl im"
    and able: "servable ctx mv" and mem: "(mc, m) \<in> set (managed_pairs (mgr_clusters mgr))"
  shows "c_client mc = cl (cluster_index ip iw im mc) \<and> keeps_label (GetObject r m) m \<and>
      reconciles (GetObject r m) m \<and> reads view (Reconcile m) \<and> keeps_healthy healthy (Reconcile m)"
    "serves view healthy (all_needs ip im rc pc (mov_ChartPullSecret mv) (hv_ImagePullSecrets hv) (metrics_namespace hv))
      (GetObject r m) (Reconcile m)"
proof -
  let ?A = "all_needs ip im rc pc (mov_ChartPullSecret mv) (hv_ImagePullSecrets hv) (metrics_namespace hv)"
  have url: "mov_ChartURL (fp_RequestedVersion (request_flux obj pc ctx (metrics_namespace hv) name (mv\<lparr>mov_HelmValues := Some v\<rparr>))) \<noteq> None"
    using able by (simp add: servable_def request_flux_def)
  have "\<forall>e \<in> set (cluster_entries r platform). serving_entry view healthy ?A e"
    "\<forall>e \<in> set (cluster_entries r workload). serving_entry view healthy ?A e"
    "\<forall>e \<in> set (cluster_entries r cp). serving_entry view healthy ?A e"
    unfolding table_entries [OF table]
    using platform_serves [OF mut api clients(1) url, of pc "mov_ChartPullSecret mv" "hv_ImagePullSecrets hv" ?A]
      workload_serves [OF mut api clients(1,3) able metrics_namespace_not_empty subset_refl] control_plane_serves
    by (auto simp: all_needs_def)
  then have "serving_entry view healthy ?A (GetObject r m, m_reconcileFunc m)"
    using table_members [OF table mem] by auto
  then have ready: "keeps_healthy healthy (Reconcile m)" "serves view healthy ?A (GetObject r m) (Reconcile m)"
    using Reconcile_Some by (fastforce simp: serving_entry_def)+
  show "serves view healthy ?A (GetObject r m) (Reconcile m)" by (rule ready(2))
  show "c_client mc = cl (cluster_index ip iw im mc) \<and> keeps_label (GetObject r m) m \<and>
      reconciles (GetObject r m) m \<and> reads view (Reconcile m) \<and> keeps_healthy healthy (Reconcile m)"
    using table_reads [OF table api clients mem] shape_object(2) [OF shape mem] ready(1) by (auto simp: behaved_def)
qed

lemma table_quiet:
  assumes table: "has_table X rc obj pc ctx tns mv hv name v platform workload cp mgr r" and api: "out_api X = api"
    and clients: "rec_PlatformClient rc = cl ip" "ctx_WorkloadClient ctx = cl iw"
  shows "\<forall>c \<in> set (mgr_cleaners mgr). quiet healthy c"
  using table_cleaners(1,3,4) [OF table] hookless_quiet clients
  unfolding configMap_Cleanup_hookless secret_Cleanup_hookless
  by (auto simp: NewConfigMapCleaner_def NewSecretCleaner_def api)

text \<open>The cleaners leave the sources of the copies alone.\<close>

lemma sources_spared:
  assumes table: "has_table X rc obj pc ctx tns mv hv name v platform workload cp mgr r" and api: "out_api X = api"
    and clients: "rec_PlatformClient rc = cl ip" "ctx_WorkloadClient ctx = cl iw" and tns: "tns \<noteq> []"
    and apart: "ip \<noteq> iw" "rec_PodNamespace rc \<noteq> tns"
    and clean: "run_cleaners (mgr_cleaners mgr) rs r1 = (out, r')"
    and need: "(j, kind, k) \<in> source_needs ip rc pc (mov_ChartPullSecret mv) (hv_ImagePullSecrets hv)"
  shows "view j (r_world r') kind k = view j (r_world r1) kind k"
proof -
  have "\<forall>c \<in> set (mgr_cleaners mgr). spares view c j kind k"
    by (rule cleaners_spare [OF table api clients tns])
       (use need apart in \<open>auto simp: source_needs_def split: option.splits if_splits\<close>)
  then show ?thesis using clean by (rule run_cleaners_spare)
qed

text \<open>After a pass the service account of the operator exists, as nothing it needs can be missing.\<close>

lemma account_after_pass:
  assumes table: "has_table X rc obj pc ctx tns mv hv name v platform workload cp mgr r" and api: "out_api X = api"
    and shape: "has_shape s X rc obj ctx tns r0 mgr r"
    and clients: "rec_PlatformClient rc = cl ip" "ctx_WorkloadClient ctx = cl iw" "ctx_MCPClient ctx = cl im"
    and tns: "tns \<noteq> []" and apart: "distinct [ip, iw, im]"
    and names: "distinct_names (hv_ImagePullSecrets hv) (metrics_namespace hv)"
      "chart_name_ok (mov_ChartPullSecret mv) name"
    and run: "Apply api mgr r = (Ret (rs, err), r')"
    and served: "\<forall>n < length (managed_pairs (mgr_clusters mgr)).
      serves view healthy needs (GetObject r (snd (managed_pairs (mgr_clusters mgr) ! n)))
        (Reconcile (snd (managed_pairs (mgr_clusters mgr) ! n))) \<longrightarrow> res_Error (rs ! n) = None"
  shows "view im (r_world r') ''ServiceAccount'' (metrics_namespace hv, ''metrics-operator-server'') \<noteq> None"
proof (rule account_entry [OF table])
  fix n m
  assume n: "n < length (managed_pairs (mgr_clusters mgr))" "managed_pairs (mgr_clusters mgr) ! n = (cp, m)"
    and m: "m_reconcileFunc m = Some NoOp"
    and ob: "GetObject r m = new_object ''metrics-operator-server'' (metrics_namespace hv) ServiceAccount"
  have "serves view healthy needs (GetObject r m) (Reconcile m)"
    unfolding Reconcile_Some [OF m] by (simp add: serves_def NoOp_def)
  then have "res_Error (rs ! n) = None" using served n by simp
  from pass_installs_entry [OF table api shape clients tns apart names run n this]
  show ?thesis using table_index(3) [OF table, of ip iw im] ob by (auto simp: installed_def object_key_def)
qed

text \<open>When everything that is needed is there, no object of the loop has an error.\<close>

lemma served_without_errors:
  assumes "distinct (map (m_ref \<circ> snd) ps)"
    and "\<forall>(mc, m) \<in> set ps. c_client mc = cl (idx mc) \<and> keeps_label (GetObject r m) m \<and>
      reconciles (GetObject r m) m \<and> reads view (Reconcile m) \<and> keeps_healthy healthy (Reconcile m)"
    and "\<forall>(mc, m) \<in> set ps. serves view healthy needs (GetObject r m) (Reconcile m)"
    and "healthy (r_world r)" "present view needs (r_world r)"
    and "map_prog (\<lambda>(mc, m). apply_object api mc m) ps r = (Ret rs, r')"
  shows "\<forall>res \<in> set rs. res_Error res = None"
proof -
  have "\<forall>(mc, m) \<in> set ps. address idx r (mc, m) \<in> needs \<longrightarrow> serves view healthy needs (GetObject r m) (Reconcile m)"
    using assms(3) by blast
  note loop = apply_loop_serves [OF assms(1,2) this assms(4-6)]
  have "serves view healthy needs (GetObject r (snd (ps ! n))) (Reconcile (snd (ps ! n)))" if "n < length ps" for n
    using assms(3) nth_mem [OF that] by (metis (mono_tags) case_prodD prod.collapse)
  with loop map_prog_length [OF assms(6)] show ?thesis by (auto simp: in_set_conv_nth)
qed

lemma serving_pass:
  assumes mut: "serving_mutators (out_api X)" and api: "out_api X = api"
    and table: "has_table X rc obj pc ctx tns mv hv name v platform workload cp mgr r"
    and shape: "has_shape s X rc obj ctx tns r0 mgr r"
    and setting: "separate_clusters cl rc ctx ip iw im" "names_apart X tns mv hv" "rec_PodNamespace rc \<noteq> tns"
    and able: "servable ctx mv" and h: "healthy (r_world r)"
    and sources: "present view (source_needs ip rc pc (mov_ChartPullSecret mv) (hv_ImagePullSecrets hv)) (r_world r)"
  shows "\<exists>results r'. Apply api mgr r = (Ret (results, None), r') \<and> healthy (r_world r') \<and>
    present view (all_needs ip im rc pc (mov_ChartPullSecret mv) (hv_ImagePullSecrets hv) (metrics_namespace hv)) (r_world r') \<and>
    (present view (all_needs ip im rc pc (mov_ChartPullSecret mv) (hv_ImagePullSecrets hv) (metrics_namespace hv)) (r_world r) \<longrightarrow>
       (\<forall>res \<in> set results. res_Error res = None))"
proof -
  let ?ps = "managed_pairs (mgr_clusters mgr)" and ?idx = "cluster_index ip iw im"
  let ?S = "source_needs ip rc pc (mov_ChartPullSecret mv) (hv_ImagePullSecrets hv)"
  let ?A = "all_needs ip im rc pc (mov_ChartPullSecret mv) (hv_ImagePullSecrets hv) (metrics_namespace hv)"
  have clients: "rec_PlatformClient rc = cl ip" "ctx_WorkloadClient ctx = cl iw" "ctx_MCPClient ctx = cl im"
    and apart: "distinct [ip, iw, im]"
    using setting(1) by (simp_all add: separate_clusters_def)
  have name: "chart_secret_name X (mov_ChartPullSecret mv) = Inr name" using table by (simp add: has_table_def Let_def)
  have tns: "tns \<noteq> []" and names: "distinct_names (hv_ImagePullSecrets hv) (metrics_namespace hv)"
      "chart_name_ok (mov_ChartPullSecret mv) name"
    using setting(2) name by (simp_all add: names_apart_def)
  note serve = table_serves [OF mut api table shape clients able]
  have all: "\<forall>(mc, m) \<in> set ?ps. c_client mc = cl (?idx mc) \<and> keeps_label (GetObject r m) m \<and>
      reconciles (GetObject r m) m \<and> reads view (Reconcile m) \<and> keeps_healthy healthy (Reconcile m)"
    using serve(1) by blast
  have none: "\<forall>(mc, m) \<in> set ?ps. address ?idx r (mc, m) \<in> ?S \<longrightarrow> serves view healthy ?S (GetObject r m) (Reconcile m)"
    using sources_apart [OF table apart setting(3)] by blast
  note refs = shape_refs(2) [OF shape]
  have "\<forall>(mc, m) \<in> set ?ps. (\<exists>i. c_client mc = cl i) \<and> reconciles (GetObject r m) m" using all by blast
  then obtain rs r1 where loop: "map_prog (\<lambda>(mc, m). apply_object api mc m) ?ps r = (Ret rs, r1)"
    using apply_loop_returns [OF refs] by blast
  note first = apply_loop_serves [OF refs all none h sources loop]
  obtain r' where clean: "run_cleaners (mgr_cleaners mgr) rs r1 = ((rs, None), r')" and h': "healthy (r_world r')"
    using run_cleaners_quiet [OF table_quiet [OF table api clients(1,2)]] first by blast
  have "(\<lambda>(mc, m). reconcileObject api (getDependents (mgr_clusters mgr)) False mc m) = (\<lambda>(mc, m). apply_object api mc m)"
    by (simp add: fun_eq_iff reconcileObject_def)
  then have run: "Apply api mgr r = (Ret (rs, None), r')"
    unfolding Apply_def reconcileObjects_flat using loop clean by (simp add: bind_prog_def)
  have "view j (r_world r') kind k \<noteq> None" if "(j, kind, k) \<in> ?S" for j kind k
    using sources_spared [OF table api clients(1,2) tns _ setting(3) clean that] apart first presentD [OF _ that] by auto
  moreover have "view im (r_world r') ''ServiceAccount'' (metrics_namespace hv, ''metrics-operator-server'') \<noteq> None"
    by (rule account_after_pass [OF table api shape clients tns apart names run]) (use first in blast)
  ultimately have after: "present view ?A (r_world r')"
    by (auto simp: present_def all_needs_def account_need_def)
  have "\<forall>res \<in> set rs. res_Error res = None" if A: "present view ?A (r_world r)"
    by (rule served_without_errors [OF refs all _ h A loop]) (use serve(2) in blast)
  with run h' after show ?thesis by blast
qed

end

section \<open>The handler\<close>

text \<open>What a call of the handler that returns success has done.\<close>

lemma success_pass:
  assumes lib: "user_input_errors (out_lib X)" and server: "api_server (out_api X) cl view" "mutators (out_api X)"
    "known_clients cl rc ctx"
    and make: "createObjectManager X rc (lib_StatusProgressing (out_lib X) obj ''Reconciling'' ''Reconcile in progress'')
      pc ctx w = (ok (mgr, r), obj1, w1)"
    and run: "CreateOrUpdate_handler X rc obj pc ctx w = (Ret (t, None), obj', w')"
  obtains results r' where "Apply (out_api X) mgr r = (Ret (results, None), r')" "w' = r_world r'"
    "\<forall>res \<in> set results. res_Error res = None"
proof (rule createObjectManager_shape [OF server(2) make])
  fix s tns
  assume shape: "has_shape s X rc obj1 ctx tns (new_run w1) mgr r"
  obtain results err r' rs where pass: "Apply (out_api X) mgr r = (Ret (results, err), r')"
    and shown: "resultsToResources results r' = Ret (rs, \<exists>res \<in> set results. res_Error res \<noteq> None)"
    using request_pass_returns [OF server make, of False] unfolding Apply_def by blast
  let ?bad = "\<exists>res \<in> set results. res_Error res \<noteq> None"
  have err: "\<exists>t. x = ESentinel t" if "err = Some x" for x
    using shape_error [OF shape pass [unfolded Apply_def that]] by blast
  let ?mo = "if allResourcesReady rs then lib_StatusReady (out_lib X) (set_resources obj1 rs) else set_resources obj1 rs"
  have "\<not> ?bad \<and> err = None \<and> w' = r_world r'"
    using run make pass shown user_input_errors.update_error_stays [OF lib, of X ?mo ?bad err] err
    by (auto simp: CreateOrUpdate_handler_def Let_def split: if_splits prod.splits)
  with pass show thesis by (intro that [of results r']) auto
qed

lemma request_parts:
  assumes "mutators (out_api X)" "createObjectManager X rc obj pc ctx w = (ok (mgr, r), obj1, w1)"
    "prepareInputs X obj pc w = (Inr (tns, mv, hv), obj1, w1)"
  obtains s name v platform workload cp where
    "has_shape s X rc obj1 ctx tns (new_run w1) mgr r" "has_table X rc obj1 pc ctx tns mv hv name v platform workload cp mgr r"
    "r_world r = w1"
proof (rule createObjectManager_parts [OF assms(2)])
  fix tns' mv' hv'
  assume p: "prepareInputs X obj pc w = (Inr (tns', mv', hv'), obj1, w1)"
    and b: "build_manager X rc obj1 pc ctx (tns', mv', hv') (new_run w1) = ok (mgr, r)"
  have b': "build_manager X rc obj1 pc ctx (tns, mv, hv) (new_run w1) = ok (mgr, r)" using b p assms(3) by simp
  obtain s where shape: "has_shape s X rc obj1 ctx tns (new_run w1) mgr r" by (rule build_manager_shape [OF assms(1) b'])
  obtain name v platform workload cp where
    table: "has_table X rc obj1 pc ctx tns mv hv name v platform workload cp mgr r" by (rule build_manager_table [OF b'])
  have "r_world r = w1" using shape_world [OF shape] by (simp add: new_run_def)
  with shape table show thesis by (rule that)
qed

lemma serving_call:
  assumes server: "serving_server (out_api X) cl view healthy" "serving_mutators (out_api X)"
    and mo: "mo = lib_StatusProgressing (out_lib X) obj ''Reconciling'' ''Reconcile in progress''" "GetID mo \<noteq> []"
    and make: "createObjectManager X rc mo pc ctx w0 = (ok (mgr, r), mo, w0)"
    and inputs: "prepareInputs X mo pc w0 = (Inr (tns, mv, hv), mo, w0)"
    and setting: "separate_clusters cl rc ctx ip iw im" "names_apart X tns mv hv" "rec_PodNamespace rc \<noteq> tns"
    and able: "servable ctx mv" and h: "healthy w"
    and sources: "present view (source_needs ip rc pc (mov_ChartPullSecret mv) (hv_ImagePullSecrets hv)) w"
  obtains obj' t e w' where "CreateOrUpdate_handler X rc obj pc ctx w = (Ret (t, e), obj', w')" "healthy w'"
    "present view (all_needs ip im rc pc (mov_ChartPullSecret mv) (hv_ImagePullSecrets hv) (metrics_namespace hv)) w'"
    "present view (all_needs ip im rc pc (mov_ChartPullSecret mv) (hv_ImagePullSecrets hv) (metrics_namespace hv)) w \<Longrightarrow>
       t = 0 \<and> e = None"
proof -
  have as: "api_server (out_api X) cl view" and ms: "mutators (out_api X)"
    using server by (simp_all add: serving_server_def keeping_server_def listing_server_def serving_mutators_def)
  have known: "known_clients cl rc ctx" using setting(1) by (auto simp: separate_clusters_def known_clients_def)
  note m = createObjectManager_world [OF mo(2) make, of w]
  have p: "prepareInputs X mo pc w = (Inr (tns, mv, hv), mo, w)"
    using prepareInputs_world [OF mo(2), of X pc w w0] inputs by simp
  show thesis
  proof (rule request_parts [OF ms m p])
    fix s name v platform workload cp
    assume shape: "has_shape s X rc mo ctx tns (new_run w) mgr (r\<lparr>r_world := w\<rparr>)"
      and table: "has_table X rc mo pc ctx tns mv hv name v platform workload cp mgr (r\<lparr>r_world := w\<rparr>)"
    let ?r = "r\<lparr>r_world := w\<rparr>"
    have "healthy (r_world ?r)" "present view (source_needs ip rc pc (mov_ChartPullSecret mv) (hv_ImagePullSecrets hv)) (r_world ?r)"
      using h sources by simp_all
    from serving_server.serving_pass [OF server(1,2) refl table shape setting able this]
    obtain results r' where run: "Apply (out_api X) mgr ?r = (Ret (results, None), r')"
      and after: "healthy (r_world r')"
        "present view (all_needs ip im rc pc (mov_ChartPullSecret mv) (hv_ImagePullSecrets hv) (metrics_namespace hv)) (r_world r')"
      and good: "present view (all_needs ip im rc pc (mov_ChartPullSecret mv) (hv_ImagePullSecrets hv) (metrics_namespace hv)) w \<longrightarrow>
        (\<forall>res \<in> set results. res_Error res = None)"
      by auto
    obtain rs where shown: "resultsToResources results r' = Ret (rs, \<exists>res \<in> set results. res_Error res \<noteq> None)"
      using request_pass_returns [OF as ms known m, of False] run unfolding Apply_def by fastforce
    let ?bad = "\<exists>res \<in> set results. res_Error res \<noteq> None"
    let ?mo = "if allResourcesReady rs then lib_StatusReady (out_lib X) (set_resources mo rs) else set_resources mo rs"
    obtain e mo' where up: "updateStatusError X ?mo True None = (e, mo')" by fastforce
    have out: "CreateOrUpdate_handler X rc obj pc ctx w =
        (if ?bad then (Ret (0, e), mo', r_world r') else (Ret (0, None), ?mo, r_world r'))"
      using m run shown up unfolding mo(1) by (simp add: CreateOrUpdate_handler_def Let_def split: if_splits)
    show thesis
    proof (cases ?bad)
      case True
      with out have "CreateOrUpdate_handler X rc obj pc ctx w = (Ret (0, e), mo', r_world r')" by simp
      then show thesis by (rule that [OF _ after]) (use True good in auto)
    next
      case False
      with out have "CreateOrUpdate_handler X rc obj pc ctx w = (Ret (0, None), ?mo, r_world r')" by simp
      then show thesis by (rule that [OF _ after]) simp
    qed
  qed
qed

lemma success_tables:
  assumes server: "keeping_server (out_api X) cl view" and mut: "mutators (out_api X)" and lib: "user_input_errors (out_lib X)"
    and setting: "separate_clusters cl rc ctx ip iw im" "names_apart X tns mv hv"
    and mo: "mo = lib_StatusProgressing (out_lib X) obj ''Reconciling'' ''Reconcile in progress''"
    and make: "createObjectManager X rc mo pc ctx w = (ok (mgr, r), obj1, w1)"
    and inputs: "prepareInputs X mo pc w = (Inr (tns, mv, hv), obj1, w1)"
    and run: "CreateOrUpdate_handler X rc obj pc ctx w = (Ret (t, None), obj', w')"
  shows "\<exists>name v. chart_secret_name X (mov_ChartPullSecret mv) = Inr name \<and>
    rewritten_values X pc ctx (metrics_namespace hv) (mov_HelmValues mv) = ok v \<and>
    all_installed view ip w' (platform_table X rc tns (mov_ChartPullSecret mv) name
      (request_flux obj1 pc ctx (metrics_namespace hv) name (mv\<lparr>mov_HelmValues := Some v\<rparr>))) \<and>
    all_installed view iw w' (workload_table X rc pc ctx (Instance_Namespace obj1) (metrics_namespace hv)
      (hv_ImagePullSecrets hv)) \<and>
    all_installed view im w' (control_plane_table (metrics_namespace hv))"
proof (rule request_parts [OF mut make inputs])
  fix s name v platform workload cp
  assume shape: "has_shape s X rc obj1 ctx tns (new_run w1) mgr r"
    and table: "has_table X rc obj1 pc ctx tns mv hv name v platform workload cp mgr r"
  have as: "api_server (out_api X) cl view" using server by (simp add: keeping_server_def listing_server_def)
  have clients: "rec_PlatformClient rc = cl ip" "ctx_WorkloadClient ctx = cl iw" "ctx_MCPClient ctx = cl im"
    and apart: "distinct [ip, iw, im]" and known: "known_clients cl rc ctx"
    using setting(1) by (auto simp: separate_clusters_def known_clients_def)
  have here: "chart_secret_name X (mov_ChartPullSecret mv) = Inr name"
      "rewritten_values X pc ctx (metrics_namespace hv) (mov_HelmValues mv) = ok v"
    using table by (simp_all add: has_table_def Let_def)
  then have tns: "tns \<noteq> []" and names: "distinct_names (hv_ImagePullSecrets hv) (metrics_namespace hv)"
      "chart_name_ok (mov_ChartPullSecret mv) name"
    using setting(2) by (simp_all add: names_apart_def)
  obtain results r' where pass: "Apply (out_api X) mgr r = (Ret (results, None), r')" and w': "w' = r_world r'"
    and ok: "\<forall>res \<in> set results. res_Error res = None"
    by (rule success_pass [OF lib as mut known make [unfolded mo] run])
  have "length (managed_pairs (mgr_clusters mgr)) \<le> length results"
    using pass
  proof (rule Apply_parts)
    fix rs r1
    assume loop: "map_prog (\<lambda>(mc, m). apply_object (out_api X) mc m) (managed_pairs (mgr_clusters mgr)) r = (Ret rs, r1)"
      and clean: "run_cleaners (mgr_cleaners mgr) rs r1 = ((results, None), r')"
    obtain extra where "results = rs @ extra"
      using run_cleaners_results [OF shape_orphan_cleaners [OF shape] clean] by blast
    then show ?thesis using map_prog_length [OF loop] by simp
  qed
  then have "\<forall>n < length (managed_pairs (mgr_clusters mgr)). res_Error (results ! n) = None"
    using ok by simp
  from keeping_server.pass_installs_tables [OF server table refl shape clients tns apart names pass this]
  show ?thesis using here w' unfolding table_entries [OF table] by blast
qed

text \<open>After a first call, whatever came of it, every later one succeeds.\<close>

fun create_calls ::
    "'w outside \<Rightarrow> 'w reconciler \<Rightarrow> metrics_operator \<Rightarrow> provider_config \<Rightarrow> 'w cluster_context \<Rightarrow> nat \<Rightarrow> 'w \<Rightarrow> 'w"
where
  "create_calls X rc obj pc ctx 0 w = w"
| "create_calls X rc obj pc ctx (Suc n) w =
     snd (snd (CreateOrUpdate_handler X rc obj pc ctx (create_calls X rc obj pc ctx n w)))"

lemma later_calls_succeed:
  assumes "serving_server (out_api X) cl view healthy" "serving_mutators (out_api X)"
    "mo = lib_StatusProgressing (out_lib X) obj ''Reconciling'' ''Reconcile in progress''" "GetID mo \<noteq> []"
    "createObjectManager X rc mo pc ctx w = (ok (mgr, r), mo, w)"
    "prepareInputs X mo pc w = (Inr (tns, mv, hv), mo, w)"
    "separate_clusters cl rc ctx ip iw im" "names_apart X tns mv hv" "rec_PodNamespace rc \<noteq> tns" "servable ctx mv"
    "healthy w" "present view (source_needs ip rc pc (mov_ChartPullSecret mv) (hv_ImagePullSecrets hv)) w"
  shows "fst (CreateOrUpdate_handler X rc obj pc ctx (create_calls X rc obj pc ctx (Suc n) w)) = Ret (0, None)"
proof -
  let ?A = "all_needs ip im rc pc (mov_ChartPullSecret mv) (hv_ImagePullSecrets hv) (metrics_namespace hv)"
  let ?S = "source_needs ip rc pc (mov_ChartPullSecret mv) (hv_ImagePullSecrets hv)"
  have sub: "present view ?S w" if "present view ?A w" for w
    using that by (simp add: all_needs_def present_def)
  have ready: "healthy (create_calls X rc obj pc ctx n w) \<and> present view ?S (create_calls X rc obj pc ctx n w) \<and>
      (0 < n \<longrightarrow> present view ?A (create_calls X rc obj pc ctx n w))" for n
  proof (induction n)
    case 0
    then show ?case using assms(11,12) by simp
  next
    case (Suc n)
    show ?case
      by (rule serving_call [OF assms(1-10), of "create_calls X rc obj pc ctx n w"]) (use Suc sub in auto)
  qed
  show ?thesis
    by (rule serving_call [OF assms(1-10), of "create_calls X rc obj pc ctx (Suc n) w"]) (use ready [of "Suc n"] in auto)
qed

end
