(* ===== verification/Delete_Loop.thy ===== *)
theory Delete_Loop
  imports Deletion_Rounds "HOL-Library.While_Combinator"
begin

text \<open>
  The loop around the delete handler: the runtime calls it until it returns without an error
  and without asking to be called again, and then drops the finalizer. The loop may run for
  ever, so it is an option; on servers that answer and delete at once it is shown to end.
\<close>

section \<open>A finished deletion is finished\<close>

lemma done_is_true:
  assumes server: "listing_server (out_api X) cl view" "mutators (out_api X)" and lib: "user_input_errors (out_lib X)"
    and known: "known_clients cl rc ctx" and none: "OperationResultNone (out_api X) \<noteq> OperationResultDeleted"
    and free: "BlockingKinds (out_api X) (ctx_MCPClient ctx) w = (Inr [], w0)"
    and make: "createObjectManager X rc (lib_StatusTerminating (out_lib X) obj) pc ctx w0 = (ok (mgr, r), obj1, w1)"
    and call: "Delete_handler X rc obj pc ctx w = (Ret (0, None), obj', w')"
    and m: "(mc, m) \<in> set (managed_pairs (mgr_clusters mgr))" "c_client mc = cl i"
  shows "view i w' (kind_of (GetObject r m)) (object_key (GetObject r m)) = None"
proof (rule createObjectManager_shape [OF server(2) make])
  fix s tns
  assume shape: "has_shape s X rc obj1 ctx tns (new_run w1) mgr r"
  have as: "api_server (out_api X) cl view" using server(1) by (simp add: listing_server_def)
  obtain results err r' rs where run: "Delete_all (out_api X) mgr r = (Ret (results, err), r')"
    and shown: "resultsToResources results r' = Ret (rs, \<exists>res \<in> set results. res_Error res \<noteq> None)"
    using request_pass_returns [OF as server(2) known make, of True] unfolding Delete_all_def by blast
  have err: "\<exists>t. x = ESentinel t" if "err = Some x" for x
    using shape_error [OF shape run [unfolded Delete_all_def that]] by blast
  let ?bad = "\<exists>res \<in> set results. res_Error res \<noteq> None"
  have "AllDeleted results \<and> w' = r_world r'"
    using free make call run shown
      user_input_errors.update_error_stays [OF lib, of X "set_resources obj1 rs" ?bad err] err
    by (auto simp: Delete_handler_def Let_def Second_def split: if_splits prod.splits)
  then have all: "AllDeleted results" and w': "w' = r_world r'" by blast+
  show ?thesis
  proof (rule delete_pass [OF as shape_known [OF shape known] shape_refs(1) [OF shape]
        shape_cleaners [OF shape known server(1)] run])
    fix rs extra
    assume out: "results = rs @ extra"
      and reports: "list_all2 (deletion_report (out_api X) cl view (mgr_clusters mgr) r')
        (managed_pairs (mgr_clusters mgr)) rs"
      and same: "\<And>mc m. (mc, m) \<in> set (managed_pairs (mgr_clusters mgr)) \<Longrightarrow>
        kind_of (GetObject r' m) = kind_of (GetObject r m) \<and> object_key (GetObject r' m) = object_key (GetObject r m)"
    obtain n where n: "n < length rs" "managed_pairs (mgr_clusters mgr) ! n = (mc, m)"
      using m(1) list_all2_lengthD [OF reports] by (auto simp: in_set_conv_nth)
    have "res_OperationResult (rs ! n) = OperationResultDeleted"
      using all out n(1) by (simp add: AllDeleted_def list_all_iff)
    with list_all2_nthD2 [OF reports n(1)] n(2) none m(2) shape_object(1) [OF shape m(1)]
    have "gone view i r' m" by (simp add: deletion_report_def)
    with same [OF m(1)] w' show ?thesis by (simp add: gone_def)
  qed
qed

section \<open>The loop\<close>

definition delete_call ::
    "'w outside \<Rightarrow> 'w reconciler \<Rightarrow> metrics_operator \<Rightarrow> provider_config \<Rightarrow> 'w cluster_context \<Rightarrow> 'w \<Rightarrow>
     (int \<times> gerr option) go \<times> 'w" where
  "delete_call X rc obj pc ctx w = (let (out, obj', w') = Delete_handler X rc obj pc ctx w in (out, w'))"

definition delete_loop ::
    "'w outside \<Rightarrow> 'w reconciler \<Rightarrow> metrics_operator \<Rightarrow> provider_config \<Rightarrow> 'w cluster_context \<Rightarrow> 'w \<Rightarrow>
     ((int \<times> gerr option) go \<times> 'w) option" where
  "delete_loop X rc obj pc ctx w =
     while_option (\<lambda>(out, w'). out \<noteq> Ret (0, None)) (\<lambda>(out, w'). delete_call X rc obj pc ctx w')
       (delete_call X rc obj pc ctx w)"

lemma delete_call_parts:
  "delete_call X rc obj pc ctx w =
     (fst (Delete_handler X rc obj pc ctx w), snd (snd (Delete_handler X rc obj pc ctx w)))"
  by (simp add: delete_call_def case_prod_unfold Let_def)

lemma delete_loop_iterate:
  "((\<lambda>(out, w'). delete_call X rc obj pc ctx w') ^^ n) (delete_call X rc obj pc ctx w) =
     delete_call X rc obj pc ctx (delete_calls X rc obj pc ctx n w)"
  by (induction n) (simp_all add: delete_call_parts)

text \<open>The loop ends when one of the calls is done, and then the last call was.\<close>

lemma delete_loop_ends:
  assumes "fst (Delete_handler X rc obj pc ctx (delete_calls X rc obj pc ctx k w)) = Ret (0, None)"
  obtains n w' where "delete_loop X rc obj pc ctx w = Some (Ret (0, None), w')"
    "delete_call X rc obj pc ctx (delete_calls X rc obj pc ctx n w) = (Ret (0, None), w')"
proof -
  let ?b = "\<lambda>(out, w'). out \<noteq> Ret (0 :: int, None :: gerr option)"
  have "\<not> ?b (((\<lambda>(out, w'). delete_call X rc obj pc ctx w') ^^ k) (delete_call X rc obj pc ctx w))"
    using assms unfolding delete_loop_iterate by (simp add: delete_call_parts)
  then have "\<exists>k. \<not> ?b (((\<lambda>(out, w'). delete_call X rc obj pc ctx w') ^^ k) (delete_call X rc obj pc ctx w))" ..
  note some = if_P [OF this]
  obtain t where t: "delete_loop X rc obj pc ctx w = Some t"
    by (rule that, unfold delete_loop_def while_option_def, rule some)
  from while_option_stop2 [OF t [unfolded delete_loop_def]]
  obtain n where n: "t = delete_call X rc obj pc ctx (delete_calls X rc obj pc ctx n w)" "\<not> ?b t"
    unfolding delete_loop_iterate by (elim exE conjE)
  obtain w' where "t = (Ret (0, None), w')" using n(2) by (cases t) simp
  with t n(1) show thesis by (intro that [of w' n]) simp_all
qed

lemma request_shape:
  assumes "mutators (out_api X)" "createObjectManager X rc obj pc ctx w = (ok (mgr, r), obj1, w1)"
    "\<forall>n ns. lib_StableMCPNamespace (out_lib X) n ns \<noteq> Inr []"
  obtains s tns where "has_shape s X rc obj1 ctx tns (new_run w1) mgr r" "tns \<noteq> []"
proof (rule createObjectManager_parts [OF assms(2)])
  fix tns mv hv
  assume p: "prepareInputs X obj pc w = (Inr (tns, mv, hv), obj1, w1)"
    and b: "build_manager X rc obj1 pc ctx (tns, mv, hv) (new_run w1) = ok (mgr, r)"
  have "\<exists>n ns. lib_StableMCPNamespace (out_lib X) n ns = Inr tns"
    using p by (auto simp: prepareInputs_def split: sum.splits prod.splits option.splits)
  then have tns: "tns \<noteq> []" using assms(3) by metis
  from build_manager_shape [OF assms(1) b] obtain s where
    "has_shape s X rc obj1 ctx tns (new_run w1) mgr r" .
  then show thesis using tns by (rule that)
qed

lemma loop_terminates:
  assumes server: "prompt_listing_server (out_api X) cl view healthy" and mut: "mutators (out_api X)"
    and lib: "user_input_errors (out_lib X)" and known: "known_clients cl rc ctx"
    and none: "OperationResultNone (out_api X) \<noteq> OperationResultDeleted"
    and id: "GetID (lib_StatusTerminating (out_lib X) obj) \<noteq> []"
    and make: "createObjectManager X rc (lib_StatusTerminating (out_lib X) obj) pc ctx w0 = (ok (mgr, r), obj1, w1)"
    and ns: "\<forall>n ns. lib_StableMCPNamespace (out_lib X) n ns \<noteq> Inr []"
    and free: "\<forall>w. healthy w \<longrightarrow> BlockingKinds (out_api X) (ctx_MCPClient ctx) w = (Inr [], w)" and h: "healthy w"
  shows "\<exists>w'. delete_loop X rc obj pc ctx w = Some (Ret (0, None), w') \<and>
    (\<forall>(mc, m) \<in> set (managed_pairs (mgr_clusters mgr)). \<forall>i. c_client mc = cl i \<longrightarrow>
       view i w' (kind_of (GetObject r m)) (object_key (GetObject r m)) = None)"
proof (rule request_shape [OF mut make ns])
  fix s tns
  assume shape: "has_shape s X rc obj1 ctx tns (new_run w1) mgr r" and tns: "tns \<noteq> []"
  have listing: "listing_server (out_api X) cl view" using server by (simp add: prompt_listing_server_def)
  obtain cleans where sweep: "list_all2 (sweeps view healthy) (mgr_cleaners mgr) cleans"
    by (rule shape_sweeps [OF server known shape tns])
  show ?thesis
  proof (rule delete_loop_ends [OF fourth_call_is_done [OF server mut known id make shape tns free h]])
    fix n w'
    let ?w = "delete_calls X rc obj pc ctx n w"
    assume loop: "delete_loop X rc obj pc ctx w = Some (Ret (0, None), w')"
      and last: "delete_call X rc obj pc ctx ?w = (Ret (0, None), w')"
    have "healthy ?w" using delete_calls_level [OF server mut known id make shape sweep free h] by blast
    then have block: "BlockingKinds (out_api X) (ctx_MCPClient ctx) ?w = (Inr [], ?w)" using free by blast
    obtain obj' where call: "Delete_handler X rc obj pc ctx ?w = (Ret (0, None), obj', w')"
      using last by (cases "Delete_handler X rc obj pc ctx ?w") (simp add: delete_call_def)
    have "view i w' (kind_of (GetObject r m)) (object_key (GetObject r m)) = None"
      if "(mc, m) \<in> set (managed_pairs (mgr_clusters mgr))" "c_client mc = cl i" for mc m i
      using done_is_true [OF listing mut lib known none block createObjectManager_world [OF id make] call that]
      by (simp add: GetObject_def)
    with loop show ?thesis by blast
  qed
qed

end
