(* ===== verification/Authn_Values.thy ===== *)
theory Authn_Values
  imports Helm_Correct
begin

text \<open>
  The rewrite of Helm values in \<open>pkg/metricsoperator/authn/serviceaccount.go\<close>, which does
  what \<open>helm.AddAuthToHelmValues\<close> does, with other error texts, and replaces nil maps by
  empty ones. The controller calls the one in package helm.
\<close>

section \<open>The code\<close>

definition removeConflictingVolumesAndAppend :: "volume list \<Rightarrow> volume \<Rightarrow> volume list" where
  "removeConflictingVolumesAndAppend vs newVolume =
     filter (\<lambda>v. v_Name v \<noteq> v_Name newVolume) vs @ [newVolume]"

definition removeConflictingVolumeMountsAndAppend ::
    "volume_mount list \<Rightarrow> volume_mount \<Rightarrow> volume_mount list" where
  "removeConflictingVolumeMountsAndAppend ms newMount =
     filter (\<lambda>m. vm_MountPath m \<noteq> vm_MountPath newMount \<and> vm_Name m \<noteq> vm_Name newMount) ms @ [newMount]"

definition removeConflictingEnvVarsAndAppend :: "env_var list \<Rightarrow> env_var \<Rightarrow> env_var list" where
  "removeConflictingEnvVarsAndAppend es newEnv =
     filter (\<lambda>e. ev_Name e \<noteq> ev_Name newEnv) es @ [newEnv]"

interpretation authn_volumes: upsert removeConflictingVolumesAndAppend "\<lambda>y x. v_Name y = v_Name x"
  by unfold_locales (simp_all add: removeConflictingVolumesAndAppend_def)

interpretation authn_mounts: upsert removeConflictingVolumeMountsAndAppend
  "\<lambda>y x. vm_Name y = vm_Name x \<or> vm_MountPath y = vm_MountPath x"
  by unfold_locales (simp_all add: removeConflictingVolumeMountsAndAppend_def conj_commute)

interpretation authn_envs: upsert removeConflictingEnvVarsAndAppend "\<lambda>y x. ev_Name y = ev_Name x"
  by unfold_locales (simp_all add: removeConflictingEnvVarsAndAppend_def)

text \<open>\<open>unmarshalIfPresent\<close> into a variable that holds \<open>initial\<close> (a nil slice or map).\<close>

definition unmarshalIfPresent ::
    "(json \<Rightarrow> gerr + 'a) \<Rightarrow> 'a \<Rightarrow> raw_map \<Rightarrow> string \<Rightarrow> gerr + 'a" where
  "unmarshalIfPresent decode initial obj key =
     (case map_index obj key of
        None \<Rightarrow> Inr initial
      | Some j \<Rightarrow>
          (case decode j of
             Inl e \<Rightarrow> Inl (EWrap (''invalid '' @ key @ '' JSON: '') e [])
           | Inr x \<Rightarrow> Inr x))"

text \<open>\<open>if m == nil { m = make(map[string]json.RawMessage) }\<close>\<close>

definition make_if_nil :: "raw_map \<Rightarrow> raw_map" where
  "make_if_nil m = (case m of None \<Rightarrow> Some fmempty | Some f \<Rightarrow> Some f)"

definition failed_to :: "string \<Rightarrow> gerr \<Rightarrow> gerr" where
  "failed_to what e = EWrap (''failed to '' @ what @ '': '') e []"

text \<open>
  The lines that the init and the manager section have each; they differ in the texts of
  the errors (\<open>path\<close>, and what the marshalling errors say).
\<close>

definition authn_section ::
    "codecs \<Rightarrow> string \<Rightarrow> string \<Rightarrow> string \<Rightarrow> string \<Rightarrow> env_var \<Rightarrow> env_var \<Rightarrow> raw_map \<Rightarrow> raw_map fallible" where
  "authn_section C key path mountsText envText hostEnvVar portEnvVar root =
     try_go (failed_to (''unmarshal '' @ path))
       (Ret (unmarshalIfPresent unmarshal_map_value None root key)) (\<lambda>values.
     let values = make_if_nil values in
     try_go (failed_to (''unmarshal '' @ path @ ''.extraVolumeMounts''))
       (Ret (unmarshalIfPresent (unmarshal_slice (mount_codec C)) [] values ''extraVolumeMounts'')) (\<lambda>mounts.
     try_go (failed_to (''unmarshal '' @ path @ ''.extraEnv''))
       (Ret (unmarshalIfPresent (unmarshal_slice (env_codec C)) [] values ''extraEnv'')) (\<lambda>envs.
     let mounts = removeConflictingVolumeMountsAndAppend mounts authVolumeMount;
         envs = removeConflictingEnvVarsAndAppend envs hostEnvVar;
         envs = removeConflictingEnvVarsAndAppend envs portEnvVar in
     try_go (failed_to (''marshal '' @ mountsText)) (Ret (marshal_slice (mount_codec C) mounts)) (\<lambda>mountsRaw.
     try_go (failed_to (''marshal '' @ envText)) (Ret (marshal_slice (env_codec C) envs)) (\<lambda>envsRaw.
     assign_or_fail id values ''extraVolumeMounts'' (ok mountsRaw) (\<lambda>values.
     assign_or_fail id values ''extraEnv'' (ok envsRaw) (\<lambda>values.
     assign_or_fail id root key (ok (marshal_map values)) ok)))))))"

definition authn_AddAuthToHelmValues ::
    "codecs \<Rightarrow> raw option \<Rightarrow> 'w managed_cluster \<Rightarrow> string \<Rightarrow> raw fallible" where
  "authn_AddAuthToHelmValues C values remoteCluster saName =
     (case GetHostAndPort remoteCluster of
        Panic p \<Rightarrow> Panic p
      | Ret (remoteHost, remotePort) \<Rightarrow>
          let hostEnvVar = EnvVar ''KUBERNETES_SERVICE_HOST'' remoteHost;
              portEnvVar = EnvVar ''KUBERNETES_SERVICE_PORT'' remotePort in
          try_go id
            (Ret (case values of
                    None \<Rightarrow> Inr (Some fmempty)
                  | Some RawEmpty \<Rightarrow> Inr (Some fmempty)
                  | Some r \<Rightarrow>
                      (case unmarshal_map r of
                         Inl e \<Rightarrow> Inl (failed_to ''unmarshal helm values'' e)
                       | Inr root \<Rightarrow> Inr (make_if_nil root)))) (\<lambda>root.
          try_go (failed_to ''unmarshal .Values.extraVolumes'')
            (Ret (unmarshalIfPresent (unmarshal_slice (volume_codec C)) [] root ''extraVolumes'')) (\<lambda>extraVolumes.
          try_go (failed_to ''marshal Vales.extraVolumes'')
            (Ret (marshal_slice (volume_codec C)
                    (removeConflictingVolumesAndAppend extraVolumes (authVolume saName)))) (\<lambda>extraVolumesRaw.
          assign_or_fail id root ''extraVolumes'' (ok extraVolumesRaw) (\<lambda>root.
          try_go id (authn_section C ''init'' ''.Values.init'' ''.Values.init.extraVolumeMounts''
            ''V.Values.init.extraEnv'' hostEnvVar portEnvVar root) (\<lambda>root.
          try_go id (authn_section C ''manager'' ''.Values.manager'' ''.Values.manager.extraVolumes''
            ''.Values.manager.extraEnv'' hostEnvVar portEnvVar root) (\<lambda>root.
          ok (RawJson (marshal_map root)))))))))"

section \<open>The two rewrites agree\<close>

lemma same_upserts:
  "removeConflictingVolumesAndAppend = upsertVolume"
  "removeConflictingVolumeMountsAndAppend = upsertVolumeMount"
  "removeConflictingEnvVarsAndAppend = upsertEnvVar"
  by (auto simp: fun_eq_iff removeConflictingVolumesAndAppend_def upsertVolume_def
      removeConflictingVolumeMountsAndAppend_def upsertVolumeMount_def
      removeConflictingEnvVarsAndAppend_def upsertEnvVar_def conj_commute)

lemma unmarshalIfPresent_key:
  "unmarshalIfPresent (unmarshal_slice c) [] m key = Inr xs \<longleftrightarrow> unmarshalKey c m key = Inr xs"
  by (auto simp: unmarshalIfPresent_def unmarshalKey_def split: option.splits sum.splits)

lemma make_if_nil_Some [simp]: "make_if_nil (Some f) = Some f"
  by (simp add: make_if_nil_def)

lemma make_if_nil_not_nil: "\<exists>f. make_if_nil m = Some f"
  by (cases m) (simp_all add: make_if_nil_def)

lemma authn_section_ok:
  assumes "patchContainerSection C (fmlookup f key) authVolumeMount [h, p] = ok j"
  shows "authn_section C key path t1 t2 h p (Some f) = ok (Some (fmupd key j f))"
proof -
  from assms obtain g mounts envs j1 j2 where *: "unmarshal_section (fmlookup f key) = Inr (Some g)"
        "unmarshalKey (mount_codec C) (Some g) ''extraVolumeMounts'' = Inr mounts"
        "unmarshalKey (env_codec C) (Some g) ''extraEnv'' = Inr envs"
        "marshal_slice (mount_codec C) (upsertVolumeMount mounts authVolumeMount) = Inr j1"
        "marshal_slice (env_codec C) (foldl upsertEnvVar envs [h, p]) = Inr j2"
        "j = marshal_map (Some (fmupd ''extraEnv'' j2 (fmupd ''extraVolumeMounts'' j1 g)))"
    unfolding patchContainerSection_ok_iff by blast
  have "\<exists>m. unmarshalIfPresent unmarshal_map_value None (Some f) key = Inr m \<and> make_if_nil m = Some g"
    using *(1) by (cases "fmlookup f key")
      (auto simp: unmarshalIfPresent_def unmarshal_section_def make_if_nil_def)
  then obtain m where m: "unmarshalIfPresent unmarshal_map_value None (Some f) key = Inr m"
    "make_if_nil m = Some g" by blast
  have keys: "unmarshalIfPresent (unmarshal_slice (mount_codec C)) [] (Some g) ''extraVolumeMounts'' = Inr mounts"
    "unmarshalIfPresent (unmarshal_slice (env_codec C)) [] (Some g) ''extraEnv'' = Inr envs"
    using *(2,3) by (simp_all add: unmarshalIfPresent_key)
  show ?thesis
    using *(4-6) m keys by (simp add: authn_section_def Let_def same_upserts)
qed

lemma authn_agrees:
  assumes "AddAuthToHelmValues C values c sa = ok out"
  shows "authn_AddAuthToHelmValues C values c sa = ok out"
proof -
  obtain host port where h: "GetHostAndPort c = Ret (host, port)"
    using assms by (auto simp: AddAuthToHelmValues_def split: go.splits)
  let ?h = "EnvVar ''KUBERNETES_SERVICE_HOST'' host" and ?p = "EnvVar ''KUBERNETES_SERVICE_PORT'' port"
  from assms h obtain root vs j0 j1 j2 where *: "unmarshalRoot values = Inr (Some root)"
        "unmarshalKey (volume_codec C) (Some root) ''extraVolumes'' = Inr vs"
        "marshal_slice (volume_codec C) (upsertVolume vs (authVolume sa)) = Inr j0"
        "patchContainerSection C (fmlookup root ''init'') authVolumeMount [?h, ?p] = ok j1"
        "patchContainerSection C (fmlookup root ''manager'') authVolumeMount [?h, ?p] = ok j2"
        "out = RawJson (marshal_map (Some (fmupd ''manager'' j2 (fmupd ''init'' j1 (fmupd ''extraVolumes'' j0 root)))))"
    by (auto simp: AddAuthToHelmValues_def add_volume_and_sections_ok_iff)
  have root: "(case values of
                    None \<Rightarrow> Inr (Some fmempty)
                  | Some RawEmpty \<Rightarrow> Inr (Some fmempty)
                  | Some r \<Rightarrow>
                      (case unmarshal_map r of
                         Inl e \<Rightarrow> Inl (failed_to ''unmarshal helm values'' e)
                       | Inr root \<Rightarrow> Inr (make_if_nil root))) = Inr (Some root)"
    using *(1) by (auto simp: unmarshalRoot_def split: option.splits raw.splits sum.splits)
  have key: "unmarshalIfPresent (unmarshal_slice (volume_codec C)) [] (Some root) ''extraVolumes'' = Inr vs"
    using *(2) by (simp add: unmarshalIfPresent_key)
  have i: "authn_section C ''init'' ''.Values.init'' ''.Values.init.extraVolumeMounts''
      ''V.Values.init.extraEnv'' ?h ?p (Some (fmupd ''extraVolumes'' j0 root)) =
      ok (Some (fmupd ''init'' j1 (fmupd ''extraVolumes'' j0 root)))"
    by (rule authn_section_ok) (simp add: *(4))
  have m: "authn_section C ''manager'' ''.Values.manager'' ''.Values.manager.extraVolumes''
      ''.Values.manager.extraEnv'' ?h ?p (Some (fmupd ''init'' j1 (fmupd ''extraVolumes'' j0 root))) =
      ok (Some (fmupd ''manager'' j2 (fmupd ''init'' j1 (fmupd ''extraVolumes'' j0 root))))"
    by (rule authn_section_ok) (simp add: *(5))
  show ?thesis
    unfolding authn_AddAuthToHelmValues_def h Let_def go.case prod.case root
    by (simp add: key same_upserts *(3,6) i m)
qed

section \<open>No nil map is written to\<close>

lemma authn_section_returns:
  "\<exists>x. authn_section C key path t1 t2 h p (Some f) = Ret x \<and> (\<forall>m. x = Inr m \<longrightarrow> m \<noteq> None)"
proof (cases "unmarshalIfPresent unmarshal_map_value None (Some f) key")
  case (Inl e)
  then show ?thesis by (simp add: authn_section_def)
next
  case (Inr m)
  obtain g where "make_if_nil m = Some g" using make_if_nil_not_nil by blast
  with Inr show ?thesis
    by (auto simp: authn_section_def Let_def try_go_def split: sum.splits)
qed

lemma authn_returns:
  assumes "GetHostAndPort c = Ret (host, port)"
  shows "\<not> panics (authn_AddAuthToHelmValues C values c sa)"
proof -
  have section_not_nil: "\<exists>g. m = Some g"
    if "authn_section C key path t1 t2 h p (Some f) = ok m" for key path t1 t2 h p f m
    using authn_section_returns [of C key path t1 t2 h p f] that by auto
  have no_panic: "\<not> panics (authn_section C key path t1 t2 h p (Some f))" for key path t1 t2 h p f
    using authn_section_returns [of C key path t1 t2 h p f] by auto
  have root: "\<exists>f. x = Some f"
    if "Ret (case values of None \<Rightarrow> Inr (Some fmempty) | Some RawEmpty \<Rightarrow> Inr (Some fmempty)
                  | Some r \<Rightarrow> (case unmarshal_map r of
                         Inl e \<Rightarrow> Inl (failed_to ''unmarshal helm values'' e)
                       | Inr root \<Rightarrow> Inr (make_if_nil root))) = ok x" for x
    using that make_if_nil_not_nil by (auto split: option.splits raw.splits sum.splits)
  show ?thesis
    unfolding authn_AddAuthToHelmValues_def assms Let_def go.case prod.case
  proof (intro try_go_not_panics)
    fix x assume "Ret (case values of None \<Rightarrow> Inr (Some fmempty) | Some RawEmpty \<Rightarrow> Inr (Some fmempty)
                  | Some r \<Rightarrow> (case unmarshal_map r of
                         Inl e \<Rightarrow> Inl (failed_to ''unmarshal helm values'' e)
                       | Inr root \<Rightarrow> Inr (make_if_nil root))) = ok x"
    then obtain f where x: "x = Some f" using root by blast
    fix vs raw
    show "\<not> panics (assign_or_fail id x ''extraVolumes'' (ok raw) (\<lambda>root.
          try_go id (authn_section C ''init'' ''.Values.init'' ''.Values.init.extraVolumeMounts''
            ''V.Values.init.extraEnv'' (EnvVar ''KUBERNETES_SERVICE_HOST'' host)
            (EnvVar ''KUBERNETES_SERVICE_PORT'' port) root) (\<lambda>root.
          try_go id (authn_section C ''manager'' ''.Values.manager'' ''.Values.manager.extraVolumes''
            ''.Values.manager.extraEnv'' (EnvVar ''KUBERNETES_SERVICE_HOST'' host)
            (EnvVar ''KUBERNETES_SERVICE_PORT'' port) root) (\<lambda>root. ok (RawJson (marshal_map root))))))"
      unfolding x
      by (simp, intro try_go_not_panics no_panic) (auto dest!: section_not_nil simp: no_panic)
  qed simp_all
qed

end
