(* ===== verification/Helm_Extract.thy ===== *)
theory Helm_Extract
  imports Helm_Correct
begin

text \<open>
  What \<open>ExtractHelmValues\<close> reads off the Helm values, as a function of their members, and
  that the rewrites of the values leave it alone.
\<close>

section \<open>The fields that are read\<close>

lemma decode_string_error: "decode_string old v = Inl e \<Longrightarrow> e = json_type_error"
  by (cases v) auto

lemma foldE_error:
  "foldE f xs b = Inl e \<Longrightarrow> (\<And>x b e. f x b = Inl e \<Longrightarrow> e = e0) \<Longrightarrow> e = e0"
  by (induction xs arbitrary: b) (auto split: sum.splits)

lemma decode_reference_error:
  assumes "decode_reference old v = Inl e"
  shows "e = json_type_error"
proof (cases v)
  case (JObj ms)
  let ?f = "\<lambda>(k, v) name. if names_field k ''name'' then decode_string name v else Inr name"
  have "foldE ?f ms old = Inl e" using assms JObj by simp
  then show ?thesis by (rule foldE_error) (auto simp: decode_string_error split: if_splits)
qed (use assms in auto)

lemma decode_references_error: "decode_references old js = Inl e \<Longrightarrow> e = json_type_error"
  by (induction old js rule: decode_references.induct) (auto dest: decode_reference_error split: sum.splits)

lemma decode_reference_slice_error: "decode_reference_slice old v = Inl e \<Longrightarrow> e = json_type_error"
  by (cases v) (auto dest: decode_references_error)

text \<open>
  Members under plain names: each name once, and the two fields under no other spelling
  than their own (decoding takes a name in other letter cases for the field, too).
\<close>

definition plain_name :: "string \<Rightarrow> bool" where
  "plain_name k \<longleftrightarrow>
     (names_field k ''namespaceOverride'' \<longrightarrow> k = ''namespaceOverride'') \<and>
     (names_field k ''imagePullSecrets'' \<longrightarrow> k = ''imagePullSecrets'')"

definition plain_values :: "raw option \<Rightarrow> bool" where
  "plain_values values \<longleftrightarrow>
     (\<forall>ms. values = Some (RawJson (JObj ms)) \<longrightarrow> distinct (map fst ms) \<and> (\<forall>k \<in> fst ` set ms. plain_name k))"

fun read_field :: "('a \<Rightarrow> json \<Rightarrow> gerr + 'a) \<Rightarrow> 'a \<Rightarrow> json option \<Rightarrow> gerr + 'a" where
  "read_field decode old None = Inr old"
| "read_field decode old (Some v) = decode old v"

definition read_fields :: "helm_values \<Rightarrow> json option \<Rightarrow> json option \<Rightarrow> gerr + helm_values" where
  "read_fields hv override secrets =
     (case (read_field decode_string (hv_NamespaceOverride hv) override,
            read_field decode_reference_slice (hv_ImagePullSecrets hv) secrets) of
        (Inr s, Inr refs) \<Rightarrow> Inr \<lparr>hv_NamespaceOverride = s, hv_ImagePullSecrets = refs\<rparr>
      | _ \<Rightarrow> Inl json_type_error)"

lemma fields_differ:
  "\<not> names_field ''imagePullSecrets'' ''namespaceOverride''" "\<not> names_field ''namespaceOverride'' ''imagePullSecrets''"
  "names_field k k"
  by (simp_all add: names_field_def ascii_lower_def)

lemma decode_member_step:
  "decode_member (k, v) hv =
     (if names_field k ''namespaceOverride''
      then (case decode_string (hv_NamespaceOverride hv) v of
              Inl e \<Rightarrow> Inl e | Inr s \<Rightarrow> Inr (hv\<lparr>hv_NamespaceOverride := s\<rparr>))
      else if names_field k ''imagePullSecrets''
      then (case decode_reference_slice (hv_ImagePullSecrets hv) v of
              Inl e \<Rightarrow> Inl e | Inr refs \<Rightarrow> Inr (hv\<lparr>hv_ImagePullSecrets := refs\<rparr>))
      else Inr hv)"
  by (simp add: decode_member_def)

lemma decode_members:
  assumes "distinct (map fst ms)" "\<forall>k \<in> fst ` set ms. plain_name k"
  shows "foldE decode_member ms hv =
    read_fields hv (map_of ms ''namespaceOverride'') (map_of ms ''imagePullSecrets'')"
  using assms
proof (induction ms arbitrary: hv)
  case Nil
  then show ?case by (simp add: read_fields_def)
next
  case (Cons m ms)
  obtain k v where m: "m = (k, v)" by (cases m)
  have IH: "foldE decode_member ms hv' = read_fields hv' (map_of ms ''namespaceOverride'') (map_of ms ''imagePullSecrets'')" for hv'
    using Cons by simp
  have plain: "plain_name k" using Cons.prems m by simp
  consider (ns) "k = ''namespaceOverride''" | (ips) "k = ''imagePullSecrets''"
    | (other) "\<not> names_field k ''namespaceOverride''" "\<not> names_field k ''imagePullSecrets''"
    using plain unfolding plain_name_def by blast
  then show ?case
  proof cases
    case ns
    then have "map_of ms ''namespaceOverride'' = None" using Cons.prems m by (simp add: map_of_eq_None_iff)
    with ns show ?thesis
      by (cases "decode_string (hv_NamespaceOverride hv) v")
         (auto simp: m decode_member_step fields_differ IH read_fields_def dest: decode_string_error
           split: sum.splits)
  next
    case ips
    then have "map_of ms ''imagePullSecrets'' = None" using Cons.prems m by (simp add: map_of_eq_None_iff)
    with ips show ?thesis
      by (cases "decode_reference_slice (hv_ImagePullSecrets hv) v")
         (auto simp: m decode_member_step fields_differ IH read_fields_def dest: decode_reference_slice_error
           split: sum.splits)
  next
    case other
    then have "k \<noteq> ''namespaceOverride''" "k \<noteq> ''imagePullSecrets''" using fields_differ(3) by auto
    with other show ?thesis by (simp add: m decode_member_step IH)
  qed
qed

text \<open>What is extracted depends on two members only.\<close>

lemma extract_members:
  assumes "plain_values values" "unmarshalRoot values = Inr (Some root)"
  shows "ExtractHelmValues values =
    read_fields empty_helm_values (fmlookup root ''namespaceOverride'') (fmlookup root ''imagePullSecrets'')"
proof -
  consider "values = None" | "values = Some RawEmpty" | ms where "values = Some (RawJson (JObj ms))"
    using assms(2)
    by (auto simp: unmarshalRoot_def unmarshal_map_def unmarshal_map_value_def split: option.splits raw.splits json.splits if_splits)
  then show ?thesis
  proof cases
    case (3 ms)
    then have d: "distinct (map fst ms)" "\<forall>k \<in> fst ` set ms. plain_name k"
      using assms(1) by (simp_all add: plain_values_def)
    have "root = fmap_of_list (rev ms)"
      using assms(2) 3 by (simp add: unmarshalRoot_def unmarshal_map_def unmarshal_map_value_def)
    then have "fmlookup root k = map_of ms k" for k by (simp add: fmlookup_of_list map_of_rev_distinct [OF d(1)])
    with 3 decode_members [OF d] show ?thesis by (simp add: ExtractHelmValues_def)
  qed (use assms(2) in \<open>auto simp: ExtractHelmValues_def read_fields_def unmarshalRoot_def empty_helm_values_def\<close>)
qed

section \<open>The rewrites leave it alone\<close>

definition plain_root :: "(string, json) fmap \<Rightarrow> bool" where
  "plain_root root \<longleftrightarrow> (\<forall>k. fmlookup root k \<noteq> None \<longrightarrow> plain_name k)"

lemma plain_root_upd: "plain_root root \<Longrightarrow> plain_name k \<Longrightarrow> plain_root (fmupd k j root)"
  by (simp add: plain_root_def)

lemma plain_root_read:
  assumes "plain_values values" "unmarshalRoot values = Inr (Some root)"
  shows "plain_root root"
  using assms
  by (auto simp: plain_root_def plain_values_def unmarshalRoot_def unmarshal_map_def unmarshal_map_value_def
      fmlookup_of_list dest!: map_of_SomeD split: option.splits raw.splits json.splits if_splits)
     (metis (no_types, lifting) fst_conv image_eqI set_rev)

lemma plain_written:
  assumes "plain_root root"
  shows "plain_values (Some (RawJson (marshal_map (Some root))))"
proof -
  let ?ms = "sorted_list_of_fmap root"
  have d: "distinct (map fst ?ms)"
    by (simp add: sorted_list_of_fmap_def comp_def sorted_list_of_fset.rep_eq)
  have "\<forall>k \<in> fst ` set ?ms. plain_name k"
    using assms by (auto simp: plain_root_def sorted_list_of_fmap_def)
  with d show ?thesis by (simp add: plain_values_def marshal_map_def)
qed

lemma rewritten_names [simp]:
  "plain_name ''extraVolumes''" "plain_name ''init''" "plain_name ''manager''" "plain_name ''serviceAccount''"
  by (simp_all add: plain_name_def names_field_def ascii_lower_def)

text \<open>A rewrite that leaves the two members and adds members under plain names.\<close>

definition keeps_extract :: "raw option \<Rightarrow> raw \<Rightarrow> bool" where
  "keeps_extract values out \<longleftrightarrow> plain_values (Some out) \<and> ExtractHelmValues (Some out) = ExtractHelmValues values"

lemma written_keeps_extract:
  assumes "plain_values values" "unmarshalRoot values = Inr (Some root)" "plain_root root'"
    "\<And>k. k \<in> {''namespaceOverride'', ''imagePullSecrets''} \<Longrightarrow> fmlookup root' k = fmlookup root k"
  shows "keeps_extract values (RawJson (marshal_map (Some root')))"
proof -
  have "unmarshalRoot (Some (RawJson (marshal_map (Some root')))) = Inr (Some root')"
    by (simp add: unmarshalRoot_def)
  from extract_members [OF plain_written [OF assms(3)] this] extract_members [OF assms(1,2)] assms(4)
    plain_written [OF assms(3)]
  show ?thesis by (simp add: keeps_extract_def)
qed

lemma add_volume_keeps_extract:
  assumes "plain_values values" "add_volume_and_sections C wrap values vol mount es = ok out"
  shows "keeps_extract values out"
proof -
  from assms(2) obtain root j0 j1 j2 where root: "unmarshalRoot values = Inr (Some root)"
    and out: "out = RawJson (marshal_map (Some (fmupd ''manager'' j2 (fmupd ''init'' j1 (fmupd ''extraVolumes'' j0 root)))))"
    unfolding add_volume_and_sections_ok_iff by blast
  show ?thesis
    unfolding out
    by (rule written_keeps_extract [OF assms(1) root])
       (auto intro!: plain_root_upd plain_root_read [OF assms(1) root])
qed

lemma defaults_keep_extract:
  assumes "plain_values values" "AddDefaultHelmValues C values ns = ok out"
  shows "keeps_extract values out"
proof -
  from assms(2) obtain root j1 j2 where root: "unmarshalRoot values = Inr (Some root)"
    and out: "out = RawJson (marshal_map (Some (fmupd ''serviceAccount'' j1 (fmupd ''manager'' j2 root))))"
    unfolding AddDefault_ok_iff by blast
  show ?thesis
    unfolding out
    by (rule written_keeps_extract [OF assms(1) root])
       (auto intro!: plain_root_upd plain_root_read [OF assms(1) root])
qed

section \<open>What a rewrite adds stays\<close>

lemma foldl_upsertEnvVar_keeps:
  "e \<in> set envs \<Longrightarrow> \<forall>x \<in> set es. ev_Name x \<noteq> ev_Name e \<Longrightarrow> e \<in> set (foldl upsertEnvVar envs es)"
  by (induction es arbitrary: envs) (auto simp: envs.up_member)

lemma foldl_upsertEnvVar_adds:
  "e \<in> set es \<Longrightarrow> distinct (map ev_Name es) \<Longrightarrow> e \<in> set (foldl upsertEnvVar envs es)"
  by (rule envs.fold_up_present) (auto simp: distinct_map dest: inj_onD)

lemma rewrittenD:
  assumes "rewritten C values out vol mount es"
  shows "volumes_of C out = upsertVolume (volumes_of C values) vol"
    "s \<in> {''init'', ''manager''} \<Longrightarrow> mounts_of C out s = upsertVolumeMount (mounts_of C values s) mount"
    "s \<in> {''init'', ''manager''} \<Longrightarrow> envs_of C out s = foldl upsertEnvVar (envs_of C values s) es"
  using assms unfolding rewritten_def by blast+

lemma rewritten_adds:
  assumes "rewritten C values out vol mount es" "s \<in> {''init'', ''manager''}" "distinct (map ev_Name es)"
  shows "vol \<in> set (volumes_of C out)" "mount \<in> set (mounts_of C out s)" "e \<in> set es \<Longrightarrow> e \<in> set (envs_of C out s)"
  unfolding rewrittenD(1) [OF assms(1)] rewrittenD(2,3) [OF assms(1,2)]
  by (simp_all add: volumes.up_present mounts.up_present foldl_upsertEnvVar_adds assms(3))

lemma rewritten_keeps:
  assumes "rewritten C values out vol mount es" "s \<in> {''init'', ''manager''}"
  shows "v \<in> set (volumes_of C values) \<Longrightarrow> v_Name v \<noteq> v_Name vol \<Longrightarrow> v \<in> set (volumes_of C out)"
    "m \<in> set (mounts_of C values s) \<Longrightarrow> vm_Name m \<noteq> vm_Name mount \<Longrightarrow> vm_MountPath m \<noteq> vm_MountPath mount \<Longrightarrow>
       m \<in> set (mounts_of C out s)"
    "e \<in> set (envs_of C values s) \<Longrightarrow> \<forall>x \<in> set es. ev_Name x \<noteq> ev_Name e \<Longrightarrow> e \<in> set (envs_of C out s)"
  unfolding rewrittenD(1) [OF assms(1)] rewrittenD(2,3) [OF assms(1,2)]
  by (simp_all add: volumes.up_member mounts.up_member foldl_upsertEnvVar_keeps)

context faithful_codecs
begin

lemma defaults_keep:
  assumes "good_values C values" "AddDefaultHelmValues C values ns = ok out" "s \<in> {''init'', ''manager''}"
  shows "good_values C (Some out)" "volumes_of C (Some out) = volumes_of C values"
    "mounts_of C (Some out) s = mounts_of C values s"
    "e \<in> set (envs_of C values s) \<Longrightarrow> ev_Name e \<noteq> ''OPERATOR_CONFIG_NAMESPACE'' \<Longrightarrow> e \<in> set (envs_of C (Some out) s)"
    "EnvVar ''OPERATOR_CONFIG_NAMESPACE'' ns \<in> set (envs_of C (Some out) ''manager'')"
proof -
  note d = defaults_reading [OF assms(1,2)]
  show "good_values C (Some out)" "volumes_of C (Some out) = volumes_of C values" by (rule d(1), rule d(2))
  show "mounts_of C (Some out) s = mounts_of C values s" by (rule d(3)) (use assms(3) in auto)
  show "e \<in> set (envs_of C (Some out) s)" if "e \<in> set (envs_of C values s)" "ev_Name e \<noteq> ''OPERATOR_CONFIG_NAMESPACE''"
    using assms(3) that by (elim insertE) (simp_all add: d(4,5) envs.up_member)
  show "EnvVar ''OPERATOR_CONFIG_NAMESPACE'' ns \<in> set (envs_of C (Some out) ''manager'')"
    by (simp add: d(5) envs.up_present)
qed

end

end
