(* ===== verification/Helm_Properties.thy ===== *)
theory Helm_Properties
  imports Helm_Extract Api_Server
begin

text \<open>
  The properties of the Helm values, with reference codecs that decode what they encode
  and example values.
\<close>

section \<open>Reference codecs\<close>

definition ref_env_codec :: "env_var codec" where
  "ref_env_codec =
     \<lparr>enc = (\<lambda>e. Inr (JObj [(''name'', JStr (ev_Name e)), (''value'', JStr (ev_Value e)), (''rest'', JObj (ev_Rest e))])),
      dec = (\<lambda>j. case j of
        JObj [(n, JStr name), (v, JStr val), (r, JObj rest)] \<Rightarrow> Inr \<lparr>ev_Name = name, ev_Value = val, ev_Rest = rest\<rparr>
      | _ \<Rightarrow> Inl json_type_error)\<rparr>"

definition ref_mount_codec :: "volume_mount codec" where
  "ref_mount_codec =
     \<lparr>enc = (\<lambda>m. Inr (JObj [(''name'', JStr (vm_Name m)), (''readOnly'', JBool (vm_ReadOnly m)),
         (''mountPath'', JStr (vm_MountPath m)), (''rest'', JObj (vm_Rest m))])),
      dec = (\<lambda>j. case j of
        JObj [(n, JStr name), (b, JBool ro), (p, JStr path), (r, JObj rest)] \<Rightarrow>
          Inr \<lparr>vm_Name = name, vm_ReadOnly = ro, vm_MountPath = path, vm_Rest = rest\<rparr>
      | _ \<Rightarrow> Inl json_type_error)\<rparr>"

fun enc_source :: "volume_source \<Rightarrow> json" where
  "enc_source (SecretSource s) = JStr s"
| "enc_source (ConfigMapSource n items) = JArr [JStr n, JObj (map (\<lambda>(k, p). (k, JStr p)) items)]"
| "enc_source (OtherSource j) = JObj [(''other'', j)]"

fun dec_path :: "string \<times> json \<Rightarrow> gerr + string \<times> string" where
  "dec_path (k, JStr p) = Inr (k, p)"
| "dec_path (k, _) = Inl json_type_error"

definition dec_source :: "json \<Rightarrow> gerr + volume_source" where
  "dec_source j = (case j of
     JStr s \<Rightarrow> Inr (SecretSource s)
   | JArr [JStr n, JObj ms] \<Rightarrow> (case mapE dec_path ms of Inl e \<Rightarrow> Inl e | Inr items \<Rightarrow> Inr (ConfigMapSource n items))
   | JObj [(k, v)] \<Rightarrow> Inr (OtherSource v)
   | _ \<Rightarrow> Inl json_type_error)"

definition ref_volume_codec :: "volume codec" where
  "ref_volume_codec =
     \<lparr>enc = (\<lambda>v. Inr (JObj [(''name'', JStr (v_Name v)), (''source'', enc_source (v_Source v))])),
      dec = (\<lambda>j. case j of
        JObj [(n, JStr name), (s, sj)] \<Rightarrow>
          (case dec_source sj of Inl e \<Rightarrow> Inl e | Inr src \<Rightarrow> Inr \<lparr>v_Name = name, v_Source = src\<rparr>)
      | _ \<Rightarrow> Inl json_type_error)\<rparr>"

lemma dec_enc_source: "dec_source (enc_source s) = Inr s"
proof (cases s)
  case (ConfigMapSource n items)
  have "mapE dec_path (map (\<lambda>(k, p). (k, JStr p)) items) = Inr items"
    by (induction items) auto
  with ConfigMapSource show ?thesis by (simp add: dec_source_def)
qed (simp_all add: dec_source_def)

definition ref_codecs :: codecs where
  "ref_codecs = \<lparr>env_codec = ref_env_codec, mount_codec = ref_mount_codec, volume_codec = ref_volume_codec\<rparr>"

interpretation refcodecs: faithful_codecs ref_codecs
  by unfold_locales
     (simp_all add: ref_codecs_def ref_env_codec_def ref_mount_codec_def ref_volume_codec_def dec_enc_source)

section \<open>Example values\<close>

definition ex_values :: "raw option" where
  "ex_values = Some (RawJson (JObj [(''replicas'', JNum ''2''),
     (''manager'', JObj [(''logLevel'', JStr ''debug'')]), (''imagePullSecrets'', JArr [JObj [(''name'', JStr ''regcred'')]])]))"

definition ex_cp :: "ref_world managed_cluster" where
  "ex_cp = NewManagedCluster (ref_client 1) (Some \<lparr>rc_Host = ''https://api.cp.example:6443'', rc_CAData = [], rc_CAFile = []\<rparr>)
     ''metrics'' ControlPlane"

lemma ex_cp_host: "GetHostAndPort ex_cp = Ret (''api.cp.example'', ''6443'')"
  by (simp add: ex_cp_def NewManagedCluster_def GetHostAndPort_def host_and_port_def trim_prefix_def
      cut_byte_def Let_def)

lemma ex_good: "good_values ref_codecs ex_values"
  by (auto simp: good_values_def ex_values_def unmarshalRoot_def unmarshal_map_def unmarshal_map_value_def
      unmarshalKey_def good_section_def unmarshal_section_def fmlookup_of_list)

section \<open>Access to the control plane\<close>

lemma two_envs: "ev_Name e \<noteq> ev_Name e' \<Longrightarrow>
    foldl upsertEnvVar (foldl upsertEnvVar xs [e, e']) [e, e'] = foldl upsertEnvVar xs [e, e']"
  by (rule envs.fold_up_idempotent) (auto simp: pairwise_def)

text \<open>
  C30: \<open>AddAuthToHelmValues\<close> accepts exactly the values whose root, init and manager
  sections are objects or absent and whose volumes, mounts and variables can be decoded;
  on all others it gives an error or panics. (The connection must have a configuration.)
\<close>

theorem auth_accepts_good_values:
  assumes "faithful_codecs C" "GetHostAndPort c = Ret (host, port)"
  shows "(\<exists>out. AddAuthToHelmValues C values c sa = ok out) \<longleftrightarrow> good_values C values"
  using faithful_codecs.add_volume_succeeds [OF assms(1)] assms(2) by (simp add: AddAuthToHelmValues_def)

lemma auth_accepts_good_values_witness:
  "\<exists>out. AddAuthToHelmValues ref_codecs ex_values ex_cp ''sa'' = ok out"
  using auth_accepts_good_values [OF refcodecs.faithful_codecs_axioms ex_cp_host] ex_good by blast

text \<open>
  C27: what \<open>AddAuthToHelmValues\<close> does to the values: the token volume is added, and in the
  init and the manager section its mount and the host and port variables of the remote
  cluster, each in place of what has the same name (or, for a mount, the same path); every
  other member of the values and of the two sections is unchanged.
\<close>

theorem auth_rewrites_values:
  assumes "faithful_codecs C" "GetHostAndPort c = Ret (host, port)"
    "AddAuthToHelmValues C values c sa = ok out"
  shows "rewritten C values (Some out) (authVolume sa) authVolumeMount
    [EnvVar ''KUBERNETES_SERVICE_HOST'' host, EnvVar ''KUBERNETES_SERVICE_PORT'' port]"
  using faithful_codecs.add_volume_rewritten [OF assms(1)] assms(2,3)
  by (simp add: AddAuthToHelmValues_def)

lemma auth_rewrites_values_witness:
  "\<exists>out. AddAuthToHelmValues ref_codecs ex_values ex_cp ''sa'' = ok out \<and>
     fmlookup (members (Some out)) ''replicas'' = Some (JNum ''2'')"
proof -
  obtain out where run: "AddAuthToHelmValues ref_codecs ex_values ex_cp ''sa'' = ok out"
    using faithful_codecs.add_volume_succeeds [OF refcodecs.faithful_codecs_axioms] ex_good ex_cp_host
    by (fastforce simp: AddAuthToHelmValues_def)
  have "fmlookup (members (Some out)) ''replicas'' = fmlookup (members ex_values) ''replicas''"
    using auth_rewrites_values [OF refcodecs.faithful_codecs_axioms ex_cp_host run]
    by (simp add: rewritten_def)
  also have "\<dots> = Some (JNum ''2'')"
    by (simp add: members_def ex_values_def unmarshalRoot_def unmarshal_map_def unmarshal_map_value_def
        fmlookup_of_list)
  finally show ?thesis using run by blast
qed

text \<open>Adding the access twice is adding it once, to the letter.\<close>

theorem auth_is_idempotent:
  assumes "faithful_codecs C" "AddAuthToHelmValues C values c sa = ok out"
  shows "AddAuthToHelmValues C (Some out) c sa = ok out"
proof -
  obtain host port where h: "GetHostAndPort c = Ret (host, port)"
    using assms(2) by (auto simp: AddAuthToHelmValues_def split: go.splits)
  have "add_volume_and_sections C id (Some out) (authVolume sa) authVolumeMount
      [EnvVar ''KUBERNETES_SERVICE_HOST'' host, EnvVar ''KUBERNETES_SERVICE_PORT'' port] = ok out"
    by (rule faithful_codecs.add_volume_idempotent [OF assms(1)])
       (use assms(2) h in \<open>simp add: AddAuthToHelmValues_def\<close>, rule two_envs, simp)
  with h show ?thesis by (simp add: AddAuthToHelmValues_def)
qed

lemma auth_is_idempotent_witness:
  "\<exists>out. AddAuthToHelmValues ref_codecs ex_values ex_cp ''sa'' = ok out \<and>
     AddAuthToHelmValues ref_codecs (Some out) ex_cp ''sa'' = ok out"
proof -
  obtain out where run: "AddAuthToHelmValues ref_codecs ex_values ex_cp ''sa'' = ok out"
    using faithful_codecs.add_volume_succeeds [OF refcodecs.faithful_codecs_axioms] ex_good ex_cp_host
    by (fastforce simp: AddAuthToHelmValues_def)
  with auth_is_idempotent [OF refcodecs.faithful_codecs_axioms run] show ?thesis by blast
qed

text \<open>
  C31: null in one of three places makes the rewrite panic: the values themselves, their init
  section (as an empty key of a YAML file is), or the manager section after an init section
  that can be rewritten. The decoder leaves a nil map behind, and an assignment to it follows,
  although the values are valid and null could be taken as empty.
\<close>

theorem null_section_panics:
  assumes "faithful_codecs C" "GetHostAndPort c = Ret (host, port)"
  shows "AddAuthToHelmValues C (Some (RawJson JNull)) c sa = Panic nil_map_panic \<and>
    (\<forall>values root vs. unmarshalRoot values = Inr (Some root) \<longrightarrow>
       unmarshalKey (volume_codec C) (Some root) ''extraVolumes'' = Inr vs \<longrightarrow>
       fmlookup root ''init'' = Some JNull \<or>
         good_section C (fmlookup root ''init'') \<and> fmlookup root ''manager'' = Some JNull \<longrightarrow>
       AddAuthToHelmValues C values c sa = Panic nil_map_panic)"
proof (intro conjI allI impI)
  have vol: "faithful_codec (volume_codec C)" and mnt: "faithful_codec (mount_codec C)"
    using assms(1) by (simp_all add: faithful_codecs_def)
  have enc: "\<exists>j. marshal_slice (volume_codec C) (upsertVolume vs (authVolume sa)) = Inr j" for vs
    using faithful_codec.slice_round_trip [OF vol] by blast
  obtain j1 where j1: "marshal_slice (mount_codec C) (upsertVolumeMount [] authVolumeMount) = Inr j1"
    using faithful_codec.slice_round_trip [OF mnt] by blast
  have null: "patchContainerSection C (Some JNull) authVolumeMount es = Panic nil_map_panic" for es
    by (simp add: patchContainerSection_def unmarshal_section_def unmarshal_map_value_def unmarshalKey_def Let_def j1)
  have "unmarshalRoot (Some (RawJson JNull)) = Inr None"
    by (simp add: unmarshalRoot_def unmarshal_map_def unmarshal_map_value_def)
  then show "AddAuthToHelmValues C (Some (RawJson JNull)) c sa = Panic nil_map_panic"
    using assms(2) enc [of "[]"] by (auto simp: AddAuthToHelmValues_def add_volume_and_sections_def unmarshalKey_def)
  fix vals root vs
  assume root: "unmarshalRoot vals = Inr (Some root)"
    and vs: "unmarshalKey (volume_codec C) (Some root) ''extraVolumes'' = Inr vs"
    and "fmlookup root ''init'' = Some JNull \<or>
      good_section C (fmlookup root ''init'') \<and> fmlookup root ''manager'' = Some JNull"
  then consider (init) "fmlookup root ''init'' = Some JNull"
    | (manager) "good_section C (fmlookup root ''init'')" "fmlookup root ''manager'' = Some JNull" by blast
  then show "AddAuthToHelmValues C vals c sa = Panic nil_map_panic"
  proof cases
    case init
    with root vs assms(2) enc [of vs] null show ?thesis
      by (auto simp: AddAuthToHelmValues_def add_volume_and_sections_def)
  next
    case manager
    obtain j where "patchContainerSection C (fmlookup root ''init'') authVolumeMount
        [EnvVar ''KUBERNETES_SERVICE_HOST'' host, EnvVar ''KUBERNETES_SERVICE_PORT'' port] = ok j"
      using faithful_codecs.patch_section_succeeds [OF assms(1)] manager(1) by blast
    with manager(2) root vs assms(2) enc [of vs] null show ?thesis
      by (auto simp: AddAuthToHelmValues_def add_volume_and_sections_def)
  qed
qed

lemma null_section_panics_witness:
  "AddAuthToHelmValues ref_codecs (Some (RawJson JNull)) ex_cp ''sa'' = Panic nil_map_panic \<and>
   AddAuthToHelmValues ref_codecs (Some (RawJson (JObj [(''init'', JNull)]))) ex_cp ''sa'' = Panic nil_map_panic \<and>
   AddAuthToHelmValues ref_codecs (Some (RawJson (JObj [(''manager'', JNull)]))) ex_cp ''sa'' = Panic nil_map_panic"
proof -
  note panics = null_section_panics [OF refcodecs.faithful_codecs_axioms ex_cp_host, of "''sa''"]
  have root: "unmarshalRoot (Some (RawJson (JObj [(n, JNull)]))) = Inr (Some (fmap_of_list [(n, JNull)]))" for n
    by (simp add: unmarshalRoot_def unmarshal_map_def unmarshal_map_value_def)
  have "good_section ref_codecs None"
    by (simp add: good_section_def unmarshal_section_def unmarshalKey_def)
  then show ?thesis
    using panics root [of "''init''"] root [of "''manager''"]
    by (simp add: unmarshalKey_def fmlookup_of_list)
qed

section \<open>All rewrites of a reconciliation\<close>

lemma all_rewrites:
  assumes "faithful_codecs C" "GetHostAndPort c = Ret (host, port)" "good_values C values"
    "cms_Name cm \<noteq> []" "cms_Key cm \<noteq> []"
  shows "\<exists>v1 v2 out. AddAuthToHelmValues C values c sa = ok v1 \<and>
    AddDefaultHelmValues C (Some v1) ns = ok v2 \<and> AddCAHelmValues C (Some v2) (Some cm) = ok out \<and>
    {authVolume sa, caVolume (cms_Key cm)} \<subseteq> set (volumes_of C (Some out)) \<and>
    (\<forall>s \<in> {''init'', ''manager''}.
       {authVolumeMount, caVolumeMount} \<subseteq> set (mounts_of C (Some out) s) \<and>
       {EnvVar ''KUBERNETES_SERVICE_HOST'' host, EnvVar ''KUBERNETES_SERVICE_PORT'' port, caEnvVar}
         \<subseteq> set (envs_of C (Some out) s)) \<and>
    EnvVar ''OPERATOR_CONFIG_NAMESPACE'' ns \<in> set (envs_of C (Some out) ''manager'')"
proof -
  let ?hp = "[EnvVar ''KUBERNETES_SERVICE_HOST'' host, EnvVar ''KUBERNETES_SERVICE_PORT'' port]"
  let ?wrap = "\<lambda>e. EWrap ''failed to marshal helm values: '' e []"
  note succeeds = faithful_codecs.add_volume_succeeds [OF assms(1)]
    and rewritten = faithful_codecs.add_volume_rewritten [OF assms(1)]
  obtain v1 where v1: "add_volume_and_sections C id values (authVolume sa) authVolumeMount ?hp = ok v1"
    using succeeds assms(3) by blast
  have g1: "good_values C (Some v1)" using rewritten [OF v1] by (simp add: rewritten_def)
  obtain v2 where v2: "AddDefaultHelmValues C (Some v1) ns = ok v2"
    using faithful_codecs.defaults_succeed [OF assms(1) g1] by blast
  note d = faithful_codecs.defaults_keep [OF assms(1) g1 v2]
  obtain out where out: "add_volume_and_sections C ?wrap (Some v2) (caVolume (cms_Key cm)) caVolumeMount
      [caEnvVar] = ok out"
    using succeeds d(1) by blast
  have steps: "AddAuthToHelmValues C values c sa = ok v1" "AddCAHelmValues C (Some v2) (Some cm) = ok out"
    using v1 out assms(2,4,5) by (simp_all add: AddAuthToHelmValues_def AddCAHelmValues_def)
  have hp: "distinct (map ev_Name ?hp)" "distinct (map ev_Name [caEnvVar])" by simp_all
  note new1 = rewritten_adds [OF rewritten [OF v1] _ hp(1)] and new3 = rewritten_adds [OF rewritten [OF out] _ hp(2)]
    and old3 = rewritten_keeps [OF rewritten [OF out]]
  note names = authVolume_def caVolume_def authVolumeMount_def caVolumeMount_def caEnvVar_def serviceAccountVolume_def
    customCaVolumeName_def serviceAccountMountPath_def customCaPath_def
  have vols: "{authVolume sa, caVolume (cms_Key cm)} \<subseteq> set (volumes_of C (Some out))"
    using new1(1) [where s = "''init''"] new3(1) [where s = "''init''"] old3(1) [where s = "''init''"]
      d(2) [where s = "''init''"] by (simp add: names)
  have mounts: "{authVolumeMount, caVolumeMount} \<subseteq> set (mounts_of C (Some out) s)" if "s \<in> {''init'', ''manager''}" for s
    using new1(2) [OF that] new3(2) [OF that] old3(2) [OF that] d(3) [OF that] by (auto simp: names)
  have kept: "e \<in> set (envs_of C (Some out) s)"
    if "e \<in> set (envs_of C (Some v2) s)" "ev_Name e \<noteq> ''SSL_CERT_DIR''" "s \<in> {''init'', ''manager''}" for e s
    using old3(3) [OF that(3,1)] that(2) by (auto simp: caEnvVar_def)
  have "{EnvVar ''KUBERNETES_SERVICE_HOST'' host, EnvVar ''KUBERNETES_SERVICE_PORT'' port, caEnvVar}
      \<subseteq> set (envs_of C (Some out) s)" if s: "s \<in> {''init'', ''manager''}" for s
    using new1(3) [OF s] new3(3) [OF s, of caEnvVar] d(4) [OF s] kept [OF _ _ s] by simp
  moreover have "EnvVar ''OPERATOR_CONFIG_NAMESPACE'' ns \<in> set (envs_of C (Some out) ''manager'')"
    using kept [OF d(5) [where s = "''init''"]] by simp
  ultimately show ?thesis
    using steps v2 vols mounts by (intro exI [of _ v1] exI [of _ v2] exI [of _ out]) simp
qed

text \<open>
  C28: the three rewrites in the order of the controller succeed on every acceptable value
  and their results add up: at the end both volumes are there, both sections have both
  mounts and the variables for host, port and certificates, and the manager has its
  configuration name space as well. No rewrite undoes another.
\<close>

theorem rewrites_add_up:
  assumes "faithful_codecs C" "GetHostAndPort c = Ret (host, port)" "good_values C values"
    "cms_Name cm \<noteq> []" "cms_Key cm \<noteq> []"
  shows "\<exists>v1 v2 out. AddAuthToHelmValues C values c sa = ok v1 \<and>
    AddDefaultHelmValues C (Some v1) ns = ok v2 \<and> AddCAHelmValues C (Some v2) (Some cm) = ok out \<and>
    {authVolume sa, caVolume (cms_Key cm)} \<subseteq> set (volumes_of C (Some out)) \<and>
    (\<forall>s \<in> {''init'', ''manager''}.
       {authVolumeMount, caVolumeMount} \<subseteq> set (mounts_of C (Some out) s) \<and>
       {EnvVar ''KUBERNETES_SERVICE_HOST'' host, EnvVar ''KUBERNETES_SERVICE_PORT'' port, caEnvVar}
         \<subseteq> set (envs_of C (Some out) s)) \<and>
    EnvVar ''OPERATOR_CONFIG_NAMESPACE'' ns \<in> set (envs_of C (Some out) ''manager'')"
  by (rule all_rewrites [OF assms])

lemma ex_rewrites:
  "\<exists>v1 v2 out. AddAuthToHelmValues ref_codecs ex_values ex_cp ''sa'' = ok v1 \<and>
    AddDefaultHelmValues ref_codecs (Some v1) ''metrics'' = ok v2 \<and>
    AddCAHelmValues ref_codecs (Some v2) (Some \<lparr>cms_Name = ''ca'', cms_Key = ''ca.crt''\<rparr>) = ok out"
  using all_rewrites [OF refcodecs.faithful_codecs_axioms ex_cp_host ex_good,
      of "\<lparr>cms_Name = ''ca'', cms_Key = ''ca.crt''\<rparr>" "''sa''" "''metrics''"]
  by auto

lemma rewrites_add_up_witness:
  "\<exists>v1 v2 out. AddAuthToHelmValues ref_codecs ex_values ex_cp ''sa'' = ok v1 \<and>
    AddDefaultHelmValues ref_codecs (Some v1) ''metrics'' = ok v2 \<and>
    AddCAHelmValues ref_codecs (Some v2) (Some \<lparr>cms_Name = ''ca'', cms_Key = ''ca.crt''\<rparr>) = ok out"
  using rewrites_add_up [OF refcodecs.faithful_codecs_axioms ex_cp_host ex_good,
      of "\<lparr>cms_Name = ''ca'', cms_Key = ''ca.crt''\<rparr>" "''sa''" "''metrics''"]
  by auto

section \<open>What the controller reads\<close>

text \<open>
  C29: when all three rewrites succeed, they do not touch what the controller itself reads off
  the values, provided no name at the top level is repeated and the two fields it reads are
  under no other spelling than their own. The chart then gets the name space and the pull
  secrets under which the controller has put the objects: extracting them from the rewritten
  values, with or without a CA bundle, gives what was extracted at the start, errors included.
  (The rewrites sort the members; with a repeated name, or one in other letter case, another
  member could come last and count.)
\<close>

theorem rewrites_keep_extracted_values:
  assumes "plain_values values" "AddAuthToHelmValues C values c sa = ok v1"
    "AddDefaultHelmValues C (Some v1) ns = ok v2" "AddCAHelmValues C (Some v2) cm = ok out"
  shows "ExtractHelmValues (Some v2) = ExtractHelmValues values \<and> ExtractHelmValues (Some out) = ExtractHelmValues values"
proof -
  have v1: "keeps_extract values v1"
    using assms(2) add_volume_keeps_extract [OF assms(1)] by (auto simp: AddAuthToHelmValues_def split: go.splits)
  then have v2: "keeps_extract (Some v1) v2"
    using defaults_keep_extract [OF _ assms(3)] by (simp add: keeps_extract_def)
  then have "keeps_extract (Some v2) out"
    using assms(4) add_volume_keeps_extract [of "Some v2"]
    by (auto simp: AddCAHelmValues_def keeps_extract_def split: option.splits if_splits)
  with v1 v2 show ?thesis by (simp add: keeps_extract_def)
qed

lemma rewrites_keep_extracted_values_witness:
  "\<exists>v1 v2 out. AddAuthToHelmValues ref_codecs ex_values ex_cp ''sa'' = ok v1 \<and>
    AddDefaultHelmValues ref_codecs (Some v1) ''metrics'' = ok v2 \<and>
    AddCAHelmValues ref_codecs (Some v2) (Some \<lparr>cms_Name = ''ca'', cms_Key = ''ca.crt''\<rparr>) = ok out \<and>
    ExtractHelmValues (Some out) = ExtractHelmValues ex_values"
proof -
  obtain v1 v2 out where run: "AddAuthToHelmValues ref_codecs ex_values ex_cp ''sa'' = ok v1"
      "AddDefaultHelmValues ref_codecs (Some v1) ''metrics'' = ok v2"
      "AddCAHelmValues ref_codecs (Some v2) (Some \<lparr>cms_Name = ''ca'', cms_Key = ''ca.crt''\<rparr>) = ok out"
    using ex_rewrites by blast
  have "plain_values ex_values"
    by (simp add: plain_values_def ex_values_def plain_name_def names_field_def ascii_lower_def)
  from rewrites_keep_extracted_values [OF this run] run show ?thesis by blast
qed

end
