(* ===== verification/Authn_Properties.thy ===== *)
theory Authn_Properties
  imports Authn Authn_Values Helm_Properties
begin

text \<open>
  The properties of package authn: a token of the service account that does not last until
  after the next reconciliation is replaced, its expiration time survives the annotation, and the package's rewrite of Helm values agrees
  with the one the controller uses.
\<close>

section \<open>What a token request gives\<close>

text \<open>
  The account is looked up and a token of an hour asked for; the server grants \<open>token\<close> up to
  \<open>expiry\<close>, and no other call is made. How long that is, is the server's choice.
\<close>

definition token_granted ::
    "'w client \<Rightarrow> managed_service_account \<Rightarrow> 'w \<Rightarrow> string \<Rightarrow> int \<Rightarrow> 'w \<Rightarrow> bool" where
  "token_granted c msa w token expiry w' \<longleftrightarrow>
     (\<exists>sa w1. cl_get c (msa_Namespace msa, msa_Name msa) (new_object [] [] ServiceAccount) w = ((None, sa), w1) \<and>
        cl_create_token c sa 3600 w1 = (Inr (token, expiry), w'))"

text \<open>Expiration times can be written: years of four digits, zone offsets in whole minutes.\<close>

definition readable_grants :: "'w os_env \<Rightarrow> 'w client \<Rightarrow> bool" where
  "readable_grants env c \<longleftrightarrow>
     (\<forall>sa secs w token expiry w'. cl_create_token c sa secs w = (Inr (token, expiry), w') \<longrightarrow>
        readable_time (os_ZoneOffset env expiry) expiry)"

lemma generateToken_ok:
  assumes "generateToken env c cfg msa expiration w = (Inr tok, w')"
  obtains sa w1 where
    "cl_get c (msa_Namespace msa, msa_Name msa) (new_object [] [] ServiceAccount) w = ((None, sa), w1)"
    "cl_create_token c sa (expiration div Second) w1 = (Inr (sat_Token tok, sat_TokenExpiry tok), w')"
    "10 * Minute \<le> expiration" "msa_Name msa \<noteq> []" "msa_Namespace msa \<noteq> []"
  using assms that
  by (auto simp: generateToken_def Let_def split: if_splits option.splits prod.splits sum.splits)

section \<open>The example\<close>

definition ex_env :: "ref_world os_env" where
  "ex_env = \<lparr>os_Now = rw_now, os_ReadFile = (\<lambda>f w. Inl (EOpaque 2 ''no such file'')),
     os_ZoneOffset = (\<lambda>t. 7200)\<rparr>"

definition ex_msa :: managed_service_account where
  "ex_msa = \<lparr>msa_Name = ''metrics-operator-server'', msa_Namespace = ''metrics''\<rparr>"

definition ex_token_secret :: object where
  "ex_token_secret = new_object (KubeAPIAccess ex_msa) ''ns'' (Secret None [])"

text \<open>A control plane with the service account; its clock shows January 1, 2026.\<close>

definition ex_2026 :: int where "ex_2026 = 1767225600 * Second"

definition ex_account :: ref_world where
  "ex_account = \<lparr>rw_store = (\<lambda>_. [new_object (msa_Name ex_msa) (msa_Namespace ex_msa) ServiceAccount]),
     rw_custom = (\<lambda>_ _. None), rw_down = [], rw_held = [], rw_now = ex_2026\<rparr>"

lemma ex_readable: "readable_time 7200 (ex_2026 + Hour)"
  by (simp add: readable_time_def four_digit_year_def ex_2026_def Hour_def Minute_def Second_def nanos_def
      epoch_days_def year_of_days_def year_from.simps days_before_year_def)

lemma ex_get_account:
  "cl_get (c_client ex_cp) (msa_Namespace ex_msa, msa_Name ex_msa) (new_object [] [] ServiceAccount) ex_account =
     ((None, new_object (msa_Name ex_msa) (msa_Namespace ex_msa) ServiceAccount), ex_account)"
  by (simp add: ex_cp_def NewManagedCluster_def ref_get_def ref_view_def ex_account_def same_object_def
      object_key_def new_object_def)

text \<open>A control plane that grants tokens up to a fixed time, a short one.\<close>

definition ex_short_cp :: "ref_world managed_cluster" where
  "ex_short_cp = ex_cp\<lparr>c_client := (c_client ex_cp)\<lparr>cl_create_token := (\<lambda>sa secs w. (Inr (''short'', ex_2026 + 20 * Minute), w))\<rparr>\<rparr>"

lemma ex_short_readable: "readable_time 7200 (ex_2026 + 20 * Minute)"
  by (simp add: readable_time_def four_digit_year_def ex_2026_def Minute_def Second_def nanos_def
      epoch_days_def year_of_days_def year_from.simps days_before_year_def)

lemma ex_grants: "readable_grants ex_env (c_client ex_short_cp)"
  by (simp add: readable_grants_def ex_short_cp_def ex_env_def ex_short_readable)

lemma ex_expires: "token_expires ex_env poll ex_token_secret ex_account"
  by (simp add: token_expires_def getTokenExpirationTime_def ex_token_secret_def new_object_def)

lemma ex_renewal:
  "\<exists>obj'. token_reconcile ex_env ex_short_cp ex_msa poll ex_token_secret ex_account = (Ret None, obj', ex_account)"
proof -
  have get: "cl_get (c_client ex_short_cp) (msa_Namespace ex_msa, msa_Name ex_msa) (new_object [] [] ServiceAccount) ex_account =
      ((None, new_object (msa_Name ex_msa) (msa_Namespace ex_msa) ServiceAccount), ex_account)"
    unfolding ex_get_account [symmetric] by (simp add: ex_short_cp_def)
  have create: "cl_create_token (c_client ex_short_cp) sa secs w = (Inr (''short'', ex_2026 + 20 * Minute), w)" for sa secs w
    by (simp add: ex_short_cp_def)
  have "generateToken ex_env (c_client ex_short_cp) (c_cfg ex_short_cp) ex_msa (1 * Hour) ex_account =
      (Inr \<lparr>sat_CAData = [], sat_Token = ''short'', sat_TokenExpiry = ex_2026 + 20 * Minute\<rparr>, ex_account)"
    unfolding generateToken_def Let_def get create
    by (simp add: ex_msa_def ex_short_cp_def ex_cp_def NewManagedCluster_def Hour_def Minute_def Second_def)
  moreover have "o_Body ex_token_secret = Secret None []" by (simp add: ex_token_secret_def new_object_def)
  ultimately show ?thesis by (simp add: token_reconcile_def ex_expires)
qed

section \<open>The token\<close>

text \<open>
  C18: when the reconcile function of the token secret ends without an error, the secret has a
  token for the time up to a minute after the next reconciliation, or one that the server has
  granted just now. A secret whose annotated expiration time is that late is left as it is and
  no token is asked for. In any other case a token of an hour is asked for, and the secret
  then holds the token that was granted and is annotated with its expiration time, in whole
  seconds. How long the server grants is its choice, and what is asked for does not depend on
  the poll interval. (Expiration times have years of four digits and zone offsets of whole
  minutes.)
\<close>

theorem stale_tokens_are_replaced:
  assumes "token_reconcile env cp msa poll obj w = (Ret None, obj', w')" "readable_grants env (c_client cp)"
  shows "if \<exists>t. getTokenExpirationTime obj = Inr t \<and> os_Now env w + poll + Minute \<le> t
    then obj' = obj \<and> w' = w
    else \<exists>token expiry data t. token_granted (c_client cp) msa w token expiry w' \<and>
      o_Body obj' = Secret (Some data) t \<and> data ''token'' = Some token \<and>
      getTokenExpirationTime obj' = Inr (expiry div Second * Second)"
  using assms(1)
proof (cases rule: token_reconcile_ok)
  case kept
  then show ?thesis by (auto simp: token_expires_def Let_def split: sum.splits)
next
  case (renewed tok d t)
  have stale: "\<not> (\<exists>t. getTokenExpirationTime obj = Inr t \<and> os_Now env w + poll + Minute \<le> t)"
    using renewed(1) by (auto simp: token_expires_def Let_def split: sum.splits)
  have "1 * Hour div Second = 3600" by (simp add: Hour_def Minute_def Second_def)
  with renewed(3) obtain sa w1 where
    get: "cl_get (c_client cp) (msa_Namespace msa, msa_Name msa) (new_object [] [] ServiceAccount) w = ((None, sa), w1)"
    and create: "cl_create_token (c_client cp) sa 3600 w1 = (Inr (sat_Token tok, sat_TokenExpiry tok), w')"
    by (elim generateToken_ok) simp
  have readable: "readable_time (os_ZoneOffset env (sat_TokenExpiry tok)) (sat_TokenExpiry tok)"
    using assms(2) create unfolding readable_grants_def by blast
  have "getTokenExpirationTime obj' = Inr (sat_TokenExpiry tok div Second * Second)"
    using rfc3339.read_written [OF readable] by (simp add: renewed(4) setTokenExpirationTime_get FormatTime_def)
  moreover have "token_granted (c_client cp) msa w (sat_Token tok) (sat_TokenExpiry tok) w'"
    unfolding token_granted_def using get create by blast
  ultimately show ?thesis using stale renewed(4) by auto
qed

lemma stale_tokens_are_replaced_witness:
  "\<exists>obj' data. token_reconcile ex_env ex_short_cp ex_msa Minute ex_token_secret ex_account = (Ret None, obj', ex_account) \<and>
     o_Body obj' = Secret (Some data) [] \<and> data ''token'' = Some ''short'' \<and>
     getTokenExpirationTime obj' = Inr (ex_2026 + 20 * Minute)"
proof -
  obtain obj' where run: "token_reconcile ex_env ex_short_cp ex_msa Minute ex_token_secret ex_account =
      (Ret None, obj', ex_account)" using ex_renewal by blast
  have stale: "\<not> (\<exists>t. getTokenExpirationTime ex_token_secret = Inr t \<and> os_Now ex_env ex_account + Minute + Minute \<le> t)"
    by (simp add: getTokenExpirationTime_def ex_token_secret_def new_object_def)
  obtain token expiry data t where granted: "token_granted (c_client ex_short_cp) ex_msa ex_account token expiry ex_account"
    and body: "o_Body obj' = Secret (Some data) t" "data ''token'' = Some token"
    and get: "getTokenExpirationTime obj' = Inr (expiry div Second * Second)"
    using stale_tokens_are_replaced [OF run ex_grants, unfolded if_not_P [OF stale]] by blast
  have "token = ''short''" "expiry = ex_2026 + 20 * Minute"
    using granted by (auto simp: token_granted_def ex_short_cp_def)
  moreover have "t = []"
    by (rule token_reconcile_ok [OF run]) (use body(1) in \<open>auto simp: ex_token_secret_def new_object_def\<close>)
  ultimately show ?thesis using run body get by (auto simp: ex_2026_def Minute_def Second_def)
qed

text \<open>
  C38: an expiration time that is set on a secret is read back from it, in whole seconds,
  in whatever time zone the operator runs.
\<close>

theorem expiration_time_round_trip:
  assumes "readable_time (os_ZoneOffset env t) t"
  shows "getTokenExpirationTime (setTokenExpirationTime env t obj) = Inr (t div Second * Second)"
  using rfc3339.read_written [OF assms] by (simp add: setTokenExpirationTime_get FormatTime_def)

lemma expiration_time_round_trip_witness:
  "getTokenExpirationTime (setTokenExpirationTime ex_env (ex_2026 + Hour) ex_token_secret) = Inr (ex_2026 + Hour)"
proof -
  have "readable_time (os_ZoneOffset ex_env (ex_2026 + Hour)) (ex_2026 + Hour)"
    using ex_readable by (simp add: ex_env_def)
  from expiration_time_round_trip [OF this, of ex_token_secret] show ?thesis
    by (simp add: ex_2026_def Hour_def Minute_def Second_def)
qed

section \<open>The rewrite of package authn\<close>

text \<open>
  C37: the rewrite of package authn and the one of package helm, which the controller calls,
  agree: what helm's gives, authn's gives too; and authn's never panics, as helm's does on
  sections that are null.
\<close>

theorem authn_rewrite_agrees:
  assumes "GetHostAndPort c = Ret (host, port)"
  shows "(\<forall>out. AddAuthToHelmValues C values c sa = ok out \<longrightarrow> authn_AddAuthToHelmValues C values c sa = ok out) \<and>
    \<not> panics (authn_AddAuthToHelmValues C values c sa)"
  using authn_agrees authn_returns [OF assms] by blast

lemma authn_rewrite_agrees_witness:
  "\<exists>out. authn_AddAuthToHelmValues ref_codecs ex_values ex_cp ''kube-api'' = ok out"
proof -
  obtain out where "AddAuthToHelmValues ref_codecs ex_values ex_cp ''kube-api'' = ok out"
    using faithful_codecs.add_volume_succeeds [OF refcodecs.faithful_codecs_axioms] ex_good ex_cp_host
    by (fastforce simp: AddAuthToHelmValues_def)
  then have "authn_AddAuthToHelmValues ref_codecs ex_values ex_cp ''kube-api'' = ok out"
    using authn_rewrite_agrees [OF ex_cp_host] by blast
  then show ?thesis by blast
qed

end
