(* ===== verification/Controller_Properties.thy ===== *)
theory Controller_Properties
  imports Delete_Loop Authn_Properties
begin

text \<open>
  The properties of the controller, with an example request on reference clusters: cluster
  0 is the platform, 1 the workload cluster and 2 the control plane of the tenant.
\<close>

section \<open>The example\<close>

definition ex_outside :: "ref_world outside" where
  "ex_outside = \<lparr>out_api = ref_api, out_env = ex_env, out_lib = ref_lib, out_codecs = ref_codecs\<rparr>"

definition ex_rc :: "ref_world reconciler" where
  "ex_rc = \<lparr>rec_PlatformClient = ref_client 0, rec_PlatformConfig = None, rec_PodNamespace = ''openmcp-system''\<rparr>"

definition ex_ctx :: "ref_world cluster_context" where
  "ex_ctx = \<lparr>ctx_WorkloadClient = ref_client 1, ctx_WorkloadConfig = None, ctx_MCPClient = ref_client 2,
     ctx_MCPConfig = Some \<lparr>rc_Host = ''https://api.cp.example:6443'', rc_CAData = [], rc_CAFile = []\<rparr>,
     ctx_WorkloadAccessSecretName = ''workload-access''\<rparr>"

definition ex_mo :: "string \<Rightarrow> metrics_operator" where
  "ex_mo version = \<lparr>mo_Name = ''mo'', mo_Namespace = ''project'', mo_Labels = Some [labelInstanceID \<mapsto> ''abc''],
     mo_Version = version,
     mo_Status = \<lparr>mos_ObservedGeneration = 1, mos_Phase = [], mos_Conditions = [], mos_Resources = []\<rparr>\<rparr>"

definition ex_version :: metrics_operator_version where
  "ex_version = \<lparr>mov_Version = ''v1'', mov_ChartVersion = ''1.0.0'',
     mov_ChartURL = Some ''oci://registry.example/metrics-operator'', mov_ChartPullSecret = ''chart-pull'',
     mov_HelmValues = ex_values\<rparr>"

definition ex_pc :: provider_config where
  "ex_pc = \<lparr>pc_Versions = [ex_version], pc_PollInterval = None,
     pc_CABundleRef = Some \<lparr>cms_Name = ''ca'', cms_Key = ''ca.crt''\<rparr>\<rparr>"

definition ex_clusters :: "nat list \<Rightarrow> ref_world" where
  "ex_clusters down =
     \<lparr>rw_store = (\<lambda>_. []), rw_custom = (\<lambda>_ _. None), rw_down = down, rw_held = [], rw_now = 0\<rparr>"

lemma ex_outside_simps [simp]:
  "out_api ex_outside = ref_api" "out_lib ex_outside = ref_lib" "out_codecs ex_outside = ref_codecs"
  "out_env ex_outside = ex_env"
  by (simp_all add: ex_outside_def)

lemma ex_ctx_simps [simp]: "ctx_MCPClient ex_ctx = ref_client 2" "ctx_WorkloadClient ex_ctx = ref_client 1"
  by (simp_all add: ex_ctx_def)

lemma ex_known_clients: "known_clients ref_client ex_rc ex_ctx"
  by (auto simp: known_clients_def ex_rc_def ex_ctx_def)

lemma ex_id [simp]: "GetID (ex_mo v) = ''abc''"
  by (simp add: ex_mo_def GetID_def)

lemma ex_id_phase [simp]: "GetID (SetPhase p mo) = GetID mo"
  by (simp add: GetID_def SetPhase_def)

lemma ref_lib_status [simp]:
  "lib_StatusTerminating ref_lib = SetPhase ''Terminating''"
  "lib_StatusProgressing ref_lib mo reason m = SetPhase ''Progressing'' mo"
  "lib_StatusTerminatingWithReason ref_lib mo reason m = SetPhase ''Terminating'' mo"
  by (simp_all add: ref_lib_def)

text \<open>No kind of the metrics API is installed, so nothing blocks.\<close>

lemma ex_free: "2 \<notin> set (rw_down w) \<Longrightarrow> rw_custom w = (\<lambda>_ _. None) \<Longrightarrow>
    BlockingKinds ref_api (ref_client 2) w = (Inr [], w)"
  by (simp add: BlockingKinds_def metricsListGVKs_def ref_count_def)

lemma ex_extract: "\<exists>hv. ExtractHelmValues ex_values = Inr hv"
  by (simp add: ExtractHelmValues_def ex_values_def decode_member_def names_field_def ascii_lower_def)

text \<open>The manager of the example request can be made.\<close>

lemma ex_make:
  obtains mgr r where "createObjectManager ex_outside ex_rc (SetPhase p (ex_mo ''v1'')) ex_pc ex_ctx w =
    (ok (mgr, r), SetPhase p (ex_mo ''v1''), w)"
proof -
  let ?mo = "SetPhase p (ex_mo ''v1'')"
  obtain hv where hv: "ExtractHelmValues ex_values = Inr hv" using ex_extract by blast
  have v: "mo_Version ?mo = ''v1''" by (simp add: SetPhase_def ex_mo_def)
  have inputs: "prepareInputs ex_outside ?mo ex_pc w = (Inr (''mcp--'' @ mo_Name ?mo, ex_version, hv), ?mo, w)"
    using hv v
    by (simp add: prepareInputs_def ensureInstanceID_def selectMetricsOperatorVersion_def ex_pc_def ref_lib_def)
       (simp add: ex_version_def)
  have "\<exists>mgr r. build_manager ex_outside ex_rc ?mo ex_pc ex_ctx (''mcp--'' @ mo_Name ?mo, ex_version, hv)
      (new_run w) = ok (mgr, r)"
    by (rule build_manager_succeeds)
       (auto simp: refcodecs.faithful_codecs_axioms ex_ctx_def ex_version_def ex_good PrefixSecretName_def
         ref_lib_def ex_pc_def)
  with inputs that show thesis by (auto simp: createObjectManager_def)
qed

text \<open>The world three calls of the delete handler leave of empty clusters.\<close>

definition ex_deleted :: ref_world where
  "ex_deleted = delete_calls ex_outside ex_rc (ex_mo ''v1'') ex_pc ex_ctx 3 (ex_clusters [])"

lemma ex_deletion:
  "rw_down ex_deleted = [] \<and> rw_held ex_deleted = [] \<and> rw_custom ex_deleted = (\<lambda>_ _. None) \<and>
   fst (Delete_handler ex_outside ex_rc (ex_mo ''v1'') ex_pc ex_ctx ex_deleted) = Ret (0, None)"
proof (rule ex_make [of "''Terminating''" "ex_clusters []"])
  fix mgr r
  let ?mo = "SetPhase ''Terminating'' (ex_mo ''v1'')" and ?w = "ex_clusters []"
  let ?healthy = "\<lambda>w. rw_down w = [] \<and> rw_held w = [] \<and> rw_custom w = (\<lambda>_ _. None)"
  assume "createObjectManager ex_outside ex_rc ?mo ex_pc ex_ctx ?w = (ok (mgr, r), ?mo, ?w)"
  then have make: "createObjectManager ex_outside ex_rc (lib_StatusTerminating (out_lib ex_outside) (ex_mo ''v1''))
      ex_pc ex_ctx ?w = (ok (mgr, r), ?mo, ?w)" by simp
  have server: "prompt_listing_server (out_api ex_outside) ref_client ref_view ?healthy"
    and mut: "mutators (out_api ex_outside)"
    by (simp_all add: refpromptlist.prompt_listing_server_axioms refmut.mutators_axioms)
  have id: "GetID (lib_StatusTerminating (out_lib ex_outside) (ex_mo ''v1'')) \<noteq> []" by simp
  have free: "\<forall>w. ?healthy w \<longrightarrow> BlockingKinds (out_api ex_outside) (ctx_MCPClient ex_ctx) w = (Inr [], w)"
    by (simp add: ex_free)
  obtain tns mv hv where p: "prepareInputs ex_outside (lib_StatusTerminating (out_lib ex_outside) (ex_mo ''v1'')) ex_pc ?w =
      (Inr (tns, mv, hv), ?mo, ?w)"
    and b: "build_manager ex_outside ex_rc ?mo ex_pc ex_ctx (tns, mv, hv) (new_run ?w) = ok (mgr, r)"
    by (rule createObjectManager_parts [OF make])
  have tns: "tns \<noteq> []"
    using p by (auto simp: prepareInputs_def ref_lib_def split: sum.splits prod.splits option.splits)
  obtain s where shape: "has_shape s ex_outside ex_rc ?mo ex_ctx tns (new_run ?w) mgr r"
    by (rule build_manager_shape [OF mut b])
  obtain cleans where sweep: "list_all2 (sweeps ref_view ?healthy) (mgr_cleaners mgr) cleans"
    by (rule shape_sweeps [OF server ex_known_clients shape tns])
  have h: "?healthy ?w" by (simp add: ex_clusters_def)
  show ?thesis
    using delete_calls_level [OF server mut ex_known_clients id make shape sweep free h, of 3]
      fourth_call_is_done [OF server mut ex_known_clients id make shape tns free h]
    unfolding ex_deleted_def by blast
qed

lemmas ex_deleted_healthy = ex_deletion [THEN conjunct1] ex_deletion [THEN conjunct2, THEN conjunct1]
  ex_deletion [THEN conjunct2, THEN conjunct2, THEN conjunct1]

lemmas ex_deleted_done = ex_deletion [THEN conjunct2, THEN conjunct2, THEN conjunct2]

section \<open>The end of deletion\<close>

text \<open>
  C2: deletion of a MetricsOperator comes to an end. On clusters that answer and delete at
  once, and when the tenant has no resources left, the fourth call of the delete handler
  at the latest returns without an error and does not ask to be called again.
\<close>

theorem deletion_of_a_request_completes:
  assumes "prompt_listing_server (out_api X) cl view healthy" "mutators (out_api X)" "known_clients cl rc ctx"
    "GetID (lib_StatusTerminating (out_lib X) obj) \<noteq> []"
    "createObjectManager X rc (lib_StatusTerminating (out_lib X) obj) pc ctx w = (ok (mgr, r), obj1, w1)"
    "\<forall>n ns. lib_StableMCPNamespace (out_lib X) n ns \<noteq> Inr []"
    "\<forall>w. healthy w \<longrightarrow> BlockingKinds (out_api X) (ctx_MCPClient ctx) w = (Inr [], w)" "healthy w"
  shows "fst (Delete_handler X rc obj pc ctx (delete_calls X rc obj pc ctx 3 w)) = Ret (0, None)"
proof (rule request_shape [OF assms(2,5,6)])
  fix s tns
  assume "has_shape s X rc obj1 ctx tns (new_run w1) mgr r" "tns \<noteq> []"
  from fourth_call_is_done [OF assms(1-5) this assms(7,8)] show ?thesis .
qed

lemma deletion_of_a_request_completes_witness:
  "fst (Delete_handler ex_outside ex_rc (ex_mo ''v1'') ex_pc ex_ctx
     (delete_calls ex_outside ex_rc (ex_mo ''v1'') ex_pc ex_ctx 3 (ex_clusters []))) = Ret (0, None)"
proof (rule ex_make [of "''Terminating''" "ex_clusters []"])
  fix mgr r
  assume make: "createObjectManager ex_outside ex_rc (SetPhase ''Terminating'' (ex_mo ''v1'')) ex_pc ex_ctx
      (ex_clusters []) = (ok (mgr, r), SetPhase ''Terminating'' (ex_mo ''v1''), ex_clusters [])"
  have pls: "prompt_listing_server (out_api ex_outside) ref_client ref_view
      (\<lambda>w. rw_down w = [] \<and> rw_held w = [] \<and> rw_custom w = (\<lambda>_ _. None))"
    using refpromptlist.prompt_listing_server_axioms by simp
  show ?thesis
    by (rule deletion_of_a_request_completes [OF pls _ ex_known_clients,
          of "ex_mo ''v1''" ex_pc "ex_clusters []" mgr r "SetPhase ''Terminating'' (ex_mo ''v1'')" "ex_clusters []"])
       (use make refmut.mutators_axioms in
         \<open>simp_all add: ex_free ex_clusters_def ref_lib_def\<close>)
qed

text \<open>
  C1: the loop around the delete handler terminates. On such clusters the runtime, which
  calls the handler until it returns without an error and without asking to be called
  again, comes to stop, and then every object of the request is gone from its cluster.
\<close>

theorem deletion_terminates:
  assumes "prompt_listing_server (out_api X) cl view healthy" "mutators (out_api X)" "user_input_errors (out_lib X)"
    "known_clients cl rc ctx" "OperationResultNone (out_api X) \<noteq> OperationResultDeleted"
    "GetID (lib_StatusTerminating (out_lib X) obj) \<noteq> []"
    "createObjectManager X rc (lib_StatusTerminating (out_lib X) obj) pc ctx w0 = (ok (mgr, r), obj1, w1)"
    "\<forall>n ns. lib_StableMCPNamespace (out_lib X) n ns \<noteq> Inr []"
    "\<forall>w. healthy w \<longrightarrow> BlockingKinds (out_api X) (ctx_MCPClient ctx) w = (Inr [], w)" "healthy w"
  shows "\<exists>w'. delete_loop X rc obj pc ctx w = Some (Ret (0, None), w') \<and>
    (\<forall>(mc, m) \<in> set (managed_pairs (mgr_clusters mgr)). \<forall>i. c_client mc = cl i \<longrightarrow>
       view i w' (kind_of (GetObject r m)) (object_key (GetObject r m)) = None)"
  by (rule loop_terminates [OF assms])

lemma deletion_terminates_witness:
  "\<exists>w'. delete_loop ex_outside ex_rc (ex_mo ''v1'') ex_pc ex_ctx (ex_clusters []) = Some (Ret (0, None), w')"
proof (rule ex_make [of "''Terminating''" "ex_clusters []"])
  fix mgr r
  assume make: "createObjectManager ex_outside ex_rc (SetPhase ''Terminating'' (ex_mo ''v1'')) ex_pc ex_ctx
      (ex_clusters []) = (ok (mgr, r), SetPhase ''Terminating'' (ex_mo ''v1''), ex_clusters [])"
  have pls: "prompt_listing_server (out_api ex_outside) ref_client ref_view
      (\<lambda>w. rw_down w = [] \<and> rw_held w = [] \<and> rw_custom w = (\<lambda>_ _. None))"
    using refpromptlist.prompt_listing_server_axioms by simp
  have "\<exists>w'. delete_loop ex_outside ex_rc (ex_mo ''v1'') ex_pc ex_ctx (ex_clusters []) = Some (Ret (0, None), w') \<and>
    (\<forall>(mc, m) \<in> set (managed_pairs (mgr_clusters mgr)). \<forall>i. c_client mc = ref_client i \<longrightarrow>
       ref_view i w' (kind_of (GetObject r m)) (object_key (GetObject r m)) = None)"
    by (rule deletion_terminates [OF pls _ _ ex_known_clients,
          of "ex_mo ''v1''" ex_pc "ex_clusters []" mgr r "SetPhase ''Terminating'' (ex_mo ''v1'')" "ex_clusters []"])
       (use make refmut.mutators_axioms refinput.user_input_errors_axioms in
         \<open>simp_all add: ex_free ex_clusters_def ref_lib_def OperationResultDeleted_def\<close>)
  then show ?thesis by blast
qed

text \<open>
  C6: the delete handler tells the truth. When it returns without an error and without
  asking to be called again, and the manager could be made, every object of the manager is
  gone from its cluster: the runtime may drop the finalizer.
\<close>

theorem deletion_is_reported_truthfully:
  assumes "listing_server (out_api X) cl view" "mutators (out_api X)" "user_input_errors (out_lib X)"
    "known_clients cl rc ctx" "OperationResultNone (out_api X) \<noteq> OperationResultDeleted"
    "BlockingKinds (out_api X) (ctx_MCPClient ctx) w = (Inr [], w0)"
    "createObjectManager X rc (lib_StatusTerminating (out_lib X) obj) pc ctx w0 = (ok (mgr, r), obj1, w1)"
    "Delete_handler X rc obj pc ctx w = (Ret (0, None), obj', w')"
    "(mc, m) \<in> set (managed_pairs (mgr_clusters mgr))" "c_client mc = cl i"
  shows "view i w' (kind_of (GetObject r m)) (object_key (GetObject r m)) = None"
  by (rule done_is_true [OF assms])

lemma deletion_is_reported_truthfully_witness:
  "\<exists>(mgr :: ref_world manager) r obj' w'. Delete_handler ex_outside ex_rc (ex_mo ''v1'') ex_pc ex_ctx ex_deleted = (Ret (0, None), obj', w') \<and>
     managed_pairs (mgr_clusters mgr) \<noteq> [] \<and>
     (\<forall>(mc, m) \<in> set (managed_pairs (mgr_clusters mgr)). \<forall>i. c_client mc = ref_client i \<longrightarrow>
        ref_view i w' (kind_of (GetObject r m)) (object_key (GetObject r m)) = None)"
proof (rule ex_make [of "''Terminating''" ex_deleted])
  fix mgr r
  let ?mo = "SetPhase ''Terminating'' (ex_mo ''v1'')"
  assume make: "createObjectManager ex_outside ex_rc ?mo ex_pc ex_ctx ex_deleted = (ok (mgr, r), ?mo, ex_deleted)"
  have mut: "mutators (out_api ex_outside)" by (simp add: refmut.mutators_axioms)
  obtain s tns where shape: "has_shape s ex_outside ex_rc ?mo ex_ctx tns (new_run ex_deleted) mgr r"
    by (rule createObjectManager_shape [OF mut make])
  have some: "managed_pairs (mgr_clusters mgr) \<noteq> []"
    using shape_pairs [OF shape] by (auto simp: shape_cp_def)
  obtain obj' w' where run: "Delete_handler ex_outside ex_rc (ex_mo ''v1'') ex_pc ex_ctx ex_deleted = (Ret (0, None), obj', w')"
    using ex_deleted_done by (cases "Delete_handler ex_outside ex_rc (ex_mo ''v1'') ex_pc ex_ctx ex_deleted") auto
  have server: "listing_server (out_api ex_outside) ref_client ref_view"
    using reflist.listing_server_axioms by simp
  have free: "BlockingKinds (out_api ex_outside) (ctx_MCPClient ex_ctx) ex_deleted = (Inr [], ex_deleted)"
    using ex_deleted_healthy by (simp add: ex_free)
  have gone: "ref_view i w' (kind_of (GetObject r m)) (object_key (GetObject r m)) = None"
    if "(mc, m) \<in> set (managed_pairs (mgr_clusters mgr))" "c_client mc = ref_client i" for mc m i
    by (rule deletion_is_reported_truthfully [OF server mut _ ex_known_clients _ free _ run that])
       (use make refinput.user_input_errors_axioms in \<open>simp_all add: OperationResultDeleted_def\<close>)
  show ?thesis
    by (rule exI [of _ mgr], rule exI [of _ r]) (use run some gone in auto)
qed

section \<open>Requests that cannot be served\<close>

text \<open>
  C40: when the version of a MetricsOperator is no longer among those of the ProviderConfig,
  the delete handler deletes nothing and still returns without an error and without asking
  to be called again, as it does when everything is gone.
\<close>

theorem unavailable_version_deletes_nothing:
  assumes "user_input_errors (out_lib X)" "obj1 = lib_StatusTerminating (out_lib X) obj" "GetID obj1 \<noteq> []"
    "BlockingKinds (out_api X) (ctx_MCPClient ctx) w = (Inr [], w0)"
    "lib_StableMCPNamespace (out_lib X) (mo_Name obj1) (mo_Namespace obj1) = Inr tns"
    "\<forall>v \<in> set (pc_Versions pc). mov_Version v \<noteq> mo_Version obj1"
  shows "\<exists>obj'. Delete_handler X rc obj pc ctx w = (Ret (0, None), obj', w0)"
proof -
  have "find (\<lambda>v. mov_Version v = mo_Version obj1) (pc_Versions pc) = None"
    using assms(6) by (simp add: find_None_iff)
  then have sel: "selectMetricsOperatorVersion X (mo_Version obj1) pc = Inl (EWrap []
      (lib_ErrInvalidUserInput (out_lib X)) ('': requested version ('' @ mo_Version obj1 @ '') is not available''))"
    by (simp add: selectMetricsOperatorVersion_def)
  let ?e = "EWrap ''failed to select metrics operator version: '' (EWrap []
      (lib_ErrInvalidUserInput (out_lib X)) ('': requested version ('' @ mo_Version obj1 @ '') is not available'')) []"
  have c: "createObjectManager X rc obj1 pc ctx w0 = (fail ?e, obj1, w0)"
    using assms(3,5) sel by (simp add: createObjectManager_def prepareInputs_def ensureInstanceID_def)
  have "lib_IgnoreInvalidUserInput (out_lib X) (Some ?e) = None"
    using user_input_errors.invalid_opaque [OF assms(1)] by (auto simp: user_input_errors.ignore [OF assms(1)])
  with c assms(2,4) show ?thesis by (simp add: Delete_handler_def Let_def)
qed

lemma unavailable_version_deletes_nothing_witness:
  "\<exists>obj'. Delete_handler ex_outside ex_rc (ex_mo ''v0'') ex_pc ex_ctx (ex_clusters []) =
     (Ret (0, None), obj', ex_clusters [])"
  by (rule unavailable_version_deletes_nothing [OF _ refl, of _ _ _ _ _ "''mcp--mo''"])
     (simp_all add: refinput.user_input_errors_axioms ex_free ex_clusters_def, simp_all add: ref_lib_def
       SetPhase_def ex_mo_def ex_pc_def ex_version_def)

text \<open>
  C7: as long as a kind of the metrics API has instances on the control plane, the delete
  handler changes no cluster and asks to be called again after five seconds.
\<close>

theorem user_resources_block_deletion:
  assumes "answers (ctx_MCPClient ctx) w answer" "\<forall>g \<in> set metricsListGVKs. \<not> kind_fails (out_api X) answer g"
    "g \<in> set metricsListGVKs" "kind_blocks answer g"
  shows "\<exists>obj'. Delete_handler X rc obj pc ctx w = (Ret (5 * Second, None), obj', w)"
proof -
  let ?kinds = "map (\<lambda>g. trim_suffix (gvk_Kind g) ''List'') (filter (kind_blocks answer) metricsListGVKs)"
  have "BlockingKinds (out_api X) (ctx_MCPClient ctx) w = (Inr ?kinds, w)"
    using blocking_loop_ok [OF assms(1,2), of "[]"] by (simp add: BlockingKinds_def)
  moreover have "?kinds \<noteq> []" using assms(3,4) by (auto simp: filter_empty_conv)
  ultimately show ?thesis by (simp add: Delete_handler_def Let_def)
qed

lemma user_resources_block_deletion_witness:
  "\<exists>obj'. Delete_handler ex_outside ex_rc (ex_mo ''v1'') ex_pc ex_ctx ex_metrics = (Ret (5 * Second, None), obj', ex_metrics)"
proof (rule user_resources_block_deletion)
  show "answers (ctx_MCPClient ex_ctx) ex_metrics ex_metrics_answer"
    by (simp add: answers_def ref_count_def ex_metrics_def ex_metrics_answer_def split: option.splits)
  show "\<forall>g \<in> set metricsListGVKs. \<not> kind_fails (out_api ex_outside) ex_metrics_answer g"
    by (simp add: kind_fails_def ex_metrics_answer_def metricsListGVKs_def ex_answer_def metrics_gvk_def)
  show "metrics_gvk ''MetricList'' \<in> set metricsListGVKs" by (simp add: metricsListGVKs_def)
  show "kind_blocks ex_metrics_answer (metrics_gvk ''MetricList'')"
    by (simp add: kind_blocks_def ex_metrics_answer_def ex_answer_def metrics_gvk_def)
qed

section \<open>Requests that can be served\<close>

text \<open>
  C13: a request can be served when the tenant name space is known, the version is offered,
  its Helm values are well formed, the names the code makes are short enough, the bundle
  of certificates is named completely and there is a connection to the control plane. Then
  the manager is made, without changing any cluster.
\<close>

theorem servable_requests_have_a_manager:
  assumes "faithful_codecs (out_codecs X)" "ctx_MCPConfig ctx = Some conf" "GetID obj \<noteq> []"
    "lib_StableMCPNamespace (out_lib X) (mo_Name obj) (mo_Namespace obj) = Inr tns"
    "find (\<lambda>v. mov_Version v = mo_Version obj) (pc_Versions pc) = Some mv"
    "good_values (out_codecs X) (mov_HelmValues mv)" "ExtractHelmValues (mov_HelmValues mv) = Inr hv"
    "mov_ChartPullSecret mv = [] \<or>
      (\<exists>n. PrefixSecretName (lib_ShortenToXCharacters (out_lib X)) (mov_ChartPullSecret mv) = Inr n)"
    "\<forall>ref. pc_CABundleRef pc = Some ref \<longrightarrow> cms_Name ref \<noteq> [] \<and> cms_Key ref \<noteq> []"
  shows "\<exists>mgr r. createObjectManager X rc obj pc ctx w = (ok (mgr, r), obj, w) \<and> r_world r = w"
proof -
  have p: "prepareInputs X obj pc w = (Inr (tns, mv, hv), obj, w)"
    using assms(3-5,7) by (simp add: prepareInputs_def ensureInstanceID_def selectMetricsOperatorVersion_def)
  obtain mgr r where b: "build_manager X rc obj pc ctx (tns, mv, hv) (new_run w) = ok (mgr, r)"
    using build_manager_succeeds [OF assms(1,2,6,8)] assms(9) by blast
  have "r\<lparr>r_world := w\<rparr> = r" using build_manager_world [OF b, of w] b by (simp add: new_run_def)
  then have "r_world r = w" by (metis run.select_convs(1) run.surjective run.update_convs(1))
  with p b show ?thesis by (simp add: createObjectManager_def)
qed

lemma servable_requests_have_a_manager_witness:
  "\<exists>mgr r. createObjectManager ex_outside ex_rc (ex_mo ''v1'') ex_pc ex_ctx (ex_clusters []) =
     (ok (mgr, r), ex_mo ''v1'', ex_clusters []) \<and> r_world r = ex_clusters []"
proof -
  obtain hv where hv: "ExtractHelmValues (mov_HelmValues ex_version) = Inr hv"
    using ex_extract by (auto simp: ex_version_def)
  show ?thesis
    by (rule servable_requests_have_a_manager [OF _ _ _ _ _ _ hv])
       (auto simp: refcodecs.faithful_codecs_axioms ex_ctx_def ex_good PrefixSecretName_def ref_lib_def ex_pc_def
         ex_mo_def ex_version_def GetID_def)
qed

text \<open>
  C17: both handlers return, whatever the clusters answer, unless making the manager panics
  (as it does on values with a null section).
\<close>

theorem handlers_do_not_panic:
  assumes "api_server (out_api X) cl view" "mutators (out_api X)" "known_clients cl rc ctx"
    "\<forall>mo w. \<not> panics (fst (createObjectManager X rc mo pc ctx w))"
  shows "\<not> panics (fst (CreateOrUpdate_handler X rc obj pc ctx w)) \<and>
    \<not> panics (fst (Delete_handler X rc obj pc ctx w))"
  using CreateOrUpdate_returns [OF assms(1-3)] Delete_returns [OF assms(1-3)] assms(4) by blast

lemma handlers_do_not_panic_witness:
  "\<not> panics (fst (CreateOrUpdate_handler ex_outside ex_rc (ex_mo ''v1'') (ex_pc\<lparr>pc_Versions := []\<rparr>) ex_ctx (ex_clusters [1]))) \<and>
   \<not> panics (fst (Delete_handler ex_outside ex_rc (ex_mo ''v1'') (ex_pc\<lparr>pc_Versions := []\<rparr>) ex_ctx (ex_clusters [1])))"
  by (rule handlers_do_not_panic [of _ ref_client ref_view])
     (auto simp: refsrv.api_server_axioms refmut.mutators_axioms ex_known_clients createObjectManager_def
       prepareInputs_def selectMetricsOperatorVersion_def split: sum.splits prod.splits option.splits)

section \<open>What a user sees\<close>

text \<open>
  When the manager could be made, the message of a failed reconciliation is one of five
  fixed texts. No text of an error of a cluster reaches the status of the MetricsOperator.
\<close>

theorem status_messages_are_fixed_texts:
  assumes "api_server (out_api X) cl view" "mutators (out_api X)" "known_clients cl rc ctx"
    "createObjectManager X rc (lib_StatusProgressing (out_lib X) obj ''Reconciling'' ''Reconcile in progress'') pc ctx w =
       (ok (mgr, r), obj1, w1)"
    "CreateOrUpdate_handler X rc obj pc ctx w = (Ret (t, Some e), obj', w')"
  shows "\<exists>mo message. obj' = lib_StatusProgressing (out_lib X) mo conditionReasonError message \<and>
    message \<in> {''resources contain reconcile errors'', ''secret cleanup failed'', ''configmap cleanup failed'',
      ''resources contain reconcile errors; secret cleanup failed'',
      ''resources contain reconcile errors; configmap cleanup failed''}"
proof (rule createObjectManager_shape [OF assms(2,4)])
  fix s tns
  assume shape: "has_shape s X rc obj1 ctx tns (new_run w1) mgr r"
  obtain results err r' rs where run: "Apply (out_api X) mgr r = (Ret (results, err), r')"
    and shown: "resultsToResources results r' = Ret (rs, \<exists>res \<in> set results. res_Error res \<noteq> None)"
    using request_pass_returns [OF assms(1-4), of False] unfolding Apply_def by blast
  let ?bad = "\<exists>res \<in> set results. res_Error res \<noteq> None"
  have err: "err = None \<or> err = Some (ESentinel ErrSecretCleanup) \<or> err = Some (ESentinel ErrConfigMapCleanup)"
    using shape_error [OF shape] run by (cases err) (auto simp: Apply_def)
  let ?mo = "if allResourcesReady rs then lib_StatusReady (out_lib X) (set_resources obj1 rs)
    else set_resources obj1 rs"
  have failed: "?bad \<or> err \<noteq> None" and obj': "obj' = snd (updateStatusError X ?mo ?bad err)"
    using assms(4,5) run shown
    by (auto simp: CreateOrUpdate_handler_def Let_def split: if_splits prod.splits)
  let ?err1 = "if ?bad then errors_join [Some (ESentinel ErrManagedResources), err] else err"
  have "obj' = lib_StatusProgressing (out_lib X) ?mo conditionReasonError (userErrorMessage ?err1)"
    unfolding obj' updateStatusError_def Let_def by simp
  moreover have "userErrorMessage ?err1 \<in> {''resources contain reconcile errors'', ''secret cleanup failed'',
      ''configmap cleanup failed'', ''resources contain reconcile errors; secret cleanup failed'',
      ''resources contain reconcile errors; configmap cleanup failed''}"
    using failed err by (cases ?bad) (auto simp: userErrorMessage_def errors_join_def)
  ultimately show ?thesis by blast
qed

text \<open>With every cluster down, the first object of the manager already fails.\<close>

lemma ex_down:
  "\<exists>e obj' w'. CreateOrUpdate_handler ex_outside ex_rc (ex_mo ''v1'') ex_pc ex_ctx (ex_clusters [0, 1, 2]) =
     (Ret (0, Some e), obj', w')"
proof (rule ex_make [of "''Progressing''" "ex_clusters [0, 1, 2]"])
  fix mgr r
  let ?mo = "SetPhase ''Progressing'' (ex_mo ''v1'')" and ?w = "ex_clusters [0, 1, 2]"
  assume make: "createObjectManager ex_outside ex_rc ?mo ex_pc ex_ctx ?w = (ok (mgr, r), ?mo, ?w)"
  have mut: "mutators (out_api ex_outside)" and as: "api_server (out_api ex_outside) ref_client ref_view"
    by (simp_all add: refmut.mutators_axioms refsrv.api_server_axioms)
  obtain s tns where shape: "has_shape s ex_outside ex_rc ?mo ex_ctx tns (new_run ?w) mgr r" and w: "r_world r = ?w"
    by (rule createObjectManager_shape [OF mut make])
  obtain results err r' rs where run: "reconcileObjects ref_api mgr False r = (Ret (results, err), r')"
    and shown: "resultsToResources results r' = Ret (rs, \<exists>res \<in> set results. res_Error res \<noteq> None)"
    using request_pass_returns [OF as mut ex_known_clients make, of False] by auto
  obtain platform mcs where cs: "mgr_clusters mgr = platform # mcs" "c_client platform = ref_client 0"
    "c_objects platform \<noteq> []"
    using shape by (auto simp: has_shape_def shape_platform_def ex_rc_def)
  then obtain m ms where m: "managed_pairs (mgr_clusters mgr) = (platform, m) # ms"
    by (cases "c_objects platform") (simp_all add: managed_pairs_Cons)
  have "\<exists>res r1. reconcileObject ref_api deps False platform m r = (Ret res, r1) \<and> res_Error res = Some ref_unreachable"
    for deps
    using w cs(2) by (simp add: reconcileObject_def apply_object_def ref_upsert_def ref_get_def ex_clusters_def
        ref_is_not_found_def ref_error_defs)
  then obtain res r1 where first: "reconcileObject ref_api (getDependents (mgr_clusters mgr)) False platform m r = (Ret res, r1)"
    and failed: "res_Error res = Some ref_unreachable" by blast
  have "\<exists>res \<in> set results. res_Error res \<noteq> None"
    using run
  proof (rule reconcileObjects_parts)
    fix rs' r2
    assume loop: "map_prog (\<lambda>(mc, m). reconcileObject ref_api (getDependents (mgr_clusters mgr)) False mc m)
        (managed_pairs (mgr_clusters mgr)) r = (Ret rs', r2)"
      and clean: "run_cleaners (mgr_cleaners mgr) rs' r2 = ((results, err), r')"
    have "res \<in> set rs'" using loop first m by (auto simp: bind_prog_Ret_iff ret_apply)
    moreover obtain extra where "results = rs' @ extra"
      using run_cleaners_results [OF shape_orphan_cleaners [OF shape] clean] by blast
    ultimately show ?thesis using failed by auto
  qed
  moreover have "\<exists>t. x = ESentinel t" if "err = Some x" for x
    using shape_error [OF shape run [unfolded that]] by blast
  ultimately have bad: "\<exists>res \<in> set results. res_Error res \<noteq> None" and err: "\<And>x. err = Some x \<Longrightarrow> \<exists>t. x = ESentinel t"
    by blast+
  let ?obj = "if allResourcesReady rs then lib_StatusReady (out_lib ex_outside) (set_resources ?mo rs) else set_resources ?mo rs"
  obtain e obj' where up: "updateStatusError ex_outside ?obj True err = (e, obj')" by fastforce
  have "e \<noteq> None" by (rule refinput.update_error_stays [OF up _ _ err]) simp_all
  moreover have "CreateOrUpdate_handler ex_outside ex_rc (ex_mo ''v1'') ex_pc ex_ctx ?w = (Ret (0, e), obj', r_world r')"
    using make run shown bad up unfolding Apply_def [symmetric]
    by (simp add: CreateOrUpdate_handler_def Let_def split: if_splits)
  ultimately show ?thesis by auto
qed

lemma status_messages_are_fixed_texts_witness:
  "\<exists>e obj' w' mo. CreateOrUpdate_handler ex_outside ex_rc (ex_mo ''v1'') ex_pc ex_ctx (ex_clusters [0, 1, 2]) =
     (Ret (0, Some e), obj', w') \<and> obj' = SetPhase ''Progressing'' mo"
proof (rule ex_make [of "''Progressing''" "ex_clusters [0, 1, 2]"])
  fix mgr r
  assume make: "createObjectManager ex_outside ex_rc (SetPhase ''Progressing'' (ex_mo ''v1'')) ex_pc ex_ctx
      (ex_clusters [0, 1, 2]) = (ok (mgr, r), SetPhase ''Progressing'' (ex_mo ''v1''), ex_clusters [0, 1, 2])"
  obtain e obj' w' where run: "CreateOrUpdate_handler ex_outside ex_rc (ex_mo ''v1'') ex_pc ex_ctx (ex_clusters [0, 1, 2]) =
     (Ret (0, Some e), obj', w')" using ex_down by blast
  have "\<exists>mo message. obj' = lib_StatusProgressing (out_lib ex_outside) mo conditionReasonError message \<and>
    message \<in> {''resources contain reconcile errors'', ''secret cleanup failed'', ''configmap cleanup failed'',
      ''resources contain reconcile errors; secret cleanup failed'',
      ''resources contain reconcile errors; configmap cleanup failed''}"
    by (rule status_messages_are_fixed_texts [OF _ _ ex_known_clients _ run])
       (use make refsrv.api_server_axioms refmut.mutators_axioms in simp_all)
  with run show ?thesis by auto
qed

section \<open>Instance ids\<close>

text \<open>
  C11: after \<open>ensureInstanceID\<close> without an error the MetricsOperator has an instance id: the
  one it had, then nothing was changed and no cluster called, or else the generated one.
  Doing it again changes nothing. (A successful update must keep the labels.)
\<close>

theorem instance_id_is_stable:
  assumes "ensureInstanceID X obj w = ((None, obj'), w')"
    "\<forall>o1 w1 o2 w2. lib_UpdateOnboarding (out_lib X) o1 w1 = ((None, o2), w2) \<longrightarrow> mo_Labels o2 = mo_Labels o1"
  shows "GetID obj' = (if GetID obj = [] then GenerateID obj else GetID obj) \<and> GetID obj' \<noteq> [] \<and>
    (GetID obj \<noteq> [] \<longrightarrow> obj' = obj \<and> w' = w) \<and> ensureInstanceID X obj' w'' = ((None, obj'), w'')"
proof -
  have labels: "GetID o2 = GetID o1" if "mo_Labels o2 = mo_Labels o1" for o1 o2 using that by (simp add: GetID_def)
  have id: "GetID obj' = (if GetID obj = [] then GenerateID obj else GetID obj)"
    using assms labels [of obj' "SetID obj (GenerateID obj)"]
    by (auto simp: ensureInstanceID_def Let_def split: if_splits prod.splits option.splits)
  moreover have "GetID obj' \<noteq> []" using id by simp
  moreover have "GetID obj \<noteq> [] \<longrightarrow> obj' = obj \<and> w' = w" using assms(1) by (auto simp: ensureInstanceID_def)
  ultimately show ?thesis by (simp add: ensureInstanceID_def)
qed

lemma instance_id_is_stable_witness:
  "\<exists>obj'. ensureInstanceID ex_outside ((ex_mo ''v1'')\<lparr>mo_Labels := None\<rparr>) (ex_clusters []) = ((None, obj'), ex_clusters []) \<and>
     GetID obj' = GenerateID ((ex_mo ''v1'')\<lparr>mo_Labels := None\<rparr>)"
proof -
  let ?mo = "(ex_mo ''v1'')\<lparr>mo_Labels := None\<rparr>"
  have none: "GetID ?mo = []" by (simp add: GetID_def)
  have run: "ensureInstanceID ex_outside ?mo (ex_clusters []) = ((None, SetID ?mo (GenerateID ?mo)), ex_clusters [])"
    using none by (simp add: ensureInstanceID_def Let_def) (simp add: ref_lib_def)
  have "\<forall>o1 w1 o2 w2. lib_UpdateOnboarding (out_lib ex_outside) o1 w1 = ((None, o2), w2) \<longrightarrow> mo_Labels o2 = mo_Labels o1"
    by (simp add: ref_lib_def)
  from instance_id_is_stable [OF run this] run none show ?thesis by simp
qed

section \<open>Types\<close>

text \<open>
  C12: the passes are well typed. Through a whole pass of \<open>Apply\<close> or \<open>Delete\<close> every managed
  object of a request keeps its type, so that the type assertions in the reconcile and
  status functions, which panic on another type, never fail.
\<close>

theorem passes_keep_types:
  assumes "api_server (out_api X) cl view" "mutators (out_api X)" "known_clients cl rc ctx"
    "createObjectManager X rc obj pc ctx w = (ok (mgr, r), obj1, w1)"
  shows "\<exists>results err r'. reconcileObjects (out_api X) mgr isDeletion r = (Ret (results, err), r') \<and>
    (\<forall>(mc, m) \<in> set (managed_pairs (mgr_clusters mgr)).
       kind_of (GetObject r' m) = kind_of (GetObject r m) \<and>
       (\<forall>w rl. \<not> panics (fst (Reconcile m (GetObject r' m) w)) \<and> \<not> panics (GetStatusOf r' m rl)))"
proof (rule createObjectManager_shape [OF assms(2,4)])
  fix s tns
  let ?cs = "mgr_clusters mgr"
  let ?loop = "map_prog (\<lambda>(mc, m). reconcileObject (out_api X) (getDependents ?cs) isDeletion mc m) (managed_pairs ?cs) r"
  assume shape: "has_shape s X rc obj1 ctx tns (new_run w1) mgr r"
  have clusters: "known_clusters cl ?cs" by (rule shape_known [OF shape assms(3)])
  have all: "\<forall>(mc, m) \<in> set (managed_pairs ?cs). behaved (GetObject r m) m"
    using shape_object(2) [OF shape] by blast
  have "\<exists>rs r1. ?loop = (Ret rs, r1) \<and>
    (\<forall>(mc, m) \<in> set (managed_pairs ?cs). kind_of (GetObject r1 m) = kind_of (GetObject r m)) \<and> r_next r1 = r_next r"
    using apply_pass_kinds [OF assms(1) clusters shape_refs(2) [OF shape] all]
      delete_pass_kinds [OF assms(1) clusters] by (cases isDeletion) simp_all
  then obtain rs r1 where loop: "?loop = (Ret rs, r1)"
    and kinds: "\<forall>(mc, m) \<in> set (managed_pairs ?cs). kind_of (GetObject r1 m) = kind_of (GetObject r m)"
    and next1: "r_next r1 = r_next r" by blast
  obtain results err r' where clean: "run_cleaners (mgr_cleaners mgr) rs r1 = ((results, err), r')"
    by (metis prod.exhaust)
  have run: "reconcileObjects (out_api X) mgr isDeletion r = (Ret (results, err), r')"
    unfolding reconcileObjects_flat by (simp add: bind_prog_def loop clean)
  have heap: "\<forall>j < r_next r1. r_heap r' j = r_heap r1 j"
    using run_cleaners_results [OF shape_orphan_cleaners [OF shape] clean] by blast
  have "kind_of (GetObject r' m) = kind_of (GetObject r m) \<and>
       (\<forall>w rl. \<not> panics (fst (Reconcile m (GetObject r' m) w)) \<and> \<not> panics (GetStatusOf r' m rl))"
    if mem: "(mc, m) \<in> set (managed_pairs ?cs)" for mc m
  proof -
    have "GetObject r' m = GetObject r1 m"
      using heap refs_below_pair [OF shape_refs(1) [OF shape] mem] next1 by (simp add: GetObject_def)
    then have kind: "kind_of (GetObject r' m) = kind_of (GetObject r m)" using kinds mem by auto
    have b: "behaved (GetObject r m) m" using all mem by auto
    then have "\<not> panics (fst (Reconcile m (GetObject r' m) w))" for w
      using kind by (simp add: behaved_def reconciles_def)
    moreover have "\<not> panics (GetStatusOf r' m rl)" for rl
      using b kind by (intro shows_statusD [of "GetObject r m"]) (simp_all add: behaved_def)
    ultimately show ?thesis using kind by blast
  qed
  with run show ?thesis by blast
qed

lemma passes_keep_types_witness:
  "\<exists>(mgr :: ref_world manager) r results err r'.
     createObjectManager ex_outside ex_rc (SetPhase ''Progressing'' (ex_mo ''v1'')) ex_pc ex_ctx (ex_clusters [0, 1, 2]) =
       (ok (mgr, r), SetPhase ''Progressing'' (ex_mo ''v1''), ex_clusters [0, 1, 2]) \<and>
     reconcileObjects ref_api mgr False r = (Ret (results, err), r') \<and>
     (\<forall>(mc, m) \<in> set (managed_pairs (mgr_clusters mgr)). kind_of (GetObject r' m) = kind_of (GetObject r m))"
proof (rule ex_make [of "''Progressing''" "ex_clusters [0, 1, 2]"])
  fix mgr :: "ref_world manager" and r
  assume make: "createObjectManager ex_outside ex_rc (SetPhase ''Progressing'' (ex_mo ''v1'')) ex_pc ex_ctx (ex_clusters [0, 1, 2]) =
      (ok (mgr, r), SetPhase ''Progressing'' (ex_mo ''v1''), ex_clusters [0, 1, 2])"
  have "api_server (out_api ex_outside) ref_client ref_view" "mutators (out_api ex_outside)"
    by (simp_all add: refsrv.api_server_axioms refmut.mutators_axioms)
  from passes_keep_types [OF this ex_known_clients make, of False] make show ?thesis by fastforce
qed

end
