(* ===== verification/Installed_Properties.thy ===== *)
theory Installed_Properties
  imports Serving_Pass Controller_Properties
begin

text \<open>
  The properties of creation: what the manager of a request holds, what is on the clusters
  when the handler reports success, and that it comes to report success.
\<close>

section \<open>The example\<close>

text \<open>The sources of the copies, on the platform, in the name space of the operator.\<close>

definition ex_sources :: ref_world where
  "ex_sources = \<lparr>rw_store = (\<lambda>i. if i = 0 then [new_object ''chart-pull'' ''openmcp-system'' (Secret None []),
       new_object ''regcred'' ''openmcp-system'' (Secret None []),
       new_object ''ca'' ''openmcp-system'' (ConfigMap None)] else []),
     rw_custom = (\<lambda>_ _. None), rw_down = [], rw_held = [], rw_now = 0\<rparr>"

definition ex_hv :: helm_values where
  "ex_hv = \<lparr>hv_NamespaceOverride = [], hv_ImagePullSecrets = [''regcred'']\<rparr>"

lemma ex_inputs:
  "prepareInputs ex_outside (SetPhase p (ex_mo ''v1'')) ex_pc w =
     (Inr (''mcp--mo'', ex_version, ex_hv), SetPhase p (ex_mo ''v1''), w)"
proof -
  have "ExtractHelmValues ex_values = Inr ex_hv"
    by (simp add: ExtractHelmValues_def ex_values_def decode_member_def names_field_def ascii_lower_def ex_hv_def
      empty_helm_values_def)
  then show ?thesis
    by (simp add: prepareInputs_def ensureInstanceID_def selectMetricsOperatorVersion_def ex_pc_def ref_lib_def)
       (simp add: SetPhase_def ex_mo_def ex_version_def)
qed

lemma ex_setting:
  "separate_clusters ref_client ex_rc ex_ctx 0 1 2" "names_apart ex_outside ''mcp--mo'' ex_version ex_hv"
  "rec_PodNamespace ex_rc \<noteq> ''mcp--mo''" "servable ex_ctx ex_version"
  by (simp_all add: separate_clusters_def names_apart_def servable_def distinct_names_def chart_name_ok_def
      chart_secret_name_def PrefixSecretName_def secretNamePrefix_def K8sMaxNameLength_def KubeAPIAccess_def
      ex_rc_def ex_ctx_def ex_version_def ex_hv_def ref_lib_def)

lemma ex_present:
  "present ref_view (source_needs 0 ex_rc ex_pc (mov_ChartPullSecret ex_version) (hv_ImagePullSecrets ex_hv)) ex_sources"
  by (simp add: present_def source_needs_def ex_pc_def ex_version_def ex_hv_def ex_rc_def ex_sources_def
      ref_view_def same_object_def object_key_def)

lemma ex_healthy: "ref_healthy ex_sources"
  by (simp add: ex_sources_def)

lemma ex_serving:
  "serving_server (out_api ex_outside) ref_client ref_view ref_healthy" "serving_mutators (out_api ex_outside)"
  "keeping_server (out_api ex_outside) ref_client ref_view"
  by (simp_all add: refserve.serving_server_axioms refmutserve.serving_mutators_axioms refkeep.keeping_server_axioms)

text \<open>The clusters after one call and after two.\<close>

definition ex_served :: ref_world where
  "ex_served = snd (snd (CreateOrUpdate_handler ex_outside ex_rc (ex_mo ''v1'') ex_pc ex_ctx ex_sources))"

definition ex_installed :: ref_world where
  "ex_installed = snd (snd (CreateOrUpdate_handler ex_outside ex_rc (ex_mo ''v1'') ex_pc ex_ctx ex_served))"

lemma ex_success:
  "\<exists>obj'. CreateOrUpdate_handler ex_outside ex_rc (ex_mo ''v1'') ex_pc ex_ctx ex_served = (Ret (0, None), obj', ex_installed)"
proof (rule ex_make [of "''Progressing''" ex_sources])
  fix mgr r
  assume make: "createObjectManager ex_outside ex_rc (SetPhase ''Progressing'' (ex_mo ''v1'')) ex_pc ex_ctx ex_sources =
      (ok (mgr, r), SetPhase ''Progressing'' (ex_mo ''v1''), ex_sources)"
  have "fst (CreateOrUpdate_handler ex_outside ex_rc (ex_mo ''v1'') ex_pc ex_ctx ex_served) = Ret (0, None)"
    unfolding ex_served_def
    using later_calls_succeed [OF ex_serving(1,2) refl _ _ _ ex_setting ex_healthy ex_present, where n = 0]
      make ex_inputs [of "''Progressing''" ex_sources] by simp
  then show ?thesis
    unfolding ex_installed_def
    by (cases "CreateOrUpdate_handler ex_outside ex_rc (ex_mo ''v1'') ex_pc ex_ctx ex_served") simp
qed

section \<open>The end of creation\<close>

text \<open>
  C3: creation of a MetricsOperator comes to an end and stays there. On three different
  clusters that serve what they are asked for, with the secrets and the config map to copy
  in place, every call of the handler from the second on returns without an error. (The
  first one may not: it asks for the token before it has made the service account.)
\<close>

theorem creation_of_a_request_completes:
  assumes "serving_server (out_api X) cl view healthy" "serving_mutators (out_api X)"
    "mo = lib_StatusProgressing (out_lib X) obj ''Reconciling'' ''Reconcile in progress''" "GetID mo \<noteq> []"
    "createObjectManager X rc mo pc ctx w = (ok (mgr, r), mo, w)"
    "prepareInputs X mo pc w = (Inr (tns, mv, hv), mo, w)"
    "separate_clusters cl rc ctx ip iw im" "names_apart X tns mv hv" "rec_PodNamespace rc \<noteq> tns" "servable ctx mv"
    "healthy w" "present view (source_needs ip rc pc (mov_ChartPullSecret mv) (hv_ImagePullSecrets hv)) w"
    "1 \<le> n"
  shows "fst (CreateOrUpdate_handler X rc obj pc ctx (create_calls X rc obj pc ctx n w)) = Ret (0, None)"
  using later_calls_succeed [OF assms(1-12), of "n - 1"] assms(13) by simp

lemma creation_of_a_request_completes_witness:
  "fst (CreateOrUpdate_handler ex_outside ex_rc (ex_mo ''v1'') ex_pc ex_ctx
     (create_calls ex_outside ex_rc (ex_mo ''v1'') ex_pc ex_ctx 1 ex_sources)) = Ret (0, None) \<and>
   fst (CreateOrUpdate_handler ex_outside ex_rc (ex_mo ''v1'') ex_pc ex_ctx
     (create_calls ex_outside ex_rc (ex_mo ''v1'') ex_pc ex_ctx 7 ex_sources)) = Ret (0, None)"
proof (rule ex_make [of "''Progressing''" ex_sources])
  fix mgr r
  assume make: "createObjectManager ex_outside ex_rc (SetPhase ''Progressing'' (ex_mo ''v1'')) ex_pc ex_ctx ex_sources =
      (ok (mgr, r), SetPhase ''Progressing'' (ex_mo ''v1''), ex_sources)"
  have "fst (CreateOrUpdate_handler ex_outside ex_rc (ex_mo ''v1'') ex_pc ex_ctx
      (create_calls ex_outside ex_rc (ex_mo ''v1'') ex_pc ex_ctx n ex_sources)) = Ret (0, None)" if "1 \<le> n" for n
    by (rule creation_of_a_request_completes [OF ex_serving(1,2) refl _ _ _ ex_setting ex_healthy ex_present that])
       (use make ex_inputs [of "''Progressing''" ex_sources] in simp_all)
  from this [of 1] this [of 7] show ?thesis by (intro conjI) simp_all
qed

section \<open>What success means\<close>

text \<open>
  C4: when the handler reports success, the tables of the request are installed: on each of
  the three clusters every object of the table is stored, labelled, with the content its
  reconcile function gave it, and neither a later object nor a cleaner has undone it.
\<close>

theorem success_installs_everything:
  assumes "keeping_server (out_api X) cl view" "mutators (out_api X)" "user_input_errors (out_lib X)"
    "separate_clusters cl rc ctx ip iw im" "names_apart X tns mv hv"
    "mo = lib_StatusProgressing (out_lib X) obj ''Reconciling'' ''Reconcile in progress''"
    "createObjectManager X rc mo pc ctx w = (ok (mgr, r), obj1, w1)"
    "prepareInputs X mo pc w = (Inr (tns, mv, hv), obj1, w1)"
    "CreateOrUpdate_handler X rc obj pc ctx w = (Ret (t, None), obj', w')"
  shows "\<exists>name v. chart_secret_name X (mov_ChartPullSecret mv) = Inr name \<and>
    rewritten_values X pc ctx (metrics_namespace hv) (mov_HelmValues mv) = ok v \<and>
    all_installed view ip w' (platform_table X rc tns (mov_ChartPullSecret mv) name
      (request_flux obj1 pc ctx (metrics_namespace hv) name (mv\<lparr>mov_HelmValues := Some v\<rparr>))) \<and>
    all_installed view iw w' (workload_table X rc pc ctx (Instance_Namespace obj1) (metrics_namespace hv)
      (hv_ImagePullSecrets hv)) \<and>
    all_installed view im w' (control_plane_table (metrics_namespace hv))"
  by (rule success_tables [OF assms])

text \<open>The hypotheses of the properties of success hold of the example.\<close>

lemma ex_success_setting:
  obtains mgr r obj' where
    "createObjectManager ex_outside ex_rc (SetPhase ''Progressing'' (ex_mo ''v1'')) ex_pc ex_ctx ex_served =
       (ok (mgr, r), SetPhase ''Progressing'' (ex_mo ''v1''), ex_served)"
    "mutators (out_api ex_outside)" "user_input_errors (out_lib ex_outside)"
    "lib_StatusProgressing (out_lib ex_outside) (ex_mo ''v1'') ''Reconciling'' ''Reconcile in progress'' =
       SetPhase ''Progressing'' (ex_mo ''v1'')"
    "CreateOrUpdate_handler ex_outside ex_rc (ex_mo ''v1'') ex_pc ex_ctx ex_served = (Ret (0, None), obj', ex_installed)"
  using ex_make [of "''Progressing''" ex_served] ex_success that refmut.mutators_axioms refinput.user_input_errors_axioms
  by (metis ex_outside_simps(1,2) ref_lib_status(2))

lemma success_installs_everything_witness:
  "all_installed ref_view 2 ex_installed (control_plane_table DefaultNamespace) \<and>
   all_installed ref_view 1 ex_installed (workload_table ex_outside ex_rc ex_pc ex_ctx
     (Instance_Namespace (ex_mo ''v1'')) DefaultNamespace [''regcred''])"
proof (rule ex_success_setting)
  fix mgr r obj'
  assume make: "createObjectManager ex_outside ex_rc (SetPhase ''Progressing'' (ex_mo ''v1'')) ex_pc ex_ctx ex_served =
       (ok (mgr, r), SetPhase ''Progressing'' (ex_mo ''v1''), ex_served)"
    and m: "mutators (out_api ex_outside)" and u: "user_input_errors (out_lib ex_outside)"
    and p: "lib_StatusProgressing (out_lib ex_outside) (ex_mo ''v1'') ''Reconciling'' ''Reconcile in progress'' =
       SetPhase ''Progressing'' (ex_mo ''v1'')"
    and run: "CreateOrUpdate_handler ex_outside ex_rc (ex_mo ''v1'') ex_pc ex_ctx ex_served = (Ret (0, None), obj', ex_installed)"
  show ?thesis
    using success_installs_everything [OF ex_serving(3) m u ex_setting(1,2) p [symmetric] make ex_inputs run]
    by (auto simp: ex_hv_def metrics_namespace_def Instance_Namespace_def)
qed

text \<open>What is installed by the reconcile functions of package flux.\<close>

lemma oci_installed:
  "installed view i w (new_object n ns (OCIRepository None [])) (oci_reconcile p) \<Longrightarrow>
     \<exists>s url conds. view i w ''OCIRepository'' (ns, n) = Some s \<and> mov_ChartURL (fp_RequestedVersion p) = Some url \<and>
       o_Body s = OCIRepository (Some (oci_spec p url)) conds"
  by (erule installedE, rename_tac s o0 w0 o1 w1, case_tac "o_Body o0")
     (auto simp: object_key_def oci_reconcile_def split: option.splits)

lemma helm_release_installed:
  "installed view i w (new_object n ns (HelmRelease None [])) (helm_release_reconcile p ns') \<Longrightarrow>
     \<exists>s conds. view i w ''HelmRelease'' (ns, n) = Some s \<and>
       o_Body s = HelmRelease (Some (helm_release_spec_of p ns')) conds"
  by (erule installedE, rename_tac s o0 w0 o1 w1, case_tac "o_Body o0")
     (auto simp: object_key_def helm_release_reconcile_def)

lemma role_installed:
  "installed view i w (new_object n [] (ClusterRoleBinding [] None)) (role_binding_reconcile msa) \<Longrightarrow>
     \<exists>s. view i w ''ClusterRoleBinding'' ([], n) = Some s \<and>
       o_Body s = ClusterRoleBinding
         [\<lparr>sub_Kind = ''ServiceAccount'', sub_Name = msa_Name msa, sub_Namespace = msa_Namespace msa\<rparr>]
         (Some \<lparr>rr_APIGroup = ''rbac.authorization.k8s.io'', rr_Kind = ''ClusterRole'', rr_Name = ''cluster-admin''\<rparr>)"
  by (erule installedE, rename_tac s o0 w0 o1 w1, case_tac "o_Body o0")
     (auto simp: object_key_def role_binding_reconcile_def)

text \<open>
  C8: when the handler reports success, the chart and its release are on the platform as
  the request wants them: the repository names the chart's URL and version, the release
  takes its values from the version, with the access to the control plane written in.
\<close>

theorem success_installs_the_release:
  assumes "keeping_server (out_api X) cl view" "mutators (out_api X)" "user_input_errors (out_lib X)"
    "separate_clusters cl rc ctx ip iw im" "names_apart X tns mv hv"
    "mo = lib_StatusProgressing (out_lib X) obj ''Reconciling'' ''Reconcile in progress''"
    "createObjectManager X rc mo pc ctx w = (ok (mgr, r), obj1, w1)"
    "prepareInputs X mo pc w = (Inr (tns, mv, hv), obj1, w1)"
    "CreateOrUpdate_handler X rc obj pc ctx w = (Ret (t, None), obj', w')"
  shows "\<exists>name v url release repo conds conds'.
    chart_secret_name X (mov_ChartPullSecret mv) = Inr name \<and>
    rewritten_values X pc ctx (metrics_namespace hv) (mov_HelmValues mv) = ok v \<and> mov_ChartURL mv = Some url \<and>
    view ip w' ''HelmRelease'' (tns, HelmReleaseName) = Some release \<and>
    o_Body release = HelmRelease (Some \<lparr>hr_Interval = PollInterval pc, hr_ChartRefKind = ''OCIRepository'',
      hr_ChartRefName = OCIRepositoryName, hr_ChartRefNamespace = tns,
      hr_KubeConfigSecretName = ctx_WorkloadAccessSecretName ctx, hr_KubeConfigSecretKey = ''kubeconfig'',
      hr_InstallRetries = 3, hr_CreateNamespace = True, hr_DriftDetection = ''enabled'', hr_Values = Some v,
      hr_TargetNamespace = Instance_Namespace obj1, hr_StorageNamespace = Instance_Namespace obj1\<rparr>) conds \<and>
    view ip w' ''OCIRepository'' (tns, OCIRepositoryName) = Some repo \<and>
    o_Body repo = OCIRepository (Some \<lparr>oci_Interval = PollInterval pc, oci_URL = url, oci_Insecure = insecure_url url,
      oci_Tag = mov_ChartVersion mv, oci_LayerMediaType = ''application/vnd.cncf.helm.chart.content.v1.tar+gzip'',
      oci_LayerOperation = ''extract'', oci_SecretRef = (if name = [] then None else Some name)\<rparr>) conds'"
proof -
  from success_tables [OF assms] obtain name v where
    v: "chart_secret_name X (mov_ChartPullSecret mv) = Inr name" "rewritten_values X pc ctx (metrics_namespace hv) (mov_HelmValues mv) = ok v"
    and table: "all_installed view ip w' (platform_table X rc tns (mov_ChartPullSecret mv) name
      (request_flux obj1 pc ctx (metrics_namespace hv) name (mv\<lparr>mov_HelmValues := Some v\<rparr>)))" by blast
  let ?p = "request_flux obj1 pc ctx (metrics_namespace hv) name (mv\<lparr>mov_HelmValues := Some v\<rparr>)"
  have "installed view ip w' (new_object OCIRepositoryName tns (OCIRepository None [])) (oci_reconcile ?p)"
    "installed view ip w' (new_object HelmReleaseName tns (HelmRelease None [])) (helm_release_reconcile ?p tns)"
    using all_installedD [OF table] by (simp_all add: platform_table_def flux_entries_def)
  from oci_installed [OF this(1)] helm_release_installed [OF this(2)]
  obtain repo url conds' release conds where
    repo: "view ip w' ''OCIRepository'' (tns, OCIRepositoryName) = Some repo"
    and url: "mov_ChartURL (fp_RequestedVersion ?p) = Some url" "o_Body repo = OCIRepository (Some (oci_spec ?p url)) conds'"
    and release: "view ip w' ''HelmRelease'' (tns, HelmReleaseName) = Some release"
      "o_Body release = HelmRelease (Some (helm_release_spec_of ?p tns)) conds" by blast
  have "mov_ChartURL mv = Some url" using url(1) by (simp add: request_flux_def)
  then show ?thesis
    by (intro exI [of _ name] exI [of _ v] exI [of _ url] exI [of _ release] exI [of _ repo] exI [of _ conds] exI [of _ conds'])
       (simp add: v repo release url(2) oci_spec_def helm_release_spec_of_def request_flux_def Let_def)
qed

lemma success_installs_the_release_witness:
  "\<exists>release. ref_view 0 ex_installed ''HelmRelease'' (''mcp--mo'', ''metrics-operator'') = Some release"
proof (rule ex_success_setting)
  fix mgr r obj'
  assume make: "createObjectManager ex_outside ex_rc (SetPhase ''Progressing'' (ex_mo ''v1'')) ex_pc ex_ctx ex_served =
       (ok (mgr, r), SetPhase ''Progressing'' (ex_mo ''v1''), ex_served)"
    and m: "mutators (out_api ex_outside)" and u: "user_input_errors (out_lib ex_outside)"
    and p: "lib_StatusProgressing (out_lib ex_outside) (ex_mo ''v1'') ''Reconciling'' ''Reconcile in progress'' =
       SetPhase ''Progressing'' (ex_mo ''v1'')"
    and run: "CreateOrUpdate_handler ex_outside ex_rc (ex_mo ''v1'') ex_pc ex_ctx ex_served = (Ret (0, None), obj', ex_installed)"
  show ?thesis
    using success_installs_the_release [OF ex_serving(3) m u ex_setting(1,2) p [symmetric] make ex_inputs run]
    by (auto simp: HelmReleaseName_def)
qed

text \<open>
  After a success the service account of the operator exists on the control plane, and its
  binding gives the role of a cluster administrator to this one account.
\<close>

lemma success_binds_role:
  assumes "keeping_server (out_api X) cl view" "mutators (out_api X)" "user_input_errors (out_lib X)"
    "separate_clusters cl rc ctx ip iw im" "names_apart X tns mv hv"
    "mo = lib_StatusProgressing (out_lib X) obj ''Reconciling'' ''Reconcile in progress''"
    "createObjectManager X rc mo pc ctx w = (ok (mgr, r), obj1, w1)"
    "prepareInputs X mo pc w = (Inr (tns, mv, hv), obj1, w1)"
    "CreateOrUpdate_handler X rc obj pc ctx w = (Ret (t, None), obj', w')"
  shows "view im w' ''ServiceAccount'' (metrics_namespace hv, ''metrics-operator-server'') \<noteq> None \<and>
    (\<exists>s. view im w' ''ClusterRoleBinding'' ([], ''metrics-operator-server'') = Some s \<and>
       o_Body s = ClusterRoleBinding
         [\<lparr>sub_Kind = ''ServiceAccount'', sub_Name = ''metrics-operator-server'', sub_Namespace = metrics_namespace hv\<rparr>]
         (Some \<lparr>rr_APIGroup = ''rbac.authorization.k8s.io'', rr_Kind = ''ClusterRole'', rr_Name = ''cluster-admin''\<rparr>))"
proof -
  let ?msa = "operator_account (metrics_namespace hv)"
  from success_tables [OF assms] have table: "all_installed view im w' (control_plane_table (metrics_namespace hv))" by blast
  have "installed view im w' (new_object ''metrics-operator-server'' (metrics_namespace hv) ServiceAccount) NoOp"
    and role: "installed view im w' (new_object clusterRoleBindingName [] (ClusterRoleBinding [] None)) (role_binding_reconcile ?msa)"
    using all_installedD [OF table] by (simp_all add: control_plane_table_def account_entries_def role_entry_def)
  then have "view im w' ''ServiceAccount'' (metrics_namespace hv, ''metrics-operator-server'') \<noteq> None"
    by (auto elim: installedE simp: object_key_def)
  with role_installed [OF role] show ?thesis by (simp add: clusterRoleBindingName_def)
qed

section \<open>The inventory\<close>

text \<open>The kinds and keys of the objects of a request, cluster by cluster, in order.\<close>

definition inventory ::
    "string \<Rightarrow> string \<Rightarrow> string \<Rightarrow> string option \<Rightarrow> string list \<Rightarrow> bool \<Rightarrow> (string \<times> string \<times> object_key) list" where
  "inventory tns ins mns chart pulls ca =
     (case chart of None \<Rightarrow> [] | Some n \<Rightarrow> [(PlatformCluster, ''Secret'', tns, n)]) @
     [(PlatformCluster, ''OCIRepository'', tns, ''metrics-operator''),
      (PlatformCluster, ''HelmRelease'', tns, ''metrics-operator''),
      (WorkloadCluster, ''Namespace'', [], ins),
      (WorkloadCluster, ''Secret'', ins, ''kube-api-access-metrics-operator-server'')] @
     map (\<lambda>n. (WorkloadCluster, ''Secret'', ins, n)) pulls @
     (if ca then [(WorkloadCluster, ''ConfigMap'', ins, ''custom-ca-bundle'')] else []) @
     [(ControlPlane, ''Namespace'', [], mns), (ControlPlane, ''ServiceAccount'', mns, ''metrics-operator-server''),
      (ControlPlane, ''ClusterRoleBinding'', [], ''metrics-operator-server'')]"

lemma manager_inventory:
  assumes "createObjectManager X rc obj pc ctx w = (ok (mgr, r), obj1, w1)"
    "prepareInputs X obj pc w = (Inr (tns, mv, hv), obj1, w1)"
  shows "\<exists>name. chart_secret_name X (mov_ChartPullSecret mv) = Inr name \<and>
    map (\<lambda>(mc, m). (c_clusterType mc, kind_of (GetObject r m), object_key (GetObject r m))) (managed_pairs (mgr_clusters mgr)) =
    inventory tns (Instance_Namespace obj1) (metrics_namespace hv)
      (if mov_ChartPullSecret mv = [] then None else Some (copy_name (mov_ChartPullSecret mv) name))
      (hv_ImagePullSecrets hv) (pc_CABundleRef pc \<noteq> None)"
proof -
  have "build_manager X rc obj1 pc ctx (tns, mv, hv) (new_run w1) = ok (mgr, r)"
    using assms by (simp add: createObjectManager_def)
  then obtain name v platform workload cp where
    table: "has_table X rc obj1 pc ctx tns mv hv name v platform workload cp mgr r" by (rule build_manager_table)
  have shape: "(\<lambda>(mc, m). (c_clusterType mc, kind_of (GetObject r m), object_key (GetObject r m))) = address c_clusterType r"
    by (simp add: fun_eq_iff address_def)
  have "map (address c_clusterType r) (managed_pairs (mgr_clusters mgr)) =
      map (entry_address PlatformCluster) (cluster_entries r platform) @
      map (entry_address WorkloadCluster) (cluster_entries r workload) @
      map (entry_address ControlPlane) (cluster_entries r cp)"
    by (simp add: table_cleaners(2,6-8) [OF table] managed_pairs_def cluster_addresses del: map_map)
  also have "map (entry_address PlatformCluster) (cluster_entries r platform) =
      (if mov_ChartPullSecret mv = [] then [] else [(PlatformCluster, ''Secret'', tns, copy_name (mov_ChartPullSecret mv) name)]) @
      [(PlatformCluster, ''OCIRepository'', tns, ''metrics-operator''), (PlatformCluster, ''HelmRelease'', tns, ''metrics-operator'')]"
    by (simp add: table_entries [OF table] platform_table_def copies_def chart_config_def flux_entries_def
        entry_address_def object_key_def OCIRepositoryName_def HelmReleaseName_def)
  also have "map (entry_address WorkloadCluster) (cluster_entries r workload) =
      [(WorkloadCluster, ''Namespace'', [], Instance_Namespace obj1),
       (WorkloadCluster, ''Secret'', Instance_Namespace obj1, ''kube-api-access-metrics-operator-server'')] @
      map (\<lambda>n. (WorkloadCluster, ''Secret'', Instance_Namespace obj1, n)) (hv_ImagePullSecrets hv) @
      (if pc_CABundleRef pc \<noteq> None then [(WorkloadCluster, ''ConfigMap'', Instance_Namespace obj1, ''custom-ca-bundle'')] else [])"
    by (cases "pc_CABundleRef pc")
       (simp_all add: table_entries [OF table] workload_table_def workload_access_def copies_addresses ca_entry_def
        ca_config_def ca_config_map_name_def CustomCABundleConfigMapName_def entry_address_def object_key_def
        KubeAPIAccess_def new_workload_def NewManagedCluster_def)
  also have "map (entry_address ControlPlane) (cluster_entries r cp) =
      [(ControlPlane, ''Namespace'', [], metrics_namespace hv),
       (ControlPlane, ''ServiceAccount'', metrics_namespace hv, ''metrics-operator-server''),
       (ControlPlane, ''ClusterRoleBinding'', [], ''metrics-operator-server'')]"
    by (simp add: table_entries [OF table] control_plane_table_def account_entries_def role_entry_def entry_address_def
        object_key_def clusterRoleBindingName_def)
  finally show ?thesis
    using table unfolding shape by (intro exI [of _ name]) (simp add: has_table_def Let_def inventory_def)
qed

text \<open>
  C10: the manager that is built step by step holds exactly the inventory of the request, in
  this order. The inventory is computed from the name spaces, the names of the pull secrets
  and whether there is a CA bundle, and from nothing else.
\<close>

theorem the_manager_is_the_inventory:
  assumes "createObjectManager X rc obj pc ctx w = (ok (mgr, r), obj1, w1)"
    "prepareInputs X obj pc w = (Inr (tns, mv, hv), obj1, w1)"
  shows "\<exists>name. chart_secret_name X (mov_ChartPullSecret mv) = Inr name \<and>
    map (\<lambda>(mc, m). (c_clusterType mc, kind_of (GetObject r m), object_key (GetObject r m))) (managed_pairs (mgr_clusters mgr)) =
    inventory tns (Instance_Namespace obj1) (metrics_namespace hv)
      (if mov_ChartPullSecret mv = [] then None else Some (copy_name (mov_ChartPullSecret mv) name))
      (hv_ImagePullSecrets hv) (pc_CABundleRef pc \<noteq> None)"
  by (rule manager_inventory [OF assms])

lemma the_manager_is_the_inventory_witness:
  "\<exists>(mgr :: ref_world manager) r obj1. createObjectManager ex_outside ex_rc (SetPhase ''Progressing'' (ex_mo ''v1'')) ex_pc ex_ctx ex_sources =
     (ok (mgr, r), obj1, ex_sources) \<and>
     map (\<lambda>(mc, m). (c_clusterType mc, kind_of (GetObject r m), object_key (GetObject r m))) (managed_pairs (mgr_clusters mgr)) =
     inventory ''mcp--mo'' ''metrics-operator-abc'' ''metrics-operator'' (Some ''sp-mo-chart-pull'') [''regcred''] True"
proof (rule ex_make [of "''Progressing''" ex_sources])
  fix mgr :: "ref_world manager" and r
  assume make: "createObjectManager ex_outside ex_rc (SetPhase ''Progressing'' (ex_mo ''v1'')) ex_pc ex_ctx ex_sources =
      (ok (mgr, r), SetPhase ''Progressing'' (ex_mo ''v1''), ex_sources)"
  have "chart_secret_name ex_outside (mov_ChartPullSecret ex_version) = Inr ''sp-mo-chart-pull''"
    by (simp add: chart_secret_name_def PrefixSecretName_def secretNamePrefix_def K8sMaxNameLength_def ex_version_def ref_lib_def)
  with the_manager_is_the_inventory [OF make ex_inputs] make show ?thesis
    by (intro exI [of _ mgr] exI [of _ r]) (auto simp: ex_version_def ex_hv_def ex_pc_def metrics_namespace_def
      DefaultNamespace_def Instance_Namespace_def copy_name_def)
qed

end
