(* ===== verification/Isolation.thy ===== *)
theory Isolation
  imports Installed_Properties
begin

text \<open>
  What the operator leaves alone. Requests of many tenants are served one call after the
  other, on clusters that others use too: an object that is not in the inventory of a
  request and does not carry the managed-by label stays exactly as it is, and where there
  is none, none is made. So the operator gets the access it needs, and nothing else does.
\<close>

section \<open>The contract\<close>

text \<open>Counting the resources of the tenant changes no store.\<close>

locale counting_server = keeping_server api cl view
  for api :: "'w kube_api" and cl :: "'c \<Rightarrow> 'w client"
    and view :: "'c \<Rightarrow> 'w \<Rightarrow> string \<Rightarrow> object_key \<Rightarrow> object option" +
  assumes count_reads: "cl_count (cl i) g w = (x, w') \<Longrightarrow> view j w' = view j w"

interpretation refcount: counting_server ref_api ref_client ref_view
  by unfold_locales (auto simp: ref_count_def split: if_splits option.splits)

text \<open>
  The MetricsOperator itself is on another cluster, so writing its id changes no store of
  the three.
\<close>

definition onboarding_apart ::
    "('c \<Rightarrow> 'w \<Rightarrow> string \<Rightarrow> object_key \<Rightarrow> object option) \<Rightarrow> 'w outside \<Rightarrow> bool" where
  "onboarding_apart view X \<longleftrightarrow> (\<forall>mo w j. view j (snd (lib_UpdateOnboarding (out_lib X) mo w)) = view j w)"

section \<open>Objects of others\<close>

text \<open>Nothing with the managed-by label is stored under the kind and key.\<close>

definition foreign ::
    "('c \<Rightarrow> 'w \<Rightarrow> string \<Rightarrow> object_key \<Rightarrow> object option) \<Rightarrow> 'c \<Rightarrow> string \<Rightarrow> object_key \<Rightarrow> 'w \<Rightarrow> bool" where
  "foreign view j kind k w \<longleftrightarrow> (\<forall>s. view j w kind k = Some s \<longrightarrow> \<not> is_managed s)"

text \<open>A step is harmless when it leaves what is stored there alone, if that is foreign.\<close>

definition harmless ::
    "('c \<Rightarrow> 'w \<Rightarrow> string \<Rightarrow> object_key \<Rightarrow> object option) \<Rightarrow> 'c \<Rightarrow> string \<Rightarrow> object_key \<Rightarrow> 'w \<Rightarrow> 'w \<Rightarrow> bool" where
  "harmless view j kind k w w' \<longleftrightarrow> (foreign view j kind k w \<longrightarrow> view j w' kind k = view j w kind k)"

lemma harmlessI [intro]: "view j w' kind k = view j w kind k \<Longrightarrow> harmless view j kind k w w'"
  by (simp add: harmless_def)

lemma harmless_trans [trans]:
  assumes "harmless view j kind k u v" "harmless view j kind k v w"
  shows "harmless view j kind k u w"
  unfolding harmless_def
proof
  assume f: "foreign view j kind k u"
  with assms(1) have uv: "view j v kind k = view j u kind k" unfolding harmless_def by (rule mp)
  from f have "foreign view j kind k v" unfolding foreign_def uv .
  with assms(2) have "view j w kind k = view j v kind k" unfolding harmless_def by (rule mp)
  with uv show "view j w kind k = view j u kind k" by (rule trans [rotated])
qed

text \<open>One of the managed objects has the cluster, kind and key.\<close>

definition covers ::
    "('c \<Rightarrow> 'w client) \<Rightarrow> 'w run \<Rightarrow> ('w managed_cluster \<times> 'w managed_object) list \<Rightarrow> 'c \<Rightarrow> string \<Rightarrow> object_key \<Rightarrow> bool" where
  "covers cl r ps j kind k \<longleftrightarrow>
     (\<exists>(mc, m) \<in> set ps. c_client mc = cl j \<and> kind_of (GetObject r m) = kind \<and> object_key (GetObject r m) = k)"

lemma not_coversD:
  "\<not> covers cl r ps j kind k \<Longrightarrow> (mc, m) \<in> set ps \<Longrightarrow> c_client mc = cl i \<Longrightarrow>
     j \<noteq> i \<or> kind \<noteq> kind_of (GetObject r m) \<or> k \<noteq> object_key (GetObject r m)"
  by (auto simp: covers_def)

section \<open>A pass\<close>

context listing_server
begin

lemma delete_object_frame:
  assumes mc: "c_client mc = cl i" and deps: "known_clusters cl (map d_Cluster (deps (m_ref m)))"
    and del: "delete_object api deps mc m r = (res, r')"
    and other: "j \<noteq> i \<or> kind \<noteq> kind_of (GetObject r m) \<or> k \<noteq> object_key (GetObject r m)"
  shows "view j (r_world r') kind k = view j (r_world r) kind k"
proof -
  obtain err r1 where chk: "checkForDependents api (deps (m_ref m)) r = (err, r1)" by fastforce
  note check = checkForDependents_step(1,2) [OF deps chk]
  have other1: "j \<noteq> i \<or> kind \<noteq> kind_of (GetObject r1 m) \<or> k \<noteq> object_key (GetObject r1 m)"
    using other check(1) by (simp add: deleting_def GetObject_def)
  have gone: "view j w kind k = view j (r_world r) kind k"
    if "cl_delete (c_client mc) (GetObject r1 m) (r_world r1) = (derr, w)" for derr w
    using delete_frame [OF that [unfolded mc] other1] check(2) by simp
  show ?thesis
    by (rule delete_object_cases [OF del chk]) (use check(2) gone in auto)
qed

text \<open>Deleting all objects of the clusters touches no other one.\<close>

lemma delete_loop_frame:
  assumes known: "known_clusters cl clusters" and out: "\<not> covers cl r (managed_pairs clusters) j kind k"
    and run: "map_prog (\<lambda>(mc, m). reconcileObject api (getDependents clusters) True mc m)
        (managed_pairs clusters) r = (x, r')"
  shows "view j (r_world r') kind k = view j (r_world r) kind k"
proof -
  let ?I = "\<lambda>s. deleting view r s \<and> view j (r_world s) kind k = view j (r_world r) kind k"
  have "?I r'"
    using run
  proof (rule map_prog_invariant [where I = ?I, rotated 2])
    fix p s y s'
    assume p: "p \<in> set (managed_pairs clusters)" and s: "?I s"
      and step: "(case p of (mc, m) \<Rightarrow> reconcileObject api (getDependents clusters) True mc m) s = (y, s')"
    obtain mc m where pm: "p = (mc, m)" by fastforce
    obtain i where i: "c_client mc = cl i"
      using known p pm by (auto simp: known_clusters_def list_all_iff in_managed_pairs)
    obtain res where del: "delete_object api (getDependents clusters) mc m s = (res, s')"
      using step pm by (auto simp: reconcileObject_def split: prod.splits)
    have "j \<noteq> i \<or> kind \<noteq> kind_of (GetObject s m) \<or> k \<noteq> object_key (GetObject s m)"
      using not_coversD [OF out p [unfolded pm] i] s by (simp add: deleting_def GetObject_def)
    from delete_object_frame [OF i known_dependents [OF known] del this]
    show "?I s'"
      using s delete_object_step(1) [OF i known_dependents [OF known] del] deleting_trans by metis
  qed simp
  then show ?thesis by blast
qed

lemma hookless_harmless:
  "c_client cluster = cl i \<Longrightarrow> ns \<noteq> [] \<Longrightarrow> hookless_cleanup api f err cluster kind ns keep r = (x, r') \<Longrightarrow>
     harmless view j kind' k (r_world r) (r_world r')"
  unfolding harmless_def foreign_def by (intro impI hookless_frame) auto

end

lemma run_cleaners_harmless:
  assumes "\<And>c r x r'. c \<in> set cs \<Longrightarrow> c r = (x, r') \<Longrightarrow> harmless view j kind k (r_world r) (r_world r')"
    and "run_cleaners cs results r = (out, r')"
  shows "harmless view j kind k (r_world r) (r_world r')"
  using assms
proof (induction cs arbitrary: results r)
  case Nil
  then show ?case by auto
next
  case (Cons c cs)
  obtain x r1 where c: "c r = (x, r1)" by fastforce
  then have 1: "harmless view j kind k (r_world r) (r_world r1)" by (rule Cons.prems(1) [rotated]) simp
  show ?case
  proof (cases x)
    case (Inl err)
    with Cons.prems(2) c 1 show ?thesis by auto
  next
    case (Inr rs)
    with Cons.prems(2) c have "run_cleaners cs (results @ rs) r1 = (out, r')" by simp
    then have "harmless view j kind k (r_world r1) (r_world r')"
      by (rule Cons.IH [rotated]) (use Cons.prems(1) in auto)
    with 1 show ?thesis by (rule harmless_trans)
  qed
qed

lemma shape_cleaners_harmless:
  assumes server: "listing_server (out_api X) cl view" and shape: "has_shape s X rc obj ctx tns r0 mgr r"
    and known: "known_clients cl rc ctx" and tns: "tns \<noteq> []"
    and c: "c \<in> set (mgr_cleaners mgr)" "c t = (x, t')"
  shows "harmless view j kind k (r_world t) (r_world t')"
proof -
  obtain ip iw where i: "rec_PlatformClient rc = cl ip" "ctx_WorkloadClient ctx = cl iw"
    using known by (auto simp: known_clients_def)
  from shape obtain cluster i' kind' ns keep f err where
    "c = hookless_cleanup (out_api X) f err cluster kind' ns keep" "c_client cluster = cl i'" "ns \<noteq> []"
    unfolding has_shape_def configMap_Cleanup_hookless secret_Cleanup_hookless
    using c(1) i tns by (auto simp: NewConfigMapCleaner_def NewSecretCleaner_def)
  with listing_server.hookless_harmless [OF server] c(2) show ?thesis by blast
qed

text \<open>A pass in either direction, over the objects of a request.\<close>

lemma pass_harmless:
  assumes server: "keeping_server (out_api X) cl view" and known: "known_clients cl rc ctx" and tns: "tns \<noteq> []"
    and shape: "has_shape s X rc obj ctx tns r0 mgr r"
    and table: "has_table X rc obj pc ctx tns mv hv name v platform workload cp mgr r"
    and out: "\<not> covers cl r (managed_pairs (mgr_clusters mgr)) j kind k"
    and run: "reconcileObjects (out_api X) mgr d r = (Ret (results, err), r')"
  shows "harmless view j kind k (r_world r) (r_world r')"
proof (rule reconcileObjects_parts [OF run])
  let ?ps = "managed_pairs (mgr_clusters mgr)"
  fix rs r1
  assume loop: "map_prog (\<lambda>(mc, m). reconcileObject (out_api X) (getDependents (mgr_clusters mgr)) d mc m) ?ps r = (Ret rs, r1)"
    and clean: "run_cleaners (mgr_cleaners mgr) rs r1 = ((results, err), r')"
  have listing: "listing_server (out_api X) cl view" using server by (simp add: keeping_server_def)
  obtain ip iw im where i: "rec_PlatformClient rc = cl ip" "ctx_WorkloadClient ctx = cl iw" "ctx_MCPClient ctx = cl im"
    using known by (auto simp: known_clients_def)
  have "view j (r_world r1) kind k = view j (r_world r) kind k"
  proof (cases d)
    case True
    have "map_prog (\<lambda>(mc, m). reconcileObject (out_api X) (getDependents (mgr_clusters mgr)) True mc m) ?ps r = (Ret rs, r1)"
      using loop True by simp
    from listing_server.delete_loop_frame [OF listing shape_known [OF shape known] out this] show ?thesis .
  next
    case False
    have eq: "(\<lambda>(mc, m). reconcileObject (out_api X) (getDependents (mgr_clusters mgr)) d mc m) =
        (\<lambda>(mc, m). apply_object (out_api X) mc m)"
      using False by (simp add: fun_eq_iff reconcileObject_def)
    have all: "\<forall>(mc, m) \<in> set ?ps. c_client mc = cl (cluster_index ip iw im mc) \<and> reconciles (GetObject r m) m \<and>
        reads view (Reconcile m)"
      using keeping_server.table_reads [OF server table refl i] shape_object(2) [OF shape] by (fastforce simp: behaved_def)
    have "(j, kind, k) \<notin> address (cluster_index ip iw im) r ` set ?ps"
      using out all by (fastforce simp: covers_def address_def)
    from keeping_server.apply_loop_frame [OF server shape_refs(2) [OF shape] all this loop [unfolded eq]]
    show ?thesis .
  qed
  then have "harmless view j kind k (r_world r) (r_world r1)" by auto
  moreover have "harmless view j kind k (r_world r1) (r_world r')"
    using shape_cleaners_harmless [OF listing shape known tns] clean by (rule run_cleaners_harmless)
  ultimately show ?thesis by (rule harmless_trans)
qed

section \<open>A call\<close>

text \<open>The cluster of an entry of the inventory.\<close>

definition cluster_client :: "'w reconciler \<Rightarrow> 'w cluster_context \<Rightarrow> string \<Rightarrow> 'w client" where
  "cluster_client rc ctx t =
     (if t = PlatformCluster then rec_PlatformClient rc
      else if t = WorkloadCluster then ctx_WorkloadClient ctx else ctx_MCPClient ctx)"

text \<open>The inventory of the inputs has an entry with this cluster, kind and key.\<close>

definition belongs ::
    "('c \<Rightarrow> 'w client) \<Rightarrow> 'w outside \<Rightarrow> 'w reconciler \<Rightarrow> metrics_operator \<Rightarrow> provider_config \<Rightarrow> 'w cluster_context \<Rightarrow>
     'c \<Rightarrow> string \<Rightarrow> object_key \<Rightarrow> bool" where
  "belongs cl X rc mo pc ctx j kind k \<longleftrightarrow>
     (\<exists>w tns mv hv mo' w' name t. prepareInputs X mo pc w = (Inr (tns, mv, hv), mo', w') \<and>
        chart_secret_name X (mov_ChartPullSecret mv) = Inr name \<and>
        (t, kind, k) \<in> set (inventory tns (Instance_Namespace mo') (metrics_namespace hv)
          (if mov_ChartPullSecret mv = [] then None else Some (copy_name (mov_ChartPullSecret mv) name))
          (hv_ImagePullSecrets hv) (pc_CABundleRef pc \<noteq> None)) \<and>
        cl j = cluster_client rc ctx t)"

lemma covered_belongs:
  assumes mut: "mutators (out_api X)"
    and make: "createObjectManager X rc mo pc ctx w = (ok (mgr, r), mo', w')"
    and inputs: "prepareInputs X mo pc w = (Inr (tns, mv, hv), mo', w')"
    and c: "covers cl r (managed_pairs (mgr_clusters mgr)) j kind k"
  shows "belongs cl X rc mo pc ctx j kind k"
proof (rule request_parts [OF mut make inputs])
  fix s name v platform workload cp
  assume table: "has_table X rc mo' pc ctx tns mv hv name v platform workload cp mgr r"
  note t = table_cleaners [OF table]
  from c obtain mc m where mem: "(mc, m) \<in> set (managed_pairs (mgr_clusters mgr))"
    and m: "c_client mc = cl j" "kind_of (GetObject r m) = kind" "object_key (GetObject r m) = k"
    by (auto simp: covers_def)
  have "c_client mc = cluster_client rc ctx (c_clusterType mc)"
    using table_members [OF table mem] t(3-8)
    by (auto simp: cluster_client_def PlatformCluster_def WorkloadCluster_def ControlPlane_def)
  then have client: "cl j = cluster_client rc ctx (c_clusterType mc)" using m(1) by simp
  let ?entry = "\<lambda>(mc, m). (c_clusterType mc, kind_of (GetObject r m), object_key (GetObject r m))"
  have entry: "(c_clusterType mc, kind, k) \<in> set (map ?entry (managed_pairs (mgr_clusters mgr)))"
    using mem m(2,3) by force
  from manager_inventory [OF make inputs] obtain name' where
    n: "chart_secret_name X (mov_ChartPullSecret mv) = Inr name'"
    and inv: "map ?entry (managed_pairs (mgr_clusters mgr)) = inventory tns (Instance_Namespace mo') (metrics_namespace hv)
      (if mov_ChartPullSecret mv = [] then None else Some (copy_name (mov_ChartPullSecret mv) name'))
      (hv_ImagePullSecrets hv) (pc_CABundleRef pc \<noteq> None)" by blast
  from entry [unfolded inv] inputs n client show ?thesis unfolding belongs_def by blast
qed

lemma prepareInputs_harmless:
  assumes "onboarding_apart view X" "prepareInputs X mo pc w = (x, mo', w')"
  shows "view j w' = view j w"
proof -
  obtain e mo1 w1 where id: "ensureInstanceID X mo w = ((e, mo1), w1)" by (metis prod.exhaust)
  obtain e' mo2 w2 where up: "lib_UpdateOnboarding (out_lib X) (SetID mo (GenerateID mo)) w = ((e', mo2), w2)"
    by (metis prod.exhaust)
  have "view j w2 = view j w" using assms(1) up unfolding onboarding_apart_def by (metis snd_conv)
  moreover have "w1 = w \<or> w1 = w2"
    using id up by (auto simp: ensureInstanceID_def Let_def split: if_splits option.splits)
  moreover have "w' = w \<or> w' = w1"
    using assms(2) id by (auto simp: prepareInputs_def split: sum.splits option.splits)
  ultimately show ?thesis by auto
qed

lemma createObjectManager_harmless:
  assumes "onboarding_apart view X" "createObjectManager X rc mo pc ctx w = (x, mo', w')"
  shows "view j w' = view j w"
proof -
  obtain y mo1 w1 where p: "prepareInputs X mo pc w = (y, mo1, w1)" by (metis prod.exhaust)
  then have "w' = w1" using assms(2) by (auto simp: createObjectManager_def split: sum.splits)
  with prepareInputs_harmless [OF assms(1) p] show ?thesis by simp
qed

context counting_server
begin

lemma blocking_loop_reads: "blocking_loop api (cl i) gs acc w = (x, w') \<Longrightarrow> view j w' = view j w"
proof (induction gs arbitrary: acc w)
  case Nil
  then show ?case by simp
next
  case (Cons g gs)
  obtain y w1 where c: "cl_count (cl i) g w = (y, w1)" by fastforce
  with Cons have "view j w' = view j w1" by (auto split: sum.splits if_splits)
  then show ?case using count_reads [OF c] by simp
qed

end

text \<open>Making the manager of a request and one pass of it, whatever comes of it.\<close>

lemma request_harmless:
  assumes server: "keeping_server (out_api X) cl view" "mutators (out_api X)" and known: "known_clients cl rc ctx"
    and apart: "onboarding_apart view X" and ns: "\<forall>n n'. lib_StableMCPNamespace (out_lib X) n n' \<noteq> Inr []"
    and out: "\<not> belongs cl X rc mo pc ctx j kind k"
    and make: "createObjectManager X rc mo pc ctx w = (ok (mgr, r), mo', w')"
  obtains results err r' rs where "reconcileObjects (out_api X) mgr d r = (Ret (results, err), r')"
    "resultsToResources results r' = Ret (rs, \<exists>res \<in> set results. res_Error res \<noteq> None)"
    "harmless view j kind k w (r_world r')"
proof (rule createObjectManager_parts [OF make])
  fix tns mv hv
  assume inputs: "prepareInputs X mo pc w = (Inr (tns, mv, hv), mo', w')"
  have "\<exists>n n'. lib_StableMCPNamespace (out_lib X) n n' = Inr tns"
    using inputs by (auto simp: prepareInputs_def split: sum.splits prod.splits option.splits)
  then have tns: "tns \<noteq> []" using ns by metis
  have as: "api_server (out_api X) cl view" using server(1) by (simp add: keeping_server_def listing_server_def)
  obtain results err r' rs where run: "reconcileObjects (out_api X) mgr d r = (Ret (results, err), r')"
    and shown: "resultsToResources results r' = Ret (rs, \<exists>res \<in> set results. res_Error res \<noteq> None)"
    using request_pass_returns [OF as server(2) known make, of d] by blast
  show thesis
  proof (rule request_parts [OF server(2) make inputs])
    fix s name v platform workload cp
    assume shape: "has_shape s X rc mo' ctx tns (new_run w') mgr r" and w: "r_world r = w'"
      and table: "has_table X rc mo' pc ctx tns mv hv name v platform workload cp mgr r"
    have "\<not> covers cl r (managed_pairs (mgr_clusters mgr)) j kind k"
      by (rule contrapos_nn [OF out covered_belongs [OF server(2) make inputs]])
    from pass_harmless [OF server(1) known tns shape table this run]
    have "harmless view j kind k w' (r_world r')" by (simp add: w)
    moreover have "harmless view j kind k w w'" using createObjectManager_harmless [OF apart make] by auto
    ultimately have "harmless view j kind k w (r_world r')" by (rule harmless_trans [rotated])
    with run shown show thesis by (rule that)
  qed
qed

lemma create_harmless:
  assumes server: "keeping_server (out_api X) cl view" "mutators (out_api X)" and known: "known_clients cl rc ctx"
    and apart: "onboarding_apart view X" and ns: "\<forall>n n'. lib_StableMCPNamespace (out_lib X) n n' \<noteq> Inr []"
    and out: "\<not> belongs cl X rc (lib_StatusProgressing (out_lib X) obj ''Reconciling'' ''Reconcile in progress'') pc ctx j kind k"
    and call: "CreateOrUpdate_handler X rc obj pc ctx w = (x, obj', w')"
  shows "harmless view j kind k w w'"
proof -
  let ?mo = "lib_StatusProgressing (out_lib X) obj ''Reconciling'' ''Reconcile in progress''"
  obtain y mo1 w1 where make: "createObjectManager X rc ?mo pc ctx w = (y, mo1, w1)" by (metis prod.exhaust)
  have w1: "harmless view j kind k w w1" using createObjectManager_harmless [OF apart make] by auto
  show ?thesis
  proof (cases "\<exists>mgr r. y = ok (mgr, r)")
    case False
    then have "w' = w1"
      using call make by (auto simp: CreateOrUpdate_handler_def Let_def split: go.splits sum.splits)
    with w1 show ?thesis by simp
  next
    case True
    then obtain mgr r where "y = ok (mgr, r)" by blast
    with make have make: "createObjectManager X rc ?mo pc ctx w = (ok (mgr, r), mo1, w1)" by simp
    obtain results err r' rs where run: "reconcileObjects (out_api X) mgr False r = (Ret (results, err), r')"
      and shown: "resultsToResources results r' = Ret (rs, \<exists>res \<in> set results. res_Error res \<noteq> None)"
      and quiet: "harmless view j kind k w (r_world r')"
      by (rule request_harmless [OF server known apart ns out make])
    have "w' = r_world r'"
      using call make run shown
      by (auto simp: CreateOrUpdate_handler_def Apply_def Let_def split: if_splits prod.splits)
    with quiet show ?thesis by simp
  qed
qed

lemma delete_harmless:
  assumes server: "counting_server (out_api X) cl view" "mutators (out_api X)" and known: "known_clients cl rc ctx"
    and apart: "onboarding_apart view X" and ns: "\<forall>n n'. lib_StableMCPNamespace (out_lib X) n n' \<noteq> Inr []"
    and out: "\<not> belongs cl X rc (lib_StatusTerminating (out_lib X) obj) pc ctx j kind k"
    and call: "Delete_handler X rc obj pc ctx w = (x, obj', w')"
  shows "harmless view j kind k w w'"
proof -
  have keeping: "keeping_server (out_api X) cl view" using server(1) by (simp add: counting_server_def)
  let ?mo = "lib_StatusTerminating (out_lib X) obj"
  obtain b w0 where b: "BlockingKinds (out_api X) (ctx_MCPClient ctx) w = (b, w0)" by fastforce
  obtain im where "ctx_MCPClient ctx = cl im" using known by (auto simp: known_clients_def)
  then have w0: "view i w0 = view i w" for i
    using counting_server.blocking_loop_reads [OF server(1)] b by (simp add: BlockingKinds_def)
  obtain y mo1 w1 where make: "createObjectManager X rc ?mo pc ctx w0 = (y, mo1, w1)" by (metis prod.exhaust)
  have "harmless view j kind k w w0" using w0 by auto
  have "harmless view j kind k w0 w1" using createObjectManager_harmless [OF apart make] by auto
  show ?thesis
  proof (cases "b = Inr [] \<and> (\<exists>mgr r. y = ok (mgr, r))")
    case False
    then have "w' = w0 \<or> w' = w1"
      using call b make by (auto simp: Delete_handler_def Let_def split: go.splits sum.splits if_splits)
    then show ?thesis
      using \<open>harmless view j kind k w w0\<close> \<open>harmless view j kind k w0 w1\<close> harmless_trans by metis
  next
    case True
    then obtain mgr r where "y = ok (mgr, r)" and free: "b = Inr []" by blast
    with make have make: "createObjectManager X rc ?mo pc ctx w0 = (ok (mgr, r), mo1, w1)" by simp
    obtain results err r' rs where run: "reconcileObjects (out_api X) mgr True r = (Ret (results, err), r')"
      and shown: "resultsToResources results r' = Ret (rs, \<exists>res \<in> set results. res_Error res \<noteq> None)"
      and quiet: "harmless view j kind k w0 (r_world r')"
      by (rule request_harmless [OF keeping server(2) known apart ns out make])
    have "w' = r_world r'"
      using call b free make run shown
      by (auto simp: Delete_handler_def Delete_all_def Let_def split: if_splits prod.splits)
    with quiet \<open>harmless view j kind k w w0\<close> harmless_trans show ?thesis by metis
  qed
qed

section \<open>Serving many requests\<close>

text \<open>
  A run of the operator: calls of the two handlers for any of the requests, in any order and
  with the requests as they are at that time, between them steps of others on the clusters.
\<close>

inductive served ::
    "'w outside \<Rightarrow> 'w reconciler \<Rightarrow> (metrics_operator \<times> provider_config \<times> 'w cluster_context) set \<Rightarrow>
     ('w \<Rightarrow> 'w \<Rightarrow> bool) \<Rightarrow> 'w \<Rightarrow> 'w \<Rightarrow> bool"
  for X rc requests others w where
  start: "served X rc requests others w w"
| creation: "served X rc requests others w w1 \<Longrightarrow> (obj, pc, ctx) \<in> requests \<Longrightarrow>
    CreateOrUpdate_handler X rc obj pc ctx w1 = (x, obj', w2) \<Longrightarrow> served X rc requests others w w2"
| deletion: "served X rc requests others w w1 \<Longrightarrow> (obj, pc, ctx) \<in> requests \<Longrightarrow>
    Delete_handler X rc obj pc ctx w1 = (x, obj', w2) \<Longrightarrow> served X rc requests others w w2"
| outside: "served X rc requests others w w1 \<Longrightarrow> others w1 w2 \<Longrightarrow> served X rc requests others w w2"

text \<open>The request as the handlers read it, with the status they set first.\<close>

definition belongs_to_request ::
    "('c \<Rightarrow> 'w client) \<Rightarrow> 'w outside \<Rightarrow> 'w reconciler \<Rightarrow> metrics_operator \<times> provider_config \<times> 'w cluster_context \<Rightarrow>
     'c \<Rightarrow> string \<Rightarrow> object_key \<Rightarrow> bool" where
  "belongs_to_request cl X rc request j kind k =
     (case request of (obj, pc, ctx) \<Rightarrow>
        belongs cl X rc (lib_StatusProgressing (out_lib X) obj ''Reconciling'' ''Reconcile in progress'') pc ctx j kind k \<or>
        belongs cl X rc (lib_StatusTerminating (out_lib X) obj) pc ctx j kind k)"

text \<open>A user's secret beside the copies, in the name space of the tenant on the platform.\<close>

definition ex_own :: object where
  "ex_own = new_object ''own'' ''mcp--mo'' (Secret None [])"

definition ex_requests :: "(metrics_operator \<times> provider_config \<times> ref_world cluster_context) set" where
  "ex_requests = {(ex_mo ''v1'', ex_pc, ex_ctx)}"

text \<open>Others do anything but change the store of the platform.\<close>

definition ex_others :: "ref_world \<Rightarrow> ref_world \<Rightarrow> bool" where
  "ex_others w w' \<longleftrightarrow> rw_store w' 0 = rw_store w 0"

text \<open>One creation, an outage of the workload cluster, one deletion.\<close>

definition ex_after :: ref_world where
  "ex_after = snd (snd (Delete_handler ex_outside ex_rc (ex_mo ''v1'') ex_pc ex_ctx
     ((snd (snd (CreateOrUpdate_handler ex_outside ex_rc (ex_mo ''v1'') ex_pc ex_ctx (ref_put 0 ex_own ex_sources))))
       \<lparr>rw_down := [1]\<rparr>)))"

lemma ex_served_run: "served ex_outside ex_rc ex_requests ex_others (ref_put 0 ex_own ex_sources) ex_after"
proof -
  have r: "(ex_mo ''v1'', ex_pc, ex_ctx) \<in> ex_requests" by (simp add: ex_requests_def)
  have parts: "c = (fst c, fst (snd c), snd (snd c))" for c :: "'a \<times> 'b \<times> 'c" by simp
  show ?thesis
    unfolding ex_after_def
    by (rule served.deletion [OF _ r parts], rule served.outside, rule served.creation [OF _ r parts], rule served.start)
       (simp add: ex_others_def)
qed

lemma ex_not_owned:
  "\<not> belongs ref_client ex_outside ex_rc (SetPhase p (ex_mo ''v1'')) ex_pc ex_ctx 0 ''Secret'' (''mcp--mo'', ''own'')"
proof -
  have "chart_secret_name ex_outside ''chart-pull'' = Inr ''sp-mo-chart-pull''"
    by (simp add: chart_secret_name_def PrefixSecretName_def secretNamePrefix_def K8sMaxNameLength_def ref_lib_def)
  then have name: "name = ''sp-mo-chart-pull''" if "chart_secret_name ex_outside ''chart-pull'' = Inr name" for name
    using that by simp
  have "(t, ''Secret'', ''mcp--mo'', ''own'') \<notin> set (inventory ''mcp--mo'' ins mns (Some ''sp-mo-chart-pull'') [''regcred''] ca)"
    if "ins = ''metrics-operator-abc''" for t ins mns ca
    using that by (simp add: inventory_def)
  moreover have "Instance_Namespace (SetPhase p (ex_mo ''v1'')) = ''metrics-operator-abc''"
    by (simp add: Instance_Namespace_def)
  moreover have "mov_ChartPullSecret ex_version = ''chart-pull''" by (simp add: ex_version_def)
  moreover have "copy_name ''chart-pull'' ''sp-mo-chart-pull'' = ''sp-mo-chart-pull''" by (simp add: copy_name_def)
  moreover have "hv_ImagePullSecrets ex_hv = [''regcred'']" by (simp add: ex_hv_def)
  ultimately show ?thesis
    unfolding belongs_def ex_inputs by (auto dest!: name)
qed

text \<open>
  C5: the operator leaves the objects of others alone. However the calls for many requests
  follow on each other, with changes by others in between, an object that is in the
  inventory of none of the requests and does not carry the managed-by label stays exactly
  as it is; and where there was no object, none is made.
\<close>

theorem foreign_objects_are_left_alone:
  assumes "counting_server (out_api X) cl view" "mutators (out_api X)" "onboarding_apart view X"
    "\<forall>n ns. lib_StableMCPNamespace (out_lib X) n ns \<noteq> Inr []"
    "\<forall>(obj, pc, ctx) \<in> requests. known_clients cl rc ctx"
    "\<forall>request \<in> requests. \<not> belongs_to_request cl X rc request j kind k"
    "\<forall>w w'. others w w' \<longrightarrow> view j w' kind k = view j w kind k"
    "\<forall>s. view j w kind k = Some s \<longrightarrow> \<not> is_managed s"
    "served X rc requests others w w'"
  shows "view j w' kind k = view j w kind k"
proof -
  have keeping: "keeping_server (out_api X) cl view" using assms(1) by (simp add: counting_server_def)
  have "harmless view j kind k w w'"
    using assms(9)
  proof (induction rule: served.induct)
    case start
    then show ?case by auto
  next
    case (creation w1 obj pc ctx x obj' w2)
    have "harmless view j kind k w1 w2"
      by (rule create_harmless [OF keeping assms(2) _ assms(3,4) _ creation(3)])
         (use assms(5,6) creation(2) in \<open>auto simp: belongs_to_request_def\<close>)
    with creation(4) show ?case by (rule harmless_trans)
  next
    case (deletion w1 obj pc ctx x obj' w2)
    have "harmless view j kind k w1 w2"
      by (rule delete_harmless [OF assms(1,2) _ assms(3,4) _ deletion(3)])
         (use assms(5,6) deletion(2) in \<open>auto simp: belongs_to_request_def\<close>)
    with deletion(4) show ?case by (rule harmless_trans)
  next
    case (outside w1 w2)
    with assms(7) have "harmless view j kind k w1 w2" by auto
    with outside(3) show ?case by (rule harmless_trans)
  qed
  then show ?thesis using assms(8) by (simp add: harmless_def foreign_def)
qed

lemma foreign_objects_are_left_alone_witness:
  "ref_view 0 ex_after ''Secret'' (''mcp--mo'', ''own'') = Some ex_own"
proof -
  have here: "ref_view 0 (ref_put 0 ex_own ex_sources) ''Secret'' (''mcp--mo'', ''own'') = Some ex_own"
    using ref_view_put [of 0 ex_own ex_sources] by (simp add: ex_own_def object_key_def)
  have "ref_view 0 ex_after ''Secret'' (''mcp--mo'', ''own'') =
      ref_view 0 (ref_put 0 ex_own ex_sources) ''Secret'' (''mcp--mo'', ''own'')"
  proof (rule foreign_objects_are_left_alone [OF _ _ _ _ _ _ _ _ ex_served_run, of ref_client])
    show "counting_server (out_api ex_outside) ref_client ref_view" "mutators (out_api ex_outside)"
      by (simp_all add: refcount.counting_server_axioms refmut.mutators_axioms)
    show "onboarding_apart ref_view ex_outside" "\<forall>n ns. lib_StableMCPNamespace (out_lib ex_outside) n ns \<noteq> Inr []"
      by (simp_all add: onboarding_apart_def ref_lib_def)
    show "\<forall>(obj, pc, ctx) \<in> ex_requests. known_clients ref_client ex_rc ctx"
      by (simp add: ex_requests_def ex_known_clients)
    show "\<forall>request \<in> ex_requests. \<not> belongs_to_request ref_client ex_outside ex_rc request 0 ''Secret'' (''mcp--mo'', ''own'')"
      using ex_not_owned by (simp add: ex_requests_def belongs_to_request_def)
    show "\<forall>w w'. ex_others w w' \<longrightarrow> ref_view 0 w' ''Secret'' (''mcp--mo'', ''own'') = ref_view 0 w ''Secret'' (''mcp--mo'', ''own'')"
      by (simp add: ex_others_def ref_view_def)
    show "\<forall>s. ref_view 0 (ref_put 0 ex_own ex_sources) ''Secret'' (''mcp--mo'', ''own'') = Some s \<longrightarrow> \<not> is_managed s"
      unfolding here by (simp add: ex_own_def is_managed_iff)
  qed
  with here show ?thesis by simp
qed

section \<open>The access of the operator\<close>






end
