(* ===== verification/First_Call.thy ===== *)
theory First_Call
  imports Installed_Properties
begin

text \<open>
  Why the first call of the create handler fails: the manager goes through the clusters in
  the order platform, workload cluster, control plane, so the token of the service account
  is asked for before the account is made.
\<close>

section \<open>The contract\<close>

text \<open>
  A successful \<open>CreateOrUpdate\<close> ran the mutate function once on the stored object, or on the
  one given when there was none, before anything was changed.
\<close>

locale mutating_server = keeping_server api cl view
  for api :: "'w kube_api" and cl :: "'c \<Rightarrow> 'w client"
    and view :: "'c \<Rightarrow> 'w \<Rightarrow> string \<Rightarrow> object_key \<Rightarrow> object option" +
  assumes upsert_runs: "CreateOrUpdate api (cl i) o' f w = (Ret (op, None), o'', w') \<Longrightarrow>
          \<exists>o0 w0 o1 w1. f o0 w0 = (Ret None, o1, w1) \<and> (\<forall>j. view j w0 = view j w) \<and>
            (case view i w (kind_of o') (object_key o') of None \<Rightarrow> o0 = o' | Some s \<Rightarrow> o0 = s)"

interpretation refmutating: mutating_server ref_api ref_client ref_view
proof
  fix i o' and f :: "ref_world mutate" and w op o'' w'
  assume "CreateOrUpdate ref_api (ref_client i) o' f w = (Ret (op, None), o'', w')"
  then have up: "ref_upsert (ref_client i) o' f w = (Ret (op, None), o'', w')" by simp
  obtain e o0 w0 where get: "ref_get i (object_key o') o' w = ((e, o0), w0)" by (metis prod.exhaust)
  note g = ref_get_result [OF get]
  from up get obtain o1 w1 where f: "f o0 w0 = (Ret None, o1, w1)"
    by (cases "f o0 w0") (auto simp: ref_upsert_def split: if_splits go.splits option.splits)
  have "e = None \<or> ref_is_not_found e" using up get by (auto simp: ref_upsert_def split: if_splits)
  then have "case ref_view i w (kind_of o') (object_key o') of None \<Rightarrow> o0 = o' | Some s \<Rightarrow> o0 = s"
    using g(2-4) by (cases e) (auto split: option.splits)
  with f g(1) show "\<exists>o0 w0 o1 w1. f o0 w0 = (Ret None, o1, w1) \<and> (\<forall>j. ref_view j w0 = ref_view j w) \<and>
      (case ref_view i w (kind_of o') (object_key o') of None \<Rightarrow> o0 = o' | Some s \<Rightarrow> o0 = s)"
    by blast
qed

section \<open>A loop up to one of its steps\<close>

lemma map_prog_split:
  assumes "map_prog f (xs @ y # ys) s = (Ret rs, s')"
  obtains rs1 s1 z s2 rs2 where "map_prog f xs s = (Ret rs1, s1)" "f y s1 = (Ret z, s2)"
    "map_prog f ys s2 = (Ret rs2, s')" "rs = rs1 @ z # rs2"
  using assms by (auto simp: map_prog_append bind_prog_Ret_iff ret_apply)

section \<open>The token without its account\<close>

context api_server
begin

text \<open>No token without an account.\<close>

lemma generateToken_needs_account:
  assumes "view i w ''ServiceAccount'' (msa_Namespace msa, msa_Name msa) = None"
  shows "\<exists>e w'. generateToken env (cl i) cfg msa expiration w = (Inl e, w')"
proof -
  obtain e sa w1 where get: "cl_get (cl i) (msa_Namespace msa, msa_Name msa) (new_object [] [] ServiceAccount) w = ((e, sa), w1)"
    by (metis prod.exhaust)
  have "e \<noteq> None" using get_found [of i] get assms by fastforce
  with get show ?thesis by (auto simp: generateToken_def Let_def split: option.splits)
qed

lemma token_needs_account:
  assumes "view i w ''ServiceAccount'' (msa_Namespace msa, msa_Name msa) = None" "c_client cp = cl i"
    and "o_Annotations o' = None" "kind_of o' = ''Secret''"
  shows "fst (token_reconcile env cp msa poll o' w) \<noteq> Ret None"
proof -
  obtain e w' where "generateToken env (cl i) (c_cfg cp) msa (1 * Hour) w = (Inl e, w')"
    using generateToken_needs_account [OF assms(1)] by blast
  moreover have "token_expires env poll o' w" using assms(3) by (simp add: token_expires_def getTokenExpirationTime_def Let_def)
  ultimately show ?thesis using assms(2,4) by (cases "o_Body o'") (auto simp: token_reconcile_def)
qed

end

text \<open>The token secret is the second object of the workload cluster.\<close>

lemma token_entry:
  assumes table: "has_table X rc obj pc ctx tns mv hv name v platform workload cp mgr r"
  obtains ns tok ms where
    "managed_pairs (mgr_clusters mgr) = (map (Pair platform) (c_objects platform) @ [(workload, ns)]) @ (workload, tok) # ms"
    "kind_of (GetObject r ns) = ''Namespace''"
    "GetObject r tok = new_object (KubeAPIAccess (operator_account (metrics_namespace hv))) (Instance_Namespace obj) (Secret None [])"
    "m_reconcileFunc tok = Some (token_reconcile (out_env X) (new_control_plane ctx) (operator_account (metrics_namespace hv))
       (PollInterval pc))"
proof -
  note e = table_entries(2) [OF table]
  then obtain ns tok rest where "c_objects workload = ns # tok # rest"
    and "GetObject r ns = new_object (Instance_Namespace obj) [] Namespace"
    and "GetObject r tok = new_object (KubeAPIAccess (operator_account (metrics_namespace hv))) (Instance_Namespace obj) (Secret None [])"
    and "m_reconcileFunc tok = Some (token_reconcile (out_env X) (new_control_plane ctx) (operator_account (metrics_namespace hv))
       (PollInterval pc))"
    by (auto simp: cluster_entries_def workload_table_def workload_access_def new_workload_def NewManagedCluster_def
        map_eq_append_conv map_eq_Cons_conv)
  then show thesis
    by (intro that [of ns tok "map (Pair workload) rest @ map (Pair cp) (c_objects cp)"])
       (simp_all add: table_cleaners(2) [OF table] managed_pairs_def)
qed

section \<open>The call\<close>

context mutating_server
begin

text \<open>A loop that gets to the token without an account leaves the token with an error.\<close>

lemma token_before_account:
  assumes refs: "distinct (map (m_ref \<circ> snd) (xs @ (wc, tok) # ys))"
    and all: "\<forall>(mc, m) \<in> set xs. c_client mc = cl (idx mc) \<and> reconciles (GetObject r m) m \<and> reads view (Reconcile m)"
    and wc: "c_client wc = cl iw" and cp: "c_client cp = cl im"
    and tok: "GetObject r tok = new_object n ns (Secret None [])" "m_reconcileFunc tok = Some (token_reconcile env cp msa poll)"
    and out: "(im, ''ServiceAccount'', msa_Namespace msa, msa_Name msa) \<notin> address idx r ` set xs"
      "(iw, ''Secret'', ns, n) \<notin> address idx r ` set xs"
    and none: "view im (r_world r) ''ServiceAccount'' (msa_Namespace msa, msa_Name msa) = None"
      "view iw (r_world r) ''Secret'' (ns, n) = None"
    and run: "map_prog (\<lambda>(mc, m). apply_object api mc m) (xs @ (wc, tok) # ys) r = (Ret rs, r')"
  shows "\<exists>res \<in> set rs. res_Error res \<noteq> None"
  using run
proof (rule map_prog_split)
  fix rs1 r1 res r2 rs2
  assume before: "map_prog (\<lambda>(mc, m). apply_object api mc m) xs r = (Ret rs1, r1)"
    and one: "(case (wc, tok) of (mc, m) \<Rightarrow> apply_object api mc m) r1 = (Ret res, r2)" and rs: "rs = rs1 @ res # rs2"
  have d: "distinct (map (m_ref \<circ> snd) xs)" "m_ref tok \<notin> set (map (m_ref \<circ> snd) xs)" using refs by auto
  note frame = apply_loop_frame [OF d(1) all _ before]
  have tok1: "GetObject r1 tok = new_object n ns (Secret None [])"
    using apply_loop [OF d(1) before] d(2) tok(1) by (simp add: GetObject_def)
  have none1: "view im (r_world r1) ''ServiceAccount'' (msa_Namespace msa, msa_Name msa) = None"
    "view iw (r_world r1) ''Secret'' (ns, n) = None"
    using frame [OF out(1)] frame [OF out(2)] none by simp_all
  have "res_Error res \<noteq> None"
  proof
    assume "res_Error res = None"
    with apply_object_result(5) [of api wc tok r1 res r2] one wc
    have "CreateOrUpdate api (cl iw) (GetObject r1 tok) (mutate_managed tok) (r_world r1) =
        (Ret (res_OperationResult res, None), GetObject r2 tok, r_world r2)" by simp
    from upsert_runs [OF this] obtain w0 o1 w1 where
      "mutate_managed tok (GetObject r1 tok) w0 = (Ret None, o1, w1)" and w0: "\<forall>j. view j w0 = view j (r_world r1)"
      using none1(2) by (auto simp: tok1 object_key_def)
    then have "fst (token_reconcile env cp msa poll (SetManagedBy (new_object n ns (Secret None []))) w0) = Ret None"
      by (simp add: mutate_managed_def Reconcile_Some [OF tok(2)] tok1)
    moreover have "view im w0 ''ServiceAccount'' (msa_Namespace msa, msa_Name msa) = None" using w0 none1(1) by simp
    ultimately show False
      using token_needs_account [OF _ cp, where o' = "SetManagedBy (new_object n ns (Secret None []))"] by simp
  qed
  then show ?thesis by (simp add: rs)
qed

end

lemma first_pass_fails:
  assumes server: "mutating_server (out_api X) cl view"
    and shape: "has_shape s X rc mo ctx tns r0 mgr r"
    and table: "has_table X rc mo pc ctx tns mv hv name v platform workload cp mgr r"
    and clients: "rec_PlatformClient rc = cl ip" "ctx_WorkloadClient ctx = cl iw" "ctx_MCPClient ctx = cl im"
    and apart: "distinct [ip, iw, im]"
    and none: "view im (r_world r) ''ServiceAccount'' (metrics_namespace hv, ''metrics-operator-server'') = None"
      "view iw (r_world r) ''Secret'' (Instance_Namespace mo, ''kube-api-access-metrics-operator-server'') = None"
    and run: "Apply (out_api X) mgr r = (Ret (results, err), r')"
  shows "\<exists>res \<in> set results. res_Error res \<noteq> None"
proof (rule Apply_parts [OF run], rule token_entry [OF table])
  fix rs r1 ns tok ms
  assume loop: "map_prog (\<lambda>(mc, m). apply_object (out_api X) mc m) (managed_pairs (mgr_clusters mgr)) r = (Ret rs, r1)"
    and clean: "run_cleaners (mgr_cleaners mgr) rs r1 = ((results, err), r')"
    and pairs: "managed_pairs (mgr_clusters mgr) = (map (Pair platform) (c_objects platform) @ [(workload, ns)]) @ (workload, tok) # ms"
    and ns: "kind_of (GetObject r ns) = ''Namespace''"
    and tok: "GetObject r tok = new_object (KubeAPIAccess (operator_account (metrics_namespace hv))) (Instance_Namespace mo) (Secret None [])"
      "m_reconcileFunc tok = Some (token_reconcile (out_env X) (new_control_plane ctx) (operator_account (metrics_namespace hv))
         (PollInterval pc))"
  have keeping: "keeping_server (out_api X) cl view" using server by (simp add: mutating_server_def)
  let ?idx = "cluster_index ip iw im" and ?xs = "map (Pair platform) (c_objects platform) @ [(workload, ns)]"
  have all: "\<forall>(mc, m) \<in> set ?xs. c_client mc = cl (?idx mc) \<and> reconciles (GetObject r m) m \<and> reads view (Reconcile m)"
  proof clarify
    fix mc m assume "(mc, m) \<in> set ?xs"
    then have mem: "(mc, m) \<in> set (managed_pairs (mgr_clusters mgr))" unfolding pairs by (simp only: set_append Un_iff simp_thms)
    show "c_client mc = cl (?idx mc) \<and> reconciles (GetObject r m) m \<and> reads view (Reconcile m)"
      using keeping_server.table_reads [OF keeping table refl clients mem] shape_object(2) [OF shape mem] by (auto simp: behaved_def)
  qed
  have out: "(im, ''ServiceAccount'', k) \<notin> address ?idx r ` set ?xs" "(iw, ''Secret'', k) \<notin> address ?idx r ` set ?xs" for k
    using apart ns table_index [OF table, of ip iw im] by (auto simp: address_def)
  have wc: "c_client workload = cl iw" and cp: "c_client (new_control_plane ctx) = cl im"
    using table_cleaners(4) [OF table] clients by (simp_all add: new_control_plane_def NewManagedCluster_def)
  have "\<exists>res \<in> set rs. res_Error res \<noteq> None"
    by (rule mutating_server.token_before_account [OF server shape_refs(2) [OF shape, unfolded pairs] all wc cp tok out _ _
          loop [unfolded pairs]])
       (use none in \<open>simp_all add: KubeAPIAccess_def\<close>)
  moreover obtain extra where "results = rs @ extra"
    using run_cleaners_results [OF shape_orphan_cleaners [OF shape] clean] by blast
  ultimately show ?thesis by auto
qed

text \<open>
  C16: the first call of the create handler reports an error, whatever the clusters answer:
  as long as neither the service account nor the token secret exists, no call succeeds, since
  the token is asked for before the account is made.
\<close>

theorem first_call_reports_an_error:
  assumes "mutating_server (out_api X) cl view" "mutators (out_api X)" "user_input_errors (out_lib X)"
    "separate_clusters cl rc ctx ip iw im"
    "mo = lib_StatusProgressing (out_lib X) obj ''Reconciling'' ''Reconcile in progress''"
    "createObjectManager X rc mo pc ctx w = (ok (mgr, r), mo, w)"
    "prepareInputs X mo pc w = (Inr (tns, mv, hv), mo, w)"
    "view im w ''ServiceAccount'' (metrics_namespace hv, ''metrics-operator-server'') = None"
    "view iw w ''Secret'' (Instance_Namespace mo, ''kube-api-access-metrics-operator-server'') = None"
  shows "fst (CreateOrUpdate_handler X rc obj pc ctx w) \<noteq> Ret (t, None)"
proof
  assume "fst (CreateOrUpdate_handler X rc obj pc ctx w) = Ret (t, None)"
  then obtain obj' w' where call: "CreateOrUpdate_handler X rc obj pc ctx w = (Ret (t, None), obj', w')"
    by (cases "CreateOrUpdate_handler X rc obj pc ctx w") auto
  have as: "api_server (out_api X) cl view"
    using assms(1) by (simp add: mutating_server_def keeping_server_def listing_server_def)
  have clients: "rec_PlatformClient rc = cl ip" "ctx_WorkloadClient ctx = cl iw" "ctx_MCPClient ctx = cl im"
    and apart: "distinct [ip, iw, im]" and known: "known_clients cl rc ctx"
    using assms(4) by (auto simp: separate_clusters_def known_clients_def)
  obtain results r' where pass: "Apply (out_api X) mgr r = (Ret (results, None), r')"
    and good: "\<forall>res \<in> set results. res_Error res = None"
    by (rule success_pass [OF assms(3) as assms(2) known assms(6) [unfolded assms(5)] call])
  show False
  proof (rule request_parts [OF assms(2,6,7)])
    fix s name v platform workload cp
    assume shape: "has_shape s X rc mo ctx tns (new_run w) mgr r" and w: "r_world r = w"
      and table: "has_table X rc mo pc ctx tns mv hv name v platform workload cp mgr r"
    have "\<exists>res \<in> set results. res_Error res \<noteq> None"
      by (rule first_pass_fails [OF assms(1) shape table clients apart _ _ pass]) (use assms(8,9) w in simp_all)
    with good show False by auto
  qed
qed

lemma first_call_reports_an_error_witness:
  "fst (CreateOrUpdate_handler ex_outside ex_rc (ex_mo ''v1'') ex_pc ex_ctx ex_sources) \<noteq> Ret (0, None)"
proof (rule ex_make [of "''Progressing''" ex_sources])
  fix mgr r
  assume make: "createObjectManager ex_outside ex_rc (SetPhase ''Progressing'' (ex_mo ''v1'')) ex_pc ex_ctx ex_sources =
      (ok (mgr, r), SetPhase ''Progressing'' (ex_mo ''v1''), ex_sources)"
  show ?thesis
  proof (rule first_call_reports_an_error [OF _ _ _ ex_setting(1) _ make ex_inputs])
    show "mutating_server (out_api ex_outside) ref_client ref_view" "mutators (out_api ex_outside)"
      "user_input_errors (out_lib ex_outside)"
      by (simp_all add: refmutating.mutating_server_axioms refmut.mutators_axioms refinput.user_input_errors_axioms)
  qed (simp_all add: ex_sources_def ref_view_def same_object_def)
qed

end
