(* ===== verification/Process.thy ===== *)
theory Process
  imports Controller
begin

text \<open>
  \<open>cmd/service-provider-metrics-operator/main.go\<close>: the process. It reads its command line,
  connects to the platform, and then either installs the CRDs (\<open>init\<close>) or starts the
  controller (any other command). What this file makes of the libraries it sets up is
  modelled as the data it hands to them; the libraries themselves are arguments.
\<close>

section \<open>How a process ends\<close>

text \<open>
  A step of \<open>main\<close> goes on with a value or ends the process, by \<open>os.Exit\<close> or by a panic.
  Returning from \<open>main\<close> is \<open>Exit 0\<close>.
\<close>

datatype ending = Exit nat | Crash string

type_synonym ('w, 'a) step = "'w \<Rightarrow> (ending + 'a) \<times> 'w"

definition go_on :: "'a \<Rightarrow> ('w, 'a) step" where
  "go_on x = (\<lambda>w. (Inr x, w))"

definition exit_with :: "nat \<Rightarrow> ('w, 'a) step" where
  "exit_with n = (\<lambda>w. (Inl (Exit n), w))"

definition and_then :: "('w, 'a) step \<Rightarrow> ('a \<Rightarrow> ('w, 'b) step) \<Rightarrow> ('w, 'b) step" where
  "and_then m k = (\<lambda>w. case m w of (Inl e, w') \<Rightarrow> (Inl e, w') | (Inr x, w') \<Rightarrow> k x w')"

text \<open>\<open>if err := m(); err != nil { setupLog.Error(...); os.Exit(1) }\<close>\<close>

definition or_exit :: "('w, gerr option) step \<Rightarrow> ('w, unit) step" where
  "or_exit m = and_then m (\<lambda>err. if err = None then go_on () else exit_with 1)"

named_theorems step_simps \<open>evaluation rules of the steps of the process\<close>

lemma step_results [step_simps]:
  "go_on x w = (Inr x, w)" "exit_with n w = (Inl (Exit n), w)"
  by (simp_all add: go_on_def exit_with_def)

lemma and_then_Inr [step_simps]: "m w = (Inr x, w') \<Longrightarrow> and_then m k w = k x w'"
  by (simp add: and_then_def)

lemma and_then_Inl [step_simps]: "m w = (Inl e, w') \<Longrightarrow> and_then m k w = (Inl e, w')"
  by (simp add: and_then_def)

lemma and_then_go_on [step_simps]: "and_then (go_on x) k = k x"
  by (simp add: and_then_def go_on_def)

lemma and_then_Inr_iff:
  "and_then m k w = (Inr y, w'') \<longleftrightarrow> (\<exists>x w'. m w = (Inr x, w') \<and> k x w' = (Inr y, w''))"
  by (auto simp: and_then_def split: prod.splits sum.splits)

lemma go_on_iff: "go_on x w = (Inr y, w') \<longleftrightarrow> y = x \<and> w' = w"
  by (auto simp: go_on_def)

lemma exit_with_not_Inr: "exit_with n w \<noteq> (Inr y, w')"
  by (simp add: exit_with_def)

lemma or_exit_Inr_iff: "or_exit m w = (Inr y, w') \<longleftrightarrow> m w = (Inr None, w')"
  by (auto simp: or_exit_def and_then_Inr_iff go_on_iff exit_with_not_Inr split: if_splits)

lemma or_exit_None [step_simps]: "m w = (Inr None, w') \<Longrightarrow> or_exit m w = (Inr (), w')"
  by (simp add: or_exit_Inr_iff)

lemma or_exit_Some [step_simps]: "m w = (Inr (Some e), w') \<Longrightarrow> or_exit m w = (Inl (Exit 1), w')"
  by (simp add: or_exit_def and_then_Inr step_results)

lemma or_exit_go_on [step_simps]: "or_exit (go_on None) = go_on ()" "or_exit (go_on (Some e)) = exit_with 1"
  by (simp_all add: or_exit_def and_then_go_on)

lemma exit_on_error_Inr_iff:
  "(case x of Inl e \<Rightarrow> exit_with n | Inr y \<Rightarrow> k y) w = (Inr z, w') \<longleftrightarrow> (\<exists>y. x = Inr y \<and> k y w = (Inr z, w'))"
  by (cases x) (simp_all add: exit_with_not_Inr)

text \<open>A call that always comes back.\<close>

definition returns :: "('w, 'a) step \<Rightarrow> bool" where
  "returns m \<longleftrightarrow> (\<forall>w. \<exists>x w'. m w = (Inr x, w'))"

lemma returns_go_on [simp]: "returns (go_on x)"
  by (simp add: returns_def go_on_def)

lemma returns_and_then: "returns m \<Longrightarrow> (\<And>x. returns (k x)) \<Longrightarrow> returns (and_then m k)"
  unfolding returns_def by (metis and_then_Inr)

section \<open>The data the process hands out\<close>

text \<open>A scheme, by the packages whose types were added to it, under their names in the file.\<close>

type_synonym scheme = "string list"

definition platformScheme :: scheme where
  "platformScheme = [''clientgoscheme'', ''apiextensionv1'', ''metricsoperatorsv1alpha1'', ''clustersv1alpha1'',
     ''providerv1alpha1'', ''sourcev1'', ''v2'']"

definition onboardingScheme :: scheme where
  "onboardingScheme = [''clientgoscheme'', ''apiextensionv1'', ''metricsoperatorsv1alpha1'']"

definition cpScheme :: scheme where
  "cpScheme = [''clientgoscheme'', ''apiextensionv1'']"

definition workloadScheme :: scheme where
  "workloadScheme = [''clientgoscheme'']"

record policy_rule =
  pr_APIGroups :: "string list"
  pr_Resources :: "string list"
  pr_Verbs :: "string list"

text \<open>A \<open>PermissionsRequest\<close>: of it, the rules.\<close>

type_synonym permissions_request = "policy_rule list"

definition initPermissions :: "permissions_request list" where
  "initPermissions =
     [[\<lparr>pr_APIGroups = [''apiextensions.k8s.io''], pr_Resources = [''customresourcedefinitions''], pr_Verbs = [''*'']\<rparr>]]"

definition runPermissions :: "permissions_request list" where
  "runPermissions = [[\<lparr>pr_APIGroups = [GroupName], pr_Resources = [''*''], pr_Verbs = [''*'']\<rparr>]]"

text \<open>The role references of a token configuration are given by name and kind.\<close>

record token_config =
  tc_Permissions :: "permissions_request list"
  tc_RoleRefs :: "(string \<times> string) list"

definition cpTokenAccessConfig :: token_config where
  "cpTokenAccessConfig =
     \<lparr>tc_Permissions = [[\<lparr>pr_APIGroups = [''*''], pr_Resources = [''*''], pr_Verbs = [''*'']\<rparr>]],
      tc_RoleRefs = [(''cluster-admin'', ''ClusterRole'')]\<rparr>"

definition workloadTokenAccessConfig :: token_config where
  "workloadTokenAccessConfig =
     \<lparr>tc_Permissions = [[\<lparr>pr_APIGroups = [''*''], pr_Resources = [''*''], pr_Verbs = [''*'']\<rparr>]],
      tc_RoleRefs = [(''cluster-admin'', ''ClusterRole'')]\<rparr>"

text \<open>
  A registration of a cluster for every request: an existing cluster, found by a function
  from the name and the name space of the request to those of the cluster, or a new one
  with a purpose. A value of a library is given by its name.
\<close>

datatype cluster_origin = ExistingCluster "string \<Rightarrow> string \<Rightarrow> gerr + string \<times> string" | NewCluster string

record cluster_registration =
  reg_Purpose :: string
  reg_LocalID :: string
  reg_Origin :: cluster_origin
  reg_NamespaceGenerator :: string
  reg_TokenConfig :: token_config
  reg_Scheme :: scheme

text \<open>The TLS configuration of a server: of it, \<open>NextProtos\<close>; and the options of the two servers.\<close>

record tls_config =
  tls_NextProtos :: "string list"

record webhook_options =
  wo_TLSOpts :: "(tls_config \<Rightarrow> tls_config) list"
  wo_CertDir :: string
  wo_CertName :: string
  wo_KeyName :: string

record metrics_options =
  mx_BindAddress :: string
  mx_SecureServing :: bool
  mx_TLSOpts :: "(tls_config \<Rightarrow> tls_config) list"
  mx_FilterProvider :: "string option"
  mx_CertDir :: string
  mx_CertName :: string
  mx_KeyName :: string

section \<open>The command line\<close>

record flags =
  fl_Environment :: string
  fl_ProviderName :: string
  fl_MetricsAddr :: string
  fl_ProbeAddr :: string
  fl_LeaderElection :: bool
  fl_SecureMetrics :: bool
  fl_WebhookCertPath :: string
  fl_WebhookCertName :: string
  fl_WebhookCertKey :: string
  fl_MetricsCertPath :: string
  fl_MetricsCertName :: string
  fl_MetricsCertKey :: string
  fl_EnableHTTP2 :: bool

text \<open>The flags with their defaults, and where their values go.\<close>

definition string_flags :: "(string \<times> string) list" where
  "string_flags =
     [(''environment'', []), (''provider-name'', ''metrics-operator''), (''metrics-bind-address'', ''0''),
      (''health-probe-bind-address'', '':8081''), (''webhook-cert-path'', []), (''webhook-cert-name'', ''tls.crt''),
      (''webhook-cert-key'', ''tls.key''), (''metrics-cert-path'', []), (''metrics-cert-name'', ''tls.crt''),
      (''metrics-cert-key'', ''tls.key'')]"

definition bool_flags :: "(string \<times> bool) list" where
  "bool_flags = [(''leader-elect'', False), (''metrics-secure'', True), (''enable-http2'', False)]"

definition read_flags :: "(string \<Rightarrow> string) \<Rightarrow> (string \<Rightarrow> bool) \<Rightarrow> flags" where
  "read_flags text_of is_set =
     \<lparr>fl_Environment = text_of ''environment'', fl_ProviderName = text_of ''provider-name'',
      fl_MetricsAddr = text_of ''metrics-bind-address'', fl_ProbeAddr = text_of ''health-probe-bind-address'',
      fl_LeaderElection = is_set ''leader-elect'', fl_SecureMetrics = is_set ''metrics-secure'',
      fl_WebhookCertPath = text_of ''webhook-cert-path'', fl_WebhookCertName = text_of ''webhook-cert-name'',
      fl_WebhookCertKey = text_of ''webhook-cert-key'', fl_MetricsCertPath = text_of ''metrics-cert-path'',
      fl_MetricsCertName = text_of ''metrics-cert-name'', fl_MetricsCertKey = text_of ''metrics-cert-key'',
      fl_EnableHTTP2 = is_set ''enable-http2''\<rparr>"

text \<open>The first argument is the command, whatever it is; the flags are read from the others.\<close>

fun split_command :: "string list \<Rightarrow> string \<times> string list" where
  "split_command (program # command # rest) = (command, program # rest)"
| "split_command args = ([], args)"

section \<open>The options of the servers\<close>

definition disableHTTP2 :: "tls_config \<Rightarrow> tls_config" where
  "disableHTTP2 c = c\<lparr>tls_NextProtos := [''http/1.1'']\<rparr>"

definition tlsOpts :: "flags \<Rightarrow> (tls_config \<Rightarrow> tls_config) list" where
  "tlsOpts fl = (if \<not> fl_EnableHTTP2 fl then [disableHTTP2] else [])"

definition webhookServerOptions :: "flags \<Rightarrow> webhook_options" where
  "webhookServerOptions fl =
     (let o' = \<lparr>wo_TLSOpts = tlsOpts fl, wo_CertDir = [], wo_CertName = [], wo_KeyName = []\<rparr>
      in if length (fl_WebhookCertPath fl) > 0
         then o'\<lparr>wo_CertDir := fl_WebhookCertPath fl, wo_CertName := fl_WebhookCertName fl,
                wo_KeyName := fl_WebhookCertKey fl\<rparr>
         else o')"

definition metricsServerOptions :: "flags \<Rightarrow> metrics_options" where
  "metricsServerOptions fl =
     (let o' = \<lparr>mx_BindAddress = fl_MetricsAddr fl, mx_SecureServing = fl_SecureMetrics fl, mx_TLSOpts = tlsOpts fl,
                mx_FilterProvider = None, mx_CertDir = [], mx_CertName = [], mx_KeyName = []\<rparr>;
          o1 = (if fl_SecureMetrics fl
                then o'\<lparr>mx_FilterProvider := Some ''WithAuthenticationAndAuthorization''\<rparr> else o')
      in if length (fl_MetricsCertPath fl) > 0
         then o1\<lparr>mx_CertDir := fl_MetricsCertPath fl, mx_CertName := fl_MetricsCertName fl,
                mx_KeyName := fl_MetricsCertKey fl\<rparr>
         else o1)"

record manager_options =
  mg_Scheme :: scheme
  mg_Metrics :: metrics_options
  mg_WebhookServer :: webhook_options
  mg_HealthProbeBindAddress :: string
  mg_LeaderElection :: bool
  mg_LeaderElectionID :: string
  mg_LeaderElectionReleaseOnCancel :: bool

definition manager_options_of :: "flags \<Rightarrow> manager_options" where
  "manager_options_of fl =
     \<lparr>mg_Scheme = onboardingScheme, mg_Metrics = metricsServerOptions fl, mg_WebhookServer = webhookServerOptions fl,
      mg_HealthProbeBindAddress = fl_ProbeAddr fl, mg_LeaderElection = fl_LeaderElection fl,
      mg_LeaderElectionID = ''services.open-control-plane.io.metricsoperator'',
      mg_LeaderElectionReleaseOnCancel = True\<rparr>"

section \<open>The libraries\<close>

text \<open>A cluster of controller-utils, by its client and its connection.\<close>

record 'w cluster_access =
  ca_Client :: "'w client"
  ca_Config :: "rest_config option"

text \<open>The manager of cluster accesses, by what it is made from (durations in nanoseconds).\<close>

record 'w access_manager =
  am_Client :: "'w client"
  am_Group :: string
  am_Namespace :: string
  am_Interval :: int
  am_Timeout :: int

text \<open>What the process hands to the runtime: how it gets to the clusters, and the reconciler.\<close>

record access_setup =
  as_ProviderName :: string
  as_Local :: bool
  as_ManagedLabels :: "string \<Rightarrow> string \<Rightarrow> string \<Rightarrow> string \<Rightarrow> string \<times> string \<times> (string \<rightharpoonup> string)"
  as_Registrations :: "cluster_registration list"
  as_RetryInterval :: int

record 'w provider_setup =
  ps_Platform :: "'w cluster_access"
  ps_Onboarding :: "'w cluster_access option"
  ps_SecretNamespace :: string
  ps_Reconciler :: "'w reconciler"
  ps_Access :: access_setup
  ps_WorkloadCluster :: bool

text \<open>
  The calls into libraries, in the order of \<open>main\<close>. A cluster may be a nil pointer. The
  parser of flags gets the flags with their defaults and all arguments.
\<close>

record 'w main_lib =
  ml_Getenv :: "string \<Rightarrow> string"
  ml_FipsVerify :: "('w, unit) step"
  ml_ParseFlags :: "(string \<times> string) list \<Rightarrow> (string \<times> bool) list \<Rightarrow> string list \<Rightarrow>
      ('w, (string \<Rightarrow> string) \<times> (string \<Rightarrow> bool)) step"
  ml_GetLogger :: "('w, gerr option) step"
  ml_GetConfigOrDie :: "('w, rest_config) step"
  ml_InitializeClient :: "rest_config \<Rightarrow> scheme \<Rightarrow> ('w, gerr + 'w client) step"
  ml_EnvVariablePodNamespace :: string
  ml_CreateAndWaitForCluster :: "'w access_manager \<Rightarrow> string \<Rightarrow> string \<Rightarrow> scheme \<Rightarrow> permissions_request list \<Rightarrow>
      ('w, gerr option \<times> 'w cluster_access option) step"
  ml_StableRequestName :: "string \<Rightarrow> string \<Rightarrow> string"
  ml_MustPatchClusterClient :: "object \<Rightarrow> 'w cluster_access option \<Rightarrow> ('w, 'w cluster_access option) step"
  ml_CRDsFromFileSystem :: "string \<Rightarrow> gerr + object list"
  ml_CreateOrUpdateCRDs :: "string \<Rightarrow> (gerr + object list) \<Rightarrow> (string \<times> 'w cluster_access option) list \<Rightarrow>
      ('w, gerr option) step"
  ml_RegisterGVKs :: "'w client \<Rightarrow> string \<Rightarrow> gvk \<Rightarrow> ('w, gerr option) step"
  ml_RESTConfig :: "'w cluster_access option \<Rightarrow> ('w, rest_config option) step"
  ml_NewManager :: "rest_config option \<Rightarrow> manager_options \<Rightarrow> ('w, gerr option) step"
  ml_AddCluster :: "'w cluster_access \<Rightarrow> ('w, gerr option) step"
  ml_StableMCPNamespace :: "string \<Rightarrow> string \<Rightarrow> gerr + string"
  ml_MustBuild :: "'w provider_setup \<Rightarrow> ('w, unit) step"
  ml_SetupWithManager :: "string \<Rightarrow> ('w, gerr option) step"
  ml_AddHealthzCheck :: "string \<Rightarrow> ('w, gerr option) step"
  ml_AddReadyzCheck :: "string \<Rightarrow> ('w, gerr option) step"
  ml_Start :: "('w, gerr option) step"

section \<open>Access to the clusters\<close>

definition initializePlatformCluster :: "'w main_lib \<Rightarrow> ('w, gerr + 'w cluster_access) step" where
  "initializePlatformCluster L =
     and_then (ml_GetConfigOrDie L) (\<lambda>cfg.
     and_then (ml_InitializeClient L cfg platformScheme) (\<lambda>x. case x of
         Inl e \<Rightarrow> go_on (Inl e)
       | Inr c \<Rightarrow> go_on (Inr \<lparr>ca_Client = c, ca_Config = Some cfg\<rparr>)))"

text \<open>
  \<open>strings.ToLower\<close> of the value; no letter outside ASCII has a lower case letter of
  \<open>true\<close>, so lowering the ASCII letters decides the comparison.
\<close>

definition debugEnabled :: "'w main_lib \<Rightarrow> bool" where
  "debugEnabled L = (let v = map ascii_lower (ml_Getenv L ''DEV_DEBUG'') in v = ''1'' \<or> v = ''true'')"

definition patchOnboardingClient ::
    "'w main_lib \<Rightarrow> 'w cluster_access \<Rightarrow> 'w cluster_access option \<Rightarrow> string \<Rightarrow>
     ('w, gerr option \<times> 'w cluster_access option) step" where
  "patchOnboardingClient L platformCluster onboardingCluster cmdSuffix = (\<lambda>w.
     let onboardingAr = new_object (ml_StableRequestName L GroupName cmdSuffix) (ml_Getenv L ''POD_NAMESPACE'')
           (OtherObject ''AccessRequest'');
         ((err, ar), w1) = cl_get (ca_Client platformCluster) (object_key onboardingAr) onboardingAr w
     in case err of
          Some e \<Rightarrow> go_on (Some e, onboardingCluster) w1
        | None \<Rightarrow> and_then (ml_MustPatchClusterClient L ar onboardingCluster) (\<lambda>c. go_on (None, c)) w1)"

definition requestOnboardingClusterAccess ::
    "'w main_lib \<Rightarrow> 'w access_manager \<Rightarrow> 'w cluster_access \<Rightarrow> permissions_request list \<Rightarrow> string \<Rightarrow>
     ('w, gerr option \<times> 'w cluster_access option) step" where
  "requestOnboardingClusterAccess L mgr platformCluster permissions cmdSuffix =
     and_then (ml_CreateAndWaitForCluster L mgr (''onboarding-'' @ cmdSuffix) ''PURPOSE_ONBOARDING'' onboardingScheme
         permissions) (\<lambda>(err, cluster).
       if err \<noteq> None then go_on (err, cluster)
       else if debugEnabled L then patchOnboardingClient L platformCluster cluster (''onboarding-'' @ cmdSuffix)
       else go_on (None, cluster))"

definition cpClusterRequest :: "'w main_lib \<Rightarrow> cluster_registration" where
  "cpClusterRequest L =
     \<lparr>reg_Purpose = ''PURPOSE_MCP'', reg_LocalID = ''cp'',
      reg_Origin = ExistingCluster (\<lambda>name ns. case ml_StableMCPNamespace L name ns of
          Inl e \<Rightarrow> Inl e
        | Inr namespace \<Rightarrow> Inr (name, namespace)),
      reg_NamespaceGenerator = ''DefaultNamespaceGeneratorForMCP'', reg_TokenConfig = cpTokenAccessConfig,
      reg_Scheme = cpScheme\<rparr>"

definition workloadClusterRequest :: cluster_registration where
  "workloadClusterRequest =
     \<lparr>reg_Purpose = ''PURPOSE_WORKLOAD'', reg_LocalID = ''wl'', reg_Origin = NewCluster ''PURPOSE_WORKLOAD'',
      reg_NamespaceGenerator = ''DefaultNamespaceGeneratorForMCP'', reg_TokenConfig = workloadTokenAccessConfig,
      reg_Scheme = workloadScheme\<rparr>"

text \<open>The labels of a cluster request; the default generator's purpose is the third argument.\<close>

definition managed_labels :: "string \<Rightarrow> string \<Rightarrow> string \<Rightarrow> string \<Rightarrow> string \<times> string \<times> (string \<rightharpoonup> string)" where
  "managed_labels controllerName reqName reqNamespace managedPurpose =
     (controllerName, managedPurpose,
      [''OnboardingNameLabel'' \<mapsto> reqName, ''OnboardingNamespaceLabel'' \<mapsto> reqNamespace])"

definition clusterAccessReconciler :: "'w main_lib \<Rightarrow> string \<Rightarrow> access_setup" where
  "clusterAccessReconciler L providerName =
     \<lparr>as_ProviderName = providerName, as_Local = debugEnabled L, as_ManagedLabels = managed_labels,
      as_Registrations = [cpClusterRequest L, workloadClusterRequest], as_RetryInterval = 10 * 1000000000\<rparr>"

section \<open>The two commands\<close>

text \<open>What \<open>main\<close> has when it comes to the command.\<close>

record 'w started =
  st_Command :: string
  st_Flags :: flags
  st_Platform :: "'w cluster_access"
  st_PodNamespace :: string

definition start_up :: "'w main_lib \<Rightarrow> string list \<Rightarrow> ('w, 'w started) step" where
  "start_up L args =
     and_then (ml_FipsVerify L) (\<lambda>_.
     let (command, args') = split_command args in
     and_then (ml_ParseFlags L string_flags bool_flags args') (\<lambda>(text_of, is_set).
     and_then (or_exit (ml_GetLogger L)) (\<lambda>_.
     and_then (initializePlatformCluster L) (\<lambda>x. case x of
         Inl e \<Rightarrow> exit_with 1
       | Inr platformCluster \<Rightarrow>
           let podNamespace = ml_Getenv L (ml_EnvVariablePodNamespace L)
           in if podNamespace = [] then exit_with 1
              else go_on \<lparr>st_Command = command, st_Flags = read_flags text_of is_set, st_Platform = platformCluster,
                     st_PodNamespace = podNamespace\<rparr>))))"

definition clusterAccessManager :: "'w started \<Rightarrow> 'w access_manager" where
  "clusterAccessManager st =
     \<lparr>am_Client = ca_Client (st_Platform st), am_Group = GroupName, am_Namespace = st_PodNamespace st,
      am_Interval = 10 * 1000000000, am_Timeout = 30 * 60 * 1000000000\<rparr>"

definition CRDs :: "'w main_lib \<Rightarrow> gerr + object list" where
  "CRDs L = ml_CRDsFromFileSystem L ''manifests''"

text \<open>\<open>init\<close>: an error of a call is only logged.\<close>

definition init_command :: "'w main_lib \<Rightarrow> 'w started \<Rightarrow> ('w, unit) step" where
  "init_command L st =
     and_then (requestOnboardingClusterAccess L (clusterAccessManager st) (st_Platform st) initPermissions ''init'')
       (\<lambda>(accessErr, onboardingCluster).
     and_then (ml_CreateOrUpdateCRDs L ''ClusterLabel'' (CRDs L)
         [(''PURPOSE_PLATFORM'', Some (st_Platform st)), (''PURPOSE_ONBOARDING'', onboardingCluster)]) (\<lambda>crdErr.
     and_then (ml_RegisterGVKs L (ca_Client (st_Platform st)) (fl_ProviderName (st_Flags st))
         \<lparr>gvk_Group = GroupName, gvk_Version = ''v1alpha1'', gvk_Kind = ''MetricsOperator''\<rparr>) (\<lambda>registerErr.
     go_on ())))"

definition provider_setup_of :: "'w main_lib \<Rightarrow> 'w started \<Rightarrow> 'w cluster_access option \<Rightarrow> 'w provider_setup" where
  "provider_setup_of L st onboardingCluster =
     \<lparr>ps_Platform = st_Platform st, ps_Onboarding = onboardingCluster, ps_SecretNamespace = st_PodNamespace st,
      ps_Reconciler = \<lparr>rec_PlatformClient = ca_Client (st_Platform st), rec_PlatformConfig = ca_Config (st_Platform st),
        rec_PodNamespace = st_PodNamespace st\<rparr>,
      ps_Access = clusterAccessReconciler L (fl_ProviderName (st_Flags st)), ps_WorkloadCluster = True\<rparr>"

text \<open>Any other command: here too an error of the access request is only logged.\<close>

definition run_command :: "'w main_lib \<Rightarrow> 'w started \<Rightarrow> ('w, unit) step" where
  "run_command L st =
     and_then (requestOnboardingClusterAccess L (clusterAccessManager st) (st_Platform st) runPermissions ''run'')
       (\<lambda>(accessErr, onboardingCluster).
     and_then (ml_RESTConfig L onboardingCluster) (\<lambda>cfg.
     and_then (or_exit (ml_NewManager L cfg (manager_options_of (st_Flags st)))) (\<lambda>_.
     and_then (or_exit (ml_AddCluster L (st_Platform st))) (\<lambda>_.
     and_then (ml_MustBuild L (provider_setup_of L st onboardingCluster)) (\<lambda>_.
     and_then (or_exit (ml_SetupWithManager L (fl_ProviderName (st_Flags st)))) (\<lambda>_.
     and_then (or_exit (ml_AddHealthzCheck L ''healthz'')) (\<lambda>_.
     and_then (or_exit (ml_AddReadyzCheck L ''readyz'')) (\<lambda>_.
     or_exit (ml_Start L)))))))))"

text \<open>The whole of \<open>main\<close>, with the way the process ends.\<close>

definition main_process :: "'w main_lib \<Rightarrow> string list \<Rightarrow> 'w \<Rightarrow> ending \<times> 'w" where
  "main_process L args w =
     (case and_then (start_up L args) (\<lambda>st. if st_Command st = ''init'' then init_command L st else run_command L st) w of
        (Inl e, w') \<Rightarrow> (e, w')
      | (Inr x, w') \<Rightarrow> (Exit 0, w'))"

section \<open>How the process comes to its end\<close>

lemma main_process_started:
  assumes "start_up L args w = (Inr st, w0)"
  shows "main_process L args w =
    (case (if st_Command st = ''init'' then init_command L st else run_command L st) w0 of
       (Inl e, w') \<Rightarrow> (e, w')
     | (Inr x, w') \<Rightarrow> (Exit 0, w'))"
  unfolding main_process_def and_then_Inr [where m = "start_up L args", OF assms] ..

lemma run_commandE:
  assumes "run_command L st w = (Inr x, w')"
  obtains onboarding w1 w2 w3 where "ml_MustBuild L (provider_setup_of L st onboarding) w1 = (Inr (), w2)"
    "ml_Start L w3 = (Inr None, w')"
  using assms by (clarsimp simp: run_command_def and_then_Inr_iff or_exit_Inr_iff split: prod.splits)

lemma start_upE:
  assumes "start_up L args w = (Inr st, w')"
  obtains "st_Command st = fst (split_command args)" "st_PodNamespace st = ml_Getenv L (ml_EnvVariablePodNamespace L)"
    "st_PodNamespace st \<noteq> []"
  using assms
  by (auto simp: start_up_def and_then_Inr_iff or_exit_Inr_iff exit_on_error_Inr_iff go_on_iff exit_with_not_Inr Let_def
      split: prod.splits if_splits)

lemma requestOnboardingClusterAccess_returns:
  assumes "\<And>m id p s ps. returns (ml_CreateAndWaitForCluster L m id p s ps)"
    and "\<And>ar c. returns (ml_MustPatchClusterClient L ar c)"
  shows "returns (requestOnboardingClusterAccess L mgr platform ps cmd)"
proof -
  have "returns (patchOnboardingClient L platform c id)" for c id
    unfolding returns_def
  proof
    fix w
    let ?ar = "new_object (ml_StableRequestName L GroupName id) (ml_Getenv L ''POD_NAMESPACE'') (OtherObject ''AccessRequest'')"
    obtain err ar w1 where get: "cl_get (ca_Client platform) (object_key ?ar) ?ar w = ((err, ar), w1)"
      by (metis prod.exhaust)
    obtain c' w2 where "ml_MustPatchClusterClient L ar c w1 = (Inr c', w2)" using assms(2) unfolding returns_def by blast
    with get show "\<exists>x w'. patchOnboardingClient L platform c id w = (Inr x, w')"
      by (cases err) (simp_all add: patchOnboardingClient_def step_simps)
  qed
  then show ?thesis
    unfolding requestOnboardingClusterAccess_def by (intro returns_and_then assms(1)) (auto split: prod.splits)
qed

lemma init_command_returns:
  assumes "\<And>m id p s ps. returns (ml_CreateAndWaitForCluster L m id p s ps)"
    "\<And>ar c. returns (ml_MustPatchClusterClient L ar c)"
    "\<And>label crds cs. returns (ml_CreateOrUpdateCRDs L label crds cs)" "\<And>c n g. returns (ml_RegisterGVKs L c n g)"
  shows "returns (init_command L st)"
  unfolding init_command_def
  by (intro returns_and_then requestOnboardingClusterAccess_returns assms(1,2))
     (auto intro!: returns_and_then assms(3,4) split: prod.splits)

text \<open>The servers do not speak HTTP/2 unless they are told to.\<close>

lemma servers_speak_http1:
  assumes "\<not> fl_EnableHTTP2 fl"
  shows "tls_NextProtos (fold (\<lambda>f. f) (wo_TLSOpts (mg_WebhookServer (manager_options_of fl))) c) = [''http/1.1'']"
    "tls_NextProtos (fold (\<lambda>f. f) (mx_TLSOpts (mg_Metrics (manager_options_of fl))) c) = [''http/1.1'']"
  using assms
  by (simp_all add: manager_options_of_def webhookServerOptions_def metricsServerOptions_def tlsOpts_def disableHTTP2_def Let_def)

end
