(* ===== verification/Process_Properties.thy ===== *)
theory Process_Properties
  imports Process Installed_Properties
begin

text \<open>
  The properties of the process: what its exit code says, and that the clusters' schemes
  know the types of all objects the controller handles there.
\<close>

section \<open>Libraries that do not end the process quietly\<close>

text \<open>A step that never ends the process with exit code 0; the steps of the process are such.\<close>

definition loud :: "('w, 'a) step \<Rightarrow> bool" where
  "loud m \<longleftrightarrow> (\<forall>w w'. m w \<noteq> (Inl (Exit 0), w'))"

lemma loudI: "(\<And>w w'. m w = (Inl (Exit 0), w') \<Longrightarrow> False) \<Longrightarrow> loud m"
  unfolding loud_def by blast

lemma loud_results [simp]: "loud (go_on x)" "loud (exit_with (Suc n))"
  by (simp_all add: loud_def go_on_def exit_with_def)

lemma loud_and_then:
  assumes "loud m" "\<And>x. loud (k x)"
  shows "loud (and_then m k)"
proof (rule loudI)
  fix w w'
  assume quiet: "and_then m k w = (Inl (Exit 0), w')"
  obtain y w1 where m: "m w = (y, w1)" by (metis prod.exhaust)
  show False using assms quiet m by (cases y) (auto simp: and_then_def loud_def)
qed

lemma loud_or_exit: "loud m \<Longrightarrow> loud (or_exit m)"
  unfolding or_exit_def by (intro loud_and_then) auto

lemma loud_branches:
  "(\<And>a b. loud (k a b)) \<Longrightarrow> loud (case x of (a, b) \<Rightarrow> k a b)"
  "(\<And>e. loud (f e)) \<Longrightarrow> (\<And>y. loud (g y)) \<Longrightarrow> loud (case z of Inl e \<Rightarrow> f e | Inr y \<Rightarrow> g y)"
  "loud m \<Longrightarrow> loud n \<Longrightarrow> loud (if c then m else n)"
  by (auto split: prod.splits sum.splits)

lemmas loud_rules = loud_results loud_branches loud_and_then loud_or_exit

text \<open>
  The calls of \<open>main\<close> into the libraries. Parsing the flags is left out: it ends the
  process with exit code 0 when the arguments ask for help.
\<close>

locale loud_libraries =
  fixes L :: "'w main_lib"
  assumes fips: "loud (ml_FipsVerify L)" and logger: "loud (ml_GetLogger L)"
    and config: "loud (ml_GetConfigOrDie L)" and client: "loud (ml_InitializeClient L cfg sch)"
    and access: "loud (ml_CreateAndWaitForCluster L am lid purpose sch ps)"
    and patch: "loud (ml_MustPatchClusterClient L ar oc)" and rest: "loud (ml_RESTConfig L oc)"
    and manager: "loud (ml_NewManager L cf opts)" and add: "loud (ml_AddCluster L c)"
    and build: "loud (ml_MustBuild L setup)" and wire: "loud (ml_SetupWithManager L name)"
    and healthz: "loud (ml_AddHealthzCheck L name)" and readyz: "loud (ml_AddReadyzCheck L name)"
    and start: "loud (ml_Start L)"
begin

lemma start_up_loud:
  assumes "loud (ml_ParseFlags L string_flags bool_flags (snd (split_command args)))"
  shows "loud (start_up L args)"
proof -
  have "loud (initializePlatformCluster L)"
    unfolding initializePlatformCluster_def by (intro loud_rules config client)
  then show ?thesis
    using assms unfolding start_up_def Let_def One_nat_def
    by (cases "split_command args") (simp, intro loud_rules fips logger)
qed

lemma request_loud: "loud (requestOnboardingClusterAccess L mgr platform ps cmd)"
proof -
  have "loud (patchOnboardingClient L platform c lid)" for c lid
  proof (rule loudI)
    fix w w'
    assume quiet: "patchOnboardingClient L platform c lid w = (Inl (Exit 0), w')"
    let ?ar = "new_object (ml_StableRequestName L GroupName lid) (ml_Getenv L ''POD_NAMESPACE'') (OtherObject ''AccessRequest'')"
    obtain err ar w1 where get: "cl_get (ca_Client platform) (object_key ?ar) ?ar w = ((err, ar), w1)"
      by (metis prod.exhaust)
    have "loud (and_then (ml_MustPatchClusterClient L ar c) (\<lambda>c. go_on (None :: gerr option, c)))"
      by (intro loud_and_then patch) simp
    with quiet get show False
      by (cases err) (simp_all add: patchOnboardingClient_def loud_def go_on_def)
  qed
  then show ?thesis
    unfolding requestOnboardingClusterAccess_def by (intro loud_rules access)
qed

lemma run_loud: "loud (run_command L st)"
  unfolding run_command_def
  by (intro loud_rules request_loud rest manager add build wire healthz readyz start)

text \<open>The process ends well only after the manager has been stopped without an error.\<close>

lemma ends_well:
  assumes "main_process L args w = (Exit 0, w')" "fst (split_command args) \<noteq> ''init''"
    "loud (ml_ParseFlags L string_flags bool_flags (snd (split_command args)))"
  obtains st w0 onboarding w1 w2 w3 where "start_up L args w = (Inr st, w0)"
    "ml_MustBuild L (provider_setup_of L st onboarding) w1 = (Inr (), w2)" "ml_Start L w3 = (Inr None, w')"
proof -
  obtain z w0 where up: "start_up L args w = (z, w0)" by (metis prod.exhaust)
  show thesis
  proof (cases z)
    case (Inl e)
    then show ?thesis
      using up assms(1) start_up_loud [OF assms(3)] by (simp add: main_process_def and_then_def loud_def)
  next
    case (Inr st)
    with up have st: "start_up L args w = (Inr st, w0)" by simp
    have "st_Command st \<noteq> ''init''" using st assms(2) by (auto elim: start_upE)
    then have "run_command L st w0 = (Inr (), w')"
      using assms(1) run_loud [of st] unfolding main_process_started [OF st] loud_def
      by (auto split: prod.splits sum.splits)
    then show ?thesis by (rule run_commandE) (rule that [OF st])
  qed
qed

end

section \<open>The example\<close>

text \<open>Libraries that answer at once; the first argument is the answer of the CRD manager.\<close>

definition ref_main :: "gerr option \<Rightarrow> ref_world main_lib" where
  "ref_main crd_err =
     \<lparr>ml_Getenv = (\<lambda>v. if v = ''POD_NAMESPACE'' then ''openmcp-system'' else []), ml_FipsVerify = go_on (),
      ml_ParseFlags = (\<lambda>ss bs args. go_on (\<lambda>n. case map_of ss n of Some v \<Rightarrow> v | None \<Rightarrow> [],
        \<lambda>n. case map_of bs n of Some b \<Rightarrow> b | None \<Rightarrow> False)),
      ml_GetLogger = go_on None, ml_GetConfigOrDie = go_on \<lparr>rc_Host = ''https://platform'', rc_CAData = [], rc_CAFile = []\<rparr>,
      ml_InitializeClient = (\<lambda>cfg sch. go_on (Inr (ref_client 0))), ml_EnvVariablePodNamespace = ''POD_NAMESPACE'',
      ml_CreateAndWaitForCluster = (\<lambda>am lid purpose sch ps. go_on (None, Some \<lparr>ca_Client = ref_client 3, ca_Config = None\<rparr>)),
      ml_StableRequestName = (\<lambda>g n. n), ml_MustPatchClusterClient = (\<lambda>ar c. go_on c),
      ml_CRDsFromFileSystem = (\<lambda>d. Inr []), ml_CreateOrUpdateCRDs = (\<lambda>lbl crds cs. go_on crd_err),
      ml_RegisterGVKs = (\<lambda>c n g. go_on None), ml_RESTConfig = (\<lambda>c. go_on None),
      ml_NewManager = (\<lambda>cfg opts. go_on None), ml_AddCluster = (\<lambda>c. go_on None),
      ml_StableMCPNamespace = lib_StableMCPNamespace (ref_lib :: ref_world runtime_lib), ml_MustBuild = (\<lambda>setup. go_on ()),
      ml_SetupWithManager = (\<lambda>n. go_on None), ml_AddHealthzCheck = (\<lambda>n. go_on None),
      ml_AddReadyzCheck = (\<lambda>n. go_on None), ml_Start = go_on None\<rparr>"

interpretation refloud: loud_libraries "ref_main crd_err" for crd_err
  by unfold_locales (simp_all add: ref_main_def)

definition ex_started :: "string \<Rightarrow> ref_world started" where
  "ex_started command =
     \<lparr>st_Command = command,
      st_Flags = \<lparr>fl_Environment = [], fl_ProviderName = ''metrics-operator'', fl_MetricsAddr = ''0'', fl_ProbeAddr = '':8081'',
        fl_LeaderElection = False, fl_SecureMetrics = True, fl_WebhookCertPath = [], fl_WebhookCertName = ''tls.crt'',
        fl_WebhookCertKey = ''tls.key'', fl_MetricsCertPath = [], fl_MetricsCertName = ''tls.crt'',
        fl_MetricsCertKey = ''tls.key'', fl_EnableHTTP2 = False\<rparr>,
      st_Platform = \<lparr>ca_Client = ref_client 0,
        ca_Config = Some \<lparr>rc_Host = ''https://platform'', rc_CAData = [], rc_CAFile = []\<rparr>\<rparr>,
      st_PodNamespace = ''openmcp-system''\<rparr>"

lemma ex_start_up: "start_up (ref_main crd_err) [''sp'', command] w = (Inr (ex_started command), w)"
  by (simp add: start_up_def ref_main_def initializePlatformCluster_def and_then_go_on or_exit_go_on)
     (simp add: go_on_def string_flags_def bool_flags_def read_flags_def ex_started_def)

section \<open>The exit code\<close>

text \<open>
  C36: once \<open>init\<close> has access to the onboarding cluster, it ends with exit code 0 whatever errors
  the CRDs and the registration of the service provider return: these errors are only logged,
  so a job that runs the command counts as complete. (Without the access the CRD manager is
  handed a nil cluster; what it does with it is its own affair.)
\<close>

theorem init_hides_failures:
  assumes "start_up L args w = (Inr st, w1)" "fst (split_command args) = ''init''"
    "requestOnboardingClusterAccess L (clusterAccessManager st) (st_Platform st) initPermissions ''init'' w1 =
       (Inr (None, Some onboarding), w2)"
    "ml_CreateOrUpdateCRDs L ''ClusterLabel'' (CRDs L)
       [(''PURPOSE_PLATFORM'', Some (st_Platform st)), (''PURPOSE_ONBOARDING'', Some onboarding)] w2 = (Inr crdErr, w3)"
    "ml_RegisterGVKs L (ca_Client (st_Platform st)) (fl_ProviderName (st_Flags st))
       \<lparr>gvk_Group = GroupName, gvk_Version = ''v1alpha1'', gvk_Kind = ''MetricsOperator''\<rparr> w3 = (Inr registerErr, w4)"
  shows "main_process L args w = (Exit 0, w4)"
proof -
  have command: "st_Command st = ''init''" using assms(1,2) by (auto elim: start_upE)
  have "init_command L st w1 = (Inr (), w4)"
    unfolding init_command_def using assms(3-5) by (simp add: and_then_def go_on_def)
  then show ?thesis by (simp add: main_process_started [OF assms(1)] command)
qed

text \<open>A platform on which both calls fail.\<close>

definition ex_failing :: "ref_world main_lib" where
  "ex_failing = (ref_main (Some (EMsg ''forbidden'')))\<lparr>ml_RegisterGVKs := (\<lambda>c n g. go_on (Some (EMsg ''no provider'')))\<rparr>"

lemma ex_failing_start_up: "start_up ex_failing [''sp'', command] w = (Inr (ex_started command), w)"
  by (simp add: start_up_def ex_failing_def ref_main_def initializePlatformCluster_def and_then_go_on or_exit_go_on)
     (simp add: go_on_def string_flags_def bool_flags_def read_flags_def ex_started_def)

lemma init_hides_failures_witness:
  "(\<forall>lbl crds cs w. ml_CreateOrUpdateCRDs ex_failing lbl crds cs w = (Inr (Some (EMsg ''forbidden'')), w)) \<and>
   (\<forall>c n g w. ml_RegisterGVKs ex_failing c n g w = (Inr (Some (EMsg ''no provider'')), w)) \<and>
   main_process ex_failing [''sp'', ''init''] (ex_clusters []) = (Exit 0, ex_clusters [])"
proof (intro conjI allI)
  show crd: "ml_CreateOrUpdateCRDs ex_failing lbl crds cs w = (Inr (Some (EMsg ''forbidden'')), w)" for lbl crds cs w
    by (simp add: ex_failing_def ref_main_def go_on_def)
  show reg: "ml_RegisterGVKs ex_failing c n g w = (Inr (Some (EMsg ''no provider'')), w)" for c n g w
    by (simp add: ex_failing_def go_on_def)
  have access: "requestOnboardingClusterAccess ex_failing (clusterAccessManager (ex_started ''init'')) (st_Platform (ex_started ''init''))
      initPermissions ''init'' w = (Inr (None, Some \<lparr>ca_Client = ref_client 3, ca_Config = None\<rparr>), w)" for w
    by (simp add: requestOnboardingClusterAccess_def debugEnabled_def ex_failing_def ref_main_def and_then_go_on)
       (simp add: go_on_def)
  show "main_process ex_failing [''sp'', ''init''] (ex_clusters []) = (Exit 0, ex_clusters [])"
    by (rule init_hides_failures [OF ex_failing_start_up _ access crd reg]) simp
qed

text \<open>
  C35: with any other command, exit code 0 means that the controller ran and was stopped
  without an error, with a reconciler that knows its own name space: the one in the
  environment, which is not empty.
\<close>

theorem process_ends_well_only_when_stopped:
  assumes "loud_libraries L" "loud (ml_ParseFlags L string_flags bool_flags (snd (split_command args)))"
    "fst (split_command args) \<noteq> ''init''" "main_process L args w = (Exit 0, w')"
  shows "ml_Getenv L (ml_EnvVariablePodNamespace L) \<noteq> [] \<and>
    (\<exists>setup w1 w2 w3. ml_MustBuild L setup w1 = (Inr (), w2) \<and>
       rec_PodNamespace (ps_Reconciler setup) = ml_Getenv L (ml_EnvVariablePodNamespace L) \<and>
       ml_Start L w3 = (Inr None, w'))"
proof (rule loud_libraries.ends_well [OF assms(1,4,3,2)])
  fix st w0 onboarding w1 w2 w3
  assume "start_up L args w = (Inr st, w0)"
    and build: "ml_MustBuild L (provider_setup_of L st onboarding) w1 = (Inr (), w2)"
    and start: "ml_Start L w3 = (Inr None, w')"
  then have "st_PodNamespace st = ml_Getenv L (ml_EnvVariablePodNamespace L)" "st_PodNamespace st \<noteq> []"
    by (auto elim: start_upE)
  with build start show ?thesis
    by (intro conjI exI [of _ "provider_setup_of L st onboarding"] exI [of _ w1] exI [of _ w2] exI [of _ w3])
       (simp_all add: provider_setup_of_def)
qed

lemma process_ends_well_only_when_stopped_witness:
  "main_process (ref_main None) [''sp'', ''run''] (ex_clusters []) = (Exit 0, ex_clusters []) \<and>
   (\<exists>setup w1 w2. ml_MustBuild (ref_main None) setup w1 = (Inr (), w2) \<and>
      rec_PodNamespace (ps_Reconciler setup) = ''openmcp-system'')"
proof
  show run: "main_process (ref_main None) [''sp'', ''run''] (ex_clusters []) = (Exit 0, ex_clusters [])"
    by (simp add: main_process_started [OF ex_start_up] ex_started_def)
       (simp add: run_command_def requestOnboardingClusterAccess_def debugEnabled_def ref_main_def and_then_go_on or_exit_go_on,
        simp add: and_then_def go_on_def)
  have parse: "loud (ml_ParseFlags (ref_main None) string_flags bool_flags (snd (split_command [''sp'', ''run''])))"
    by (simp add: ref_main_def)
  have env: "ml_Getenv (ref_main None) (ml_EnvVariablePodNamespace (ref_main None)) = ''openmcp-system''"
    by (simp add: ref_main_def)
  show "\<exists>setup w1 w2. ml_MustBuild (ref_main None) setup w1 = (Inr (), w2) \<and>
      rec_PodNamespace (ps_Reconciler setup) = ''openmcp-system''"
    using process_ends_well_only_when_stopped [OF refloud.loud_libraries_axioms parse _ run] env by auto
qed

section \<open>The schemes\<close>

text \<open>The scheme of a cluster's client: the platform's, or that of the registration.\<close>

definition scheme_of :: "'w main_lib \<Rightarrow> string \<Rightarrow> scheme" where
  "scheme_of L rl =
     (if rl = PlatformCluster then platformScheme
      else if rl = WorkloadCluster then reg_Scheme workloadClusterRequest else reg_Scheme (cpClusterRequest L))"

text \<open>
  C34: every object the manager of a request holds is of a type that the scheme of its
  cluster knows. The types a package registers are an argument; that the packages register
  their own types is the hypothesis.
\<close>

theorem schemes_cover_the_inventory:
  assumes "{''Secret'', ''ConfigMap'', ''Namespace'', ''ServiceAccount'', ''ClusterRoleBinding''} \<subseteq> registers ''clientgoscheme''"
    "''OCIRepository'' \<in> registers ''sourcev1''" "''HelmRelease'' \<in> registers ''v2''"
    "createObjectManager X rc obj pc ctx w = (ok (mgr, r), obj1, w1)"
    "prepareInputs X obj pc w = (Inr (tns, mv, hv), obj1, w1)"
  shows "\<forall>(mc, m) \<in> set (managed_pairs (mgr_clusters mgr)).
    \<exists>package \<in> set (scheme_of L (c_clusterType mc)). kind_of (GetObject r m) \<in> registers package"
proof -
  have kinds: "\<exists>package \<in> set (scheme_of L rl). k \<in> registers package"
    if "(rl, k, key) \<in> set (inventory tns ins mns chart pulls ca)" for rl k key ins mns chart pulls ca
    using that assms(1-3)
    by (auto simp: inventory_def scheme_of_def platformScheme_def workloadClusterRequest_def workloadScheme_def
        cpClusterRequest_def cpScheme_def PlatformCluster_def WorkloadCluster_def ControlPlane_def
        split: option.splits if_splits)
  from manager_inventory [OF assms(4,5)] obtain chart where inv:
    "map (\<lambda>(mc, m). (c_clusterType mc, kind_of (GetObject r m), object_key (GetObject r m))) (managed_pairs (mgr_clusters mgr)) =
     inventory tns (Instance_Namespace obj1) (metrics_namespace hv) chart (hv_ImagePullSecrets hv) (pc_CABundleRef pc \<noteq> None)"
    by blast
  show ?thesis
  proof (clarify)
    fix mc m
    assume "(mc, m) \<in> set (managed_pairs (mgr_clusters mgr))"
    then have "(c_clusterType mc, kind_of (GetObject r m), object_key (GetObject r m)) \<in>
        set (inventory tns (Instance_Namespace obj1) (metrics_namespace hv) chart (hv_ImagePullSecrets hv) (pc_CABundleRef pc \<noteq> None))"
      unfolding inv [symmetric] by force
    then show "\<exists>package \<in> set (scheme_of L (c_clusterType mc)). kind_of (GetObject r m) \<in> registers package"
      by (rule kinds)
  qed
qed

text \<open>The types of the packages, as their documentation has them.\<close>

definition ex_registers :: "string \<Rightarrow> string set" where
  "ex_registers package =
     (if package = ''clientgoscheme''
      then {''Secret'', ''ConfigMap'', ''Namespace'', ''ServiceAccount'', ''ClusterRoleBinding''}
      else if package = ''sourcev1'' then {''OCIRepository''} else if package = ''v2'' then {''HelmRelease''} else {})"

lemma schemes_cover_the_inventory_witness:
  "\<exists>(mgr :: ref_world manager) r obj1. createObjectManager ex_outside ex_rc (SetPhase ''Progressing'' (ex_mo ''v1'')) ex_pc ex_ctx ex_sources =
     (ok (mgr, r), obj1, ex_sources) \<and>
   (\<forall>(mc, m) \<in> set (managed_pairs (mgr_clusters mgr)).
      \<exists>package \<in> set (scheme_of (ref_main None) (c_clusterType mc)). kind_of (GetObject r m) \<in> ex_registers package)"
proof (rule ex_make [of "''Progressing''" ex_sources])
  fix mgr :: "ref_world manager" and r
  assume make: "createObjectManager ex_outside ex_rc (SetPhase ''Progressing'' (ex_mo ''v1'')) ex_pc ex_ctx ex_sources =
      (ok (mgr, r), SetPhase ''Progressing'' (ex_mo ''v1''), ex_sources)"
  have "\<forall>(mc, m) \<in> set (managed_pairs (mgr_clusters mgr)).
      \<exists>package \<in> set (scheme_of (ref_main None) (c_clusterType mc)). kind_of (GetObject r m) \<in> ex_registers package"
    by (rule schemes_cover_the_inventory [OF _ _ _ make ex_inputs]) (simp_all add: ex_registers_def)
  with make show ?thesis by blast
qed

end
