(* ===== verification/Findings.thy ===== *)
theory Findings
  imports First_Call Process_Properties
begin

text \<open>
  Behaviour of the code that its authors may not want: small lemmas on single functions, and
  one on the delete handler. The larger ones are properties in the theories of their parts.
\<close>

text \<open>
  \<open>pkg/metricsoperator/flux/flux.go\<close>: the repository is pulled without TLS when the text
  "local" is anywhere in the URL.
\<close>

lemma str_contains_middle: "str_contains (pre @ sub @ post) sub"
  by (auto simp: str_contains_sublist sublist_def)

lemma local_anywhere_is_insecure: "oci_Insecure (oci_spec p (pre @ ''local'' @ post))"
proof -
  have "insecure_url (pre @ ''local'' @ post)" by (simp only: insecure_url_def str_contains_middle simp_thms)
  then show ?thesis by (simp add: oci_spec_def Let_def)
qed

lemma localized_host_is_insecure: "insecure_url ''oci://registry.localized.example/metrics-operator''"
  using str_contains_middle [of "''oci://registry.''" "''local''" "''ized.example/metrics-operator''"]
  by (simp add: insecure_url_def)

text \<open>
  \<open>pkg/metricsoperator/authn/serviceaccount.go\<close>: a new token secret names the default name space
  of the control plane, whatever name space the service account is in.
\<close>

lemma token_names_default_namespace:
  assumes "token_reconcile env (new_control_plane ctx) msa poll o' w = (Ret None, o'', w')"
    and "token_expires env poll o' w" "o_Body o' = Secret d t"
  shows "\<exists>data. o_Body o'' = Secret (Some data) t \<and> data ''namespace'' = Some DefaultNamespace"
  using assms
  by (auto simp: token_reconcile_def setTokenExpirationTime_def Let_def new_control_plane_def NewManagedCluster_def
      split: sum.splits prod.splits)

text \<open>
  \<open>internal/controller/metricsoperator_controller.go\<close>: \<open>Delete\<close> looks at the results before it
  looks at the error of the pass, so an error of the cleaners is dropped when all is deleted.
\<close>

lemma cleaner_error_is_dropped:
  assumes "BlockingKinds (out_api X) (ctx_MCPClient ctx) w = (Inr [], w0)"
    and "createObjectManager X rc (lib_StatusTerminating (out_lib X) obj) pc ctx w0 = (ok (mgr, r), obj1, w1)"
    and "Delete_all (out_api X) mgr r = (Ret (results, Some err), r')" "AllDeleted results"
    and "resultsToResources results r' = Ret (resources, bad)"
  shows "fst (Delete_handler X rc obj pc ctx w) = Ret (0, None)"
  using assms by (simp add: Delete_handler_def Let_def)

text \<open>\<open>cmd/service-provider-metrics-operator/main.go\<close>: a first argument that is a flag is not parsed as one.\<close>

lemma first_flag_is_the_command: "split_command (program # ''--enable-http2'' # rest) = (''--enable-http2'', program # rest)"
  by simp

end
