(* ===== verification/Cleaner_Properties.thy ===== *)
theory Cleaner_Properties
  imports Manager_Properties Secrets Config_Maps
begin

text \<open>
  The properties of the orphan cleaners and of the copies of secrets and config maps,
  with an example cluster: a wanted copy, an old one, and a secret somebody else made.
\<close>

section \<open>The example\<close>

definition ex_labelled :: "string \<Rightarrow> body \<Rightarrow> object" where
  "ex_labelled name b = SetManagedBy (new_object name ''ns'' b)"

definition ex_stored :: "object list" where
  "ex_stored = [ex_labelled ''wanted'' (Secret None []), ex_labelled ''old'' (Secret None []),
     new_object ''foreign'' ''ns'' (Secret None []), ex_labelled ''ca'' (ConfigMap None)]"

definition ex_target :: "ref_world managed_cluster" where
  "ex_target = NewManagedCluster (ref_client 0) None ''ns'' WorkloadCluster"

lemma ex_target_client [simp]: "c_client ex_target = ref_client 0"
  by (simp add: ex_target_def NewManagedCluster_def)

lemmas ex_clean_simps =
  hookless_cleanup_def ex_run_def ex_world_def ex_stored_def
  ex_labelled_def ref_list_def ref_delete_def ref_view_def ref_set_store_def same_object_def
  object_key_def to_keep_def SetManagedBy_def matches_labels_def ManagedBy_def
  Let_def new_object_def LabelManagedBy_def LabelManagedByValue_def

lemma ex_clean_secrets:
  "\<exists>r'. secret_Cleanup ref_api (NewSecretCleaner ex_target ''ns'' [''wanted'']) (ex_run ex_stored) = (Inr [], r')"
  unfolding secret_Cleanup_hookless by (simp add: NewSecretCleaner_def ex_clean_simps)

lemma ex_clean_config_maps:
  "\<exists>r'. configMap_Cleanup ref_api (NewConfigMapCleaner ex_target ''ns'' []) (ex_run ex_stored) = (Inr [], r')"
  unfolding configMap_Cleanup_hookless by (simp add: NewConfigMapCleaner_def ex_clean_simps)

section \<open>The cleaners\<close>

text \<open>
  C22: the secret cleaner deletes exactly the listed secrets whose names are not to be
  kept, in the order of the list and each once, whatever the deletions before gave; each
  deletion that fails (other than with not-found) gives one failed result on that secret
  with that error, in the same order, and there are no other results. It returns an error
  only when the list fails, and then it is the user-facing one.
\<close>

theorem secret_cleanup_is_exact:
  "case cl_list (c_client (sc_cluster c)) ''Secret'' (sc_namespace c) ManagedBy (r_world r) of
     (Inl e, w) \<Rightarrow> secret_Cleanup api c r = (Inl (ESentinel ErrSecretCleanup), r\<lparr>r_world := w\<rparr>)
   | (Inr items, w) \<Rightarrow>
       (\<exists>results r'. secret_Cleanup api c r = (Inr results, r') \<and>
          r_world r' = snd (delete_each (c_client (sc_cluster c))
            (filter (\<lambda>s. o_Name s \<notin> set (sc_secretsToKeep c)) items) w) \<and>
          map (\<lambda>y. (GetObject r' (res_Object y), res_Error y)) results =
            filter (\<lambda>(s, e). IgnoreNotFound api e \<noteq> None)
              (fst (delete_each (c_client (sc_cluster c))
                 (filter (\<lambda>s. o_Name s \<notin> set (sc_secretsToKeep c)) items) w)) \<and>
          (\<forall>y \<in> set results. res_Cluster y = sc_cluster c \<and>
             res_OperationResult y = OperationResultDeletionFailed))"
proof -
  obtain x w where l: "cl_list (c_client (sc_cluster c)) ''Secret'' (sc_namespace c) ManagedBy (r_world r) =
      (x, w)"
    by fastforce
  obtain y r' where run: "secret_Cleanup api c r = (y, r')" by fastforce
  show ?thesis
  proof (rule hookless_cleanup_parts [OF run [unfolded secret_Cleanup_hookless]])
    fix e w'
    assume "cl_list (c_client (sc_cluster c)) ''Secret'' (sc_namespace c) ManagedBy (r_world r) = (Inl e, w')"
      "y = Inl (ESentinel ErrSecretCleanup)" "r' = r\<lparr>r_world := w'\<rparr>"
    with run show ?thesis by simp
  next
    fix objs w1 deleted w' results
    assume l1: "cl_list (c_client (sc_cluster c)) ''Secret'' (sc_namespace c) ManagedBy (r_world r) =
        (Inr objs, w1)"
      and d: "delete_each (c_client (sc_cluster c))
        (filter (\<lambda>x. \<not> to_keep (sc_secretsToKeep c) x) objs) w1 = (deleted, w')"
      and fr: "failed_results secret_cleanupErrorStatus (sc_cluster c)
        (filter (\<lambda>(x, e). IgnoreNotFound api e \<noteq> None) deleted) (r\<lparr>r_world := w'\<rparr>) = (results, r')"
      and y: "y = Inr results" "r_world r' = w'"
    have keep: "(\<lambda>x. \<not> to_keep (sc_secretsToKeep c) x) = (\<lambda>s. o_Name s \<notin> set (sc_secretsToKeep c))"
      by (simp add: fun_eq_iff to_keep_iff)
    show ?thesis
      using l1 d run y failed_results_step [OF fr] by (simp add: keep)
  qed
qed

text \<open>Of the example, only the old copy is deleted.\<close>

lemma secret_cleanup_is_exact_witness:
  "\<exists>results r'. secret_Cleanup ref_api (NewSecretCleaner ex_target ''ns'' [''wanted'']) (ex_run ex_stored) =
       (Inr results, r') \<and> results = [] \<and>
     r_world r' = snd (delete_each (ref_client 0) [ex_labelled ''old'' (Secret None [])] (ex_world ex_stored))"
proof -
  have l: "ref_list 0 ''Secret'' ''ns'' ManagedBy (ex_world ex_stored) =
      (Inr [ex_labelled ''wanted'' (Secret None []), ex_labelled ''old'' (Secret None [])], ex_world ex_stored)"
    by (simp add: ex_clean_simps)
  obtain w' where d: "ref_delete 0 (ex_labelled ''old'' (Secret None [])) (ex_world ex_stored) = (None, w')"
    by (simp add: ex_clean_simps)
  have names: "o_Name (ex_labelled n b) = n" for n b by (simp add: ex_labelled_def)
  show ?thesis
    using secret_cleanup_is_exact [where api = ref_api and c = "NewSecretCleaner ex_target ''ns'' [''wanted'']"
        and r = "ex_run ex_stored"]
    by (simp add: NewSecretCleaner_def l d names ex_run_def)
qed

text \<open>
  C23: the cleaners touch nothing but orphans. An object of another cluster, kind or name
  space, one that is to be kept, and one without the managed-by label stay as they are.
\<close>

theorem cleaners_touch_only_orphans:
  assumes "listing_server api cl view"
  shows "(secret_Cleanup api c r = (x, r') \<longrightarrow> c_client (sc_cluster c) = cl i \<longrightarrow> sc_namespace c \<noteq> [] \<longrightarrow>
      j \<noteq> i \<or> kind \<noteq> ''Secret'' \<or> fst k \<noteq> sc_namespace c \<or> snd k \<in> set (sc_secretsToKeep c) \<or>
        (\<forall>o'. view j (r_world r) kind k = Some o' \<longrightarrow> \<not> is_managed o') \<longrightarrow>
      view j (r_world r') kind k = view j (r_world r) kind k) \<and>
    (configMap_Cleanup api d r = (x, r') \<longrightarrow> c_client (cc_cluster d) = cl i \<longrightarrow> cc_namespace d \<noteq> [] \<longrightarrow>
      j \<noteq> i \<or> kind \<noteq> ''ConfigMap'' \<or> fst k \<noteq> cc_namespace d \<or> snd k \<in> set (cc_configMapsToKeep d) \<or>
        (\<forall>o'. view j (r_world r) kind k = Some o' \<longrightarrow> \<not> is_managed o') \<longrightarrow>
      view j (r_world r') kind k = view j (r_world r) kind k)"
  unfolding secret_Cleanup_hookless configMap_Cleanup_hookless
  by (intro conjI impI; erule (3) listing_server.hookless_frame [OF assms])

lemma cleaners_touch_only_orphans_witness:
  "\<exists>r'. secret_Cleanup ref_api (NewSecretCleaner ex_target ''ns'' [''wanted'']) (ex_run ex_stored) = (Inr [], r') \<and>
     ref_view 0 (r_world r') ''Secret'' (''ns'', ''foreign'') =
       Some (new_object ''foreign'' ''ns'' (Secret None []))"
proof -
  obtain r' where run: "secret_Cleanup ref_api (NewSecretCleaner ex_target ''ns'' [''wanted'']) (ex_run ex_stored) =
      (Inr [], r')"
    using ex_clean_secrets by blast
  have before: "ref_view 0 (r_world (ex_run ex_stored)) ''Secret'' (''ns'', ''foreign'') =
      Some (new_object ''foreign'' ''ns'' (Secret None []))"
    by (simp add: ex_clean_simps)
  have "ref_view 0 (r_world r') ''Secret'' (''ns'', ''foreign'') =
      ref_view 0 (r_world (ex_run ex_stored)) ''Secret'' (''ns'', ''foreign'')"
    using conjunct1 [OF cleaners_touch_only_orphans [OF reflist.listing_server_axioms,
          where c = "NewSecretCleaner ex_target ''ns'' [''wanted'']" and r = "ex_run ex_stored"
            and x = "Inr []" and r' = r' and i = 0 and j = 0 and kind = "''Secret''"
            and k = "(''ns'', ''foreign'')"]] run before
    by (simp add: NewSecretCleaner_def before is_managed_iff)
  with run before show ?thesis by simp
qed

text \<open>
  C24: on a server that answers and deletes at once, a cleanup of config maps that returns
  no error leaves no orphan: every config map of the name space that still carries the
  managed-by label is one to keep.
\<close>

theorem config_map_cleanup_is_complete:
  assumes "prompt_listing_server api cl view healthy" "healthy (r_world r)"
    "configMap_Cleanup api c r = (Inr results, r')" "c_client (cc_cluster c) = cl i" "cc_namespace c \<noteq> []"
    "view i (r_world r') ''ConfigMap'' (cc_namespace c, n) = Some o'" "is_managed o'"
  shows "n \<in> set (cc_configMapsToKeep c)"
proof -
  have h: "hookless_cleanup api cleanupErrorStatusConfigMap ErrConfigMapCleanup (cc_cluster c) ''ConfigMap''
      (cc_namespace c) (cc_configMapsToKeep c) r = (Inr results, r')"
    using assms(3) by (simp only: configMap_Cleanup_hookless)
  note complete = prompt_listing_server.hookless_complete(2) [OF assms(1) h assms(4) assms(5) assms(2)]
  show ?thesis by (rule complete) (rule assms(6), rule assms(7))
qed

lemma config_map_cleanup_is_complete_witness:
  "\<exists>r'. configMap_Cleanup ref_api (NewConfigMapCleaner ex_target ''ns'' []) (ex_run ex_stored) = (Inr [], r') \<and>
     (\<forall>o'. ref_view 0 (r_world r') ''ConfigMap'' (''ns'', ''ca'') = Some o' \<longrightarrow> \<not> is_managed o')"
proof -
  obtain r' where run: "configMap_Cleanup ref_api (NewConfigMapCleaner ex_target ''ns'' []) (ex_run ex_stored) =
      (Inr [], r')"
    using ex_clean_config_maps by blast
  have "\<not> is_managed o'" if "ref_view 0 (r_world r') ''ConfigMap'' (''ns'', ''ca'') = Some o'" for o'
    using config_map_cleanup_is_complete [OF refpromptlist.prompt_listing_server_axioms _ run, of 0 "''ca''" o'] that
    by (auto simp: NewConfigMapCleaner_def ex_run_def ex_world_def)
  with run show ?thesis by blast
qed

section \<open>The copies\<close>

text \<open>
  C25: a copy of a pull secret that is reconciled without an error has the data that the
  source secret has on the source cluster and the type of a Docker configuration. When the
  source does not exist, the reconcile function gives an error and leaves the copy alone.
\<close>

theorem pull_secret_copies_the_source:
  assumes "api_server api cl view" "mutators api" "scc_SourceClient cfg = cl i"
    "pull_secret_reconcile api pull cfg o' w = (Ret err, o'', w')"
  shows "(err = None \<longrightarrow>
      (\<exists>source. view i w ''Secret'' (scc_SourceNamespace cfg, pull) = Some source \<and>
         o_Body o'' = Secret (secret_data source) SecretTypeDockerConfigJson)) \<and>
    (view i w ''Secret'' (scc_SourceNamespace cfg, pull) = None \<longrightarrow> err \<noteq> None \<and> o'' = o')"
proof -
  let ?key = "(scc_SourceNamespace cfg, pull)"
  let ?src = "new_object pull (scc_SourceNamespace cfg) (Secret None [])"
  have ok: "\<exists>source. view i w ''Secret'' ?key = Some source \<and>
         o_Body o'' = Secret (secret_data source) SecretTypeDockerConfigJson" if "err = None"
  proof -
    from assms(4) that obtain source where
        get: "cl_get (cl i) ?key ?src w = ((None, source), w')" and "kind_of o' = ''Secret''"
      and mut: "SecretMutate api (copy_name pull (scc_TargetName cfg)) (scc_TargetNamespace cfg)
         (secret_data source) SecretTypeDockerConfigJson o' = (None, o'')"
      using assms(3) by (auto elim: pull_secret_reconcile_ok)
    then show ?thesis
      using api_server.get_found [OF assms(1) get] mutators.secret_body [OF assms(2) mut] by simp
  qed
  moreover have "o'' = o'" if none: "view i w ''Secret'' ?key = None"
  proof -
    obtain e source w1 where get: "cl_get (cl i) ?key ?src w = ((e, source), w1)"
      by (metis prod.exhaust)
    then have "e \<noteq> None" using api_server.get_found [OF assms(1)] none by fastforce
    then show ?thesis
      using assms(3,4) get
      by (auto simp: pull_secret_reconcile_def object_key_def Let_def split: body.splits)
  qed
  ultimately show ?thesis by (cases err) auto
qed

definition ex_copy :: "ref_world secret_copy_config" where
  "ex_copy = \<lparr>scc_SourceClient = ref_client 0, scc_SourceNamespace = ''ns'', scc_TargetNamespace = ''target'',
     scc_TargetName = []\<rparr>"

lemma pull_secret_copies_the_source_witness:
  "\<exists>err o'' w'. pull_secret_reconcile ref_api ''missing'' ex_copy
       (new_object ''missing'' ''target'' (Secret None [])) (ex_world ex_stored) = (Ret err, o'', w') \<and> err \<noteq> None"
proof -
  obtain err o'' w' where run: "pull_secret_reconcile ref_api ''missing'' ex_copy
       (new_object ''missing'' ''target'' (Secret None [])) (ex_world ex_stored) = (Ret err, o'', w')"
    using pull_secret_reconcile_no_panic [of ref_api "''missing''" ex_copy]
    by (metis not_panics_iff prod.exhaust_sel)
  have "err \<noteq> None"
    using pull_secret_copies_the_source [OF refsrv.api_server_axioms refmut.mutators_axioms _ run, of 0]
    by (simp add: ex_copy_def ex_clean_simps)
  with run show ?thesis by blast
qed

text \<open>
  The objects that \<open>ManagePullSecrets\<close> adds are, in the order of the pull secrets,
  the copies in the target name space under the target name or else the name of the
  source; their reconcile functions keep the managed-by label and never panic.
\<close>

theorem pull_secrets_are_managed:
  assumes "mutators api" "ManagePullSecrets api pulls cfg cluster r = (cluster', r')"
    "n < length pulls"
  shows "length (c_objects cluster') = length (c_objects cluster) + length pulls \<and>
    (let m = c_objects cluster' ! (length (c_objects cluster) + n)
     in object_key (GetObject r' m) = (scc_TargetNamespace cfg, copy_name (pulls ! n) (scc_TargetName cfg)) \<and>
        kind_of (GetObject r' m) = ''Secret'' \<and> GetDeletionPolicy m = Delete \<and>
        keeps_label (GetObject r' m) m \<and> (\<forall>o' w. \<not> panics (fst (Reconcile m o' w))))"
proof -
  from assms(2) obtain ms where c: "cluster' = cluster\<lparr>c_objects := c_objects cluster @ ms\<rparr>"
    and len: "length ms = length pulls"
    and copies: "\<forall>n < length pulls. is_copy api cfg r' (r_next r + n) (pulls ! n) (ms ! n)"
    by (rule ManagePullSecrets_adds)
  let ?m = "ms ! n"
  from copies assms(3) have m: "is_copy api cfg r' (r_next r + n) (pulls ! n) ?m" by simp
  have ob: "GetObject r' ?m = new_object (copy_name (pulls ! n) (scc_TargetName cfg))
      (scc_TargetNamespace cfg) (Secret None [])"
    using m by (simp add: is_copy_def GetObject_def)
  have "keeps_label (GetObject r' ?m) ?m"
    by (rule pull_secret_keeps_label [OF assms(1)])
       (use m ob in \<open>simp_all add: is_copy_def object_key_def\<close>)
  moreover have "\<not> panics (fst (Reconcile ?m o' w))" for o' w
    using m pull_secret_reconcile_no_panic by (simp add: is_copy_def Reconcile_def)
  ultimately show ?thesis
    using c len m ob by (simp add: nth_append is_copy_def GetDeletionPolicy_def object_key_def)
qed

lemma pull_secrets_are_managed_witness:
  "keeps_label (new_object ''a'' ''target'' (Secret None []))
     (c_objects (fst (ManagePullSecrets ref_api [''a''] ex_copy ex_target (ex_run []))) ! 0)"
proof -
  obtain cluster' r' where run: "ManagePullSecrets ref_api [''a''] ex_copy ex_target (ex_run []) = (cluster', r')"
    by fastforce
  then have ob: "GetObject r' (c_objects cluster' ! 0) = new_object ''a'' ''target'' (Secret None [])"
    by (auto simp: NewManagedObject_def GetObject_def AddObject_def copy_name_def ex_copy_def ex_target_def
        NewManagedCluster_def ex_run_def)
  show ?thesis
    using pull_secrets_are_managed [OF refmut.mutators_axioms run, of 0] ob run
    by (simp add: Let_def ex_target_def NewManagedCluster_def)
qed

section \<open>The specialised cleaners and the generic one\<close>

text \<open>
  What the outside sees of a cleanup: the world it leaves, whether it is an error, and for
  each result the object with its cluster, operation result and error. The text of a status
  and the user-facing error are the cleaner's own.
\<close>

definition cleanup_report ::
    "(gerr + 'w result list) \<times> 'w run \<Rightarrow> (object \<times> 'w managed_cluster \<times> operation_result \<times> gerr option) list option \<times> 'w"
where
  "cleanup_report out =
     (case out of
        (Inl e, r) \<Rightarrow> (None, r_world r)
      | (Inr rs, r) \<Rightarrow>
          (Some (map (\<lambda>y. (GetObject r (res_Object y), res_Cluster y, res_OperationResult y, res_Error y)) rs), r_world r))"

lemma failed_results_report:
  assumes "failed_results f cluster xs r = (results, r')"
  shows "map (\<lambda>y. (GetObject r' (res_Object y), res_Cluster y, res_OperationResult y, res_Error y)) results =
    map (\<lambda>(x, e). (x, cluster, OperationResultDeletionFailed, e)) xs" "r_world r' = r_world r"
proof -
  note step = failed_results_step [OF assms]
  show "r_world r' = r_world r" using step by blast
  have xs: "xs = map (\<lambda>y. (GetObject r' (res_Object y), res_Error y)) results" using step by simp
  show "map (\<lambda>y. (GetObject r' (res_Object y), res_Cluster y, res_OperationResult y, res_Error y)) results =
    map (\<lambda>(x, e). (x, cluster, OperationResultDeletionFailed, e)) xs"
    using step unfolding xs by simp
qed

lemma hookless_report:
  "cleanup_report (hookless_cleanup api f err cluster kind ns keep r) =
     cleanup_report (hookless_cleanup api f' err' cluster kind ns keep r)"
proof (cases "cl_list (c_client cluster) kind ns ManagedBy (r_world r)")
  case (Pair x w)
  show ?thesis
  proof (cases x)
    case (Inl e)
    with Pair show ?thesis by (simp add: hookless_cleanup_def cleanup_report_def)
  next
    case (Inr objs)
    obtain deleted w' where
      d: "delete_each (c_client cluster) (filter (\<lambda>x. \<not> to_keep keep x) objs) w = (deleted, w')" by fastforce
    let ?failed = "filter (\<lambda>(x, e). IgnoreNotFound api e \<noteq> None) deleted"
    obtain rs1 r1 where 1: "failed_results f cluster ?failed (r\<lparr>r_world := w'\<rparr>) = (rs1, r1)" by fastforce
    obtain rs2 r2 where 2: "failed_results f' cluster ?failed (r\<lparr>r_world := w'\<rparr>) = (rs2, r2)" by fastforce
    have "hookless_cleanup api f err cluster kind ns keep r = (Inr rs1, r1)"
      "hookless_cleanup api f' err' cluster kind ns keep r = (Inr rs2, r2)"
      using Pair Inr d 1 2 by (simp_all add: hookless_cleanup_def)
    then show ?thesis
      using failed_results_report [OF 1] failed_results_report [OF 2] by (simp add: cleanup_report_def)
  qed
qed

text \<open>The generic cleaner for a kind, without a hook.\<close>

definition hookless_cleaner :: "'w managed_cluster \<Rightarrow> string \<Rightarrow> string \<Rightarrow> string list \<Rightarrow> 'w orphanCleaner" where
  "hookless_cleaner cluster kind ns keep = NewOrphanCleaner cluster ns
     \<lparr>ct_ObjectsToKeep = keep, ct_EmptyList = Some kind, ct_PreDeletionSteps = None\<rparr>"

lemma hookless_cleaner_Cleanup:
  "Cleanup api (hookless_cleaner cluster kind ns keep) =
     hookless_cleanup api cleanupErrorStatus ErrOrphanCleanup cluster kind ns keep"
  by (subst Cleanup_hookless [where kind = kind]) (simp_all add: hookless_cleaner_def NewOrphanCleaner_def)

text \<open>
  C26: the cleaners of packages secret and configmap do what the generic cleaner of package
  metricsoperator does without a hook: the same deletions, leaving the same world, and the
  same results, and they fail when it fails.
\<close>

theorem cleaners_refine_the_generic_one:
  "cleanup_report (secret_Cleanup api c r) =
     cleanup_report (Cleanup api (hookless_cleaner (sc_cluster c) ''Secret'' (sc_namespace c) (sc_secretsToKeep c)) r) \<and>
   cleanup_report (configMap_Cleanup api d r) =
     cleanup_report (Cleanup api (hookless_cleaner (cc_cluster d) ''ConfigMap'' (cc_namespace d) (cc_configMapsToKeep d)) r)"
  unfolding secret_Cleanup_hookless configMap_Cleanup_hookless hookless_cleaner_Cleanup
  by (intro conjI hookless_report)

end
