(* ===== verification/Unused_Flux.thy ===== *)
theory Unused_Flux
  imports Flux
begin

text \<open>
  \<open>pkg/metricsoperator/flux.go\<close>, an older version of package \<open>flux\<close> that nothing imports. Its
  constants, parameters and reconcile functions are word for word those of package \<open>flux\<close>, so
  their definitions serve for both; its status function is the same code too, and it makes a
  second Helm release for the control plane.
\<close>

definition metricsoperator_FluxStatus :: "'w kube_api \<Rightarrow> object \<Rightarrow> resource_location \<Rightarrow> status go" where
  "metricsoperator_FluxStatus api o' rl =
     (case flux_conditions (o_Body o') of
        None \<Rightarrow> Panic no_conditions_panic
      | Some conds \<Rightarrow> Ret
          (if o_DeletionTimestamp o' \<noteq> None
           then \<lparr>s_Phase = Terminating, s_Message = ''Resource is terminating.'', s_Location = rl\<rparr>
           else if ConditionsIsTrue api conds ''Ready''
           then \<lparr>s_Phase = Ready, s_Message = ''Resource is ready'', s_Location = rl\<rparr>
           else \<lparr>s_Phase = Pending, s_Message = ''Resource is not ready'', s_Location = rl\<rparr>))"

definition metricsoperator_flux_context ::
    "'w kube_api \<Rightarrow> 'w reconcile_func \<Rightarrow> nat list \<Rightarrow> 'w managed_object_context" where
  "metricsoperator_flux_context api f deps =
     \<lparr>moc_ReconcileFunc = Some f, moc_DependsOn = deps, moc_DeletionPolicy = Delete,
      moc_StatusFunc = Some (metricsoperator_FluxStatus api)\<rparr>"

definition metricsoperator_ManageFluxResources ::
    "'w kube_api \<Rightarrow> flux_params \<Rightarrow> 'w managed_cluster \<Rightarrow> 'w run \<Rightarrow> 'w managed_cluster \<times> 'w run" where
  "metricsoperator_ManageFluxResources api p cluster r =
     (let ns = c_defaultNamespace cluster;
          (ociRepo, r1) = NewManagedObject (new_object OCIRepositoryName ns (OCIRepository None []))
            (metricsoperator_flux_context api (oci_reconcile p) []) r;
          cluster1 = AddObject ociRepo cluster;
          (workloadHelmRelease, r2) = NewManagedObject (new_object HelmReleaseName ns (HelmRelease None []))
            (metricsoperator_flux_context api (helm_release_reconcile p ns) [m_ref ociRepo]) r1;
          cluster2 = AddObject workloadHelmRelease cluster1;
          (mcpHelmRelease, r3) = NewManagedObject (new_object HelmReleaseName ns (HelmRelease None []))
            (metricsoperator_flux_context api (helm_release_reconcile p ns) [m_ref ociRepo]) r2
      in (AddObject mcpHelmRelease cluster2, r3))"

lemma FluxStatus_versions_agree: "metricsoperator_FluxStatus = FluxStatus"
  by (intro ext) (simp add: metricsoperator_FluxStatus_def FluxStatus_conditions)

interpretation unused_flux_status: status_function "metricsoperator_FluxStatus api"
  "\<lambda>o'. flux_conditions (o_Body o') \<noteq> None"
  "\<lambda>o'. ConditionsIsTrue api (the (flux_conditions (o_Body o'))) ''Ready''"
  for api
  unfolding FluxStatus_versions_agree by (rule flux_status.status_function_axioms)

text \<open>
  It adds what package \<open>flux\<close> adds and one object more. The two Helm releases are two managed
  objects, yet one object of the cluster, since they have the same kind, name and name space.
\<close>

lemma unused_flux_adds_a_release:
  assumes "metricsoperator_ManageFluxResources api p cluster r = (cluster', r')"
  shows "\<exists>c1 r1 m. ManageFluxResources api p cluster r = (c1, r1) \<and> cluster' = AddObject m c1"
  using assms
  by (auto simp: metricsoperator_ManageFluxResources_def ManageFluxResources_def metricsoperator_flux_context_def
      flux_context_def FluxStatus_versions_agree Let_def split: prod.splits)

lemma unused_flux_releases_clash:
  assumes "metricsoperator_ManageFluxResources api p cluster r = (cluster', r')"
  shows "\<exists>oci rel rel'. c_objects cluster' = c_objects cluster @ [oci, rel, rel'] \<and> m_ref rel \<noteq> m_ref rel' \<and>
    kind_of (GetObject r' rel) = kind_of (GetObject r' rel') \<and> object_key (GetObject r' rel) = object_key (GetObject r' rel')"
  using assms
  by (auto simp: metricsoperator_ManageFluxResources_def NewManagedObject_def GetObject_def AddObject_def object_key_def
      Let_def split: prod.splits)

end
