(* ===== verification/Registration.thy ===== *)
theory Registration
  imports Api_Types
begin

text \<open>
  How the types of \<open>api/v1alpha1\<close> get into a scheme: the package variables \<open>SchemeBuilder\<close> and
  \<open>AddToScheme\<close> (\<open>groupversion_info.go\<close>) and the two \<open>init\<close> functions, which add to the builder.
\<close>

section \<open>The builder of the API machinery\<close>

text \<open>
  \<open>'s\<close> is a scheme and \<open>'b\<close> a \<open>runtime.SchemeBuilder\<close>; both are code outside the repository. A
  function that is registered may fail, and may change the scheme.
\<close>

type_synonym group_version = "string \<times> string"
type_synonym 's scheme_function = "'s \<Rightarrow> gerr option \<times> 's"

record ('s, 'b) scheme_lib =
  sl_NewSchemeBuilder :: "'s scheme_function list \<Rightarrow> 'b"
  sl_Register :: "'b \<Rightarrow> 's scheme_function list \<Rightarrow> 'b"
  sl_AddToScheme :: "'b \<Rightarrow> 's scheme_function"
  sl_AddToGroupVersion :: "'s \<Rightarrow> group_version \<Rightarrow> 's"
  sl_AddKnownTypes :: "'s \<Rightarrow> group_version \<Rightarrow> string list \<Rightarrow> 's"

section \<open>The code\<close>

definition GroupVersion :: group_version where
  "GroupVersion = (GroupName, ''v1alpha1'')"

definition SchemeBuilder :: "('s, 'b) scheme_lib \<Rightarrow> 'b" where
  "SchemeBuilder L = sl_NewSchemeBuilder L [\<lambda>s. (None, sl_AddToGroupVersion L s GroupVersion)]"

definition init_MetricsOperator :: "('s, 'b) scheme_lib \<Rightarrow> 'b \<Rightarrow> 'b" where
  "init_MetricsOperator L b =
     sl_Register L b [\<lambda>s. (None, sl_AddKnownTypes L s GroupVersion [''MetricsOperator'', ''MetricsOperatorList''])]"

definition init_ProviderConfig :: "('s, 'b) scheme_lib \<Rightarrow> 'b \<Rightarrow> 'b" where
  "init_ProviderConfig L b =
     sl_Register L b [\<lambda>s. (None, sl_AddKnownTypes L s GroupVersion [''ProviderConfig'', ''ProviderConfigList''])]"

text \<open>
  Package variables are set first, then the files' \<open>init\<close> functions run in the order of the file
  names. \<open>AddToScheme\<close> is a method value of the variable \<open>SchemeBuilder\<close>, so it uses the builder as
  it is when \<open>main\<close> calls it.
\<close>

definition package_init :: "('s, 'b) scheme_lib \<Rightarrow> 'b" where
  "package_init L = init_ProviderConfig L (init_MetricsOperator L (SchemeBuilder L))"

definition AddToScheme :: "('s, 'b) scheme_lib \<Rightarrow> 's scheme_function" where
  "AddToScheme L s = sl_AddToScheme L (package_init L) s"

section \<open>What it does\<close>

text \<open>Running functions one after the other, up to the first that fails.\<close>

fun run_all :: "'s scheme_function list \<Rightarrow> 's scheme_function" where
  "run_all [] s = (None, s)"
| "run_all (f # fs) s = (case f s of (Some e, s') \<Rightarrow> (Some e, s') | (None, s') \<Rightarrow> run_all fs s')"

text \<open>
  The documented behaviour of the builder: \<open>AddToScheme\<close> applies all the functions it holds to the
  scheme and gives up at an error. \<open>knows\<close> tells the types of a scheme.
\<close>

locale scheme_builder =
  fixes L :: "('s, 'b) scheme_lib"
    and funs :: "'b \<Rightarrow> 's scheme_function list"
    and knows :: "'s \<Rightarrow> group_version \<Rightarrow> string \<Rightarrow> bool"
  assumes new_builder: "funs (sl_NewSchemeBuilder L fs) = fs"
    and register: "funs (sl_Register L b fs) = funs b @ fs"
    and add_to_scheme: "sl_AddToScheme L b s = run_all (funs b) s"
    and known_types: "knows (sl_AddKnownTypes L s gv ts) gv' t = (knows s gv' t \<or> gv' = gv \<and> t \<in> set ts)"
    and group_version: "knows s gv' t \<Longrightarrow> knows (sl_AddToGroupVersion L s gv) gv' t"
begin

lemma AddToScheme_steps:
  "AddToScheme L s =
     (None, sl_AddKnownTypes L (sl_AddKnownTypes L (sl_AddToGroupVersion L s GroupVersion)
        GroupVersion [''MetricsOperator'', ''MetricsOperatorList'']) GroupVersion [''ProviderConfig'', ''ProviderConfigList''])"
  by (simp add: AddToScheme_def package_init_def init_ProviderConfig_def init_MetricsOperator_def SchemeBuilder_def
      add_to_scheme register new_builder)

lemma api_types_are_known:
  assumes "AddToScheme L s = (e, s')"
  shows "e = None"
    and "t \<in> {''MetricsOperator'', ''MetricsOperatorList'', ''ProviderConfig'', ''ProviderConfigList''} \<Longrightarrow>
      knows s' GroupVersion t"
    and "knows s gv t \<Longrightarrow> knows s' gv t"
  using assms by (auto simp: AddToScheme_steps known_types group_version)

end

text \<open>A builder that is the list of its functions, and a scheme that is the list of its types.\<close>

type_synonym ref_scheme = "(group_version \<times> string) list"

definition ref_scheme_lib :: "(ref_scheme, ref_scheme scheme_function list) scheme_lib" where
  "ref_scheme_lib =
     \<lparr>sl_NewSchemeBuilder = (\<lambda>fs. fs), sl_Register = (\<lambda>b fs. b @ fs), sl_AddToScheme = run_all,
      sl_AddToGroupVersion = (\<lambda>s gv. (gv, ''WatchEvent'') # s),
      sl_AddKnownTypes = (\<lambda>s gv ts. map (Pair gv) ts @ s)\<rparr>"

interpretation ref_builder: scheme_builder ref_scheme_lib "\<lambda>b. b" "\<lambda>s gv t. (gv, t) \<in> set s"
  by unfold_locales (auto simp: ref_scheme_lib_def)

end
