(* ===== verification/Stored_Values.thy ===== *)
theory Stored_Values
  imports Main
begin

text \<open>
  A store for the parts of Go values that are shared by pointer, and what a deep copy is. The
  store is a list of cells, a cell an array of values of one type, and allocation appends a
  cell; so an address is fresh when it is beyond the end. A pointer names an element of an
  array, \<open>new(T)\<close> makes an array of one, and a slice is a part of an array. The lemmas lift
  deep copies from a type to pointers to it, to slices of it and to structs with such fields.
\<close>

section \<open>The store\<close>

type_synonym pointer = "nat \<times> nat"

record slice =
  sl_Array :: nat
  sl_Offset :: nat
  sl_Len :: nat

text \<open>How arrays of a type are cells, and the zero value of the type.\<close>

record ('t, 'c) array_kind =
  arr_put :: "'t list \<Rightarrow> 'c"
  arr_get :: "'c \<Rightarrow> 't list"
  arr_zero :: 't

definition load :: "('t, 'c) array_kind \<Rightarrow> 'c list \<Rightarrow> pointer \<Rightarrow> 't" where
  "load A s p = arr_get A (s ! fst p) ! snd p"

definition alloc :: "('t, 'c) array_kind \<Rightarrow> nat \<Rightarrow> 'c list \<Rightarrow> nat \<times> 'c list" where
  "alloc A n s = (length s, s @ [arr_put A (replicate n (arr_zero A))])"

definition assign :: "('t, 'c) array_kind \<Rightarrow> pointer \<Rightarrow> 't \<Rightarrow> 'c list \<Rightarrow> 'c list" where
  "assign A p v s = s[fst p := arr_put A ((arr_get A (s ! fst p))[snd p := v])]"

definition elements :: "('t, 'c) array_kind \<Rightarrow> 'c list \<Rightarrow> slice \<Rightarrow> 't list" where
  "elements A s sl = map (\<lambda>i. load A s (sl_Array sl, sl_Offset sl + i)) [0..<sl_Len sl]"

section \<open>Copying pointers, slices and structs\<close>

text \<open>
  A function that copies \<open>*in\<close> into \<open>*out\<close> takes the struct \<open>in\<close> points to and gives the struct it
  leaves at \<open>out\<close>. \<open>None\<close> is the pointer or the slice \<open>nil\<close>. \<open>new_copy\<close> is \<open>out := new(T)\<close> followed by
  the copy of \<open>*in\<close> into \<open>*out\<close>.
\<close>

type_synonym ('t, 'c) copy_into = "'t \<Rightarrow> 'c list \<Rightarrow> 't \<times> 'c list"

definition plain_copy :: "('t, 'c) copy_into" where
  "plain_copy x s = (x, s)"

definition new_copy :: "('t, 'c) array_kind \<Rightarrow> ('t, 'c) copy_into \<Rightarrow> 't option \<Rightarrow> 'c list \<Rightarrow> pointer option \<times> 'c list" where
  "new_copy A f x s = (case x of
     None \<Rightarrow> (None, s)
   | Some v \<Rightarrow>
       let (a, s1) = alloc A 1 s;
           (v', s2) = f v s1
       in (Some (a, 0), assign A (a, 0) v' s2))"

definition copy_pointer :: "('t, 'c) array_kind \<Rightarrow> ('t, 'c) copy_into \<Rightarrow> (pointer option, 'c) copy_into" where
  "copy_pointer A f p s = new_copy A f (map_option (load A s) p) s"

text \<open>\<open>for i := range *in { (*in)[i].DeepCopyInto(&(*out)[i]) }\<close>\<close>

fun copy_elements :: "('t, 'c) array_kind \<Rightarrow> ('t, 'c) copy_into \<Rightarrow> slice \<Rightarrow> nat \<Rightarrow> nat list \<Rightarrow> 'c list \<Rightarrow> 'c list" where
  "copy_elements A f sl a [] s = s"
| "copy_elements A f sl a (i # is) s =
     (let (v, s1) = f (load A s (sl_Array sl, sl_Offset sl + i)) s
      in copy_elements A f sl a is (assign A (a, i) v s1))"

definition copy_slice :: "('t, 'c) array_kind \<Rightarrow> ('t, 'c) copy_into \<Rightarrow> (slice option, 'c) copy_into" where
  "copy_slice A f x s = (case x of
     None \<Rightarrow> (None, s)
   | Some sl \<Rightarrow>
       let (a, s1) = alloc A (sl_Len sl) s
       in (Some \<lparr>sl_Array = a, sl_Offset = 0, sl_Len = sl_Len sl\<rparr>, copy_elements A f sl a [0..<sl_Len sl] s1))"

text \<open>One copy after the other, for structs with more than one field that needs one.\<close>

definition copy_both :: "('t, 'c) copy_into \<Rightarrow> ('u, 'c) copy_into \<Rightarrow> ('t \<times> 'u, 'c) copy_into" where
  "copy_both f g xy s =
     (let (x', s1) = f (fst xy) s;
          (y', s2) = g (snd xy) s1
      in ((x', y'), s2))"

section \<open>Values and what they reach\<close>

definition pointer_val :: "('t, 'c) array_kind \<Rightarrow> ('c list \<Rightarrow> 't \<Rightarrow> 'v) \<Rightarrow> 'c list \<Rightarrow> pointer option \<Rightarrow> 'v option" where
  "pointer_val A val s p = map_option (\<lambda>p. val s (load A s p)) p"

definition pointer_reach :: "('t, 'c) array_kind \<Rightarrow> ('c list \<Rightarrow> 't \<Rightarrow> nat set) \<Rightarrow> 'c list \<Rightarrow> pointer option \<Rightarrow> nat set" where
  "pointer_reach A reach s p = (case p of None \<Rightarrow> {} | Some p \<Rightarrow> insert (fst p) (reach s (load A s p)))"

definition slice_val :: "('t, 'c) array_kind \<Rightarrow> ('c list \<Rightarrow> 't \<Rightarrow> 'v) \<Rightarrow> 'c list \<Rightarrow> slice option \<Rightarrow> 'v list option" where
  "slice_val A val s x = map_option (\<lambda>sl. map (val s) (elements A s sl)) x"

definition slice_reach :: "('t, 'c) array_kind \<Rightarrow> ('c list \<Rightarrow> 't \<Rightarrow> nat set) \<Rightarrow> 'c list \<Rightarrow> slice option \<Rightarrow> nat set" where
  "slice_reach A reach s x =
     (case x of None \<Rightarrow> {} | Some sl \<Rightarrow> insert (sl_Array sl) (\<Union>e \<in> set (elements A s sl). reach s e))"

definition both_val :: "('c list \<Rightarrow> 't \<Rightarrow> 'v) \<Rightarrow> ('c list \<Rightarrow> 'u \<Rightarrow> 'w) \<Rightarrow> 'c list \<Rightarrow> 't \<times> 'u \<Rightarrow> 'v \<times> 'w" where
  "both_val val val' s xy = (val s (fst xy), val' s (snd xy))"

definition both_reach :: "('c list \<Rightarrow> 't \<Rightarrow> nat set) \<Rightarrow> ('c list \<Rightarrow> 'u \<Rightarrow> nat set) \<Rightarrow> 'c list \<Rightarrow> 't \<times> 'u \<Rightarrow> nat set" where
  "both_reach reach reach' s xy = reach s (fst xy) \<union> reach' s (snd xy)"

definition plain_val :: "'c list \<Rightarrow> 't \<Rightarrow> 't" where
  "plain_val s x = x"

definition plain_reach :: "'c list \<Rightarrow> 't \<Rightarrow> nat set" where
  "plain_reach s x = {}"

text \<open>A store that has everything an older one had.\<close>

definition keeps :: "'c list \<Rightarrow> 'c list \<Rightarrow> bool" where
  "keeps s s' = (length s \<le> length s' \<and> (\<forall>b < length s. s' ! b = s ! b))"

lemma keeps_refl [simp]: "keeps s s"
  by (simp add: keeps_def)

lemma keeps_trans: "keeps s s1 \<Longrightarrow> keeps s1 s2 \<Longrightarrow> keeps s s2"
  by (simp add: keeps_def)

lemma keeps_length: "keeps s s' \<Longrightarrow> length s \<le> length s'"
  by (simp add: keeps_def)

lemma keeps_nth: "keeps s s' \<Longrightarrow> b < length s \<Longrightarrow> s' ! b = s ! b"
  by (simp add: keeps_def)

lemma alloc_keeps: "alloc A n s = (a, s') \<Longrightarrow> keeps s s' \<and> a = length s \<and> length s' = Suc (length s)"
  by (auto simp: alloc_def keeps_def nth_append)

lemma length_assign [simp]: "length (assign A p v s) = length s"
  by (simp add: assign_def)

lemma assign_other: "b \<noteq> fst p \<Longrightarrow> assign A p v s ! b = s ! b"
  by (simp add: assign_def)

lemma assign_keeps: "keeps s s' \<Longrightarrow> length s \<le> fst p \<Longrightarrow> keeps s (assign A p v s')"
  by (simp add: keeps_def assign_other)

section \<open>The contract of a deep copy\<close>

text \<open>
  \<open>val\<close> is the value of a struct with all that it points to, \<open>reach\<close> the addresses it can reach.
  Both depend on these addresses only. A deep copy changes no cell there was, has the same
  value and reaches new cells only.
\<close>

locale deep_copier =
  fixes copy :: "('t, 'c) copy_into"
    and val :: "'c list \<Rightarrow> 't \<Rightarrow> 'v"
    and reach :: "'c list \<Rightarrow> 't \<Rightarrow> nat set"
  assumes copy_keeps: "copy x s = (y, s') \<Longrightarrow> keeps s s'"
    and copy_val: "copy x s = (y, s') \<Longrightarrow> reach s x \<subseteq> {..<length s} \<Longrightarrow> val s' y = val s x"
    and copy_fresh: "copy x s = (y, s') \<Longrightarrow> reach s x \<subseteq> {..<length s} \<Longrightarrow> reach s' y \<subseteq> {length s..<length s'}"
    and val_local: "\<forall>b \<in> reach s x. t ! b = s ! b \<Longrightarrow> val t x = val s x"
    and reach_local: "\<forall>b \<in> reach s x. t ! b = s ! b \<Longrightarrow> reach t x = reach s x"
begin

lemma kept_val: "keeps s t \<Longrightarrow> reach s x \<subseteq> {..<length s} \<Longrightarrow> val t x = val s x"
  by (rule val_local) (auto simp: keeps_def)

lemma kept_reach: "keeps s t \<Longrightarrow> reach s x \<subseteq> {..<length s} \<Longrightarrow> reach t x = reach s x"
  by (rule reach_local) (auto simp: keeps_def)

text \<open>Whatever is written through the copy, the original stays; and the other way round.\<close>

lemma original_survives:
  assumes "copy x s = (y, s')" "reach s x \<subseteq> {..<length s}" "\<forall>b < length s. t ! b = s' ! b"
  shows "val t x = val s x"
  using assms copy_keeps [OF assms(1)] by (intro val_local) (auto simp: keeps_def)

lemma copy_survives:
  assumes "copy x s = (y, s')" "reach s x \<subseteq> {..<length s}" "\<forall>b \<ge> length s. t ! b = s' ! b"
  shows "val t y = val s x"
proof -
  have "val t y = val s' y" using copy_fresh [OF assms(1,2)] assms(3) by (intro val_local) auto
  with copy_val [OF assms(1,2)] show ?thesis by simp
qed

end

text \<open>A type whose values are stored in arrays.\<close>

locale stored_type = deep_copier copy val reach
  for copy :: "('t, 'c) copy_into" and val :: "'c list \<Rightarrow> 't \<Rightarrow> 'v" and reach :: "'c list \<Rightarrow> 't \<Rightarrow> nat set" +
  fixes A :: "('t, 'c) array_kind"
  assumes get_put: "arr_get A (arr_put A xs) = xs"
begin

lemma assigned: "a < length s \<Longrightarrow> arr_get A (assign A (a, i) v s ! a) = (arr_get A (s ! a))[i := v]"
  by (simp add: assign_def get_put)

lemma allocated: "alloc A n s = (a, s') \<Longrightarrow> arr_get A (s' ! a) = replicate n (arr_zero A)"
  by (auto simp: alloc_def get_put)

end

locale two_copiers =
  fst: deep_copier copy val reach + snd: deep_copier copy' val' reach'
  for copy :: "('t, 'c) copy_into" and val :: "'c list \<Rightarrow> 't \<Rightarrow> 'v" and reach :: "'c list \<Rightarrow> 't \<Rightarrow> nat set"
    and copy' :: "('u, 'c) copy_into" and val' :: "'c list \<Rightarrow> 'u \<Rightarrow> 'w" and reach' :: "'c list \<Rightarrow> 'u \<Rightarrow> nat set"

text \<open>
  A struct of which \<open>get\<close> is the part that needs a copy, \<open>put\<close> its replacement and \<open>rest\<close> the fields
  that are plain.
\<close>

locale struct_copier = part: deep_copier copy val reach
  for copy :: "('t, 'c) copy_into" and val :: "'c list \<Rightarrow> 't \<Rightarrow> 'v" and reach :: "'c list \<Rightarrow> 't \<Rightarrow> nat set" +
  fixes get :: "'r \<Rightarrow> 't"
    and put :: "'t \<Rightarrow> 'r \<Rightarrow> 'r"
    and rest :: "'r \<Rightarrow> 'p"
    and struct_copy :: "('r, 'c) copy_into"
    and struct_val :: "'c list \<Rightarrow> 'r \<Rightarrow> 'p \<times> 'v"
    and struct_reach :: "'c list \<Rightarrow> 'r \<Rightarrow> nat set"
  assumes part_put: "get (put x r) = x"
    and rest_put: "rest (put x r) = rest r"
    and struct_copy: "struct_copy r s = (put (fst (copy (get r) s)) r, snd (copy (get r) s))"
    and struct_val: "struct_val s r = (rest r, val s (get r))"
    and struct_reach: "struct_reach s r = reach s (get r)"

section \<open>Pointers\<close>

lemma new_copy_nil [simp]: "new_copy A f None s = (None, s)"
  by (simp add: new_copy_def)

context stored_type
begin

lemma new_copyE:
  assumes "new_copy A copy (Some x) s = (p, s')"
  obtains v s1 where "copy x (snd (alloc A 1 s)) = (v, s1)" "p = Some (length s, 0)"
    "s' = assign A (length s, 0) v s1" "load A s' (length s, 0) = v"
    "keeps (snd (alloc A 1 s)) s1" "keeps s s'" "length s' = length s1" "length s < length s1"
proof -
  obtain a s0 where a: "alloc A 1 s = (a, s0)" by fastforce
  obtain v s1 where v: "copy x s0 = (v, s1)" by fastforce
  from alloc_keeps [OF a] copy_keeps [OF v]
  have k: "keeps s s0" "keeps s0 s1" "a = length s" "length s < length s1" by (auto simp: keeps_def)
  have n: "arr_get A (s1 ! length s) = [arr_zero A]"
    using allocated [OF a] k alloc_keeps [OF a] by (simp add: keeps_nth [OF k(2)])
  from assms a v k(3) have r: "p = Some (length s, 0)" "s' = assign A (length s, 0) v s1"
    by (simp_all add: new_copy_def)
  show thesis
  proof (rule that [of v s1])
    show "load A s' (length s, 0) = v" using k(4) n by (simp add: r load_def assigned)
    show "keeps s s'" unfolding r by (rule assign_keeps) (use k in \<open>auto intro: keeps_trans\<close>)
  qed (use a v k r in auto)
qed

lemma new_copy_value:
  assumes "new_copy A copy (Some x) s = (p, s')" "reach s x \<subseteq> {..<length s}"
  shows "val s' (load A s' (length s, 0)) = val s x"
    and "reach s' (load A s' (length s, 0)) \<subseteq> {length s<..<length s'}"
  using assms(1)
proof (atomize (full), elim new_copyE)
  fix v s1
  let ?s0 = "snd (alloc A 1 s)"
  assume v: "copy x ?s0 = (v, s1)" and s': "s' = assign A (length s, 0) v s1" and l: "load A s' (length s, 0) = v"
    and n: "length s' = length s1"
  have k: "keeps s ?s0" "length ?s0 = Suc (length s)" using alloc_keeps [of A 1 s] by (auto simp: prod_eq_iff)
  have x: "reach ?s0 x = reach s x" "val ?s0 x = val s x" using k(1) assms(2) by (rule kept_reach, rule kept_val)
  have ok: "reach ?s0 x \<subseteq> {..<length ?s0}" unfolding x k using assms(2) by auto
  have f: "reach s1 v \<subseteq> {Suc (length s)..<length s1}" using copy_fresh [OF v ok] unfolding k .
  have same: "\<forall>b \<in> reach s1 v. s' ! b = s1 ! b" using f by (auto simp: s' assign_other)
  have "val s1 v = val s x" using copy_val [OF v ok] unfolding x .
  with same f show "val s' (load A s' (length s, 0)) = val s x \<and>
      reach s' (load A s' (length s, 0)) \<subseteq> {length s<..<length s'}"
    unfolding l n val_local [OF same] reach_local [OF same] by auto
qed

end

sublocale stored_type \<subseteq> pointer: deep_copier "copy_pointer A copy" "pointer_val A val" "pointer_reach A reach"
proof
  fix p s q s'
  assume c: "copy_pointer A copy p s = (q, s')"
  show "keeps s s'" using c by (cases p) (auto simp: copy_pointer_def elim: new_copyE)
  assume r: "pointer_reach A reach s p \<subseteq> {..<length s}"
  have "pointer_val A val s' q = pointer_val A val s p \<and> pointer_reach A reach s' q \<subseteq> {length s..<length s'}"
  proof (cases p)
    case None
    with c show ?thesis by (simp add: copy_pointer_def pointer_val_def pointer_reach_def)
  next
    case (Some x)
    with c have n: "new_copy A copy (Some (load A s x)) s = (q, s')" by (simp add: copy_pointer_def)
    have q: "q = Some (length s, 0)" "length s < length s'" using n by (auto elim: new_copyE)
    have ok: "reach s (load A s x) \<subseteq> {..<length s}" using r Some by (simp add: pointer_reach_def)
    show ?thesis using new_copy_value [OF n ok] q Some by (auto simp: pointer_val_def pointer_reach_def)
  qed
  then show "pointer_val A val s' q = pointer_val A val s p" "pointer_reach A reach s' q \<subseteq> {length s..<length s'}"
    by simp_all
next
  fix s p t
  assume l: "\<forall>b \<in> pointer_reach A reach s p. t ! b = s ! b"
  have "pointer_val A val t p = pointer_val A val s p \<and> pointer_reach A reach t p = pointer_reach A reach s p"
  proof (cases p)
    case (Some x)
    with l have x: "load A t x = load A s x" and e: "\<forall>b \<in> reach s (load A s x). t ! b = s ! b"
      by (simp_all add: pointer_reach_def load_def)
    show ?thesis using Some by (simp add: pointer_val_def pointer_reach_def x val_local [OF e] reach_local [OF e])
  qed (simp add: pointer_val_def pointer_reach_def)
  then show "pointer_val A val t p = pointer_val A val s p" "pointer_reach A reach t p = pointer_reach A reach s p"
    by simp_all
qed

section \<open>Slices\<close>

lemma elements_cong: "t ! sl_Array sl = s ! sl_Array sl \<Longrightarrow> elements A t sl = elements A s sl"
  by (simp add: elements_def load_def)

context stored_type
begin

lemma copy_elements_keeps:
  "keeps s0 s \<Longrightarrow> length s0 \<le> a \<Longrightarrow> copy_elements A copy sl a is s = s' \<Longrightarrow> keeps s0 s'"
proof (induction "is" arbitrary: s)
  case (Cons i "is")
  obtain v s1 where v: "copy (load A s (sl_Array sl, sl_Offset sl + i)) s = (v, s1)" by fastforce
  have "keeps s0 (assign A (a, i) v s1)"
    by (rule assign_keeps [OF keeps_trans [OF Cons.prems(1) copy_keeps [OF v]]]) (simp add: Cons.prems(2))
  then show ?case by (rule Cons.IH [OF _ Cons.prems(2)]) (use Cons.prems(3) v in simp)
qed simp

lemma copy_slice_keeps: "copy_slice A copy x s = (y, s') \<Longrightarrow> keeps s s'"
  by (auto simp: copy_slice_def split: option.splits prod.splits dest!: alloc_keeps intro: copy_elements_keeps)

text \<open>
  The loop. \<open>s0\<close> is the store before the new array \<open>a\<close> was made; every element of \<open>in\<close> is as it
  was there.
\<close>

lemma copy_elements_correct:
  assumes "keeps s0 s" "length s0 = a" "a < length s" "distinct is"
    and "\<forall>i \<in> set is. i < length (arr_get A (s ! a))" "sl_Array sl < a"
    and "\<forall>i \<in> set is. reach s0 (load A s0 (sl_Array sl, sl_Offset sl + i)) \<subseteq> {..<a}"
    and "copy_elements A copy sl a is s = s'"
  shows "length s \<le> length s' \<and> (\<forall>b < length s. b \<noteq> a \<longrightarrow> s' ! b = s ! b) \<and>
    length (arr_get A (s' ! a)) = length (arr_get A (s ! a)) \<and>
    (\<forall>i. i \<notin> set is \<longrightarrow> arr_get A (s' ! a) ! i = arr_get A (s ! a) ! i) \<and>
    (\<forall>i \<in> set is. val s' (arr_get A (s' ! a) ! i) = val s0 (load A s0 (sl_Array sl, sl_Offset sl + i)) \<and>
       reach s' (arr_get A (s' ! a) ! i) \<subseteq> {a<..<length s'})"
  using assms
proof (induction "is" arbitrary: s)
  case (Cons i "is" s)
  let ?x = "load A s0 (sl_Array sl, sl_Offset sl + i)"
  have x: "load A s (sl_Array sl, sl_Offset sl + i) = ?x"
    using Cons.prems(1,2,6) by (simp add: load_def keeps_nth)
  obtain v s1 where v: "copy ?x s = (v, s1)" by fastforce
  let ?s2 = "assign A (a, i) v s1"
  have rest: "copy_elements A copy sl a is ?s2 = s'" using Cons.prems(8) v by (simp add: x)
  have ok0: "reach s0 ?x \<subseteq> {..<length s0}" using Cons.prems(2,7) by simp
  have same: "val s ?x = val s0 ?x" "reach s ?x = reach s0 ?x"
    by (rule kept_val [OF Cons.prems(1) ok0], rule kept_reach [OF Cons.prems(1) ok0])
  have ok: "reach s ?x \<subseteq> {..<length s}" unfolding same using ok0 Cons.prems(2,3) by auto
  have k: "keeps s s1" by (rule copy_keeps [OF v])
  have l: "length s \<le> length s1" by (rule keeps_length [OF k])
  have arr: "arr_get A (?s2 ! a) = (arr_get A (s ! a))[i := v]"
    using Cons.prems(3) l by (simp add: assigned keeps_nth [OF k])
  have k2: "keeps s0 ?s2"
    by (rule assign_keeps [OF keeps_trans [OF Cons.prems(1) k]]) (simp add: Cons.prems(2))
  have IH: "length ?s2 \<le> length s' \<and> (\<forall>b < length ?s2. b \<noteq> a \<longrightarrow> s' ! b = ?s2 ! b) \<and>
    length (arr_get A (s' ! a)) = length (arr_get A (?s2 ! a)) \<and>
    (\<forall>i. i \<notin> set is \<longrightarrow> arr_get A (s' ! a) ! i = arr_get A (?s2 ! a) ! i) \<and>
    (\<forall>i \<in> set is. val s' (arr_get A (s' ! a) ! i) = val s0 (load A s0 (sl_Array sl, sl_Offset sl + i)) \<and>
       reach s' (arr_get A (s' ! a) ! i) \<subseteq> {a<..<length s'})"
    by (rule Cons.IH [OF k2 Cons.prems(2) _ _ _ Cons.prems(6) _ rest])
      (use Cons.prems(3-5,7) l in \<open>simp_all add: arr\<close>)
  have vi: "arr_get A (s' ! a) ! i = v" using IH Cons.prems(4,5) by (simp add: arr)
  have f: "reach s1 v \<subseteq> {length s..<length s1}" by (rule copy_fresh [OF v ok])
  have later: "\<forall>b \<in> reach s1 v. s' ! b = s1 ! b"
  proof
    fix b assume "b \<in> reach s1 v"
    with f Cons.prems(3) have "b < length s1" "b \<noteq> a" by auto
    with IH show "s' ! b = s1 ! b" by (simp add: assign_other)
  qed
  have "val s' v = val s0 ?x" "reach s' v \<subseteq> {a<..<length s'}"
    unfolding val_local [OF later] reach_local [OF later] copy_val [OF v ok] same
    using f IH Cons.prems(3) by auto
  moreover have "\<forall>b < length s. b \<noteq> a \<longrightarrow> s' ! b = s ! b"
    using IH l by (simp add: assign_other keeps_nth [OF k])
  ultimately show ?case using IH l vi by (auto simp: arr)
qed simp

lemma copy_sliceE:
  assumes "copy_slice A copy (Some sl) s = (y, s')" "slice_reach A reach s (Some sl) \<subseteq> {..<length s}"
  obtains ys where "y = Some \<lparr>sl_Array = length s, sl_Offset = 0, sl_Len = sl_Len sl\<rparr>" "keeps s s'" "length s < length s'"
    "elements A s' (the y) = ys" "map (val s') ys = map (val s) (elements A s sl)"
    "\<forall>v \<in> set ys. reach s' v \<subseteq> {length s<..<length s'}"
proof -
  obtain a s1 where a: "alloc A (sl_Len sl) s = (a, s1)" by fastforce
  from alloc_keeps [OF a] have k: "keeps s s1" "a = length s" "length s1 = Suc (length s)" by simp_all
  have y: "y = Some \<lparr>sl_Array = length s, sl_Offset = 0, sl_Len = sl_Len sl\<rparr>"
    and s': "copy_elements A copy sl (length s) [0..<sl_Len sl] s1 = s'"
    using assms(1) a k(2) by (simp_all add: copy_slice_def)
  have ok: "sl_Array sl < length s"
    "\<forall>i \<in> set [0..<sl_Len sl]. reach s (load A s (sl_Array sl, sl_Offset sl + i)) \<subseteq> {..<length s}"
    using assms(2) by (auto simp: slice_reach_def elements_def)
  have n: "arr_get A (s1 ! length s) = replicate (sl_Len sl) (arr_zero A)" using allocated [OF a] k(2) by simp
  have *: "length s1 \<le> length s' \<and> (\<forall>b < length s1. b \<noteq> length s \<longrightarrow> s' ! b = s1 ! b) \<and>
    length (arr_get A (s' ! length s)) = length (arr_get A (s1 ! length s)) \<and>
    (\<forall>i. i \<notin> set [0..<sl_Len sl] \<longrightarrow> arr_get A (s' ! length s) ! i = arr_get A (s1 ! length s) ! i) \<and>
    (\<forall>i \<in> set [0..<sl_Len sl]. val s' (arr_get A (s' ! length s) ! i) = val s (load A s (sl_Array sl, sl_Offset sl + i)) \<and>
       reach s' (arr_get A (s' ! length s) ! i) \<subseteq> {length s<..<length s'})"
    by (rule copy_elements_correct [OF k(1) refl _ _ _ ok s']) (simp_all add: k n)
  have el: "elements A s' (the y) = map (\<lambda>i. arr_get A (s' ! length s) ! i) [0..<sl_Len sl]"
    by (simp add: y elements_def load_def)
  have fresh: "\<forall>v \<in> set (elements A s' (the y)). reach s' v \<subseteq> {length s<..<length s'}"
    unfolding el set_map using * by blast
  have vals: "map (val s') (elements A s' (the y)) = map (val s) (elements A s sl)"
    unfolding el by (simp add: elements_def) (use * in simp)
  show thesis
    by (rule that [OF y copy_slice_keeps [OF assms(1)] _ refl vals fresh]) (use * k in simp)
qed

end

sublocale stored_type \<subseteq> slice: deep_copier "copy_slice A copy" "slice_val A val" "slice_reach A reach"
proof
  fix x s y s'
  assume c: "copy_slice A copy x s = (y, s')"
  show "keeps s s'" by (rule copy_slice_keeps [OF c])
  assume r: "slice_reach A reach s x \<subseteq> {..<length s}"
  have "slice_val A val s' y = slice_val A val s x \<and> slice_reach A reach s' y \<subseteq> {length s..<length s'}"
  proof (cases x)
    case (Some sl)
    from c r show ?thesis unfolding Some
      by (elim copy_sliceE) (auto simp: slice_val_def slice_reach_def dest!: bspec subsetD)
  qed (use c in \<open>simp add: copy_slice_def slice_val_def slice_reach_def\<close>)
  then show "slice_val A val s' y = slice_val A val s x" "slice_reach A reach s' y \<subseteq> {length s..<length s'}"
    by simp_all
next
  fix s x t
  assume l: "\<forall>b \<in> slice_reach A reach s x. t ! b = s ! b"
  have "slice_val A val t x = slice_val A val s x \<and> slice_reach A reach t x = slice_reach A reach s x"
  proof (cases x)
    case (Some sl)
    have e: "elements A t sl = elements A s sl"
      using l Some by (auto simp: slice_reach_def intro: elements_cong)
    have same: "\<forall>b \<in> reach s v. t ! b = s ! b" if "v \<in> set (elements A s sl)" for v
      using l Some that by (auto simp: slice_reach_def)
    have v: "val t v = val s v" "reach t v = reach s v" if "v \<in> set (elements A s sl)" for v
      using val_local [OF same] reach_local [OF same] that by simp_all
    show ?thesis using Some v by (simp add: slice_val_def slice_reach_def e)
  qed (simp add: slice_val_def slice_reach_def)
  then show "slice_val A val t x = slice_val A val s x" "slice_reach A reach t x = slice_reach A reach s x"
    by simp_all
qed

text \<open>
  A new copy has the value of the original; whatever is written to cells the copy reaches, the
  original keeps its value, and whatever is written to cells of the original, the copy does.
\<close>

context stored_type
begin

lemma new_copy_independent:
  assumes "reach s x \<subseteq> {..<length s}" "new_copy A copy (Some x) s = (p, s')"
  shows "\<exists>c. p = Some c \<and> val s' (load A s' c) = val s x \<and>
    (\<forall>t. (\<forall>b. b \<notin> insert (fst c) (reach s' (load A s' c)) \<longrightarrow> t ! b = s' ! b) \<longrightarrow> val t x = val s x) \<and>
    (\<forall>t. (\<forall>b. b \<notin> reach s x \<longrightarrow> t ! b = s' ! b) \<longrightarrow> val t (load A t c) = val s x)"
proof -
  have p: "p = Some (length s, 0)" and k: "keeps s s'" using assms(2) by (auto elim: new_copyE)
  let ?y = "load A s' (length s, 0)"
  note y = new_copy_value [OF assms(2,1)]
  have "val t x = val s x" if "\<forall>b. b \<notin> insert (length s) (reach s' ?y) \<longrightarrow> t ! b = s' ! b" for t
  proof (rule val_local, rule ballI)
    fix b assume "b \<in> reach s x"
    with assms(1) have "b < length s" by auto
    moreover from this have "b \<notin> insert (length s) (reach s' ?y)" using y(2) by auto
    ultimately show "t ! b = s ! b" using that k by (simp add: keeps_nth)
  qed
  moreover have "val t (load A t (length s, 0)) = val s x" if "\<forall>b. b \<notin> reach s x \<longrightarrow> t ! b = s' ! b" for t
  proof -
    have l: "load A t (length s, 0) = ?y" using that assms(1) by (auto simp: load_def)
    have "val t ?y = val s' ?y" by (rule val_local) (use that assms(1) y(2) in fastforce)
    with y(1) l show ?thesis by simp
  qed
  ultimately show ?thesis using p y(1) by simp
qed

end

section \<open>Structs\<close>

sublocale two_copiers \<subseteq> both: deep_copier "copy_both copy copy'" "both_val val val'" "both_reach reach reach'"
proof
  fix xy s zw s2
  assume c: "copy_both copy copy' xy s = (zw, s2)"
  obtain x y z w where d: "xy = (x, y)" "zw = (z, w)" by (cases xy, cases zw)
  obtain s1 where f: "copy x s = (z, s1)" and g: "copy' y s1 = (w, s2)"
    using c by (auto simp: copy_both_def d split: prod.splits)
  note k1 = fst.copy_keeps [OF f] and k2 = snd.copy_keeps [OF g]
  show "keeps s s2" by (rule keeps_trans [OF k1 k2])
  assume "both_reach reach reach' s xy \<subseteq> {..<length s}"
  then have x: "reach s x \<subseteq> {..<length s}" and y: "reach' s y \<subseteq> {..<length s}" by (simp_all add: both_reach_def d)
  note z = fst.copy_fresh [OF f x]
  have z1: "reach s1 z \<subseteq> {..<length s1}" using z by auto
  have y1: "reach' s1 y \<subseteq> {..<length s1}"
    unfolding snd.kept_reach [OF k1 y] using y keeps_length [OF k1] by auto
  show "both_val val val' s2 zw = both_val val val' s xy"
    by (simp add: both_val_def d fst.kept_val [OF k2 z1] fst.copy_val [OF f x] snd.copy_val [OF g y1] snd.kept_val [OF k1 y])
  show "both_reach reach reach' s2 zw \<subseteq> {length s..<length s2}"
    using z snd.copy_fresh [OF g y1] keeps_length [OF k1] keeps_length [OF k2]
    by (auto simp: both_reach_def d fst.kept_reach [OF k2 z1])
next
  fix s xy t
  assume "\<forall>b \<in> both_reach reach reach' s xy. t ! b = s ! b"
  then have l: "\<forall>b \<in> reach s (fst xy). t ! b = s ! b" "\<forall>b \<in> reach' s (snd xy). t ! b = s ! b"
    by (simp_all add: both_reach_def)
  show "both_val val val' t xy = both_val val val' s xy"
    by (simp add: both_val_def fst.val_local [OF l(1)] snd.val_local [OF l(2)])
  show "both_reach reach reach' t xy = both_reach reach reach' s xy"
    by (simp add: both_reach_def fst.reach_local [OF l(1)] snd.reach_local [OF l(2)])
qed

sublocale struct_copier \<subseteq> struct: deep_copier struct_copy struct_val struct_reach
proof
  fix r s r' s'
  assume "struct_copy r s = (r', s')"
  then have c: "copy (get r) s = (get r', s')" and rest: "rest r' = rest r"
    by (auto simp: struct_copy part_put rest_put prod_eq_iff)
  show "keeps s s'" by (rule part.copy_keeps [OF c])
  assume "struct_reach s r \<subseteq> {..<length s}"
  then have ok: "reach s (get r) \<subseteq> {..<length s}" by (simp add: struct_reach)
  show "struct_val s' r' = struct_val s r" by (simp add: struct_val rest part.copy_val [OF c ok])
  show "struct_reach s' r' \<subseteq> {length s..<length s'}" using part.copy_fresh [OF c ok] by (simp add: struct_reach)
next
  fix s r t
  assume "\<forall>b \<in> struct_reach s r. t ! b = s ! b"
  then have l: "\<forall>b \<in> reach s (get r). t ! b = s ! b" by (simp add: struct_reach)
  show "struct_val t r = struct_val s r" by (simp add: struct_val part.val_local [OF l])
  show "struct_reach t r = struct_reach s r" by (simp add: struct_reach part.reach_local [OF l])
qed

end
