(* ===== verification/Deep_Copy.thy ===== *)
theory Deep_Copy
  imports Stored_Values Api_Types
begin

text \<open>
  The structs of \<open>api/v1alpha1\<close> as Go lays them out, with their pointers and slices, and the
  generated functions that copy them (\<open>zz_generated.deepcopy.go\<close>). The other theories take
  these structs as values (\<open>Api_Types\<close>); that a copy has the value of the original and shares no
  cell with it is what allows them to.
\<close>

section \<open>The structs\<close>

text \<open>
  \<open>'x\<close> holds the structs of other packages: \<open>ObjectMeta\<close>, \<open>ListMeta\<close>, \<open>Condition\<close>, \<open>JSON\<close>,
  \<open>ConfigMapKeySelector\<close>, \<open>TypedObjectReference\<close> and the \<open>Status\<close> of the common API.
  \<open>InstancePhase\<close> is a string type, \<open>TypeMeta\<close> has two strings, \<open>Duration\<close> is in nanoseconds.
\<close>

type_synonym type_meta = "string \<times> string"

record 'x stored_resource =
  sr_TypedObjectReference :: 'x
  sr_Phase :: string
  sr_Message :: string
  sr_Location :: resource_location

record 'x stored_operator_status =
  sos_Status :: 'x
  sos_Resources :: "slice option"

record operator_spec =
  os_Version :: string

record 'x stored_operator =
  so_TypeMeta :: type_meta
  so_ObjectMeta :: 'x
  so_Spec :: operator_spec
  so_Status :: "'x stored_operator_status"

record 'x stored_operator_list =
  sol_TypeMeta :: type_meta
  sol_ListMeta :: 'x
  sol_Items :: "slice option"

record stored_version =
  sv_Version :: string
  sv_ChartVersion :: string
  sv_ChartURL :: "pointer option"
  sv_ChartPullSecret :: string
  sv_HelmValues :: "pointer option"

record stored_config_spec =
  scs_Versions :: "slice option"
  scs_PollInterval :: "pointer option"
  scs_CABundleRef :: "pointer option"

record stored_config_status =
  sct_Conditions :: "slice option"

record 'x stored_config =
  scf_TypeMeta :: type_meta
  scf_ObjectMeta :: 'x
  scf_Spec :: stored_config_spec
  scf_Status :: stored_config_status

record 'x stored_config_list =
  scl_TypeMeta :: type_meta
  scl_ListMeta :: 'x
  scl_Items :: "slice option"

section \<open>The store\<close>

datatype 'x cell =
    Strings "string list" | Durations "int list" | Externals "'x list"
  | Resources "'x stored_resource list" | Operator_Specs "operator_spec list"
  | Operator_Statuses "'x stored_operator_status list" | Operators "'x stored_operator list"
  | Operator_Lists "'x stored_operator_list list" | Versions "stored_version list"
  | Config_Specs "stored_config_spec list" | Config_Statuses "stored_config_status list"
  | Configs "'x stored_config list" | Config_Lists "'x stored_config_list list"

text \<open>A type of another package: its zero value and its \<open>DeepCopyInto\<close>.\<close>

record 'x external_type =
  xt_zero :: 'x
  xt_DeepCopyInto :: "('x, 'x cell) copy_into"

record 'x externals =
  x_TypedObjectReference :: "'x external_type"
  x_Status :: "'x external_type"
  x_ObjectMeta :: "'x external_type"
  x_ListMeta :: "'x external_type"
  x_Condition :: "'x external_type"
  x_JSON :: "'x external_type"
  x_ConfigMapKeySelector :: "'x external_type"

definition strings :: "(string, 'x cell) array_kind" where
  "strings = \<lparr>arr_put = Strings, arr_get = (\<lambda>c. case c of Strings xs \<Rightarrow> xs | _ \<Rightarrow> []), arr_zero = []\<rparr>"

definition durations :: "(int, 'x cell) array_kind" where
  "durations = \<lparr>arr_put = Durations, arr_get = (\<lambda>c. case c of Durations xs \<Rightarrow> xs | _ \<Rightarrow> []), arr_zero = 0\<rparr>"

definition externals_of :: "'x external_type \<Rightarrow> ('x, 'x cell) array_kind" where
  "externals_of T = \<lparr>arr_put = Externals, arr_get = (\<lambda>c. case c of Externals xs \<Rightarrow> xs | _ \<Rightarrow> []), arr_zero = xt_zero T\<rparr>"

definition resources :: "'x externals \<Rightarrow> ('x stored_resource, 'x cell) array_kind" where
  "resources E = \<lparr>arr_put = Resources, arr_get = (\<lambda>c. case c of Resources xs \<Rightarrow> xs | _ \<Rightarrow> []),
     arr_zero = \<lparr>sr_TypedObjectReference = xt_zero (x_TypedObjectReference E), sr_Phase = [], sr_Message = [], sr_Location = []\<rparr>\<rparr>"

definition operator_specs :: "(operator_spec, 'x cell) array_kind" where
  "operator_specs = \<lparr>arr_put = Operator_Specs, arr_get = (\<lambda>c. case c of Operator_Specs xs \<Rightarrow> xs | _ \<Rightarrow> []),
     arr_zero = \<lparr>os_Version = []\<rparr>\<rparr>"

definition operator_statuses :: "'x externals \<Rightarrow> ('x stored_operator_status, 'x cell) array_kind" where
  "operator_statuses E =
     \<lparr>arr_put = Operator_Statuses, arr_get = (\<lambda>c. case c of Operator_Statuses xs \<Rightarrow> xs | _ \<Rightarrow> []),
      arr_zero = \<lparr>sos_Status = xt_zero (x_Status E), sos_Resources = None\<rparr>\<rparr>"

definition operators :: "'x externals \<Rightarrow> ('x stored_operator, 'x cell) array_kind" where
  "operators E = \<lparr>arr_put = Operators, arr_get = (\<lambda>c. case c of Operators xs \<Rightarrow> xs | _ \<Rightarrow> []),
     arr_zero = \<lparr>so_TypeMeta = ([], []), so_ObjectMeta = xt_zero (x_ObjectMeta E), so_Spec = arr_zero (operator_specs :: (operator_spec, 'x cell) array_kind),
       so_Status = arr_zero (operator_statuses E)\<rparr>\<rparr>"

definition operator_lists :: "'x externals \<Rightarrow> ('x stored_operator_list, 'x cell) array_kind" where
  "operator_lists E = \<lparr>arr_put = Operator_Lists, arr_get = (\<lambda>c. case c of Operator_Lists xs \<Rightarrow> xs | _ \<Rightarrow> []),
     arr_zero = \<lparr>sol_TypeMeta = ([], []), sol_ListMeta = xt_zero (x_ListMeta E), sol_Items = None\<rparr>\<rparr>"

definition versions :: "(stored_version, 'x cell) array_kind" where
  "versions = \<lparr>arr_put = Versions, arr_get = (\<lambda>c. case c of Versions xs \<Rightarrow> xs | _ \<Rightarrow> []),
     arr_zero = \<lparr>sv_Version = [], sv_ChartVersion = [], sv_ChartURL = None, sv_ChartPullSecret = [], sv_HelmValues = None\<rparr>\<rparr>"

definition config_specs :: "(stored_config_spec, 'x cell) array_kind" where
  "config_specs = \<lparr>arr_put = Config_Specs, arr_get = (\<lambda>c. case c of Config_Specs xs \<Rightarrow> xs | _ \<Rightarrow> []),
     arr_zero = \<lparr>scs_Versions = None, scs_PollInterval = None, scs_CABundleRef = None\<rparr>\<rparr>"

definition config_statuses :: "(stored_config_status, 'x cell) array_kind" where
  "config_statuses = \<lparr>arr_put = Config_Statuses, arr_get = (\<lambda>c. case c of Config_Statuses xs \<Rightarrow> xs | _ \<Rightarrow> []),
     arr_zero = \<lparr>sct_Conditions = None\<rparr>\<rparr>"

definition configs :: "'x externals \<Rightarrow> ('x stored_config, 'x cell) array_kind" where
  "configs E = \<lparr>arr_put = Configs, arr_get = (\<lambda>c. case c of Configs xs \<Rightarrow> xs | _ \<Rightarrow> []),
     arr_zero = \<lparr>scf_TypeMeta = ([], []), scf_ObjectMeta = xt_zero (x_ObjectMeta E),
       scf_Spec = arr_zero (config_specs :: (stored_config_spec, 'x cell) array_kind),
       scf_Status = arr_zero (config_statuses :: (stored_config_status, 'x cell) array_kind)\<rparr>\<rparr>"

definition config_lists :: "'x externals \<Rightarrow> ('x stored_config_list, 'x cell) array_kind" where
  "config_lists E = \<lparr>arr_put = Config_Lists, arr_get = (\<lambda>c. case c of Config_Lists xs \<Rightarrow> xs | _ \<Rightarrow> []),
     arr_zero = \<lparr>scl_TypeMeta = ([], []), scl_ListMeta = xt_zero (x_ListMeta E), scl_Items = None\<rparr>\<rparr>"

section \<open>The generated functions\<close>

text \<open>
  \<open>*out = *in\<close> comes first, so \<open>out\<close> is \<open>in\<close> with the fields replaced that are copied after it.
  A receiver of \<open>DeepCopy\<close> is the struct it points to, or \<open>None\<close> for \<open>nil\<close>.
\<close>

type_synonym ('t, 'x) copy_new = "'t option \<Rightarrow> 'x cell list \<Rightarrow> pointer option \<times> 'x cell list"

definition ManagedResource_DeepCopyInto :: "'x externals \<Rightarrow> ('x stored_resource, 'x cell) copy_into" where
  "ManagedResource_DeepCopyInto E r s =
     (let (ref, s1) = xt_DeepCopyInto (x_TypedObjectReference E) (sr_TypedObjectReference r) s
      in (r\<lparr>sr_TypedObjectReference := ref\<rparr>, s1))"

definition ManagedResource_DeepCopy :: "'x externals \<Rightarrow> ('x stored_resource, 'x) copy_new" where
  "ManagedResource_DeepCopy E r s = new_copy (resources E) (ManagedResource_DeepCopyInto E) r s"

definition MetricsOperatorSpec_DeepCopyInto :: "(operator_spec, 'x cell) copy_into" where
  "MetricsOperatorSpec_DeepCopyInto sp s = (sp, s)"

definition MetricsOperatorSpec_DeepCopy :: "(operator_spec, 'x) copy_new" where
  "MetricsOperatorSpec_DeepCopy sp s = new_copy operator_specs MetricsOperatorSpec_DeepCopyInto sp s"

definition MetricsOperatorStatus_DeepCopyInto :: "'x externals \<Rightarrow> ('x stored_operator_status, 'x cell) copy_into" where
  "MetricsOperatorStatus_DeepCopyInto E st s =
     (let (common, s1) = xt_DeepCopyInto (x_Status E) (sos_Status st) s;
          (rs, s2) = copy_slice (resources E) (ManagedResource_DeepCopyInto E) (sos_Resources st) s1
      in (st\<lparr>sos_Status := common, sos_Resources := rs\<rparr>, s2))"

definition MetricsOperatorStatus_DeepCopy :: "'x externals \<Rightarrow> ('x stored_operator_status, 'x) copy_new" where
  "MetricsOperatorStatus_DeepCopy E st s = new_copy (operator_statuses E) (MetricsOperatorStatus_DeepCopyInto E) st s"

definition MetricsOperator_DeepCopyInto :: "'x externals \<Rightarrow> ('x stored_operator, 'x cell) copy_into" where
  "MetricsOperator_DeepCopyInto E mo s =
     (let (meta, s1) = xt_DeepCopyInto (x_ObjectMeta E) (so_ObjectMeta mo) s;
          (st, s2) = MetricsOperatorStatus_DeepCopyInto E (so_Status mo) s1
      in (mo\<lparr>so_TypeMeta := so_TypeMeta mo, so_ObjectMeta := meta, so_Spec := so_Spec mo, so_Status := st\<rparr>, s2))"

definition MetricsOperator_DeepCopy :: "'x externals \<Rightarrow> ('x stored_operator, 'x) copy_new" where
  "MetricsOperator_DeepCopy E mo s = new_copy (operators E) (MetricsOperator_DeepCopyInto E) mo s"

definition MetricsOperatorList_DeepCopyInto :: "'x externals \<Rightarrow> ('x stored_operator_list, 'x cell) copy_into" where
  "MetricsOperatorList_DeepCopyInto E l s =
     (let (meta, s1) = xt_DeepCopyInto (x_ListMeta E) (sol_ListMeta l) s;
          (xs, s2) = copy_slice (operators E) (MetricsOperator_DeepCopyInto E) (sol_Items l) s1
      in (l\<lparr>sol_TypeMeta := sol_TypeMeta l, sol_ListMeta := meta, sol_Items := xs\<rparr>, s2))"

definition MetricsOperatorList_DeepCopy :: "'x externals \<Rightarrow> ('x stored_operator_list, 'x) copy_new" where
  "MetricsOperatorList_DeepCopy E l s = new_copy (operator_lists E) (MetricsOperatorList_DeepCopyInto E) l s"

definition MetricsOperatorVersion_DeepCopyInto :: "'x externals \<Rightarrow> (stored_version, 'x cell) copy_into" where
  "MetricsOperatorVersion_DeepCopyInto E v s =
     (let (url, s1) = copy_pointer strings plain_copy (sv_ChartURL v) s;
          (vals, s2) = copy_pointer (externals_of (x_JSON E)) (xt_DeepCopyInto (x_JSON E)) (sv_HelmValues v) s1
      in (v\<lparr>sv_ChartURL := url, sv_HelmValues := vals\<rparr>, s2))"

definition MetricsOperatorVersion_DeepCopy :: "'x externals \<Rightarrow> (stored_version, 'x) copy_new" where
  "MetricsOperatorVersion_DeepCopy E v s = new_copy versions (MetricsOperatorVersion_DeepCopyInto E) v s"

definition ProviderConfigSpec_DeepCopyInto :: "'x externals \<Rightarrow> (stored_config_spec, 'x cell) copy_into" where
  "ProviderConfigSpec_DeepCopyInto E sp s =
     (let (vs, s1) = copy_slice versions (MetricsOperatorVersion_DeepCopyInto E) (scs_Versions sp) s;
          (poll, s2) = copy_pointer durations plain_copy (scs_PollInterval sp) s1;
          (ca, s3) = copy_pointer (externals_of (x_ConfigMapKeySelector E)) (xt_DeepCopyInto (x_ConfigMapKeySelector E))
                       (scs_CABundleRef sp) s2
      in (sp\<lparr>scs_Versions := vs, scs_PollInterval := poll, scs_CABundleRef := ca\<rparr>, s3))"

definition ProviderConfigSpec_DeepCopy :: "'x externals \<Rightarrow> (stored_config_spec, 'x) copy_new" where
  "ProviderConfigSpec_DeepCopy E sp s = new_copy config_specs (ProviderConfigSpec_DeepCopyInto E) sp s"

definition ProviderConfigStatus_DeepCopyInto :: "'x externals \<Rightarrow> (stored_config_status, 'x cell) copy_into" where
  "ProviderConfigStatus_DeepCopyInto E st s =
     (let (cs, s1) = copy_slice (externals_of (x_Condition E)) (xt_DeepCopyInto (x_Condition E)) (sct_Conditions st) s
      in (st\<lparr>sct_Conditions := cs\<rparr>, s1))"

definition ProviderConfigStatus_DeepCopy :: "'x externals \<Rightarrow> (stored_config_status, 'x) copy_new" where
  "ProviderConfigStatus_DeepCopy E st s = new_copy config_statuses (ProviderConfigStatus_DeepCopyInto E) st s"

definition ProviderConfig_DeepCopyInto :: "'x externals \<Rightarrow> ('x stored_config, 'x cell) copy_into" where
  "ProviderConfig_DeepCopyInto E pc s =
     (let (meta, s1) = xt_DeepCopyInto (x_ObjectMeta E) (scf_ObjectMeta pc) s;
          (sp, s2) = ProviderConfigSpec_DeepCopyInto E (scf_Spec pc) s1;
          (st, s3) = ProviderConfigStatus_DeepCopyInto E (scf_Status pc) s2
      in (pc\<lparr>scf_TypeMeta := scf_TypeMeta pc, scf_ObjectMeta := meta, scf_Spec := sp, scf_Status := st\<rparr>, s3))"

definition ProviderConfig_DeepCopy :: "'x externals \<Rightarrow> ('x stored_config, 'x) copy_new" where
  "ProviderConfig_DeepCopy E pc s = new_copy (configs E) (ProviderConfig_DeepCopyInto E) pc s"

definition ProviderConfigList_DeepCopyInto :: "'x externals \<Rightarrow> ('x stored_config_list, 'x cell) copy_into" where
  "ProviderConfigList_DeepCopyInto E l s =
     (let (meta, s1) = xt_DeepCopyInto (x_ListMeta E) (scl_ListMeta l) s;
          (xs, s2) = copy_slice (configs E) (ProviderConfig_DeepCopyInto E) (scl_Items l) s1
      in (l\<lparr>scl_TypeMeta := scl_TypeMeta l, scl_ListMeta := meta, scl_Items := xs\<rparr>, s2))"

definition ProviderConfigList_DeepCopy :: "'x externals \<Rightarrow> ('x stored_config_list, 'x) copy_new" where
  "ProviderConfigList_DeepCopy E l s = new_copy (config_lists E) (ProviderConfigList_DeepCopyInto E) l s"

text \<open>
  A \<open>runtime.Object\<close>: the nil interface, or a pointer under its type. An interface that holds a nil
  pointer is not the nil interface; the check in \<open>DeepCopyObject\<close> is about this difference.
\<close>

datatype runtime_object =
    Nil_Object
  | Operator_Object "pointer option" | Operator_List_Object "pointer option"
  | Config_Object "pointer option" | Config_List_Object "pointer option"

type_synonym ('t, 'x) copy_object = "'t option \<Rightarrow> 'x cell list \<Rightarrow> runtime_object \<times> 'x cell list"

definition MetricsOperator_DeepCopyObject :: "'x externals \<Rightarrow> ('x stored_operator, 'x) copy_object" where
  "MetricsOperator_DeepCopyObject E mo s =
     (let (c, s') = MetricsOperator_DeepCopy E mo s
      in (if c \<noteq> None then Operator_Object c else Nil_Object, s'))"

definition MetricsOperatorList_DeepCopyObject :: "'x externals \<Rightarrow> ('x stored_operator_list, 'x) copy_object" where
  "MetricsOperatorList_DeepCopyObject E l s =
     (let (c, s') = MetricsOperatorList_DeepCopy E l s
      in (if c \<noteq> None then Operator_List_Object c else Nil_Object, s'))"

definition ProviderConfig_DeepCopyObject :: "'x externals \<Rightarrow> ('x stored_config, 'x) copy_object" where
  "ProviderConfig_DeepCopyObject E pc s =
     (let (c, s') = ProviderConfig_DeepCopy E pc s
      in (if c \<noteq> None then Config_Object c else Nil_Object, s'))"

definition ProviderConfigList_DeepCopyObject :: "'x externals \<Rightarrow> ('x stored_config_list, 'x) copy_object" where
  "ProviderConfigList_DeepCopyObject E l s =
     (let (c, s') = ProviderConfigList_DeepCopy E l s
      in (if c \<noteq> None then Config_List_Object c else Nil_Object, s'))"

section \<open>The values of the structs\<close>

text \<open>
  The value of a struct is that of its plain fields and that of what its pointers and slices
  lead to; \<open>nil\<close> and an empty slice differ. \<open>val\<close> and \<open>reach\<close> are the value and the cells of a
  struct of another package.
\<close>

definition resource_val where
  "resource_val val s r = ((sr_Phase r, sr_Message r, sr_Location r), val s (sr_TypedObjectReference r))"

definition resource_reach :: "('x cell list \<Rightarrow> 'x \<Rightarrow> nat set) \<Rightarrow> 'x cell list \<Rightarrow> 'x stored_resource \<Rightarrow> nat set" where
  "resource_reach reach s r = reach s (sr_TypedObjectReference r)"

definition operator_status_val where
  "operator_status_val E val s st =
     ((), both_val val (slice_val (resources E) (resource_val val)) s (sos_Status st, sos_Resources st))"

definition operator_status_reach where
  "operator_status_reach E reach s st =
     both_reach reach (slice_reach (resources E) (resource_reach reach)) s (sos_Status st, sos_Resources st)"

definition operator_val where
  "operator_val E val s mo =
     ((so_TypeMeta mo, so_Spec mo), both_val val (operator_status_val E val) s (so_ObjectMeta mo, so_Status mo))"

definition operator_reach where
  "operator_reach E reach s mo = both_reach reach (operator_status_reach E reach) s (so_ObjectMeta mo, so_Status mo)"

definition operator_list_val where
  "operator_list_val E val s l =
     (sol_TypeMeta l, both_val val (slice_val (operators E) (operator_val E val)) s (sol_ListMeta l, sol_Items l))"

definition operator_list_reach where
  "operator_list_reach E reach s l =
     both_reach reach (slice_reach (operators E) (operator_reach E reach)) s (sol_ListMeta l, sol_Items l)"

definition version_val where
  "version_val E val s v =
     ((sv_Version v, sv_ChartVersion v, sv_ChartPullSecret v),
      both_val (pointer_val strings plain_val) (pointer_val (externals_of (x_JSON E)) val) s (sv_ChartURL v, sv_HelmValues v))"

definition version_reach where
  "version_reach E reach s v =
     both_reach (pointer_reach strings plain_reach) (pointer_reach (externals_of (x_JSON E)) reach) s
       (sv_ChartURL v, sv_HelmValues v)"

definition config_spec_val where
  "config_spec_val E val s sp =
     ((), both_val (slice_val versions (version_val E val))
            (both_val (pointer_val durations plain_val) (pointer_val (externals_of (x_ConfigMapKeySelector E)) val)) s
            (scs_Versions sp, scs_PollInterval sp, scs_CABundleRef sp))"

definition config_spec_reach where
  "config_spec_reach E reach s sp =
     both_reach (slice_reach versions (version_reach E reach))
       (both_reach (pointer_reach durations plain_reach) (pointer_reach (externals_of (x_ConfigMapKeySelector E)) reach)) s
       (scs_Versions sp, scs_PollInterval sp, scs_CABundleRef sp)"

definition config_status_val where
  "config_status_val E val s st = ((), slice_val (externals_of (x_Condition E)) val s (sct_Conditions st))"

definition config_status_reach where
  "config_status_reach E reach s st = slice_reach (externals_of (x_Condition E)) reach s (sct_Conditions st)"

definition config_val where
  "config_val E val s pc =
     (scf_TypeMeta pc, both_val val (both_val (config_spec_val E val) (config_status_val E val)) s
        (scf_ObjectMeta pc, scf_Spec pc, scf_Status pc))"

definition config_reach where
  "config_reach E reach s pc =
     both_reach reach (both_reach (config_spec_reach E reach) (config_status_reach E reach)) s
       (scf_ObjectMeta pc, scf_Spec pc, scf_Status pc)"

definition config_list_val where
  "config_list_val E val s l =
     (scl_TypeMeta l, both_val val (slice_val (configs E) (config_val E val)) s (scl_ListMeta l, scl_Items l))"

definition config_list_reach where
  "config_list_reach E reach s l =
     both_reach reach (slice_reach (configs E) (config_reach E reach)) s (scl_ListMeta l, scl_Items l)"

section \<open>The copies are deep\<close>

text \<open>What is relied on of the other packages: their \<open>DeepCopyInto\<close> is a deep copy.\<close>

locale external_types =
  reference: deep_copier "xt_DeepCopyInto (x_TypedObjectReference E)" val reach +
  common: deep_copier "xt_DeepCopyInto (x_Status E)" val reach +
  object_meta: deep_copier "xt_DeepCopyInto (x_ObjectMeta E)" val reach +
  list_meta: deep_copier "xt_DeepCopyInto (x_ListMeta E)" val reach +
  condition: deep_copier "xt_DeepCopyInto (x_Condition E)" val reach +
  json: deep_copier "xt_DeepCopyInto (x_JSON E)" val reach +
  selector: deep_copier "xt_DeepCopyInto (x_ConfigMapKeySelector E)" val reach
  for E :: "'x externals" and val :: "'x cell list \<Rightarrow> 'x \<Rightarrow> 'v" and reach :: "'x cell list \<Rightarrow> 'x \<Rightarrow> nat set"

lemmas array_kind_defs =
  strings_def durations_def externals_of_def resources_def operator_specs_def operator_statuses_def operators_def
  operator_lists_def versions_def config_specs_def config_statuses_def configs_def config_lists_def

interpretation plain: deep_copier plain_copy plain_val plain_reach
  by unfold_locales (auto simp: plain_copy_def plain_val_def plain_reach_def)

interpretation string: stored_type plain_copy plain_val plain_reach strings
  by unfold_locales (simp add: strings_def)

interpretation duration: stored_type plain_copy plain_val plain_reach durations
  by unfold_locales (simp add: durations_def)

interpretation operator_spec: stored_type MetricsOperatorSpec_DeepCopyInto plain_val plain_reach operator_specs
  by unfold_locales (auto simp: MetricsOperatorSpec_DeepCopyInto_def plain_val_def plain_reach_def operator_specs_def)

sublocale external_types \<subseteq> json: stored_type
    "xt_DeepCopyInto (x_JSON E)" val reach "externals_of (x_JSON E)"
  by unfold_locales (simp add: array_kind_defs)

sublocale external_types \<subseteq> selector: stored_type
    "xt_DeepCopyInto (x_ConfigMapKeySelector E)" val reach "externals_of (x_ConfigMapKeySelector E)"
  by unfold_locales (simp add: array_kind_defs)

sublocale external_types \<subseteq> condition: stored_type
    "xt_DeepCopyInto (x_Condition E)" val reach "externals_of (x_Condition E)"
  by unfold_locales (simp add: array_kind_defs)

text \<open>The structs from the inside out: what needs a copy, how it is put back, and the plain fields.\<close>

sublocale external_types \<subseteq> resource: struct_copier
    "xt_DeepCopyInto (x_TypedObjectReference E)"
    val
    reach
    "\<lambda>r. sr_TypedObjectReference r"
    "\<lambda>x r. r\<lparr>sr_TypedObjectReference := x\<rparr>"
    "\<lambda>r. (sr_Phase r, sr_Message r, sr_Location r)"
    "ManagedResource_DeepCopyInto E" "resource_val val" "resource_reach reach"
  by unfold_locales
    (simp_all add: ManagedResource_DeepCopyInto_def resource_val_def resource_reach_def
      copy_both_def split: prod.splits)

sublocale external_types \<subseteq> resource: stored_type
    "ManagedResource_DeepCopyInto E" "resource_val val" "resource_reach reach" "resources E"
  by unfold_locales (simp add: array_kind_defs)

sublocale external_types \<subseteq> operator_status_parts: two_copiers
    "xt_DeepCopyInto (x_Status E)"
    val
    reach
    "copy_slice (resources E) (ManagedResource_DeepCopyInto E)"
    "slice_val (resources E) (resource_val val)"
    "slice_reach (resources E) (resource_reach reach)"
  by unfold_locales

sublocale external_types \<subseteq> operator_status: struct_copier
    "copy_both (xt_DeepCopyInto (x_Status E)) (copy_slice (resources E) (ManagedResource_DeepCopyInto E))"
    "both_val val (slice_val (resources E) (resource_val val))"
    "both_reach reach (slice_reach (resources E) (resource_reach reach))"
    "\<lambda>r. (sos_Status r, sos_Resources r)"
    "\<lambda>(x, y) r. r\<lparr>sos_Status := x, sos_Resources := y\<rparr>"
    "\<lambda>r. ()"
    "MetricsOperatorStatus_DeepCopyInto E" "operator_status_val E val" "operator_status_reach E reach"
  by unfold_locales
    (simp_all add: MetricsOperatorStatus_DeepCopyInto_def operator_status_val_def operator_status_reach_def
      copy_both_def split: prod.splits)

sublocale external_types \<subseteq> operator_status: stored_type
    "MetricsOperatorStatus_DeepCopyInto E" "operator_status_val E val" "operator_status_reach E reach" "operator_statuses E"
  by unfold_locales (simp add: array_kind_defs)

sublocale external_types \<subseteq> operator_parts: two_copiers
    "xt_DeepCopyInto (x_ObjectMeta E)"
    val
    reach
    "MetricsOperatorStatus_DeepCopyInto E"
    "operator_status_val E val"
    "operator_status_reach E reach"
  by unfold_locales

sublocale external_types \<subseteq> operator: struct_copier
    "copy_both (xt_DeepCopyInto (x_ObjectMeta E)) (MetricsOperatorStatus_DeepCopyInto E)"
    "both_val val (operator_status_val E val)"
    "both_reach reach (operator_status_reach E reach)"
    "\<lambda>r. (so_ObjectMeta r, so_Status r)"
    "\<lambda>(x, y) r. r\<lparr>so_ObjectMeta := x, so_Status := y\<rparr>"
    "\<lambda>r. (so_TypeMeta r, so_Spec r)"
    "MetricsOperator_DeepCopyInto E" "operator_val E val" "operator_reach E reach"
  by unfold_locales
    (simp_all add: MetricsOperator_DeepCopyInto_def operator_val_def operator_reach_def
      copy_both_def split: prod.splits)

sublocale external_types \<subseteq> operator: stored_type
    "MetricsOperator_DeepCopyInto E" "operator_val E val" "operator_reach E reach" "operators E"
  by unfold_locales (simp add: array_kind_defs)

sublocale external_types \<subseteq> operator_list_parts: two_copiers
    "xt_DeepCopyInto (x_ListMeta E)"
    val
    reach
    "copy_slice (operators E) (MetricsOperator_DeepCopyInto E)"
    "slice_val (operators E) (operator_val E val)"
    "slice_reach (operators E) (operator_reach E reach)"
  by unfold_locales

sublocale external_types \<subseteq> operator_list: struct_copier
    "copy_both (xt_DeepCopyInto (x_ListMeta E)) (copy_slice (operators E) (MetricsOperator_DeepCopyInto E))"
    "both_val val (slice_val (operators E) (operator_val E val))"
    "both_reach reach (slice_reach (operators E) (operator_reach E reach))"
    "\<lambda>r. (sol_ListMeta r, sol_Items r)"
    "\<lambda>(x, y) r. r\<lparr>sol_ListMeta := x, sol_Items := y\<rparr>"
    "\<lambda>r. sol_TypeMeta r"
    "MetricsOperatorList_DeepCopyInto E" "operator_list_val E val" "operator_list_reach E reach"
  by unfold_locales
    (simp_all add: MetricsOperatorList_DeepCopyInto_def operator_list_val_def operator_list_reach_def
      copy_both_def split: prod.splits)

sublocale external_types \<subseteq> operator_list: stored_type
    "MetricsOperatorList_DeepCopyInto E" "operator_list_val E val" "operator_list_reach E reach" "operator_lists E"
  by unfold_locales (simp add: array_kind_defs)

sublocale external_types \<subseteq> version_parts: two_copiers
    "copy_pointer strings plain_copy"
    "pointer_val strings plain_val"
    "pointer_reach strings plain_reach"
    "copy_pointer (externals_of (x_JSON E)) (xt_DeepCopyInto (x_JSON E))"
    "pointer_val (externals_of (x_JSON E)) val"
    "pointer_reach (externals_of (x_JSON E)) reach"
  by unfold_locales

sublocale external_types \<subseteq> version: struct_copier
    "copy_both (copy_pointer strings plain_copy)
       (copy_pointer (externals_of (x_JSON E)) (xt_DeepCopyInto (x_JSON E)))"
    "both_val (pointer_val strings plain_val) (pointer_val (externals_of (x_JSON E)) val)"
    "both_reach (pointer_reach strings plain_reach) (pointer_reach (externals_of (x_JSON E)) reach)"
    "\<lambda>r. (sv_ChartURL r, sv_HelmValues r)"
    "\<lambda>(x, y) r. r\<lparr>sv_ChartURL := x, sv_HelmValues := y\<rparr>"
    "\<lambda>r. (sv_Version r, sv_ChartVersion r, sv_ChartPullSecret r)"
    "MetricsOperatorVersion_DeepCopyInto E" "version_val E val" "version_reach E reach"
  by unfold_locales
    (simp_all add: MetricsOperatorVersion_DeepCopyInto_def version_val_def version_reach_def
      copy_both_def split: prod.splits)

sublocale external_types \<subseteq> version: stored_type
    "MetricsOperatorVersion_DeepCopyInto E" "version_val E val" "version_reach E reach" versions
  by unfold_locales (simp add: array_kind_defs)

sublocale external_types \<subseteq> config_pointers: two_copiers
    "copy_pointer durations plain_copy"
    "pointer_val durations plain_val"
    "pointer_reach durations plain_reach"
    "copy_pointer (externals_of (x_ConfigMapKeySelector E)) (xt_DeepCopyInto (x_ConfigMapKeySelector E))"
    "pointer_val (externals_of (x_ConfigMapKeySelector E)) val"
    "pointer_reach (externals_of (x_ConfigMapKeySelector E)) reach"
  by unfold_locales

sublocale external_types \<subseteq> config_spec_parts: two_copiers
    "copy_slice versions (MetricsOperatorVersion_DeepCopyInto E)"
    "slice_val versions (version_val E val)"
    "slice_reach versions (version_reach E reach)"
    "copy_both (copy_pointer durations plain_copy)
       (copy_pointer (externals_of (x_ConfigMapKeySelector E)) (xt_DeepCopyInto (x_ConfigMapKeySelector E)))"
    "both_val (pointer_val durations plain_val) (pointer_val (externals_of (x_ConfigMapKeySelector E)) val)"
    "both_reach (pointer_reach durations plain_reach)
       (pointer_reach (externals_of (x_ConfigMapKeySelector E)) reach)"
  by unfold_locales

sublocale external_types \<subseteq> config_spec: struct_copier
    "copy_both (copy_slice versions (MetricsOperatorVersion_DeepCopyInto E))
       (copy_both (copy_pointer durations plain_copy)
         (copy_pointer (externals_of (x_ConfigMapKeySelector E)) (xt_DeepCopyInto (x_ConfigMapKeySelector E))))"
    "both_val (slice_val versions (version_val E val))
       (both_val (pointer_val durations plain_val)
         (pointer_val (externals_of (x_ConfigMapKeySelector E)) val))"
    "both_reach (slice_reach versions (version_reach E reach))
       (both_reach (pointer_reach durations plain_reach)
         (pointer_reach (externals_of (x_ConfigMapKeySelector E)) reach))"
    "\<lambda>r. (scs_Versions r, scs_PollInterval r, scs_CABundleRef r)"
    "\<lambda>(x, y, z) r. r\<lparr>scs_Versions := x, scs_PollInterval := y, scs_CABundleRef := z\<rparr>"
    "\<lambda>r. ()"
    "ProviderConfigSpec_DeepCopyInto E" "config_spec_val E val" "config_spec_reach E reach"
  by unfold_locales
    (simp_all add: ProviderConfigSpec_DeepCopyInto_def config_spec_val_def config_spec_reach_def
      copy_both_def split: prod.splits)

sublocale external_types \<subseteq> config_spec: stored_type
    "ProviderConfigSpec_DeepCopyInto E" "config_spec_val E val" "config_spec_reach E reach" config_specs
  by unfold_locales (simp add: array_kind_defs)

sublocale external_types \<subseteq> config_status: struct_copier
    "copy_slice (externals_of (x_Condition E)) (xt_DeepCopyInto (x_Condition E))"
    "slice_val (externals_of (x_Condition E)) val"
    "slice_reach (externals_of (x_Condition E)) reach"
    "\<lambda>r. sct_Conditions r"
    "\<lambda>x r. r\<lparr>sct_Conditions := x\<rparr>"
    "\<lambda>r. ()"
    "ProviderConfigStatus_DeepCopyInto E" "config_status_val E val" "config_status_reach E reach"
  by unfold_locales
    (simp_all add: ProviderConfigStatus_DeepCopyInto_def config_status_val_def config_status_reach_def
      copy_both_def split: prod.splits)

sublocale external_types \<subseteq> config_status: stored_type
    "ProviderConfigStatus_DeepCopyInto E" "config_status_val E val" "config_status_reach E reach" config_statuses
  by unfold_locales (simp add: array_kind_defs)

sublocale external_types \<subseteq> config_inner: two_copiers
    "ProviderConfigSpec_DeepCopyInto E"
    "config_spec_val E val"
    "config_spec_reach E reach"
    "ProviderConfigStatus_DeepCopyInto E"
    "config_status_val E val"
    "config_status_reach E reach"
  by unfold_locales

sublocale external_types \<subseteq> config_parts: two_copiers
    "xt_DeepCopyInto (x_ObjectMeta E)"
    val
    reach
    "copy_both (ProviderConfigSpec_DeepCopyInto E) (ProviderConfigStatus_DeepCopyInto E)"
    "both_val (config_spec_val E val) (config_status_val E val)"
    "both_reach (config_spec_reach E reach) (config_status_reach E reach)"
  by unfold_locales

sublocale external_types \<subseteq> config: struct_copier
    "copy_both (xt_DeepCopyInto (x_ObjectMeta E))
       (copy_both (ProviderConfigSpec_DeepCopyInto E) (ProviderConfigStatus_DeepCopyInto E))"
    "both_val val (both_val (config_spec_val E val) (config_status_val E val))"
    "both_reach reach (both_reach (config_spec_reach E reach) (config_status_reach E reach))"
    "\<lambda>r. (scf_ObjectMeta r, scf_Spec r, scf_Status r)"
    "\<lambda>(x, y, z) r. r\<lparr>scf_ObjectMeta := x, scf_Spec := y, scf_Status := z\<rparr>"
    "\<lambda>r. scf_TypeMeta r"
    "ProviderConfig_DeepCopyInto E" "config_val E val" "config_reach E reach"
  by unfold_locales
    (simp_all add: ProviderConfig_DeepCopyInto_def config_val_def config_reach_def
      copy_both_def split: prod.splits)

sublocale external_types \<subseteq> config: stored_type
    "ProviderConfig_DeepCopyInto E" "config_val E val" "config_reach E reach" "configs E"
  by unfold_locales (simp add: array_kind_defs)

sublocale external_types \<subseteq> config_list_parts: two_copiers
    "xt_DeepCopyInto (x_ListMeta E)"
    val
    reach
    "copy_slice (configs E) (ProviderConfig_DeepCopyInto E)"
    "slice_val (configs E) (config_val E val)"
    "slice_reach (configs E) (config_reach E reach)"
  by unfold_locales

sublocale external_types \<subseteq> config_list: struct_copier
    "copy_both (xt_DeepCopyInto (x_ListMeta E)) (copy_slice (configs E) (ProviderConfig_DeepCopyInto E))"
    "both_val val (slice_val (configs E) (config_val E val))"
    "both_reach reach (slice_reach (configs E) (config_reach E reach))"
    "\<lambda>r. (scl_ListMeta r, scl_Items r)"
    "\<lambda>(x, y) r. r\<lparr>scl_ListMeta := x, scl_Items := y\<rparr>"
    "\<lambda>r. scl_TypeMeta r"
    "ProviderConfigList_DeepCopyInto E" "config_list_val E val" "config_list_reach E reach"
  by unfold_locales
    (simp_all add: ProviderConfigList_DeepCopyInto_def config_list_val_def config_list_reach_def
      copy_both_def split: prod.splits)

sublocale external_types \<subseteq> config_list: stored_type
    "ProviderConfigList_DeepCopyInto E" "config_list_val E val" "config_list_reach E reach" "config_lists E"
  by unfold_locales (simp add: array_kind_defs)

end
