(* ===== verification/Deep_Copy_Properties.thy ===== *)
theory Deep_Copy_Properties
  imports Deep_Copy
begin

text \<open>
  What the generated copies promise, on the structs the runtime copies: the requests, the
  settings and the lists of both. The structs of other packages are those of a small reference
  instance in the witnesses.
\<close>

section \<open>The values the other theories use\<close>

text \<open>
  The record of \<open>Api_Types\<close> that the value of a \<open>ProviderConfig\<close> stands for. \<open>json\<close> and \<open>selector\<close> read
  the values of the two types of other packages in it.
\<close>

definition settings_of where
  "settings_of json selector v =
     (let (vs, poll, ca) = snd (fst (snd (snd v)))
      in \<lparr>pc_Versions = map (\<lambda>((v, chart, pull), url, vals).
              \<lparr>mov_Version = v, mov_ChartVersion = chart, mov_ChartURL = url, mov_ChartPullSecret = pull,
               mov_HelmValues = map_option json vals\<rparr>) (case vs of None \<Rightarrow> [] | Some vs \<Rightarrow> vs),
          pc_PollInterval = poll, pc_CABundleRef = map_option selector ca\<rparr>)"

definition provider_config_of where
  "provider_config_of E val json selector s pc = settings_of json selector (config_val E val s pc)"

lemma PollInterval_of_stored:
  "PollInterval (provider_config_of E val json selector s pc) =
     (case scs_PollInterval (scf_Spec pc) of None \<Rightarrow> Minute | Some p \<Rightarrow> load durations s p)"
  by (cases "scs_PollInterval (scf_Spec pc)")
    (simp_all add: provider_config_of_def settings_of_def PollInterval_def config_val_def config_spec_val_def both_val_def
      pointer_val_def plain_val_def)

lemma slice_val_of: "slice_val A (\<lambda>s x. g (val s x)) s x = map_option (map g) (slice_val A val s x)"
  by (cases x) (simp_all add: slice_val_def)

lemma items_of_stored:
  "slice_val (configs E) (provider_config_of E val json selector) s (scl_Items l) =
     map_option (map (settings_of json selector)) (snd (snd (config_list_val E val s l)))"
  unfolding provider_config_of_def by (simp add: slice_val_of config_list_val_def both_val_def)

section \<open>A copy of \<open>nil\<close>\<close>

lemmas DeepCopy_defs =
  ManagedResource_DeepCopy_def MetricsOperatorSpec_DeepCopy_def MetricsOperatorStatus_DeepCopy_def
  MetricsOperator_DeepCopy_def MetricsOperatorList_DeepCopy_def MetricsOperatorVersion_DeepCopy_def
  ProviderConfigSpec_DeepCopy_def ProviderConfigStatus_DeepCopy_def ProviderConfig_DeepCopy_def ProviderConfigList_DeepCopy_def

lemmas DeepCopyObject_defs =
  MetricsOperator_DeepCopyObject_def MetricsOperatorList_DeepCopyObject_def
  ProviderConfig_DeepCopyObject_def ProviderConfigList_DeepCopyObject_def

lemma DeepCopyObject_nil:
  "MetricsOperator_DeepCopyObject E None s = (Nil_Object, s)"
  "MetricsOperatorList_DeepCopyObject E None s = (Nil_Object, s)"
  "ProviderConfig_DeepCopyObject E None s = (Nil_Object, s)"
  "ProviderConfigList_DeepCopyObject E None s = (Nil_Object, s)"
  by (simp_all add: DeepCopyObject_defs DeepCopy_defs)

text \<open>No copy is an interface that holds a nil pointer.\<close>

lemma DeepCopyObject_not_typed_nil:
  "fst (MetricsOperator_DeepCopyObject E mo s) \<noteq> Operator_Object None"
  "fst (MetricsOperatorList_DeepCopyObject E ml s) \<noteq> Operator_List_Object None"
  "fst (ProviderConfig_DeepCopyObject E pc s) \<noteq> Config_Object None"
  "fst (ProviderConfigList_DeepCopyObject E pl s) \<noteq> Config_List_Object None"
  by (simp_all add: DeepCopyObject_defs split: prod.splits)

section \<open>Copies are independent\<close>

context external_types
begin

lemmas independent =
  resource.new_copy_independent [folded ManagedResource_DeepCopy_def]
  operator_status.new_copy_independent [folded MetricsOperatorStatus_DeepCopy_def]
  operator.new_copy_independent [folded MetricsOperator_DeepCopy_def]
  operator_list.new_copy_independent [folded MetricsOperatorList_DeepCopy_def]
  version.new_copy_independent [folded MetricsOperatorVersion_DeepCopy_def]
  config_spec.new_copy_independent [folded ProviderConfigSpec_DeepCopy_def]
  config_status.new_copy_independent [folded ProviderConfigStatus_DeepCopy_def]
  config.new_copy_independent [folded ProviderConfig_DeepCopy_def]
  config_list.new_copy_independent [folded ProviderConfigList_DeepCopy_def]

end

section \<open>A reference instance of the other packages\<close>

text \<open>A struct with a plain text and a pointer to one, for all seven types.\<close>

definition ref_external :: "(string \<times> pointer option) external_type" where
  "ref_external = \<lparr>xt_zero = ([], None), xt_DeepCopyInto = copy_both plain_copy (copy_pointer strings plain_copy)\<rparr>"

definition ref_externals :: "(string \<times> pointer option) externals" where
  "ref_externals =
     \<lparr>x_TypedObjectReference = ref_external, x_Status = ref_external, x_ObjectMeta = ref_external, x_ListMeta = ref_external,
      x_Condition = ref_external, x_JSON = ref_external, x_ConfigMapKeySelector = ref_external\<rparr>"

abbreviation ref_val where "ref_val \<equiv> both_val plain_val (pointer_val strings plain_val)"
abbreviation ref_reach where "ref_reach \<equiv> both_reach plain_reach (pointer_reach strings plain_reach)"

interpretation ref_parts: two_copiers plain_copy plain_val plain_reach
    "copy_pointer strings plain_copy" "pointer_val strings plain_val" "pointer_reach strings plain_reach"
  by unfold_locales

interpretation ref_ext: external_types ref_externals ref_val ref_reach
  by (simp add: external_types_def ref_externals_def ref_external_def ref_parts.both.deep_copier_axioms)

section \<open>The properties\<close>

text \<open>
  C14: the copy of a request that the runtime makes is a pointer to a new struct with the value
  of the original, with all that is behind its pointers and slices. Whatever is written to
  anything the copy can reach, the original keeps its value; and whatever is written to
  anything the original can reach, the copy keeps it.
\<close>

theorem copied_requests_are_independent:
  assumes "external_types E val reach" "operator_reach E reach s mo \<subseteq> {..<length s}"
    "MetricsOperator_DeepCopyObject E (Some mo) s = (obj, s')"
  shows "\<exists>c. obj = Operator_Object (Some c) \<and>
    operator_val E val s' (load (operators E) s' c) = operator_val E val s mo \<and>
    (\<forall>t. (\<forall>b. b \<notin> insert (fst c) (operator_reach E reach s' (load (operators E) s' c)) \<longrightarrow> t ! b = s' ! b) \<longrightarrow>
      operator_val E val t mo = operator_val E val s mo) \<and>
    (\<forall>t. (\<forall>b. b \<notin> operator_reach E reach s mo \<longrightarrow> t ! b = s' ! b) \<longrightarrow>
      operator_val E val t (load (operators E) t c) = operator_val E val s mo)"
  using external_types.independent(3) [OF assms(1,2)] assms(3)
  by (fastforce simp: MetricsOperator_DeepCopyObject_def split: prod.splits if_splits)

definition ex_request_store :: "(string \<times> pointer option) cell list" where
  "ex_request_store =
     [Strings [''tenant''],
      Resources [\<lparr>sr_TypedObjectReference = (''release'', Some (0, 0)), sr_Phase = ''Ready'', sr_Message = [], sr_Location = []\<rparr>]]"

definition ex_request :: "(string \<times> pointer option) stored_operator" where
  "ex_request =
     \<lparr>so_TypeMeta = (''MetricsOperator'', ''v1alpha1''), so_ObjectMeta = (''mo'', Some (0, 0)),
      so_Spec = \<lparr>os_Version = ''v1''\<rparr>,
      so_Status = \<lparr>sos_Status = (''Ready'', None), sos_Resources = Some \<lparr>sl_Array = 1, sl_Offset = 0, sl_Len = 1\<rparr>\<rparr>\<rparr>"

lemma ex_request_reach: "operator_reach ref_externals ref_reach ex_request_store ex_request = {0, 1}"
  by code_simp

lemma ex_request_copy:
  "fst (MetricsOperator_DeepCopyObject ref_externals (Some ex_request) ex_request_store) = Operator_Object (Some (2, 0))"
  by code_simp

lemma copied_requests_are_independent_witness:
  "\<exists>c s'. MetricsOperator_DeepCopyObject ref_externals (Some ex_request) ex_request_store = (Operator_Object (Some c), s') \<and>
    operator_val ref_externals ref_val s' (load (operators ref_externals) s' c) =
      operator_val ref_externals ref_val ex_request_store ex_request \<and>
    operator_val ref_externals ref_val (s'[0 := Strings [''changed'']]) (load (operators ref_externals) s' c) =
      operator_val ref_externals ref_val ex_request_store ex_request"
proof -
  obtain obj s' where e: "MetricsOperator_DeepCopyObject ref_externals (Some ex_request) ex_request_store = (obj, s')"
    by fastforce
  have r: "operator_reach ref_externals ref_reach ex_request_store ex_request \<subseteq> {..<length ex_request_store}"
    unfolding ex_request_reach by (simp add: ex_request_store_def)
  obtain c where c: "obj = Operator_Object (Some c)"
      "operator_val ref_externals ref_val s' (load (operators ref_externals) s' c) =
        operator_val ref_externals ref_val ex_request_store ex_request"
    and t: "\<And>t. \<forall>b. b \<notin> {0, 1} \<longrightarrow> t ! b = s' ! b \<Longrightarrow>
      operator_val ref_externals ref_val t (load (operators ref_externals) t c) =
        operator_val ref_externals ref_val ex_request_store ex_request"
    using copied_requests_are_independent [OF ref_ext.external_types_axioms r e] unfolding ex_request_reach by blast
  have "fst c = 2" using c(1) e ex_request_copy by simp
  then have "load (operators ref_externals) (s'[0 := Strings [''changed'']]) c = load (operators ref_externals) s' c"
    by (simp add: load_def)
  with t [of "s'[0 := Strings [''changed'']]"] c e show ?thesis by (auto simp: nth_list_update)
qed

text \<open>
  C15: the same for a list of settings; its elements then also stand for the same records of
  settings, which is what the controller reads.
\<close>

theorem copied_settings_are_independent:
  assumes "external_types E val reach" "config_list_reach E reach s l \<subseteq> {..<length s}"
    "ProviderConfigList_DeepCopyObject E (Some l) s = (obj, s')"
  shows "\<exists>c. obj = Config_List_Object (Some c) \<and>
    config_list_val E val s' (load (config_lists E) s' c) = config_list_val E val s l \<and>
    slice_val (configs E) (provider_config_of E val json selector) s' (scl_Items (load (config_lists E) s' c)) =
      slice_val (configs E) (provider_config_of E val json selector) s (scl_Items l) \<and>
    (\<forall>t. (\<forall>b. b \<notin> insert (fst c) (config_list_reach E reach s' (load (config_lists E) s' c)) \<longrightarrow> t ! b = s' ! b) \<longrightarrow>
      config_list_val E val t l = config_list_val E val s l) \<and>
    (\<forall>t. (\<forall>b. b \<notin> config_list_reach E reach s l \<longrightarrow> t ! b = s' ! b) \<longrightarrow>
      config_list_val E val t (load (config_lists E) t c) = config_list_val E val s l)"
  using external_types.independent(9) [OF assms(1,2)] assms(3) unfolding items_of_stored
  by (fastforce simp: ProviderConfigList_DeepCopyObject_def split: prod.splits if_splits)

definition ex_settings_store :: "(string \<times> pointer option) cell list" where
  "ex_settings_store =
     [Strings [''oci://charts'', ''{}''], Externals [(''values'', Some (0, 1))], Durations [30 * Second],
      Versions [\<lparr>sv_Version = ''v1'', sv_ChartVersion = ''1.0.0'', sv_ChartURL = Some (0, 0), sv_ChartPullSecret = [],
                 sv_HelmValues = Some (1, 0)\<rparr>],
      Configs [\<lparr>scf_TypeMeta = (''ProviderConfig'', ''v1alpha1''), scf_ObjectMeta = (''default'', None),
        scf_Spec = \<lparr>scs_Versions = Some \<lparr>sl_Array = 3, sl_Offset = 0, sl_Len = 1\<rparr>, scs_PollInterval = Some (2, 0),
                    scs_CABundleRef = None\<rparr>,
        scf_Status = \<lparr>sct_Conditions = None\<rparr>\<rparr>]]"

definition ex_settings_list :: "(string \<times> pointer option) stored_config_list" where
  "ex_settings_list =
     \<lparr>scl_TypeMeta = (''ProviderConfigList'', ''v1alpha1''), scl_ListMeta = ([], None),
      scl_Items = Some \<lparr>sl_Array = 4, sl_Offset = 0, sl_Len = 1\<rparr>\<rparr>"

lemma ex_settings_reach: "config_list_reach ref_externals ref_reach ex_settings_store ex_settings_list \<subseteq> {..<length ex_settings_store}"
  by code_simp

definition ex_json :: "string \<times> string option \<Rightarrow> raw" where
  "ex_json v = RawJson (JStr (fst v))"

definition ex_selector :: "string \<times> string option \<Rightarrow> config_map_key_selector" where
  "ex_selector v = \<lparr>cms_Name = fst v, cms_Key = ''ca.crt''\<rparr>"

definition ex_settings :: provider_config where
  "ex_settings =
     \<lparr>pc_Versions = [\<lparr>mov_Version = ''v1'', mov_ChartVersion = ''1.0.0'', mov_ChartURL = Some ''oci://charts'',
        mov_ChartPullSecret = [], mov_HelmValues = Some (RawJson (JStr ''values''))\<rparr>],
      pc_PollInterval = Some (30 * Second), pc_CABundleRef = None\<rparr>"

lemma ex_settings_stored:
  "slice_val (configs ref_externals) (provider_config_of ref_externals ref_val ex_json ex_selector) ex_settings_store
     (scl_Items ex_settings_list) = Some [ex_settings]"
  by code_simp

lemma copied_settings_are_independent_witness:
  "\<exists>c s'. ProviderConfigList_DeepCopyObject ref_externals (Some ex_settings_list) ex_settings_store = (Config_List_Object (Some c), s') \<and>
    slice_val (configs ref_externals) (provider_config_of ref_externals ref_val ex_json ex_selector) s'
      (scl_Items (load (config_lists ref_externals) s' c)) = Some [ex_settings]"
proof -
  obtain obj s' where e: "ProviderConfigList_DeepCopyObject ref_externals (Some ex_settings_list) ex_settings_store = (obj, s')"
    by fastforce
  from copied_settings_are_independent [OF ref_ext.external_types_axioms ex_settings_reach e, of ex_json ex_selector] e
  show ?thesis unfolding ex_settings_stored by blast
qed

end
