(* ===== verification/Spec2Isabelle.thy ===== *)
theory Spec2Isabelle
  imports Isolation Findings Cleaner_Properties Cp_Resources Unused_Flux Registration Deep_Copy_Properties
begin

text \<open>
  A verification library for service-provider-metrics-operator, the service provider that
  installs the Metrics Operator for the tenants of a control plane. File names are relative
  to \<open>src/\<close>, theory names are those of this directory.

  \<^bold>\<open>The program.\<close> The controller (\<open>internal/controller/metricsoperator_controller.go\<close>) has two
  handlers which the runtime of service providers calls for a \<open>MetricsOperator\<close>:
  \<open>CreateOrUpdate\<close> and \<open>Delete\<close>. Both read the offered versions and the settings from the
  \<open>ProviderConfig\<close>, rewrite the Helm values of the requested version (\<open>pkg/metricsoperator/helm\<close>)
  and build a manager (\<open>pkg/metricsoperator/resources\<close>): the objects wanted on three clusters, each
  with a reconcile function, a status function, a deletion policy and the objects it depends
  on. The packages \<open>flux\<close>, \<open>authn\<close>, \<open>authz\<close>, \<open>secret\<close> and \<open>configmap\<close> contribute these objects; the
  last two also contribute cleaners, which remove labelled secrets and config maps that are
  wanted no more. The handler then has the manager apply or delete everything and puts the
  results into the status. \<open>Delete\<close> first asks \<open>cpresources\<close> whether the tenant still has metrics
  of its own. \<open>main\<close> (\<open>cmd/service-provider-metrics-operator\<close>) connects the clusters and hands
  the controller to the runtime, or, as \<open>init\<close>, installs the CRDs.

  \<^bold>\<open>How it is modelled.\<close> A Go function becomes a HOL function with the name it has in the code.
  A call that may panic returns \<open>'a go\<close> (\<open>Ret\<close> or \<open>Panic\<close>), an error is a value of \<open>gerr\<close>, of which
  the model keeps which variable it wraps and what its text is, and \<open>(T, error)\<close> is \<open>gerr + 'a\<close>.
  Code that acts on clusters passes a world of any type \<open>'w\<close>; the clients that act on it, and all
  other code outside the repository (the helpers of controller-utils and of the runtime, the
  codecs of the Kubernetes API types, the clock), are arguments, gathered in the records
  \<open>client\<close>, \<open>kube_api\<close>, \<open>os_env\<close>, \<open>runtime_lib\<close>, \<open>codecs\<close>, \<open>outside\<close>, \<open>main_lib\<close>, \<open>externals\<close> and
  \<open>scheme_lib\<close>. Objects under management
  are shared by pointer between the manager, the dependencies and the results; so the model
  keeps them on a heap in the record \<open>run\<close> and the managed objects hold references. Durations
  and times are integers in nanoseconds. The standard library is modelled: \<open>errors\<close>, \<open>strings\<close>,
  \<open>encoding/json\<close> on trees, SHA-1 and Base32, and RFC 3339 times.

  \<^bold>\<open>The theories.\<close>
  \<^item> \<open>Go_Base\<close> (outcomes, errors, loops with a state, strings), \<open>Json\<close>, \<open>Rfc3339\<close>: the language.
  \<^item> \<open>Kube_Client\<close> (objects, clients; packages \<open>meta\<close> and \<open>objectutils\<close>), \<open>Api_Types\<close>
    (\<open>api/v1alpha1\<close>, the structs as values and their methods), \<open>Registration\<close> (how its types get into a
    scheme).
  \<^item> \<open>Stored_Values\<close>: a store for what Go shares by pointer, and what a deep copy is. \<open>Deep_Copy\<close>: the
    structs of \<open>api/v1alpha1\<close> as Go lays them out and the functions of \<open>zz_generated.deepcopy.go\<close>.
    \<open>Deep_Copy_Properties\<close>: copies are independent of their originals.
  \<^item> \<open>Managed_Objects\<close>, \<open>Manager\<close>: package \<open>resources\<close>. \<open>Api_Server\<close> states what is relied on of API
    servers. \<open>Manager_Correct\<close>, \<open>Manager_Liveness\<close>, \<open>Manager_Properties\<close>: the manager's promises.
  \<^item> \<open>Orphan_Cleaner\<close> (\<open>pkg/metricsoperator/orphancleaner.go\<close>), \<open>Secrets\<close>, \<open>Config_Maps\<close>,
    \<open>Cleaner_Properties\<close>: the cleaners and the copies of secrets and config maps.
  \<^item> \<open>Helm_Values\<close>, \<open>Helm_Correct\<close>, \<open>Helm_Extract\<close> (what the controller reads off the values),
    \<open>Helm_Properties\<close>: package \<open>helm\<close>.
  \<^item> \<open>Authn_Values\<close>, \<open>Authn\<close>, \<open>Authn_Properties\<close>: packages \<open>authn\<close> and \<open>authz\<close>.
  \<^item> \<open>Instance_Id\<close> (package \<open>instance\<close>), \<open>Cp_Resources\<close> (package \<open>cpresources\<close>), \<open>Flux\<close> (package \<open>flux\<close>),
    \<open>Unused_Flux\<close> (its older version \<open>pkg/metricsoperator/flux.go\<close>).
  \<^item> \<open>Controller\<close>: the handlers. \<open>Controller_Correct\<close> shows what the built manager looks like,
    \<open>Controller_Handlers\<close> that both handlers return and what they report, \<open>Deletion_Rounds\<close> what
    repeated calls of \<open>Delete\<close> do, \<open>Delete_Loop\<close> that the loop around it ends,
    \<open>Controller_Properties\<close> states the properties of this part.
  \<^item> \<open>Inventory\<close> computes the objects of a request as a table, the specification the manager is
    proved equal to; \<open>Keeping_Server\<close> and \<open>Installed\<close> show that a successful pass leaves the table
    on the clusters; \<open>Serving\<close> and \<open>Serving_Pass\<close> that passes come to succeed;
    \<open>Installed_Properties\<close> states the properties of creation, \<open>First_Call\<close> why the first call of it
    fails. \<open>Isolation\<close> puts the calls for many requests and the steps of others together.
  \<^item> \<open>Process\<close>, \<open>Process_Properties\<close>: \<open>main.go\<close>. \<open>Findings\<close>: small lemmas on behaviour the authors may
    not want.

  \<^bold>\<open>Interfaces.\<close> What the code relies on of others is a locale, with an interpretation on the
  definitions that provide it. \<open>api_server\<close>: calls may fail at any time, but answers are true;
  \<open>listing_server\<close> adds exact lists, \<open>prompt_server\<close> and \<open>prompt_listing_server\<close> servers that answer
  and delete at once, \<open>keeping_server\<close> servers on which a call touches only its object, with
  \<open>counting_server\<close> and \<open>mutating_server\<close> for one more law each, and \<open>serving_server\<close> servers that do
  what they are asked. All are interpreted on the reference
  server of \<open>Api_Server\<close>, on which the witnesses run. \<open>mutators\<close>, \<open>user_input_errors\<close> and
  \<open>loud_libraries\<close> are the laws of the helper libraries, \<open>scheme_builder\<close> those of the builder of
  schemes and \<open>external_types\<close> of the copies of structs of other packages. \<open>orphan_cleaner\<close>,
  \<open>status_function\<close>, \<open>upsert\<close> and \<open>time_text\<close> are contracts inside the program: the three cleaners, the status functions, the
  functions that replace list entries of the same name, and the annotation of the token are
  their interpretations. \<open>deep_copier\<close> is the contract of a deep copy; \<open>stored_type\<close>, \<open>two_copiers\<close> and
  \<open>struct_copier\<close> lift it to pointers, slices and structs, and every generated function is an
  instance of it.

  \<^bold>\<open>What is shown.\<close>
  \<^item> Deletion: a pass waits for dependents, its report is true, and it comes to an end. The
    dependencies have three levels, so three passes remove everything and the fourth call of
    the handler reports that it is done, on servers that delete at once: the loop around the
    handler terminates. On any servers, an answer that says done means that every object is gone.
  \<^item> Creation: the manager holds exactly the inventory. When the handler reports success, every
    object of the inventory is stored with the content wanted, also after the cleaners ran; on
    servers that serve, the second call reports success, and so does every later one. (The
    first does not, since the token is asked for before its account exists.) The operator then
    has its account and its role, and the call has made no other cluster role binding.
  \<^item> Isolation: in any sequence of calls for any requests, with changes by others in between, an
    object outside the inventories that does not carry the managed-by label stays as it is.
  \<^item> Errors: handlers never panic beyond one documented case (values, or a section of them,
    that are \<open>null\<close>), status messages are fixed texts, and which values are accepted is characterised.
  \<^item> Values: the rewrites change what they should and nothing else, they add up, and the two
    versions in packages \<open>helm\<close> and \<open>authn\<close> agree.
  \<^item> Tokens: a token that does not last until a minute after the next reconciliation is replaced
    by one of the server, and the annotation, which can be read back, is the end of that one. A
    token is asked for an hour; how long it is granted is the choice of the server.
  \<^item> Deep copies: a copy has the value of the original with all that is behind its pointers and
    slices, and no write to what the one reaches changes the value of the other. So the objects of
    the other theories may be values, although the runtime hands out copies of a cache.
  \<^item> Cleaners: they delete exactly the orphans, and the two in use refine the generic one.
  \<^item> The process: what exit code 0 means, outside \<open>init\<close> and in it, and that the schemes know every
    type in use.

  \<^bold>\<open>Hypotheses.\<close> Properties of creation take three different clusters and names that do not
  clash (\<open>separate_clusters\<close>, \<open>names_apart\<close>); without them two objects of a request could be one.
  Times are positive years of four digits and zone offsets whole minutes (\<open>readable_time\<close>).

  \<^bold>\<open>Not modelled.\<close> \<open>pkg/metricsoperator/testutils\<close> holds the fake clients and clusters of the unit
  tests and is no part of the program. Logging is left out, and so are contexts: no code of the
  repository cancels or reads one. Concurrency stays outside, as the runtime never runs two
  handlers for one request at the same time. In \<open>Deep_Copy\<close> the receiver of a copy is the struct it
  points to, so that \<open>out\<close> is never a part of \<open>in\<close>; the generated code is only called that way.
\<close>

end
